(* ===== verification/Kyuubi_Prelude.thy ===== *)
theory Kyuubi_Prelude
  imports Main "HOL-Library.Word" "HOL-Library.Finite_Map" "HOL-Library.Monad_Syntax"
begin

text \<open>
  Shared vocabulary of the development: the parts of Go and of its standard library that the
  operator uses (errors as values, \<open>map[string]string\<close> with its nil value and its
  unspecified iteration order, \<open>strings.Join\<close>, \<open>strings.Split\<close>, \<open>strconv.Itoa\<close>), the
  collections of proof rules, and the generic lemmas on strings, finite maps and partial maps that
  the component theories share.
\<close>

section \<open>Rule collections\<close>

named_theorems go_defs \<open>definitions of small Go helpers, unfolded by the component proofs\<close>
named_theorems const_defs \<open>string constants of the operator\<close>
named_theorems construct_defs \<open>definitions of the functions that build desired objects\<close>
named_theorems stage_defs \<open>definitions of the reconciliation stages\<close>

section \<open>Go values\<close>

type_synonym int32 = "32 word"

text \<open>
  A \<open>map[string]string\<close> is either nil (\<open>None\<close>) or a finite map. Reading a missing key, or any key
  of a nil map, yields the zero value, the empty string; \<open>len\<close> of a nil map is 0.
\<close>

type_synonym smap = "(string, string) fmap"
type_synonym gomap = "smap option"

definition gm_map :: "gomap \<Rightarrow> smap" where
  [go_defs]: "gm_map m = (case m of None \<Rightarrow> fmempty | Some f \<Rightarrow> f)"

definition gm_lookup :: "gomap \<Rightarrow> string \<Rightarrow> string option" where
  [go_defs]: "gm_lookup m k = fmlookup (gm_map m) k"

definition fm_get :: "smap \<Rightarrow> string \<Rightarrow> string" where
  [go_defs]: "fm_get f k = (case fmlookup f k of None \<Rightarrow> [] | Some v \<Rightarrow> v)"

definition gm_get :: "gomap \<Rightarrow> string \<Rightarrow> string" where
  [go_defs]: "gm_get m k = fm_get (gm_map m) k"

definition gm_len :: "gomap \<Rightarrow> nat" where
  "gm_len m = fcard (fmdom (gm_map m))"

text \<open>
  A \<open>for k, v := range m\<close> visits every entry once in an order the runtime picks anew each time.
  \<open>enumerates es m\<close> says that the list \<open>es\<close> is such an order.
\<close>

definition enumerates :: "(string \<times> string) list \<Rightarrow> gomap \<Rightarrow> bool" where
  "enumerates es m \<longleftrightarrow> distinct (map fst es) \<and> fmap_of_list es = gm_map m"

text \<open>\<open>for k, v := range src { dst[k] = v }\<close>, over the entries in the order visited.\<close>

fun copy_entries :: "(string \<times> string) list \<Rightarrow> smap \<Rightarrow> smap" where
  "copy_entries [] m = m"
| "copy_entries ((k, v) # es) m = copy_entries es (fmupd k v m)"

section \<open>Errors\<close>

text \<open>
  A Go \<open>error\<close> is \<open>None\<close> for nil. \<open>NotFound\<close> is an API status error with reason NotFound,
  which is what \<open>k8serrors.IsNotFound\<close> recognises; \<open>ApiError\<close> is every other error of the API
  machinery (its reason and message); \<open>ErrorString\<close> is the result of \<open>errors.New\<close>.
\<close>

datatype GoError = NotFound string | ApiError string string | ErrorString string

fun IsNotFound :: "GoError option \<Rightarrow> bool" where
  "IsNotFound (Some (NotFound _)) = True"
| "IsNotFound (Some (ApiError _ _)) = False"
| "IsNotFound (Some (ErrorString _)) = False"
| "IsNotFound None = False"

lemma IsNotFound_iff: "IsNotFound e \<longleftrightarrow> (\<exists>m. e = Some (NotFound m))"
  by (cases e rule: IsNotFound.cases) auto

section \<open>strings and strconv\<close>

text \<open>\<open>strings.Join(parts, sep)\<close>.\<close>

fun strings_Join :: "string list \<Rightarrow> string \<Rightarrow> string" where
  "strings_Join [] sep = []"
| "strings_Join [x] sep = x"
| "strings_Join (x # y # ys) sep = x @ sep @ strings_Join (y # ys) sep"

text \<open>\<open>strings.Split(s, sep)\<close> for a separator of one character: never the empty list.\<close>

fun strings_Split :: "string \<Rightarrow> char \<Rightarrow> string list" where
  "strings_Split [] c = [[]]"
| "strings_Split (x # xs) c =
     (if x = c then [] # strings_Split xs c
      else (case strings_Split xs c of [] \<Rightarrow> [[x]] | y # ys \<Rightarrow> (x # y) # ys))"

text \<open>\<open>strconv.Itoa\<close> on a slice index, which is never negative.\<close>

definition digit :: "nat \<Rightarrow> char" where
  "digit d = char_of (48 + d)"

fun strconv_Itoa :: "nat \<Rightarrow> string" where
  "strconv_Itoa n = (if n < 10 then [digit n] else strconv_Itoa (n div 10) @ [digit (n mod 10)])"

declare strconv_Itoa.simps [simp del]

text \<open>The number a decimal string denotes, to state that \<open>strconv_Itoa\<close> is invertible.\<close>

definition atoi :: "string \<Rightarrow> nat" where
  "atoi s = foldl (\<lambda>n c. 10 * n + (of_char c - 48)) 0 s"

section \<open>Lemmas\<close>

subsection \<open>strings.Split and strings.Join\<close>

lemma Split_not_Nil [simp]: "strings_Split s c \<noteq> []"
  by (induction s) (auto split: list.splits)

lemma Split_no_sep: "c \<notin> set s \<Longrightarrow> strings_Split s c = [s]"
  by (induction s) auto

lemma Split_append_sep: "c \<notin> set a \<Longrightarrow> strings_Split (a @ c # b) c = a # strings_Split b c"
  by (induction a) auto

lemma Split_parts: "p \<in> set (strings_Split s c) \<Longrightarrow> c \<notin> set p"
  by (induction s arbitrary: p) (auto split: if_splits list.splits)

lemma Join_Cons: "xs \<noteq> [] \<Longrightarrow> strings_Join (x # xs) sep = x @ sep @ strings_Join xs sep"
  by (cases xs) auto

lemma Join_split: "strings_Join (strings_Split s c) [c] = s"
proof (induction s)
  case Nil
  then show ?case by simp
next
  case (Cons x s)
  show ?case
  proof (cases "x = c")
    case True
    with Cons show ?thesis by (simp add: Join_Cons)
  next
    case False
    obtain y ys where s: "strings_Split s c = y # ys"
      by (cases "strings_Split s c") auto
    with Cons False show ?thesis by (cases ys) auto
  qed
qed

lemma Split_join:
  assumes "xs \<noteq> []" and "\<And>x. x \<in> set xs \<Longrightarrow> c \<notin> set x"
  shows "strings_Split (strings_Join xs [c]) c = xs"
  using assms
proof (induction xs)
  case Nil
  then show ?case by simp
next
  case (Cons x xs)
  then show ?case
    by (cases xs) (simp_all add: Split_no_sep Split_append_sep)
qed

subsection \<open>strconv.Itoa\<close>

lemma of_char_digit: "d < 10 \<Longrightarrow> of_char (digit d) = 48 + d"
  by (simp add: digit_def)

lemma atoi_append: "atoi (s @ [c]) = 10 * atoi s + (of_char c - 48)"
  by (simp add: atoi_def)

lemma atoi_Itoa: "atoi (strconv_Itoa n) = n"
proof (induction n rule: strconv_Itoa.induct)
  case (1 n)
  show ?case
  proof (cases "n < 10")
    case True
    then show ?thesis
      by (simp add: strconv_Itoa.simps [of n] of_char_digit) (simp add: atoi_def of_char_digit)
  next
    case False
    with "1.IH" show ?thesis
      by (simp add: strconv_Itoa.simps [of n] atoi_append of_char_digit)
  qed
qed

lemma Itoa_inject [simp]: "strconv_Itoa m = strconv_Itoa n \<longleftrightarrow> m = n"
  by (metis atoi_Itoa)

subsection \<open>Finite maps and their enumerations\<close>

lemma fmlookup_fmap_of_list [simp]: "fmlookup (fmap_of_list es) = map_of es"
  by (simp add: fmap_of_list.rep_eq)

lemma gm_lookup_SomeD: "gm_lookup m k = Some v \<Longrightarrow> m \<noteq> None \<and> gm_get m k = v"
  by (cases m) (simp_all add: go_defs)

lemma fmap_neqI: "fmlookup f k \<noteq> fmlookup g k \<Longrightarrow> f \<noteq> g"
  by auto

lemma enumerates_lookup: "enumerates es m \<Longrightarrow> map_of es k = gm_lookup m k"
  unfolding enumerates_def gm_lookup_def by (metis fmlookup_fmap_of_list)

lemma enumerates_mem:
  "enumerates es m \<Longrightarrow> (k, v) \<in> set es \<longleftrightarrow> gm_lookup m k = Some v"
  using enumerates_lookup [of es m k] map_of_eq_Some_iff [of es k v]
  by (auto simp: enumerates_def)

lemma enumerates_length: "enumerates es m \<Longrightarrow> length es = gm_len m"
proof -
  assume e: "enumerates es m"
  then have "fmdom (gm_map m) = fset_of_list (map fst es)"
    unfolding enumerates_def by (metis fmdom_fmap_of_list fset_of_list_map)
  moreover have "fcard (fset_of_list (map fst es)) = length es"
    using e unfolding enumerates_def
    by (metis distinct_card fcard.rep_eq fset_of_list.rep_eq length_map)
  ultimately show ?thesis by (simp add: gm_len_def)
qed

lemma enumerates_None [simp]: "enumerates es None \<longleftrightarrow> es = []"
proof -
  have "fmap_of_list es = fmempty \<Longrightarrow> es = []"
    by (cases es) (auto dest: arg_cong [where f = "\<lambda>f. fmlookup f (fst (hd es))"])
  then show ?thesis by (auto simp: enumerates_def gm_map_def)
qed

lemma copy_entries_lookup:
  "fmlookup (copy_entries es m) k = (case map_of (rev es) k of None \<Rightarrow> fmlookup m k | Some v \<Rightarrow> Some v)"
  by (induction es m rule: copy_entries.induct) (auto simp: map_add_def split: option.splits)

lemma enumerates_rev: "enumerates es m \<Longrightarrow> map_of (rev es) k = gm_lookup m k"
  using enumerates_lookup [of es m k] map_of_inject_set [of es "rev es"]
  by (simp add: enumerates_def rev_map [symmetric])

lemma copy_entries_enumerates:
  assumes "enumerates es m"
  shows "copy_entries es f = f ++\<^sub>f gm_map m"
proof (rule fmap_ext)
  fix k
  show "fmlookup (copy_entries es f) k = fmlookup (f ++\<^sub>f gm_map m) k"
    using enumerates_rev [OF assms, of k]
    by (auto simp: copy_entries_lookup gm_lookup_def map_add_def split: option.splits)
qed

end
