(* ===== verification/K8s_Types.thy ===== *)
theory K8s_Types
  imports Kyuubi_Prelude
begin

text \<open>
  The Kubernetes API objects the operator builds and reads. The Go types are those of
  \<open>k8s.io/api\<close> and \<open>k8s.io/apimachinery\<close>; a record here carries exactly the fields that the
  operator's code sets or reads, under the source's field names with a prefix for the type. The
  one place where the code compares a whole structure that the API server also fills in
  (\<open>StatefulSetSpec\<close>) has the additional field \<open>ss_Other\<close> for the serialised remaining fields:
  it is empty for a structure whose other fields have their zero value. HOL equality on these
  records is \<open>reflect.DeepEqual\<close>: nil maps and nil pointers are \<open>None\<close> and differ from empty ones.
\<close>

section \<open>Metadata\<close>

record NamespacedName =
  nn_Namespace :: string
  nn_Name :: string

record OwnerReference =
  or_Kind :: string
  or_Name :: string
  or_UID :: string
  or_Controller :: bool

record TypeMeta =
  tm_Kind :: string
  tm_APIVersion :: string

record ObjectMeta =
  om_Name :: string
  om_Namespace :: string
  om_Labels :: gomap
  om_OwnerReferences :: "OwnerReference list"
  om_ResourceVersion :: string
  om_UID :: string

definition zeroMeta :: ObjectMeta where
  "zeroMeta = \<lparr>om_Name = [], om_Namespace = [], om_Labels = None, om_OwnerReferences = [],
     om_ResourceVersion = [], om_UID = []\<rparr>"

record ListMeta =
  lm_ResourceVersion :: string
  lm_Continue :: string

definition zeroListMeta :: ListMeta where
  "zeroListMeta = \<lparr>lm_ResourceVersion = [], lm_Continue = []\<rparr>"

text \<open>\<open>client.ObjectKeyFromObject\<close> on the metadata of an object.\<close>

definition metaKey :: "ObjectMeta \<Rightarrow> NamespacedName" where
  "metaKey m = \<lparr>nn_Namespace = om_Namespace m, nn_Name = om_Name m\<rparr>"

text \<open>\<open>metav1.Time\<close>: an instant; the zero time is 0.\<close>

type_synonym Time = int

section \<open>RBAC\<close>

record ServiceAccount =
  sa_Meta :: ObjectMeta

record PolicyRule =
  pr_APIGroups :: "string list"
  pr_Resources :: "string list"
  pr_Verbs :: "string list"

record Role =
  ro_Meta :: ObjectMeta
  ro_Rules :: "PolicyRule list"

record Subject =
  sub_Kind :: string
  sub_Name :: string

record RoleRef =
  rr_APIGroup :: string
  rr_Kind :: string
  rr_Name :: string

record RoleBinding =
  rb_Meta :: ObjectMeta
  rb_Subjects :: "Subject list"
  rb_RoleRef :: RoleRef

section \<open>ConfigMaps, Services\<close>

record ConfigMap =
  cm_Meta :: ObjectMeta
  cm_Data :: gomap

datatype IntOrString = IntVal int32 | StrVal string

record ServicePort =
  sp_Name :: string
  sp_Protocol :: string
  sp_AppProtocol :: "string option"
  sp_Port :: int32
  sp_TargetPort :: IntOrString
  sp_NodePort :: int32

record Service =
  svc_Meta :: ObjectMeta
  svc_Type :: string
  svc_Ports :: "ServicePort list"
  svc_Selector :: gomap

section \<open>Workloads\<close>

record ContainerPort =
  cp_Name :: string
  cp_ContainerPort :: int32

record ObjectFieldSelector =
  ofs_FieldPath :: string

record EnvVarSource =
  evs_FieldRef :: "ObjectFieldSelector option"

record EnvVar =
  ev_Name :: string
  ev_ValueFrom :: "EnvVarSource option"

record ExecAction =
  ea_Command :: "string list"

record Probe =
  pb_Exec :: "ExecAction option"
  pb_InitialDelaySeconds :: int32
  pb_PeriodSeconds :: int32
  pb_TimeoutSeconds :: int32
  pb_FailureThreshold :: int32
  pb_SuccessThreshold :: int32

record VolumeMount =
  vm_Name :: string
  vm_MountPath :: string
  vm_SubPath :: string

record KeyToPath =
  kp_Key :: string
  kp_Path :: string

record ConfigMapVolumeSource =
  cvs_Name :: string
  cvs_Items :: "KeyToPath list"

record Volume =
  vol_Name :: string
  vol_ConfigMap :: "ConfigMapVolumeSource option"

record Container =
  ct_Name :: string
  ct_Image :: string
  ct_ImagePullPolicy :: string
  ct_Ports :: "ContainerPort list"
  ct_Env :: "EnvVar list"
  ct_LivenessProbe :: "Probe option"
  ct_ReadinessProbe :: "Probe option"
  ct_VolumeMounts :: "VolumeMount list"

record PodSpec =
  ps_Containers :: "Container list"
  ps_RestartPolicy :: string
  ps_ServiceAccountName :: string
  ps_Volumes :: "Volume list"

record PodTemplateSpec =
  pt_Meta :: ObjectMeta
  pt_Spec :: PodSpec

record LabelSelector =
  ls_MatchLabels :: gomap

record StatefulSetSpec =
  ss_Selector :: "LabelSelector option"
  ss_ServiceName :: string
  ss_Replicas :: "int32 option"
  ss_Template :: PodTemplateSpec
  ss_Other :: string

record StatefulSet =
  sts_Meta :: ObjectMeta
  sts_Spec :: StatefulSetSpec

section \<open>Zero values\<close>

text \<open>The \<open>&corev1.ServiceAccount{}\<close> and so on that the code passes to \<open>Get\<close>.\<close>

definition zeroServiceAccount :: ServiceAccount where
  "zeroServiceAccount = \<lparr>sa_Meta = zeroMeta\<rparr>"

definition zeroRole :: Role where
  "zeroRole = \<lparr>ro_Meta = zeroMeta, ro_Rules = []\<rparr>"

definition zeroRoleBinding :: RoleBinding where
  "zeroRoleBinding = \<lparr>rb_Meta = zeroMeta, rb_Subjects = [],
     rb_RoleRef = \<lparr>rr_APIGroup = [], rr_Kind = [], rr_Name = []\<rparr>\<rparr>"

definition zeroConfigMap :: ConfigMap where
  "zeroConfigMap = \<lparr>cm_Meta = zeroMeta, cm_Data = None\<rparr>"

definition zeroService :: Service where
  "zeroService = \<lparr>svc_Meta = zeroMeta, svc_Type = [], svc_Ports = [], svc_Selector = None\<rparr>"

definition zeroStatefulSet :: StatefulSet where
  "zeroStatefulSet = \<lparr>sts_Meta = zeroMeta,
     sts_Spec = \<lparr>ss_Selector = None, ss_ServiceName = [], ss_Replicas = None,
       ss_Template = \<lparr>pt_Meta = zeroMeta,
         pt_Spec = \<lparr>ps_Containers = [], ps_RestartPolicy = [], ps_ServiceAccountName = [],
           ps_Volumes = []\<rparr>\<rparr>,
       ss_Other = []\<rparr>\<rparr>"

end
