(* ===== verification/Api_Types.thy ===== *)
theory Api_Types
  imports K8s_Types
begin

text \<open>
  The custom resource of the operator, \<open>api/v1alpha1\<close>: the types of \<open>kyuubicluster_types.go\<close> with
  the source's field order, and the admission webhooks of \<open>kyuubicluster_webhook.go\<close>, which accept
  every object unchanged. String enumerations (\<open>ClusterType\<close>, \<open>ExposedType\<close>, \<open>DeployMode\<close>) are
  Go string types, so they stay strings here and their constants are definitions.
\<close>

section \<open>kyuubicluster\_types.go\<close>

type_synonym DeployMode = string

definition ClusterMode :: DeployMode where [const_defs]: "ClusterMode = ''cluster''"
definition ClientMode :: DeployMode where [const_defs]: "ClientMode = ''client''"
definition InClusterClientMode :: DeployMode where
  [const_defs]: "InClusterClientMode = ''in-cluster-client''"

type_synonym ClusterType = string

definition SparkClusterType :: ClusterType where [const_defs]: "SparkClusterType = ''spark''"
definition MetaStoreClusterType :: ClusterType where
  [const_defs]: "MetaStoreClusterType = ''metastore''"
definition HdfsClusterType :: ClusterType where [const_defs]: "HdfsClusterType = ''hdfs''"
definition FlinkClusterType :: ClusterType where [const_defs]: "FlinkClusterType = ''flink''"

record ImageConfig =
  ic_Repository :: string
  ic_Tag :: string
  ic_PullPolicy :: string
  ic_PullSecrets :: string

record ResourceConfig =
  rc_Replicas :: int32

record SparkCluster =
  sc_SparkMaster :: string
  sc_SparkImage :: ImageConfig
  sc_SparkNamespace :: string
  sc_SparkDefaults :: gomap

record MetastoreCluster =
  mc_HiveSite :: gomap

record HdfsCluster =
  hc_CoreSite :: gomap
  hc_HdfsSite :: gomap

record ClusterRef =
  cr_Name :: string
  cr_Type :: ClusterType
  cr_Spark :: SparkCluster
  cr_Metastore :: MetastoreCluster
  cr_Hdfs :: HdfsCluster

record KyuubiClusterSpec =
  kcs_KyuubiVersion :: string
  kcs_KyuubiImage :: ImageConfig
  kcs_KyuubiResource :: ResourceConfig
  kcs_KyuubiConf :: gomap
  kcs_ClusterRefs :: "ClusterRef list"

type_synonym ExposedType = string

definition KyuubiRest :: ExposedType where [const_defs]: "KyuubiRest = ''rest''"
definition KyuubiThriftBinary :: ExposedType where
  [const_defs]: "KyuubiThriftBinary = ''thrift-binary''"
definition KyuubiThriftHttp :: ExposedType where
  [const_defs]: "KyuubiThriftHttp = ''thrift-http''"
definition KyuubiMysql :: ExposedType where [const_defs]: "KyuubiMysql = ''mysql''"

record ExposedInfo =
  ei_Name :: string
  ei_ExposedType :: ExposedType
  ei_ServiceName :: string
  ei_ServicePort :: ServicePort

text \<open>The slice \<open>ExposedInfos\<close> may be nil, which the controller tests for, so it is optional.\<close>

record KyuubiClusterStatus =
  st_ExposedInfos :: "ExposedInfo list option"
  st_CreationTime :: Time
  st_UpdateTime :: Time

record KyuubiCluster =
  kc_TypeMeta :: TypeMeta
  kc_Meta :: ObjectMeta
  kc_Spec :: KyuubiClusterSpec
  kc_Status :: KyuubiClusterStatus

record KyuubiClusterList =
  kl_TypeMeta :: TypeMeta
  kl_ListMeta :: ListMeta
  kl_Items :: "KyuubiCluster list"

abbreviation kc_Name :: "KyuubiCluster \<Rightarrow> string" where
  "kc_Name k \<equiv> om_Name (kc_Meta k)"

abbreviation kc_Namespace :: "KyuubiCluster \<Rightarrow> string" where
  "kc_Namespace k \<equiv> om_Namespace (kc_Meta k)"

text \<open>The zero values \<open>var kyuubi kyuubiv1alpha1.KyuubiCluster\<close> and of the nested structs.\<close>

definition zeroImage :: ImageConfig where
  "zeroImage = \<lparr>ic_Repository = [], ic_Tag = [], ic_PullPolicy = [], ic_PullSecrets = []\<rparr>"

definition zeroSpark :: SparkCluster where
  "zeroSpark = \<lparr>sc_SparkMaster = [], sc_SparkImage = zeroImage, sc_SparkNamespace = [],
     sc_SparkDefaults = None\<rparr>"

definition zeroMetastore :: MetastoreCluster where
  "zeroMetastore = \<lparr>mc_HiveSite = None\<rparr>"

definition zeroHdfs :: HdfsCluster where
  "zeroHdfs = \<lparr>hc_CoreSite = None, hc_HdfsSite = None\<rparr>"

definition zeroStatus :: KyuubiClusterStatus where
  "zeroStatus = \<lparr>st_ExposedInfos = None, st_CreationTime = 0, st_UpdateTime = 0\<rparr>"

definition zeroKyuubiCluster :: KyuubiCluster where
  "zeroKyuubiCluster = \<lparr>kc_TypeMeta = \<lparr>tm_Kind = [], tm_APIVersion = []\<rparr>, kc_Meta = zeroMeta,
     kc_Spec = \<lparr>kcs_KyuubiVersion = [], kcs_KyuubiImage = zeroImage,
       kcs_KyuubiResource = \<lparr>rc_Replicas = 0\<rparr>, kcs_KyuubiConf = None, kcs_ClusterRefs = []\<rparr>,
     kc_Status = zeroStatus\<rparr>"

lemma cluster_types_distinct [simp]:
  "SparkClusterType \<noteq> HdfsClusterType" "SparkClusterType \<noteq> MetaStoreClusterType"
  "HdfsClusterType \<noteq> MetaStoreClusterType" "HdfsClusterType \<noteq> SparkClusterType"
  "MetaStoreClusterType \<noteq> SparkClusterType" "MetaStoreClusterType \<noteq> HdfsClusterType"
  by (simp_all add: const_defs)

section \<open>kyuubicluster\_webhook.go\<close>

text \<open>
  \<open>Default\<close> may mutate its receiver (here it does not); the validators return warnings and an
  error, both nil.
\<close>

definition Default :: "KyuubiCluster \<Rightarrow> KyuubiCluster" where
  "Default r = r"

definition ValidateCreate :: "KyuubiCluster \<Rightarrow> string list option \<times> GoError option" where
  "ValidateCreate r = (None, None)"

definition ValidateUpdate ::
    "KyuubiCluster \<Rightarrow> KyuubiCluster \<Rightarrow> string list option \<times> GoError option" where
  "ValidateUpdate r old = (None, None)"

definition ValidateDelete :: "KyuubiCluster \<Rightarrow> string list option \<times> GoError option" where
  "ValidateDelete r = (None, None)"

end
