(* ===== verification/Controller_Common.thy ===== *)
theory Controller_Common
  imports Api_Types
begin

text \<open>
  \<open>internal/controller/constants.go\<close> and \<open>internal/controller/common.go\<close>: the names, labels and
  downward-API variables that the builders of the child objects share, and that the names of
  different clusters and of different objects of one cluster never collide.
\<close>

section \<open>constants.go\<close>

definition DefaultKyuubiConfFile :: string where
  [const_defs]: "DefaultKyuubiConfFile = ''kyuubi-defaults.conf''"
definition DefaultKyuubiConfDir :: string where
  [const_defs]: "DefaultKyuubiConfDir = ''/opt/kyuubi/conf''"
definition DefaultSparkConfFile :: string where
  [const_defs]: "DefaultSparkConfFile = ''spark-defaults.conf''"
definition DefaultSparkConfDir :: string where
  [const_defs]: "DefaultSparkConfDir = ''/opt/spark/conf''"
definition DefaultHiveSiteFile :: string where
  [const_defs]: "DefaultHiveSiteFile = ''hive-site.xml''"
definition DefaultHdfsSiteFile :: string where
  [const_defs]: "DefaultHdfsSiteFile = ''hdfs-site.xml''"
definition DefaultCoreSiteFile :: string where
  [const_defs]: "DefaultCoreSiteFile = ''core-site.xml''"
definition DefaultNameSuffix :: string where
  [const_defs]: "DefaultNameSuffix = ''-kyuubi''"
definition DefaultClusterRefsNameSuffix :: string where
  [const_defs]: "DefaultClusterRefsNameSuffix = ''-clusterrefs''"
definition DefaultClusterSign :: string where
  [const_defs]: "DefaultClusterSign = ''kyuubi''"
definition FSDefaultFSConfKey :: string where
  [const_defs]: "FSDefaultFSConfKey = ''fs.defaultFS''"
definition DFSNameSpacesConfKey :: string where
  [const_defs]: "DFSNameSpacesConfKey = ''dfs.nameservices''"

section \<open>common.go\<close>

definition fieldEnv :: "string \<Rightarrow> string \<Rightarrow> EnvVar" where
  "fieldEnv name path =
     \<lparr>ev_Name = name, ev_ValueFrom = Some \<lparr>evs_FieldRef = Some \<lparr>ofs_FieldPath = path\<rparr>\<rparr>\<rparr>"

definition DefaultDownwardAPI :: "EnvVar list" where
  "DefaultDownwardAPI =
     [fieldEnv ''POD_IP'' ''status.podIP'',
      fieldEnv ''POD_NAME'' ''metadata.name'',
      fieldEnv ''NAMESPACE'' ''metadata.namespace'',
      fieldEnv ''POD_UID'' ''metadata.uid'',
      fieldEnv ''HOST_IP'' ''status.hostIP'']"

definition NineResourceName :: "KyuubiCluster \<Rightarrow> string list \<Rightarrow> string" where
  "NineResourceName cluster suffixs = kc_Name cluster @ strings_Join suffixs ''-''"

definition ClusterResourceName :: "KyuubiCluster \<Rightarrow> string list \<Rightarrow> string" where
  "ClusterResourceName cluster suffixs =
     kc_Name cluster @ DefaultNameSuffix @ strings_Join suffixs ''-''"

definition ClusterResourceLabels :: "KyuubiCluster \<Rightarrow> gomap" where
  "ClusterResourceLabels cluster =
     Some (fmap_of_list [(''cluster'', kc_Name cluster), (''app'', DefaultClusterSign)])"

text \<open>The two names under which the controller stores child objects of a cluster.\<close>

abbreviation resourceName :: "KyuubiCluster \<Rightarrow> string" where
  "resourceName k \<equiv> ClusterResourceName k []"

abbreviation clusterRefsName :: "KyuubiCluster \<Rightarrow> string" where
  "clusterRefsName k \<equiv> NineResourceName k [DefaultClusterRefsNameSuffix]"

definition resourceKey :: "KyuubiCluster \<Rightarrow> NamespacedName" where
  "resourceKey k = \<lparr>nn_Namespace = kc_Namespace k, nn_Name = resourceName k\<rparr>"

definition clusterRefsKey :: "KyuubiCluster \<Rightarrow> NamespacedName" where
  "clusterRefsKey k = \<lparr>nn_Namespace = kc_Namespace k, nn_Name = clusterRefsName k\<rparr>"

definition kyuubiKey :: "KyuubiCluster \<Rightarrow> NamespacedName" where
  "kyuubiKey k = \<lparr>nn_Namespace = kc_Namespace k, nn_Name = kc_Name k\<rparr>"

section \<open>Lemmas\<close>

lemma resourceName_eq: "resourceName k = kc_Name k @ ''-kyuubi''"
  by (simp add: ClusterResourceName_def const_defs)

lemma clusterRefsName_eq: "clusterRefsName k = kc_Name k @ ''-clusterrefs''"
  by (simp add: NineResourceName_def const_defs)

lemma resourceName_inject [simp]: "resourceName k = resourceName k' \<longleftrightarrow> kc_Name k = kc_Name k'"
  by (simp add: resourceName_eq)

lemma clusterRefsName_inject [simp]:
  "clusterRefsName k = clusterRefsName k' \<longleftrightarrow> kc_Name k = kc_Name k'"
  by (simp add: clusterRefsName_eq)

text \<open>The two suffixes end in different characters.\<close>

lemma resourceName_neq_clusterRefsName [simp]: "resourceName k \<noteq> clusterRefsName k'"
proof
  assume "resourceName k = clusterRefsName k'"
  then have "last (kc_Name k @ ''-kyuubi'') = last (kc_Name k' @ ''-clusterrefs'')"
    unfolding resourceName_eq clusterRefsName_eq by simp
  then show False by simp
qed

lemma kyuubiKey_inject:
  "kyuubiKey k = kyuubiKey k' \<longleftrightarrow> kc_Namespace k = kc_Namespace k' \<and> kc_Name k = kc_Name k'"
  by (auto simp: kyuubiKey_def)

lemma resourceKey_inject [simp]: "resourceKey k = resourceKey k' \<longleftrightarrow> kyuubiKey k = kyuubiKey k'"
  by (auto simp: resourceKey_def kyuubiKey_def)

lemma clusterRefsKey_inject [simp]:
  "clusterRefsKey k = clusterRefsKey k' \<longleftrightarrow> kyuubiKey k = kyuubiKey k'"
  by (auto simp: clusterRefsKey_def kyuubiKey_def)

lemma resourceKey_neq_clusterRefsKey [simp]:
  "resourceKey k \<noteq> clusterRefsKey k'" "clusterRefsKey k' \<noteq> resourceKey k"
  by (auto simp: resourceKey_def clusterRefsKey_def dest: sym)

lemma labels_lookup:
  "gm_lookup (ClusterResourceLabels k) l =
     (if l = ''cluster'' then Some (kc_Name k) else if l = ''app'' then Some ''kyuubi'' else None)"
  by (simp add: ClusterResourceLabels_def go_defs const_defs)

lemma labels_inject: "ClusterResourceLabels k = ClusterResourceLabels k' \<longleftrightarrow> kc_Name k = kc_Name k'"
proof
  assume "ClusterResourceLabels k = ClusterResourceLabels k'"
  then have "gm_lookup (ClusterResourceLabels k) ''cluster'' = gm_lookup (ClusterResourceLabels k') ''cluster''"
    by simp
  then show "kc_Name k = kc_Name k'" by (simp add: labels_lookup)
qed (simp add: ClusterResourceLabels_def)

section \<open>Properties\<close>

text \<open>
  The two names under which a cluster's child objects are stored differ, and the names of two
  clusters are disjoint exactly when the clusters have different names: clusters of one namespace
  never overwrite each other's objects.
\<close>

theorem child_names_disjoint_iff:
  "ClusterResourceName k [] \<noteq> NineResourceName k [DefaultClusterRefsNameSuffix] \<and>
   ({ClusterResourceName k [], NineResourceName k [DefaultClusterRefsNameSuffix]} \<inter>
    {ClusterResourceName k' [], NineResourceName k' [DefaultClusterRefsNameSuffix]} = {}
      \<longleftrightarrow> kc_Name k \<noteq> kc_Name k')"
  using resourceName_neq_clusterRefsName [of k k'] resourceName_neq_clusterRefsName [of k' k] by auto

end
