(* ===== verification/Controller_Env.thy ===== *)
theory Controller_Env
  imports Api_Types
begin

text \<open>
  The code outside the repository that the controller calls, as a parameter of every definition
  that uses it. The type variable \<open>'w\<close> is the state of the world outside the controller (the API
  server, the client's cache, the clock, the process environment, the Go runtime); each effectful
  call takes the world and returns the next one. What the controller relies on is stated as laws
  about these functions in the theory \<open>Kube_Api\<close>.
\<close>

text \<open>
  \<open>client.Client\<close> of controller-runtime at one object type. \<open>Get key obj\<close> fills the object it is
  given and returns what the pointer holds afterwards with an error; \<open>Create\<close> and \<open>Update\<close>
  likewise return the object as the server answered it.
\<close>

record ('o, 'w) client =
  Get :: "NamespacedName \<Rightarrow> 'o \<Rightarrow> 'w \<Rightarrow> ('o \<times> GoError option) \<times> 'w"
  Create :: "'o \<Rightarrow> 'w \<Rightarrow> ('o \<times> GoError option) \<times> 'w"
  Update :: "'o \<Rightarrow> 'w \<Rightarrow> ('o \<times> GoError option) \<times> 'w"

text \<open>
  The whole environment: a typed view of the client for each object type, \<open>r.Status().Update\<close>,
  \<open>ctrl.SetControllerReference(owner, object, r.Scheme)\<close> acting on the object's metadata,
  \<open>xmlfmt.FormatXML\<close>, the printed form of a request (\<open>fmt.Sprint(req)\<close> calls the \<open>String\<close> method
  of \<open>types.NamespacedName\<close>), \<open>os.Getenv\<close>, \<open>metav1.Now\<close>, \<open>time.Sleep\<close> in milliseconds, and the
  order in which the runtime visits a map in a \<open>range\<close> loop.
\<close>

record 'w env =
  kyuubiClient :: "(KyuubiCluster, 'w) client"
  saClient :: "(ServiceAccount, 'w) client"
  roleClient :: "(Role, 'w) client"
  rbClient :: "(RoleBinding, 'w) client"
  cmClient :: "(ConfigMap, 'w) client"
  stsClient :: "(StatefulSet, 'w) client"
  svcClient :: "(Service, 'w) client"
  StatusUpdate :: "KyuubiCluster \<Rightarrow> 'w \<Rightarrow> (KyuubiCluster \<times> GoError option) \<times> 'w"
  SetControllerReference :: "KyuubiCluster \<Rightarrow> ObjectMeta \<Rightarrow> ObjectMeta \<times> GoError option"
  FormatXML :: "string \<Rightarrow> string \<Rightarrow> string \<Rightarrow> string"
  SprintRequest :: "NamespacedName \<Rightarrow> string"
  Getenv :: "string \<Rightarrow> 'w \<Rightarrow> string"
  Now :: "'w \<Rightarrow> Time \<times> 'w"
  Sleep :: "nat \<Rightarrow> 'w \<Rightarrow> 'w"
  range_map :: "gomap \<Rightarrow> 'w \<Rightarrow> (string \<times> string) list \<times> 'w"

end
