(* ===== verification/Kube_Api.thy ===== *)
theory Kube_Api
  imports Controller_Env
begin

text \<open>
  What the controller relies on of the Kubernetes API and of the Go runtime, as interfaces. The
  world is observed through a \<open>store\<close> of objects by type and key. Three levels of client
  contract: \<open>typed_client\<close> (reads may be served by a stale cache, calls may fail; a write that
  reports success takes effect on its own key only, and a write that reports an error has that same
  effect or none: a timeout may hit the answer of a write that was done), \<open>fresh_client\<close> (reads agree with the store) and \<open>reliable_client\<close> (a read fails only for
  an absent object, a create only for a taken key, an update only for an absent object or a stale version). The last two
  are idealisations: the operator reads through a cache that may lag, and a server may refuse an invalid object. The locales \<open>kube_api\<close>, \<open>fresh_api\<close> and \<open>reliable_api\<close> put the
  clients of all object types together with the rest of the environment.
\<close>

section \<open>The object store\<close>

record cluster_store =
  kyuubiClusters :: "NamespacedName \<rightharpoonup> KyuubiCluster"
  serviceAccounts :: "NamespacedName \<rightharpoonup> ServiceAccount"
  roles :: "NamespacedName \<rightharpoonup> Role"
  roleBindings :: "NamespacedName \<rightharpoonup> RoleBinding"
  configMaps :: "NamespacedName \<rightharpoonup> ConfigMap"
  statefulSets :: "NamespacedName \<rightharpoonup> StatefulSet"
  services :: "NamespacedName \<rightharpoonup> Service"

text \<open>Every object is stored under its own key.\<close>

definition wf_map :: "('o \<Rightarrow> ObjectMeta) \<Rightarrow> (NamespacedName \<rightharpoonup> 'o) \<Rightarrow> bool" where
  "wf_map meta m \<longleftrightarrow> (\<forall>k x. m k = Some x \<longrightarrow> metaKey (meta x) = k)"

definition wf_store :: "cluster_store \<Rightarrow> bool" where
  "wf_store s \<longleftrightarrow> wf_map kc_Meta (kyuubiClusters s) \<and> wf_map sa_Meta (serviceAccounts s) \<and>
     wf_map ro_Meta (roles s) \<and> wf_map rb_Meta (roleBindings s) \<and> wf_map cm_Meta (configMaps s) \<and>
     wf_map sts_Meta (statefulSets s) \<and> wf_map svc_Meta (services s)"

text \<open>
  What the server stores for a submitted object, given the object it replaces: admission fills in
  defaults, the resource version and so on.
\<close>

record 'w admission =
  adm_kyuubi :: "'w \<Rightarrow> KyuubiCluster option \<Rightarrow> KyuubiCluster \<Rightarrow> KyuubiCluster"
  adm_sa :: "'w \<Rightarrow> ServiceAccount option \<Rightarrow> ServiceAccount \<Rightarrow> ServiceAccount"
  adm_role :: "'w \<Rightarrow> Role option \<Rightarrow> Role \<Rightarrow> Role"
  adm_rb :: "'w \<Rightarrow> RoleBinding option \<Rightarrow> RoleBinding \<Rightarrow> RoleBinding"
  adm_cm :: "'w \<Rightarrow> ConfigMap option \<Rightarrow> ConfigMap \<Rightarrow> ConfigMap"
  adm_sts :: "'w \<Rightarrow> StatefulSet option \<Rightarrow> StatefulSet \<Rightarrow> StatefulSet"
  adm_svc :: "'w \<Rightarrow> Service option \<Rightarrow> Service \<Rightarrow> Service"

section \<open>Contracts of a typed client\<close>

locale typed_client =
  fixes cl :: "('o, 'w) client"
    and meta :: "'o \<Rightarrow> ObjectMeta"
    and sel :: "cluster_store \<Rightarrow> NamespacedName \<rightharpoonup> 'o"
    and upd :: "((NamespacedName \<rightharpoonup> 'o) \<Rightarrow> NamespacedName \<rightharpoonup> 'o) \<Rightarrow> cluster_store \<Rightarrow> cluster_store"
    and store :: "'w \<Rightarrow> cluster_store"
    and admit :: "'w \<Rightarrow> 'o option \<Rightarrow> 'o \<Rightarrow> 'o"
  assumes sel_upd: "sel (upd f s) = f (sel s)"
    and admit_key: "metaKey (meta (admit w old x)) = metaKey (meta x)"
    and get_store: "Get cl k z w = (r, w') \<Longrightarrow> store w' = store w"
    and get_key: "wf_map meta (sel (store w)) \<Longrightarrow> Get cl k z w = ((x, None), w') \<Longrightarrow>
      metaKey (meta x) = k"
    and get_notfound: "Get cl k z w = ((x, Some (NotFound m)), w') \<Longrightarrow> x = z"
    and create_ok: "Create cl x w = ((y, None), w') \<Longrightarrow>
      sel (store w) (metaKey (meta x)) = None \<and>
      store w' = upd (\<lambda>m. m(metaKey (meta x) \<mapsto> admit w None x)) (store w)"
    and create_answer: "Create cl x w = ((y, None), w') \<Longrightarrow> metaKey (meta y) = metaKey (meta x)"
    and create_err: "Create cl x w = ((y, Some e), w') \<Longrightarrow> store w' = store w \<or>
      sel (store w) (metaKey (meta x)) = None \<and>
      store w' = upd (\<lambda>m. m(metaKey (meta x) \<mapsto> admit w None x)) (store w)"
    and update_ok: "Update cl x w = ((y, None), w') \<Longrightarrow>
      \<exists>old. sel (store w) (metaKey (meta x)) = Some old \<and>
        store w' = upd (\<lambda>m. m(metaKey (meta x) \<mapsto> admit w (Some old) x)) (store w)"
    and update_err: "Update cl x w = ((y, Some e), w') \<Longrightarrow> store w' = store w \<or>
      (\<exists>old. sel (store w) (metaKey (meta x)) = Some old \<and>
        store w' = upd (\<lambda>m. m(metaKey (meta x) \<mapsto> admit w (Some old) x)) (store w))"
begin

text \<open>What a write does, with or without an error.\<close>

lemma create_effect:
  assumes "Create cl x w = ((y, e), w')"
  obtains (failed) "e \<noteq> None" "store w' = store w"
  | (applied) "sel (store w) (metaKey (meta x)) = None"
      "store w' = upd (\<lambda>m. m(metaKey (meta x) \<mapsto> admit w None x)) (store w)"
proof (cases e)
  case None
  with assms create_ok show thesis by (intro applied) blast+
next
  case (Some err)
  with assms create_err [of x w y err w'] failed applied show thesis by blast
qed

lemma update_effect:
  assumes "Update cl x w = ((y, e), w')"
  obtains (failed) "e \<noteq> None" "store w' = store w"
  | (applied) old where "sel (store w) (metaKey (meta x)) = Some old"
      "store w' = upd (\<lambda>m. m(metaKey (meta x) \<mapsto> admit w (Some old) x)) (store w)"
proof (cases e)
  case None
  with assms update_ok [of x w y w'] applied show thesis by blast
next
  case (Some err)
  with assms update_err [of x w y err w'] failed applied show thesis by blast
qed

end

locale fresh_client = typed_client +
  assumes get_fresh: "Get cl k z w = ((x, None), w') \<Longrightarrow> sel (store w) k = Some x"
    and get_absent: "Get cl k z w = ((x, Some (NotFound m)), w') \<Longrightarrow> sel (store w) k = None"

locale reliable_client = fresh_client +
  assumes get_answers: "Get cl k z w = ((x, Some e), w') \<Longrightarrow> IsNotFound (Some e)"
    and create_succeeds: "sel (store w) (metaKey (meta x)) = None \<Longrightarrow>
      \<exists>y w'. Create cl x w = ((y, None), w')"
    and update_succeeds: "sel (store w) (metaKey (meta x)) = Some old \<Longrightarrow>
      om_ResourceVersion (meta x) = [] \<or> om_ResourceVersion (meta x) = om_ResourceVersion (meta old) \<Longrightarrow>
      \<exists>y w'. Update cl x w = ((y, None), w')"

context reliable_client
begin

lemma get_present:
  assumes "sel (store w) k = Some x"
  obtains w' where "Get cl k z w = ((x, None), w')"
proof -
  obtain y e w' where g: "Get cl k z w = ((y, e), w')" by (metis surj_pair)
  show thesis
  proof (cases e)
    case None
    with g get_fresh [of k z w y w'] assms that show thesis by simp
  next
    case (Some err)
    with g get_answers obtain m where "err = NotFound m" by (metis IsNotFound_iff option.inject)
    with g Some get_absent [of k z w y m w'] assms show thesis by simp
  qed
qed

lemma get_missing:
  assumes "sel (store w) k = None"
  obtains x m w' where "Get cl k z w = ((x, Some (NotFound m)), w')"
proof -
  obtain y e w' where g: "Get cl k z w = ((y, e), w')" by (metis surj_pair)
  show thesis
  proof (cases e)
    case None
    with g get_fresh [of k z w y w'] assms show thesis by simp
  next
    case (Some err)
    with g get_answers obtain m where "err = NotFound m" by (metis IsNotFound_iff option.inject)
    with g Some that show thesis by simp
  qed
qed

end

section \<open>The API as a whole\<close>

locale kube_api =
  kc: typed_client "kyuubiClient E" kc_Meta kyuubiClusters kyuubiClusters_update store "adm_kyuubi A" +
  sa: typed_client "saClient E" sa_Meta serviceAccounts serviceAccounts_update store "adm_sa A" +
  ro: typed_client "roleClient E" ro_Meta roles roles_update store "adm_role A" +
  rb: typed_client "rbClient E" rb_Meta roleBindings roleBindings_update store "adm_rb A" +
  cm: typed_client "cmClient E" cm_Meta configMaps configMaps_update store "adm_cm A" +
  sts: typed_client "stsClient E" sts_Meta statefulSets statefulSets_update store "adm_sts A" +
  svc: typed_client "svcClient E" svc_Meta services services_update store "adm_svc A"
  for E :: "'w env" and store :: "'w \<Rightarrow> cluster_store" and A :: "'w admission" +
  assumes status_found: "StatusUpdate E k w = ((y, None), w') \<Longrightarrow>
      \<exists>old. kyuubiClusters (store w) (metaKey (kc_Meta k)) = Some old"
    and status_stored: "StatusUpdate E k w = ((y, None), w') \<Longrightarrow>
      kyuubiClusters (store w) (metaKey (kc_Meta k)) = Some prior \<Longrightarrow> metaKey (kc_Meta prior) = metaKey (kc_Meta k) \<Longrightarrow>
      store w' = kyuubiClusters_update (\<lambda>m. m(metaKey (kc_Meta k) \<mapsto>
        adm_kyuubi A w (Some prior) (prior\<lparr>kc_Status := kc_Status k\<rparr>))) (store w)"
    and status_absent: "StatusUpdate E k w = ((y, Some e), w') \<Longrightarrow> kyuubiClusters (store w) (metaKey (kc_Meta k)) = None \<Longrightarrow>
      store w' = store w"
    and status_err: "StatusUpdate E k w = ((y, Some e), w') \<Longrightarrow>
      kyuubiClusters (store w) (metaKey (kc_Meta k)) = Some prior \<Longrightarrow> metaKey (kc_Meta prior) = metaKey (kc_Meta k) \<Longrightarrow>
      store w' = store w \<or> store w' = kyuubiClusters_update (\<lambda>m. m(metaKey (kc_Meta k) \<mapsto>
        adm_kyuubi A w (Some prior) (prior\<lparr>kc_Status := kc_Status k\<rparr>))) (store w)"
    and admit_spec: "kc_Spec (adm_kyuubi A w old k) = kc_Spec k"
    and admit_status: "kc_Status (adm_kyuubi A w old k) = kc_Status k"
    and admit_data: "cm_Data (adm_cm A w oldc c) = cm_Data c"
    and owner_key: "metaKey (fst (SetControllerReference E k m)) = metaKey m"
    and now_store: "Now E w = (t, w') \<Longrightarrow> store w' = store w"
    and sleep_store: "store (Sleep E n w) = store w"
    and range_store: "range_map E g w = (es, w') \<Longrightarrow> store w' = store w"
    and range_enumerates: "range_map E g w = (es, w') \<Longrightarrow> enumerates es g"
    and sprint_request: "SprintRequest E req = nn_Namespace req @ ''/'' @ nn_Name req"

locale fresh_api = kube_api +
  kc: fresh_client "kyuubiClient E" kc_Meta kyuubiClusters kyuubiClusters_update store "adm_kyuubi A" +
  sa: fresh_client "saClient E" sa_Meta serviceAccounts serviceAccounts_update store "adm_sa A" +
  ro: fresh_client "roleClient E" ro_Meta roles roles_update store "adm_role A" +
  rb: fresh_client "rbClient E" rb_Meta roleBindings roleBindings_update store "adm_rb A" +
  cm: fresh_client "cmClient E" cm_Meta configMaps configMaps_update store "adm_cm A" +
  sts: fresh_client "stsClient E" sts_Meta statefulSets statefulSets_update store "adm_sts A" +
  svc: fresh_client "svcClient E" svc_Meta services services_update store "adm_svc A"

locale reliable_api = fresh_api +
  kc: reliable_client "kyuubiClient E" kc_Meta kyuubiClusters kyuubiClusters_update store "adm_kyuubi A" +
  sa: reliable_client "saClient E" sa_Meta serviceAccounts serviceAccounts_update store "adm_sa A" +
  ro: reliable_client "roleClient E" ro_Meta roles roles_update store "adm_role A" +
  rb: reliable_client "rbClient E" rb_Meta roleBindings roleBindings_update store "adm_rb A" +
  cm: reliable_client "cmClient E" cm_Meta configMaps configMaps_update store "adm_cm A" +
  sts: reliable_client "stsClient E" sts_Meta statefulSets statefulSets_update store "adm_sts A" +
  svc: reliable_client "svcClient E" svc_Meta services services_update store "adm_svc A" +
  assumes status_succeeds: "kyuubiClusters (store w) (metaKey (kc_Meta k)) = Some old \<Longrightarrow>
      om_ResourceVersion (kc_Meta k) = [] \<or>
      om_ResourceVersion (kc_Meta k) = om_ResourceVersion (kc_Meta old) \<Longrightarrow>
      \<exists>y w'. StatusUpdate E k w = ((y, None), w')"
    and owner_version: "om_ResourceVersion (fst (SetControllerReference E k m)) = om_ResourceVersion m"

section \<open>What a stage may change\<close>

datatype Kind = KKyuubiCluster | KServiceAccount | KRole | KRoleBinding | KConfigMap | KStatefulSet | KService

text \<open>
  \<open>created_only K m m'\<close>: entries appear at keys in \<open>K\<close>, existing entries stay as they are.
  \<open>changed_only K m m'\<close>: entries at keys in \<open>K\<close> may appear or change, none disappears.
\<close>

definition created_only :: "'k set \<Rightarrow> ('k \<rightharpoonup> 'o) \<Rightarrow> ('k \<rightharpoonup> 'o) \<Rightarrow> bool" where
  "created_only K m m' \<longleftrightarrow> m \<subseteq>\<^sub>m m' \<and> (\<forall>k. k \<notin> K \<longrightarrow> m' k = m k)"

definition changed_only :: "'k set \<Rightarrow> ('k \<rightharpoonup> 'o) \<Rightarrow> ('k \<rightharpoonup> 'o) \<Rightarrow> bool" where
  "changed_only K m m' \<longleftrightarrow> dom m \<subseteq> dom m' \<and> (\<forall>k. k \<notin> K \<longrightarrow> m' k = m k)"

text \<open>
  The footprint of a change: which objects may differ afterwards. Service accounts, roles, role
  bindings and services may only be created; ConfigMaps and StatefulSets may be created or changed;
  of a KyuubiCluster only the status (and what admission stamps) may change.
\<close>

definition touches :: "(Kind \<times> NamespacedName) set \<Rightarrow> cluster_store \<Rightarrow> cluster_store \<Rightarrow> bool" where
  "touches F s s' \<longleftrightarrow>
     changed_only (F `` {KKyuubiCluster} ) (kyuubiClusters s) (kyuubiClusters s') \<and>
     (\<forall>k. map_option kc_Spec (kyuubiClusters s' k) = map_option kc_Spec (kyuubiClusters s k)) \<and>
     created_only (F `` {KServiceAccount}) (serviceAccounts s) (serviceAccounts s') \<and>
     created_only (F `` {KRole}) (roles s) (roles s') \<and>
     created_only (F `` {KRoleBinding}) (roleBindings s) (roleBindings s') \<and>
     changed_only (F `` {KConfigMap}) (configMaps s) (configMaps s') \<and>
     changed_only (F `` {KStatefulSet}) (statefulSets s) (statefulSets s') \<and>
     created_only (F `` {KService}) (services s) (services s')"

lemma created_only_refl [simp]: "created_only K m m"
  by (simp add: created_only_def)

lemma changed_only_refl [simp]: "changed_only K m m"
  by (simp add: changed_only_def)

lemma created_only_trans: "created_only K m m1 \<Longrightarrow> created_only L m1 m2 \<Longrightarrow> created_only (K \<union> L) m m2"
  unfolding created_only_def by (auto intro: map_le_trans)

lemma changed_only_trans: "changed_only K m m1 \<Longrightarrow> changed_only L m1 m2 \<Longrightarrow> changed_only (K \<union> L) m m2"
  unfolding changed_only_def by (metis UnCI subset_trans)

lemma created_only_new: "m k = None \<Longrightarrow> k \<in> K \<Longrightarrow> created_only K m (m(k \<mapsto> x))"
  by (auto simp: created_only_def map_le_def)

lemma changed_only_upd: "k \<in> K \<Longrightarrow> changed_only K m (m(k \<mapsto> x))"
  by (auto simp: changed_only_def)

lemma touches_refl [simp]: "touches F s s"
  by (simp add: touches_def)

lemma touches_trans: "touches F s s1 \<Longrightarrow> touches G s1 s2 \<Longrightarrow> touches (F \<union> G) s s2"
  by (auto simp: touches_def Un_Image intro: created_only_trans changed_only_trans)

lemma created_only_mono: "created_only K m m' \<Longrightarrow> K \<subseteq> L \<Longrightarrow> created_only L m m'"
  by (auto simp: created_only_def)

lemma changed_only_mono: "changed_only K m m' \<Longrightarrow> K \<subseteq> L \<Longrightarrow> changed_only L m m'"
  by (auto simp: changed_only_def)

lemma touches_mono: "touches F s s' \<Longrightarrow> F \<subseteq> G \<Longrightarrow> touches G s s'"
  unfolding touches_def
  by (auto elim!: created_only_mono changed_only_mono)

lemma wf_map_upd: "wf_map meta m \<Longrightarrow> metaKey (meta x) = k \<Longrightarrow> wf_map meta (m(k \<mapsto> x))"
  by (auto simp: wf_map_def)

context kube_api
begin

lemma status_ok:
  assumes "wf_store (store w)" and "StatusUpdate E k w = ((y, None), w')"
  shows "\<exists>old. kyuubiClusters (store w) (metaKey (kc_Meta k)) = Some old \<and>
    store w' = kyuubiClusters_update (\<lambda>m. m(metaKey (kc_Meta k) \<mapsto>
      adm_kyuubi A w (Some old) (old\<lparr>kc_Status := kc_Status k\<rparr>))) (store w)"
  using status_found [OF assms(2)] status_stored [OF assms(2)] assms(1) by (auto simp: wf_store_def wf_map_def)

lemma status_effect:
  assumes "wf_store (store w)" and "StatusUpdate E k w = ((y, e), w')"
  obtains (failed) "e \<noteq> None" "store w' = store w"
  | (applied) old where "kyuubiClusters (store w) (metaKey (kc_Meta k)) = Some old" "metaKey (kc_Meta old) = metaKey (kc_Meta k)"
      "store w' = kyuubiClusters_update (\<lambda>m. m(metaKey (kc_Meta k) \<mapsto>
        adm_kyuubi A w (Some old) (old\<lparr>kc_Status := kc_Status k\<rparr>))) (store w)"
proof -
  have key: "metaKey (kc_Meta old) = metaKey (kc_Meta k)" if "kyuubiClusters (store w) (metaKey (kc_Meta k)) = Some old" for old
    using assms(1) that by (auto simp: wf_store_def wf_map_def)
  show thesis
  proof (cases e)
    case None
    with assms status_ok [of w k y w'] key that(2) show thesis by blast
  next
    case (Some err)
    then show thesis
    proof (cases "kyuubiClusters (store w) (metaKey (kc_Meta k))")
      case None
      with Some assms(2) status_absent that(1) show thesis by blast
    next
      case (Some old)
      with assms(2) \<open>e = Some err\<close> status_err [of k w y err w' old] key [OF Some] that show thesis by blast
    qed
  qed
qed

end

end
