(* ===== verification/Reference_Server.thy ===== *)
theory Reference_Server
  imports Kube_Api "HOL-Library.List_Lexorder" "HOL-Library.Char_ord"
begin

text \<open>
  An in-memory API server, the instance of the API contracts: it keeps objects as they are
  submitted, as the object tracker behind \<open>NewSimpleClientset\<close> does
  (\<open>client/clientset/versioned/fake/clientset_generated.go\<close>: ``processes creates, updates and
  deletions as-is, without applying any validations and/or defaults''), stamps each write with a
  fresh resource version, refuses a create on an existing key and an update with a stale resource
  version, and marks a stored workload spec as defaulted. It satisfies the strongest contract,
  \<open>reliable_api\<close>, so every theorem proved from a contract holds of it.
\<close>

record refworld =
  rw_store :: cluster_store
  rw_version :: nat
  rw_clock :: int
  rw_environ :: "string \<Rightarrow> string"

definition refVersion :: "refworld \<Rightarrow> string" where
  "refVersion w = strconv_Itoa (Suc (rw_version w))"

definition stamp :: "refworld \<Rightarrow> ObjectMeta \<Rightarrow> ObjectMeta" where
  "stamp w m = m\<lparr>om_ResourceVersion := refVersion w\<rparr>"

definition refAdmission :: "refworld admission" where
  "refAdmission =
     \<lparr>adm_kyuubi = (\<lambda>w old x. x\<lparr>kc_Meta := stamp w (kc_Meta x)\<rparr>),
      adm_sa = (\<lambda>w old x. x\<lparr>sa_Meta := stamp w (sa_Meta x)\<rparr>),
      adm_role = (\<lambda>w old x. x\<lparr>ro_Meta := stamp w (ro_Meta x)\<rparr>),
      adm_rb = (\<lambda>w old x. x\<lparr>rb_Meta := stamp w (rb_Meta x)\<rparr>),
      adm_cm = (\<lambda>w old x. x\<lparr>cm_Meta := stamp w (cm_Meta x)\<rparr>),
      adm_sts = (\<lambda>w old x. x\<lparr>sts_Meta := stamp w (sts_Meta x),
                             sts_Spec := (sts_Spec x)\<lparr>ss_Other := ''defaulted''\<rparr>\<rparr>),
      adm_svc = (\<lambda>w old x. x\<lparr>svc_Meta := stamp w (svc_Meta x)\<rparr>)\<rparr>"

definition refGet :: "(cluster_store \<Rightarrow> NamespacedName \<rightharpoonup> 'o) \<Rightarrow> NamespacedName \<Rightarrow> 'o \<Rightarrow> refworld \<Rightarrow>
    ('o \<times> GoError option) \<times> refworld" where
  "refGet sel k z w = ((case sel (rw_store w) k of
      None \<Rightarrow> (z, Some (NotFound (nn_Name k))) | Some x \<Rightarrow> (x, None)), w)"

definition refWrite :: "(((NamespacedName \<rightharpoonup> 'o) \<Rightarrow> NamespacedName \<rightharpoonup> 'o) \<Rightarrow> cluster_store \<Rightarrow> cluster_store) \<Rightarrow>
    NamespacedName \<Rightarrow> 'o \<Rightarrow> refworld \<Rightarrow> refworld" where
  "refWrite upd k x w = w\<lparr>rw_store := upd (\<lambda>m. m(k \<mapsto> x)) (rw_store w),
     rw_version := Suc (rw_version w)\<rparr>"

definition refCreate :: "(cluster_store \<Rightarrow> NamespacedName \<rightharpoonup> 'o) \<Rightarrow>
    (((NamespacedName \<rightharpoonup> 'o) \<Rightarrow> NamespacedName \<rightharpoonup> 'o) \<Rightarrow> cluster_store \<Rightarrow> cluster_store) \<Rightarrow>
    ('o \<Rightarrow> ObjectMeta) \<Rightarrow> (refworld \<Rightarrow> 'o option \<Rightarrow> 'o \<Rightarrow> 'o) \<Rightarrow> 'o \<Rightarrow> refworld \<Rightarrow>
    ('o \<times> GoError option) \<times> refworld" where
  "refCreate sel upd meta admit x w =
     (let k = metaKey (meta x) in
      if sel (rw_store w) k = None
      then ((admit w None x, None), refWrite upd k (admit w None x) w)
      else ((x, Some (ApiError ''AlreadyExists'' (nn_Name k))), w))"

definition refUpdate :: "(cluster_store \<Rightarrow> NamespacedName \<rightharpoonup> 'o) \<Rightarrow>
    (((NamespacedName \<rightharpoonup> 'o) \<Rightarrow> NamespacedName \<rightharpoonup> 'o) \<Rightarrow> cluster_store \<Rightarrow> cluster_store) \<Rightarrow>
    ('o \<Rightarrow> ObjectMeta) \<Rightarrow> (refworld \<Rightarrow> 'o option \<Rightarrow> 'o \<Rightarrow> 'o) \<Rightarrow> 'o \<Rightarrow> refworld \<Rightarrow>
    ('o \<times> GoError option) \<times> refworld" where
  "refUpdate sel upd meta admit x w =
     (let k = metaKey (meta x) in
      case sel (rw_store w) k of
        None \<Rightarrow> ((x, Some (NotFound (nn_Name k))), w)
      | Some old \<Rightarrow>
          if om_ResourceVersion (meta x) = [] \<or> om_ResourceVersion (meta x) = om_ResourceVersion (meta old)
          then ((admit w (Some old) x, None), refWrite upd k (admit w (Some old) x) w)
          else ((x, Some (ApiError ''Conflict'' (nn_Name k))), w))"

definition refClient :: "(cluster_store \<Rightarrow> NamespacedName \<rightharpoonup> 'o) \<Rightarrow>
    (((NamespacedName \<rightharpoonup> 'o) \<Rightarrow> NamespacedName \<rightharpoonup> 'o) \<Rightarrow> cluster_store \<Rightarrow> cluster_store) \<Rightarrow>
    ('o \<Rightarrow> ObjectMeta) \<Rightarrow> (refworld \<Rightarrow> 'o option \<Rightarrow> 'o \<Rightarrow> 'o) \<Rightarrow> ('o, refworld) client" where
  "refClient sel upd meta admit =
     \<lparr>Get = refGet sel, Create = refCreate sel upd meta admit, Update = refUpdate sel upd meta admit\<rparr>"

text \<open>The status subresource: only the status of the submitted object is taken.\<close>

definition refStatusUpdate :: "KyuubiCluster \<Rightarrow> refworld \<Rightarrow> (KyuubiCluster \<times> GoError option) \<times> refworld" where
  "refStatusUpdate x w =
     (let k = metaKey (kc_Meta x) in
      case kyuubiClusters (rw_store w) k of
        None \<Rightarrow> ((x, Some (NotFound (nn_Name k))), w)
      | Some old \<Rightarrow>
          if om_ResourceVersion (kc_Meta x) = [] \<or>
             om_ResourceVersion (kc_Meta x) = om_ResourceVersion (kc_Meta old)
          then (let y = adm_kyuubi refAdmission w (Some old) (old\<lparr>kc_Status := kc_Status x\<rparr>)
                in ((y, None), refWrite kyuubiClusters_update k y w))
          else ((x, Some (ApiError ''Conflict'' (nn_Name k))), w))"

definition refOwner :: "KyuubiCluster \<Rightarrow> OwnerReference" where
  "refOwner k = \<lparr>or_Kind = tm_Kind (kc_TypeMeta k), or_Name = kc_Name k,
     or_UID = om_UID (kc_Meta k), or_Controller = True\<rparr>"

definition refRange :: "gomap \<Rightarrow> refworld \<Rightarrow> (string \<times> string) list \<times> refworld" where
  "refRange g w = (sorted_list_of_fmap (gm_map g), w)"

definition refEnv :: "refworld env" where
  "refEnv =
     \<lparr>kyuubiClient = refClient kyuubiClusters kyuubiClusters_update kc_Meta (adm_kyuubi refAdmission),
      saClient = refClient serviceAccounts serviceAccounts_update sa_Meta (adm_sa refAdmission),
      roleClient = refClient roles roles_update ro_Meta (adm_role refAdmission),
      rbClient = refClient roleBindings roleBindings_update rb_Meta (adm_rb refAdmission),
      cmClient = refClient configMaps configMaps_update cm_Meta (adm_cm refAdmission),
      stsClient = refClient statefulSets statefulSets_update sts_Meta (adm_sts refAdmission),
      svcClient = refClient services services_update svc_Meta (adm_svc refAdmission),
      StatusUpdate = refStatusUpdate,
      SetControllerReference = (\<lambda>k m. (m\<lparr>om_OwnerReferences := [refOwner k]\<rparr>, None)),
      FormatXML = (\<lambda>s prefix indent. s),
      SprintRequest = (\<lambda>req. nn_Namespace req @ ''/'' @ nn_Name req),
      Getenv = (\<lambda>v w. rw_environ w v),
      Now = (\<lambda>w. (max 1 (rw_clock w), w\<lparr>rw_clock := rw_clock w + 1\<rparr>)),
      Sleep = (\<lambda>n w. w\<lparr>rw_clock := rw_clock w + 1\<rparr>),
      range_map = refRange\<rparr>"

text \<open>An empty server.\<close>

definition emptyStore :: cluster_store where
  "emptyStore = \<lparr>kyuubiClusters = Map.empty, serviceAccounts = Map.empty, roles = Map.empty,
     roleBindings = Map.empty, configMaps = Map.empty, statefulSets = Map.empty, services = Map.empty\<rparr>"

definition refInit :: refworld where
  "refInit = \<lparr>rw_store = emptyStore, rw_version = 0, rw_clock = 0, rw_environ = (\<lambda>v. [])\<rparr>"

section \<open>It satisfies the contracts\<close>

lemma enumerates_sorted: "enumerates (sorted_list_of_fmap (gm_map g)) g"
proof -
  have "map fst (sorted_list_of_fmap (gm_map g)) = sorted_list_of_fset (fmdom (gm_map g))"
    by (simp add: sorted_list_of_fmap_def comp_def)
  then show ?thesis
    unfolding enumerates_def by (auto simp: sorted_list_of_fset.rep_eq intro!: fmap_ext)
qed

lemma metaKey_stamp [simp]: "metaKey (stamp w m) = metaKey m"
  by (simp add: metaKey_def stamp_def)

lemmas refClient_defs = refClient_def refGet_def refCreate_def refUpdate_def refWrite_def Let_def

lemma refClient_reliable:
  assumes "\<And>f s. sel (upd f s) = f (sel s)"
    and "\<And>w old x. metaKey (meta (admit w old x)) = metaKey (meta x)"
  shows "reliable_client (refClient sel upd meta admit) meta sel upd rw_store admit"
  using assms
  by unfold_locales
     (auto simp: refClient_defs wf_map_def split: option.splits if_splits)

lemma refAdmission_keys [simp]:
  "metaKey (kc_Meta (adm_kyuubi refAdmission w ok k)) = metaKey (kc_Meta k)"
  "metaKey (sa_Meta (adm_sa refAdmission w oa a)) = metaKey (sa_Meta a)"
  "metaKey (ro_Meta (adm_role refAdmission w oro r)) = metaKey (ro_Meta r)"
  "metaKey (rb_Meta (adm_rb refAdmission w orb b)) = metaKey (rb_Meta b)"
  "metaKey (cm_Meta (adm_cm refAdmission w oc c)) = metaKey (cm_Meta c)"
  "metaKey (sts_Meta (adm_sts refAdmission w os t)) = metaKey (sts_Meta t)"
  "metaKey (svc_Meta (adm_svc refAdmission w ov v)) = metaKey (svc_Meta v)"
  by (simp_all add: refAdmission_def)

lemma refEnv_clients:
  "reliable_client (kyuubiClient refEnv) kc_Meta kyuubiClusters kyuubiClusters_update rw_store (adm_kyuubi refAdmission)"
  "reliable_client (saClient refEnv) sa_Meta serviceAccounts serviceAccounts_update rw_store (adm_sa refAdmission)"
  "reliable_client (roleClient refEnv) ro_Meta roles roles_update rw_store (adm_role refAdmission)"
  "reliable_client (rbClient refEnv) rb_Meta roleBindings roleBindings_update rw_store (adm_rb refAdmission)"
  "reliable_client (cmClient refEnv) cm_Meta configMaps configMaps_update rw_store (adm_cm refAdmission)"
  "reliable_client (stsClient refEnv) sts_Meta statefulSets statefulSets_update rw_store (adm_sts refAdmission)"
  "reliable_client (svcClient refEnv) svc_Meta services services_update rw_store (adm_svc refAdmission)"
  by (simp_all add: refEnv_def refClient_reliable)

lemmas refEnv_fresh = refEnv_clients [THEN reliable_client.axioms(1)]
lemmas refEnv_typed = refEnv_fresh [THEN fresh_client.axioms(1)]

lemma refApi_kube: "kube_api refEnv rw_store refAdmission"
proof (intro kube_api.intro refEnv_typed kube_api_axioms.intro)
  fix k w y w'
  assume s: "StatusUpdate refEnv k w = ((y, None), w')"
  then show "\<exists>old. kyuubiClusters (rw_store w) (metaKey (kc_Meta k)) = Some old"
    by (auto simp: refEnv_def refStatusUpdate_def Let_def split: option.splits if_splits)
  fix old
  assume "kyuubiClusters (rw_store w) (metaKey (kc_Meta k)) = Some old"
  with s show "rw_store w' = kyuubiClusters_update (\<lambda>m. m(metaKey (kc_Meta k) \<mapsto>
      adm_kyuubi refAdmission w (Some old) (old\<lparr>kc_Status := kc_Status k\<rparr>))) (rw_store w)"
    by (auto simp: refEnv_def refStatusUpdate_def refWrite_def Let_def split: if_splits)
next
  fix k w y e w'
  assume "StatusUpdate refEnv k w = ((y, Some e), w')"
  then have same: "rw_store w' = rw_store w"
    by (auto simp: refEnv_def refStatusUpdate_def Let_def split: option.splits if_splits)
  then show "rw_store w' = rw_store w" .
  show "rw_store w' = rw_store w \<or> rw_store w' = kyuubiClusters_update (\<lambda>m. m(metaKey (kc_Meta k) \<mapsto>
      adm_kyuubi refAdmission w (Some prior) (prior\<lparr>kc_Status := kc_Status k\<rparr>))) (rw_store w)" for prior
    using same by simp
qed (auto simp: refEnv_def refAdmission_def refRange_def metaKey_def enumerates_sorted)

interpretation refApi: reliable_api refEnv rw_store refAdmission
proof (intro reliable_api.intro fresh_api.intro refApi_kube refEnv_fresh refEnv_clients
    reliable_api_axioms.intro)
  fix k old :: KyuubiCluster and w :: refworld
  assume "kyuubiClusters (rw_store w) (metaKey (kc_Meta k)) = Some old"
    and "om_ResourceVersion (kc_Meta k) = [] \<or>
      om_ResourceVersion (kc_Meta k) = om_ResourceVersion (kc_Meta old)"
  then show "\<exists>y w'. StatusUpdate refEnv k w = ((y, None), w')"
    by (auto simp: refEnv_def refStatusUpdate_def Let_def)
qed (simp add: refEnv_def)

end
