(* ===== verification/Controller_Utils.thy ===== *)
theory Controller_Utils
  imports Reference_Server
begin

text \<open>
  \<open>internal/controller/utils.go\<close>: comparison of configurations and their rendering as properties
  files and as Hadoop XML files. Each \<open>range\<close> over a map draws its order from the environment. The
  readers \<open>readConf\<close> and \<open>readProperties\<close> are specifications: what a consumer of the rendered text
  sees. They state that rendering loses nothing on well-formed entries, whatever the order.
\<close>

section \<open>utils.go\<close>

fun compareConf_loop :: "(string \<times> string) list \<Rightarrow> gomap \<Rightarrow> bool" where
  "compareConf_loop [] dstConf = True"
| "compareConf_loop ((key, valueSrc) # es) dstConf =
     (case gm_lookup dstConf key of
        None \<Rightarrow> False
      | Some valueDst \<Rightarrow> if valueSrc \<noteq> valueDst then False else compareConf_loop es dstConf)"

definition compareConf :: "'w env \<Rightarrow> gomap \<Rightarrow> gomap \<Rightarrow> 'w \<Rightarrow> bool \<times> 'w" where
  "compareConf E srcConf dstConf w =
     (if gm_len srcConf \<noteq> gm_len dstConf then (False, w)
      else (case range_map E srcConf w of (es, w1) \<Rightarrow> (compareConf_loop es dstConf, w1)))"

definition nl :: string where
  "nl = [CHR 0x0A]"

definition tab :: string where
  "tab = [CHR 0x09]"

fun map2String_loop :: "(string \<times> string) list \<Rightarrow> string \<Rightarrow> string" where
  "map2String_loop [] sb = sb"
| "map2String_loop ((key, value) # es) sb = map2String_loop es (sb @ key @ ''='' @ value @ nl)"

definition map2String :: "'w env \<Rightarrow> gomap \<Rightarrow> 'w \<Rightarrow> string \<times> 'w" where
  "map2String E kv w = (case range_map E kv w of (es, w1) \<Rightarrow> (map2String_loop es [], w1))"

fun map2Xml_loop :: "(string \<times> string) list \<Rightarrow> string \<Rightarrow> string" where
  "map2Xml_loop [] res = res"
| "map2Xml_loop ((key, value) # es) res =
     (let property = ''<property>'' @ nl @ tab @ ''<name>'' @ key @ ''</name>'' @ nl @ tab @
                     ''<value>'' @ value @ ''</value>'' @ nl @ ''</property>''
      in map2Xml_loop es (res @ property))"

definition map2Xml :: "'w env \<Rightarrow> gomap \<Rightarrow> 'w \<Rightarrow> string \<times> 'w" where
  "map2Xml E properties w =
     (case range_map E properties w of
        (es, w1) \<Rightarrow>
          (let res = map2Xml_loop es ''<configuration>'';
               res = res @ ''</configuration>''
           in (FormatXML E res [] ''  '', w1)))"

definition int32Ptr :: "int32 \<Rightarrow> int32 option" where
  "int32Ptr i = Some i"

section \<open>compareConf\<close>

lemma compareConf_loop_iff:
  "compareConf_loop es dst \<longleftrightarrow> (\<forall>(k, v) \<in> set es. gm_lookup dst k = Some v)"
  by (induction es dst rule: compareConf_loop.induct) (auto split: option.splits)

lemma gm_lookup_fun: "gm_lookup m = fmlookup (gm_map m)"
  by (simp add: gm_lookup_def fun_eq_iff)

lemma dom_gm_lookup: "dom (gm_lookup m) = fset (fmdom (gm_map m))"
  by (simp add: gm_lookup_fun fmdom.rep_eq)

lemma finite_dom_gm_lookup [simp]: "finite (dom (gm_lookup m))"
  by (simp add: dom_gm_lookup)

lemma gm_len_eq_card: "gm_len m = card (dom (gm_lookup m))"
  by (simp add: gm_len_def fcard.rep_eq dom_gm_lookup)

text \<open>
  Equal size and inclusion of one map in the other give equality: the key sets are finite.
\<close>

lemma gm_map_eqI:
  assumes len: "gm_len a = gm_len b" and sub: "gm_lookup a \<subseteq>\<^sub>m gm_lookup b"
  shows "gm_map a = gm_map b"
proof -
  have "dom (gm_lookup a) \<subseteq> dom (gm_lookup b)"
    using sub by (auto simp: map_le_def dom_def)
  with len have "dom (gm_lookup a) = dom (gm_lookup b)"
    by (simp add: gm_len_eq_card card_subset_eq)
  with sub have "gm_lookup a = gm_lookup b"
    by (metis map_le_antisym map_le_def)
  then show ?thesis
    by (intro fmap_ext) (simp add: gm_lookup_def fun_eq_iff)
qed

lemma compareConf_loop_enumerates:
  assumes "enumerates es src"
  shows "compareConf_loop es dst \<longleftrightarrow> gm_lookup src \<subseteq>\<^sub>m gm_lookup dst"
proof -
  have "compareConf_loop es dst \<longleftrightarrow> (\<forall>k v. (k, v) \<in> set es \<longrightarrow> gm_lookup dst k = Some v)"
    by (auto simp: compareConf_loop_iff)
  also have "\<dots> \<longleftrightarrow> (\<forall>k v. gm_lookup src k = Some v \<longrightarrow> gm_lookup dst k = Some v)"
    by (simp add: enumerates_mem [OF assms])
  also have "\<dots> \<longleftrightarrow> gm_lookup src \<subseteq>\<^sub>m gm_lookup dst"
    by (force simp: map_le_def dom_def)
  finally show ?thesis .
qed

lemma compareConf_correct:
  assumes "enumerates (fst (range_map E src w)) src"
  shows "fst (compareConf E src dst w) \<longleftrightarrow> gm_map src = gm_map dst"
proof (cases "gm_len src = gm_len dst")
  case True
  then have "fst (compareConf E src dst w) \<longleftrightarrow> gm_lookup src \<subseteq>\<^sub>m gm_lookup dst"
    by (simp add: compareConf_def split_beta compareConf_loop_enumerates [OF assms])
  also have "\<dots> \<longleftrightarrow> gm_map src = gm_map dst"
    using gm_map_eqI [OF True] by (metis gm_lookup_fun map_le_refl)
  finally show ?thesis .
next
  case False
  then show ?thesis by (auto simp: compareConf_def gm_len_def)
qed

section \<open>map2String\<close>

text \<open>The rendering of a list of entries, and the reader of a properties file.\<close>

definition renderConf :: "(string \<times> string) list \<Rightarrow> string" where
  "renderConf es = concat (map (\<lambda>(k, v). k @ ''='' @ v @ nl) es)"

definition readLine :: "string \<Rightarrow> string \<times> string" where
  "readLine l = (takeWhile (\<lambda>c. c \<noteq> CHR ''='') l, tl (dropWhile (\<lambda>c. c \<noteq> CHR ''='') l))"

definition readConf :: "string \<Rightarrow> (string \<times> string) list" where
  "readConf s = map readLine (butlast (strings_Split s (CHR 0x0A)))"

definition conf_entry :: "string \<times> string \<Rightarrow> bool" where
  "conf_entry e = (CHR ''='' \<notin> set (fst e) \<and> CHR 0x0A \<notin> set (fst e) \<and> CHR 0x0A \<notin> set (snd e))"

text \<open>Every entry of the map can be written on one line.\<close>

definition conf_map :: "gomap \<Rightarrow> bool" where
  "conf_map m = fmpred (\<lambda>k v. conf_entry (k, v)) (gm_map m)"

lemma map2String_loop_eq: "map2String_loop es sb = sb @ renderConf es"
  by (induction es sb rule: map2String_loop.induct) (auto simp: renderConf_def)

lemma readLine_entry: "CHR ''='' \<notin> set k \<Longrightarrow> readLine (k @ CHR ''='' # v) = (k, v)"
  by (induction k) (auto simp: readLine_def)

lemma readConf_renderConf: "list_all conf_entry es \<Longrightarrow> readConf (renderConf es) = es"
proof (induction es)
  case Nil
  then show ?case by (simp add: readConf_def renderConf_def)
next
  case (Cons e es)
  obtain k v where e: "e = (k, v)" by (cases e)
  have "renderConf (e # es) = (k @ CHR ''='' # v) @ CHR 0x0A # renderConf es"
    by (simp add: e renderConf_def nl_def)
  moreover have "CHR 0x0A \<notin> set (k @ CHR ''='' # v)"
    using Cons.prems by (simp add: e conf_entry_def)
  ultimately have "strings_Split (renderConf (e # es)) (CHR 0x0A)
      = (k @ CHR ''='' # v) # strings_Split (renderConf es) (CHR 0x0A)"
    by (metis Split_append_sep)
  then show ?case
    using Cons by (simp add: readConf_def e readLine_entry conf_entry_def)
qed

lemma enumerates_conf_map: "enumerates es m \<Longrightarrow> conf_map m \<longleftrightarrow> list_all conf_entry es"
  using enumerates_mem [of es m]
  by (fastforce simp: conf_map_def list_all_iff gm_lookup_def fmpred_iff)

lemma map2String_read:
  assumes "enumerates (fst (range_map E m w)) m" and "conf_map m"
  shows "fmap_of_list (readConf (fst (map2String E m w))) = gm_map m"
proof -
  have "list_all conf_entry (fst (range_map E m w))"
    using assms enumerates_conf_map by blast
  then have "readConf (fst (map2String E m w)) = fst (range_map E m w)"
    by (simp add: map2String_def map2String_loop_eq readConf_renderConf split_beta)
  with assms(1) show ?thesis by (simp add: enumerates_def)
qed

text \<open>The text determines the order of the entries, so the order shows in the text.\<close>

lemma renderConf_inject:
  assumes "list_all conf_entry es" and "list_all conf_entry es'"
  shows "renderConf es = renderConf es' \<longleftrightarrow> es = es'"
  using readConf_renderConf [OF assms(1)] readConf_renderConf [OF assms(2)] by metis

lemma enumerates_reverse: "enumerates es m \<Longrightarrow> enumerates (rev es) m"
  unfolding enumerates_def
  by (metis distinct_rev fmap_ext fmlookup_fmap_of_list map_of_inject_set rev_map set_rev)

lemma rev_eq_self_distinct: "distinct (map fst es) \<Longrightarrow> 2 \<le> length es \<Longrightarrow> rev es \<noteq> es"
proof
  assume d: "distinct (map fst es)" and l: "2 \<le> length es" and r: "rev es = es"
  from l have "es \<noteq> []" by auto
  then have "rev es ! 0 = es ! (length es - 1)" by (simp add: rev_nth)
  with r have "es ! 0 = es ! (length es - 1)" by simp
  moreover have "distinct es" using d by (simp add: distinct_map)
  ultimately show False using l \<open>es \<noteq> []\<close> by (simp add: nth_eq_iff_index_eq)
qed

section \<open>map2Xml\<close>

text \<open>
  The document handed to \<open>FormatXML\<close>, and a reader of such documents. The reader spends one unit
  of fuel per property; the length of the text is always enough.
\<close>

definition xmlProperty :: "string \<times> string \<Rightarrow> string" where
  "xmlProperty e = (case e of (k, v) \<Rightarrow>
     ''<property>'' @ nl @ tab @ ''<name>'' @ k @ ''</name>'' @ nl @ tab @ ''<value>'' @ v @
     ''</value>'' @ nl @ ''</property>'')"

definition xmlDoc :: "(string \<times> string) list \<Rightarrow> string" where
  "xmlDoc es = ''<configuration>'' @ concat (map xmlProperty es) @ ''</configuration>''"

fun strip :: "string \<Rightarrow> string \<Rightarrow> string option" where
  "strip [] s = Some s"
| "strip (p # ps) [] = None"
| "strip (p # ps) (x # xs) = (if p = x then strip ps xs else None)"

definition readText :: "string \<Rightarrow> string \<times> string" where
  "readText s = (takeWhile (\<lambda>c. c \<noteq> CHR ''<'') s, dropWhile (\<lambda>c. c \<noteq> CHR ''<'') s)"

fun readProps :: "nat \<Rightarrow> string \<Rightarrow> (string \<times> string) list option" where
  "readProps 0 s = None"
| "readProps (Suc n) s =
     (if s = ''</configuration>'' then Some []
      else do {
        s1 \<leftarrow> strip (''<property>'' @ nl @ tab @ ''<name>'') s;
        s2 \<leftarrow> strip (''</name>'' @ nl @ tab @ ''<value>'') (snd (readText s1));
        s3 \<leftarrow> strip (''</value>'' @ nl @ ''</property>'') (snd (readText s2));
        es \<leftarrow> readProps n s3;
        Some ((fst (readText s1), fst (readText s2)) # es) })"

declare readProps.simps [simp del]

definition readProperties :: "string \<Rightarrow> (string \<times> string) list option" where
  "readProperties s = Option.bind (strip ''<configuration>'' s) (readProps (length s))"

definition xml_entry :: "string \<times> string \<Rightarrow> bool" where
  "xml_entry e = (CHR ''<'' \<notin> set (fst e) \<and> CHR ''<'' \<notin> set (snd e))"

lemma map2Xml_loop_eq: "map2Xml_loop es res = res @ concat (map xmlProperty es)"
  by (induction es res rule: map2Xml_loop.induct) (simp_all add: xmlProperty_def)

lemma map2Xml_eq:
  "map2Xml E m w = (FormatXML E (xmlDoc (fst (range_map E m w))) [] ''  '', snd (range_map E m w))"
  by (simp add: map2Xml_def map2Xml_loop_eq xmlDoc_def split_beta)

lemma strip_append [simp]: "strip p (p @ s) = Some s"
  by (induction p) auto

lemma readText_append: "CHR ''<'' \<notin> set t \<Longrightarrow> readText (t @ CHR ''<'' # s) = (t, CHR ''<'' # s)"
  by (induction t) (auto simp: readText_def)

lemma readProps_step:
  assumes "xml_entry (k, v)"
  shows "readProps (Suc n) (xmlProperty (k, v) @ s) = map_option (Cons (k, v)) (readProps n s)"
proof -
  have k: "readText (k @ ''</name>'' @ t) = (k, ''</name>'' @ t)" for t
    using assms readText_append [of k] by (simp add: xml_entry_def)
  have v: "readText (v @ ''</value>'' @ t) = (v, ''</value>'' @ t)" for t
    using assms readText_append [of v] by (simp add: xml_entry_def)
  have s1: "strip (''<property>'' @ nl @ tab @ ''<name>'') (xmlProperty (k, v) @ s)
      = Some (k @ ''</name>'' @ nl @ tab @ ''<value>'' @ v @ ''</value>'' @ nl @ ''</property>'' @ s)"
    by (simp add: xmlProperty_def nl_def tab_def)
  have s2: "strip (''</name>'' @ nl @ tab @ ''<value>'')
      (''</name>'' @ nl @ tab @ ''<value>'' @ v @ ''</value>'' @ nl @ ''</property>'' @ s)
      = Some (v @ ''</value>'' @ nl @ ''</property>'' @ s)"
    by (simp add: nl_def tab_def)
  have s3: "strip (''</value>'' @ nl @ ''</property>'') (''</value>'' @ nl @ ''</property>'' @ s) = Some s"
    by (simp add: nl_def)
  have "xmlProperty (k, v) @ s \<noteq> ''</configuration>''"
    by (simp add: xmlProperty_def)
  then show ?thesis
    by (simp only: readProps.simps if_False s1 s2 s3 k v bind.bind_lunit fst_conv snd_conv)
       (cases "readProps n s"; simp)
qed

lemma readProps_xmlProperties:
  "list_all xml_entry es \<Longrightarrow> length es < n \<Longrightarrow>
     readProps n (concat (map xmlProperty es) @ ''</configuration>'') = Some es"
proof (induction es arbitrary: n)
  case Nil
  then show ?case by (cases n) (auto simp: readProps.simps)
next
  case (Cons e es)
  obtain k v where e: "e = (k, v)" by (cases e)
  from Cons.prems obtain n' where n: "n = Suc n'" "length es < n'" by (cases n) auto
  with Cons e show ?case by (simp add: readProps_step)
qed

lemma readProperties_xmlDoc:
  assumes "list_all xml_entry es"
  shows "readProperties (xmlDoc es) = Some es"
proof -
  have "length es \<le> length (concat (map xmlProperty es))"
    by (induction es) (auto simp: xmlProperty_def split: prod.splits)
  then have "length es < length (xmlDoc es)" by (simp add: xmlDoc_def)
  then have "readProps (length (xmlDoc es)) (concat (map xmlProperty es) @ ''</configuration>'') = Some es"
    by (rule readProps_xmlProperties [OF assms])
  moreover have "strip ''<configuration>'' (xmlDoc es) = Some (concat (map xmlProperty es) @ ''</configuration>'')"
    unfolding xmlDoc_def by (rule strip_append)
  ultimately show ?thesis by (simp add: readProperties_def)
qed

lemma map2Xml_read:
  assumes "enumerates (fst (range_map E m w)) m"
    and "fmpred (\<lambda>k v. xml_entry (k, v)) (gm_map m)"
  shows "\<exists>doc. fst (map2Xml E m w) = FormatXML E doc [] ''  '' \<and>
    map_option fmap_of_list (readProperties doc) = Some (gm_map m)"
proof -
  have "list_all xml_entry (fst (range_map E m w))"
    using assms enumerates_mem [OF assms(1)]
    by (fastforce simp: list_all_iff gm_lookup_def fmpred_iff)
  then show ?thesis
    using assms(1) by (auto simp: map2Xml_eq readProperties_xmlDoc enumerates_def)
qed

section \<open>Properties\<close>

lemma refEnv_enumerates: "enumerates (fst (range_map refEnv g w)) g"
  by (simp add: refEnv_def refRange_def enumerates_sorted)

text \<open>
  \<open>compareConf\<close> decides equality of the two maps (nil and empty being the same), whatever order
  the runtime visits the source map in.
\<close>

theorem compareConf_decides:
  assumes "enumerates (fst (range_map E src w)) src"
  shows "fst (compareConf E src dst w) \<longleftrightarrow> gm_map src = gm_map dst"
  using assms by (rule compareConf_correct)

theorem compareConf_decides_witness:
  "fst (compareConf refEnv (Some (fmap_of_list [(''a'', ''1''), (''b'', ''2'')]))
      (Some (fmap_of_list [(''b'', ''2''), (''a'', ''1'')])) refInit)
   \<and> \<not> fst (compareConf refEnv (Some (fmap_of_list [(''a'', ''1''), (''b'', ''2'')]))
      (Some (fmap_of_list [(''b'', ''1''), (''a'', ''2'')])) refInit)"
proof -
  let ?m = "Some (fmap_of_list [(''a'', ''1''), (''b'', ''2'')]) :: gomap"
  have "fmap_of_list [(''a'', ''1''), (''b'', ''2'')] = fmap_of_list [(''b'', ''2''), (''a'', ''1'')]"
    by (rule fmap_ext) auto
  moreover have "fmap_of_list [(''a'', ''1''), (''b'', ''2'')] \<noteq> fmap_of_list [(''b'', ''1''), (''a'', ''2'')]"
    by (rule fmap_neqI [where k = "''a''"]) simp
  ultimately show ?thesis
    using compareConf_decides [OF refEnv_enumerates] by (simp add: gm_map_def)
qed

text \<open>
  C36. What \<open>map2String\<close> writes reads back as the map it was given, whatever the iteration order, when
  keys and values fit on a line and keys contain no equals sign.
\<close>

theorem map2String_roundtrip:
  assumes "enumerates (fst (range_map E kv w)) kv" and "conf_map kv"
  shows "fmap_of_list (readConf (fst (map2String E kv w))) = gm_map kv"
  using assms by (rule map2String_read)

theorem map2String_roundtrip_witness:
  "fmap_of_list (readConf (fst (map2String refEnv
      (Some (fmap_of_list [(''spark.master'', ''k8s'')])) refInit)))
    = fmap_of_list [(''spark.master'', ''k8s'')]"
proof -
  let ?m = "Some (fmap_of_list [(''spark.master'', ''k8s'')]) :: gomap"
  have "conf_map ?m"
    by (simp add: conf_map_def gm_map_def conf_entry_def fmpred_iff)
  then show ?thesis
    using map2String_roundtrip [OF refEnv_enumerates] by (fastforce simp: gm_map_def)
qed

text \<open>
  The rendering depends on the iteration order: when the runtime visits a map of two or more
  entries in reverse the second time, the two texts differ, and \<open>compareConf\<close> on ConfigMap data
  holding them reports a difference although the configuration is the same.
\<close>

theorem map2String_order_visible:
  assumes "range_map E kv w1 = (es, w1')" and "range_map E kv w2 = (rev es, w2')"
    and "enumerates es kv" and "conf_map kv" and "2 \<le> gm_len kv"
    and "\<And>g w. enumerates (fst (range_map E g w)) g"
  shows "\<not> fst (compareConf E (Some (fmap_of_list [(fname, fst (map2String E kv w1))]))
      (Some (fmap_of_list [(fname, fst (map2String E kv w2))])) w)"
proof -
  have ok: "list_all conf_entry es" "list_all conf_entry (rev es)"
    using assms(3,4) by (simp_all add: enumerates_conf_map list_all_rev)
  have "rev es \<noteq> es"
    using assms(3,5) enumerates_length [OF assms(3)]
    by (intro rev_eq_self_distinct) (simp_all add: enumerates_def)
  then have "fst (map2String E kv w1) \<noteq> fst (map2String E kv w2)"
    using renderConf_inject [OF ok] assms(1,2) by (simp add: map2String_def map2String_loop_eq)
  then have "fmap_of_list [(fname, fst (map2String E kv w1))] \<noteq> fmap_of_list [(fname, fst (map2String E kv w2))]"
    by (intro fmap_neqI [where k = fname]) simp
  then show ?thesis
    by (simp add: compareConf_correct [OF assms(6)] gm_map_def)
qed

definition flipEnv :: "refworld env" where
  "flipEnv = refEnv\<lparr>range_map := \<lambda>g w.
     (if even (rw_version w) then sorted_list_of_fmap (gm_map g)
      else rev (sorted_list_of_fmap (gm_map g)), w)\<rparr>"

lemma flipEnv_enumerates: "enumerates (fst (range_map flipEnv g w)) g"
  by (simp add: flipEnv_def enumerates_sorted enumerates_reverse)

theorem map2String_order_visible_witness:
  "\<exists>kv w1 w2. \<not> fst (compareConf flipEnv (Some (fmap_of_list [(''f'', fst (map2String flipEnv kv w1))]))
      (Some (fmap_of_list [(''f'', fst (map2String flipEnv kv w2))])) refInit)"
proof -
  let ?m = "Some (fmap_of_list [(''a'', ''1''), (''b'', ''2'')]) :: gomap"
  let ?w = "refInit\<lparr>rw_version := 1\<rparr>"
  have c: "conf_map ?m"
    by (auto simp: conf_map_def gm_map_def conf_entry_def fmpred_iff split: if_splits)
  have e: "enumerates [(''a'', ''1''), (''b'', ''2'')] ?m"
    by (simp add: enumerates_def gm_map_def)
  then have l: "2 \<le> gm_len ?m"
    using enumerates_length [OF e] by simp
  have r: "range_map flipEnv ?m refInit = (sorted_list_of_fmap (gm_map ?m), refInit)"
    "range_map flipEnv ?m ?w = (rev (sorted_list_of_fmap (gm_map ?m)), ?w)"
    by (simp_all add: flipEnv_def refInit_def)
  show ?thesis
    using map2String_order_visible [OF r enumerates_sorted c l flipEnv_enumerates] by blast
qed

text \<open>
  C37. \<open>map2Xml\<close> hands \<open>FormatXML\<close> a document that reads back as the map it was given, whatever the
  iteration order, when no key or value contains a less-than sign.
\<close>

theorem map2Xml_roundtrip:
  assumes "enumerates (fst (range_map E m w)) m"
    and "fmpred (\<lambda>k v. xml_entry (k, v)) (gm_map m)"
  shows "\<exists>doc. fst (map2Xml E m w) = FormatXML E doc [] ''  '' \<and>
    map_option fmap_of_list (readProperties doc) = Some (gm_map m)"
  using assms by (rule map2Xml_read)

theorem map2Xml_roundtrip_witness:
  "\<exists>doc. fst (map2Xml refEnv (Some (fmap_of_list [(''fs.defaultFS'', ''hdfs://h:9820'')])) refInit) = doc \<and>
    map_option fmap_of_list (readProperties doc) = Some (fmap_of_list [(''fs.defaultFS'', ''hdfs://h:9820'')])"
proof -
  let ?m = "Some (fmap_of_list [(''fs.defaultFS'', ''hdfs://h:9820'')]) :: gomap"
  have "fmpred (\<lambda>k v. xml_entry (k, v)) (gm_map ?m)"
    by (simp add: gm_map_def xml_entry_def fmpred_iff)
  moreover have "FormatXML refEnv s p i = s" for s p i
    by (simp add: refEnv_def)
  ultimately show ?thesis
    using map2Xml_roundtrip [OF refEnv_enumerates, of ?m refInit] by (auto simp: gm_map_def)
qed

text \<open>
  Values are not escaped: two different maps (one with a value that contains markup) produce the
  same document, so the reader of the XML file cannot tell them apart.
\<close>

theorem map2Xml_not_injective:
  "\<exists>m1 m2 es1 es2. gm_map m1 \<noteq> gm_map m2 \<and> enumerates es1 m1 \<and> enumerates es2 m2 \<and>
     map2Xml_loop es1 ''<configuration>'' = map2Xml_loop es2 ''<configuration>''"
proof -
  let ?v = "''1</value>'' @ nl @ ''</property><property>'' @ nl @ tab @ ''<name>b</name>'' @ nl @ tab @ ''<value>2''"
  let ?es1 = "[(''a'', ?v)]"
  let ?es2 = "[(''a'', ''1''), (''b'', ''2'')]"
  have "fmap_of_list ?es1 \<noteq> fmap_of_list ?es2"
    by (rule fmap_neqI [where k = "''b''"]) simp
  moreover have "map2Xml_loop ?es1 ''<configuration>'' = map2Xml_loop ?es2 ''<configuration>''"
    by (simp add: nl_def tab_def)
  ultimately show ?thesis
    by (intro exI [of _ "Some (fmap_of_list ?es1)"] exI [of _ "Some (fmap_of_list ?es2)"]
        exI [of _ ?es1] exI [of _ ?es2]) (simp add: enumerates_def gm_map_def)
qed

end
