(* ===== verification/Samples.thy ===== *)
theory Samples
  imports Reference_Server
begin

text \<open>
  The two custom resources of \<open>config/samples\<close>, as the API server hands them to the operator
  (pull policy defaulted to Always by the CRD, nil for absent maps), and worlds that hold them. The
  witnesses evaluate the model on them.
\<close>

definition sampleMeta :: ObjectMeta where
  "sampleMeta = zeroMeta\<lparr>om_Name := ''kyuubicluster-sample'', om_Namespace := ''kyuubi-operator'',
     om_ResourceVersion := ''1'', om_UID := ''uid-1''\<rparr>"

definition sampleKyuubiConf :: gomap where
  "sampleKyuubiConf = Some (fmap_of_list
     [(''kyuubi.kubernetes.namespace'', ''dwh''),
      (''kyuubi.frontend.connection.url.use.hostname'', ''false''),
      (''kyuubi.frontend.thrift.binary.bind.port'', ''10009''),
      (''kyuubi.frontend.thrift.http.bind.port'', ''10010''),
      (''kyuubi.frontend.rest.bind.port'', ''10099''),
      (''kyuubi.frontend.mysql.bind.port'', ''3309''),
      (''kyuubi.frontend.protocols'', ''REST,THRIFT_BINARY''),
      (''kyuubi.metrics.enabled'', ''false'')])"

definition sampleRef :: "string \<Rightarrow> SparkCluster \<Rightarrow> MetastoreCluster \<Rightarrow> HdfsCluster \<Rightarrow> ClusterRef" where
  "sampleRef t s m h = \<lparr>cr_Name = t, cr_Type = t, cr_Spark = s, cr_Metastore = m, cr_Hdfs = h\<rparr>"

definition sampleSpark :: "string \<Rightarrow> gomap \<Rightarrow> SparkCluster" where
  "sampleSpark tag defaults = \<lparr>sc_SparkMaster = ''k8s'',
     sc_SparkImage = \<lparr>ic_Repository = ''nineinfra/spark'', ic_Tag = tag, ic_PullPolicy = ''Always'', ic_PullSecrets = []\<rparr>,
     sc_SparkNamespace = ''dwh'', sc_SparkDefaults = defaults\<rparr>"

definition sampleCluster :: "string \<Rightarrow> ClusterRef list \<Rightarrow> KyuubiCluster" where
  "sampleCluster tag refs =
     \<lparr>kc_TypeMeta = \<lparr>tm_Kind = ''KyuubiCluster'', tm_APIVersion = ''kyuubi.nineinfra.tech/v1alpha1''\<rparr>,
      kc_Meta = sampleMeta,
      kc_Spec = \<lparr>kcs_KyuubiVersion = ''1.8.1'',
        kcs_KyuubiImage = \<lparr>ic_Repository = ''nineinfra/kyuubi'', ic_Tag = tag, ic_PullPolicy = ''Always'', ic_PullSecrets = []\<rparr>,
        kcs_KyuubiResource = \<lparr>rc_Replicas = 1\<rparr>, kcs_KyuubiConf = sampleKyuubiConf, kcs_ClusterRefs = refs\<rparr>,
      kc_Status = zeroStatus\<rparr>"

text \<open>\<open>config/samples/kyuubi_v1alpha1_kyuubicluster.yaml\<close>, also the example of the README.\<close>

definition readmeCluster :: KyuubiCluster where
  "readmeCluster = sampleCluster ''v1.8.1''
     [sampleRef ''spark'' (sampleSpark ''v3.2.4'' None) zeroMetastore zeroHdfs,
      sampleRef ''hdfs'' zeroSpark zeroMetastore
        \<lparr>hc_CoreSite = Some (fmap_of_list [(''fs.defaultFS'', ''hdfs://hdfs.dwh.svc:9820'')]),
         hc_HdfsSite = Some (fmap_of_list [(''dfs.client.block.write.retries'', ''3'')])\<rparr>,
      sampleRef ''metastore'' zeroSpark
        \<lparr>mc_HiveSite = Some (fmap_of_list
          [(''hive.metastore.uris'', ''thrift://hive-metastore.dwh.svc:9083''),
           (''hive.metastore.warehouse.dir'', ''/user/hive/warehouse'')])\<rparr> zeroHdfs]"

text \<open>\<open>config/samples/kyuubi_v1alpha1_kyuubicluster_minio.yaml\<close> (access keys left out).\<close>

definition minioDefaults :: gomap where
  "minioDefaults = Some (fmap_of_list
     [(''spark.hadoop.fs.s3a.path.style.access'', ''true''),
      (''spark.hadoop.fs.s3a.connection.ssl.enabled'', ''false''),
      (''spark.hadoop.fs.s3a.endpoint'', ''http://192.168.123.24:31063'')])"

definition minioSpark :: ClusterRef where
  "minioSpark = sampleRef ''spark'' (sampleSpark ''v3.2.4-minio'' minioDefaults) zeroMetastore zeroHdfs"

definition minioHdfs :: ClusterRef where
  "minioHdfs = sampleRef ''hdfs'' zeroSpark zeroMetastore
     \<lparr>hc_CoreSite = None, hc_HdfsSite = Some (fmap_of_list [(''dfs.client.block.write.retries'', ''3'')])\<rparr>"

definition minioMetastore :: ClusterRef where
  "minioMetastore = sampleRef ''metastore'' zeroSpark
     \<lparr>mc_HiveSite = Some (fmap_of_list
       [(''hive.metastore.uris'', ''thrift://hive-postgres-s3.dwh.svc:9083''),
        (''hive.metastore.warehouse.dir'', ''s3://usr/hive/warehouse'')])\<rparr> zeroHdfs"

definition minioCluster :: KyuubiCluster where
  "minioCluster = sampleCluster ''v1.8.1-minio'' [minioSpark, minioHdfs, minioMetastore]"

definition sampleKey :: NamespacedName where
  "sampleKey = \<lparr>nn_Namespace = ''kyuubi-operator'', nn_Name = ''kyuubicluster-sample''\<rparr>"

text \<open>A server that holds one custom resource and nothing else.\<close>

definition worldWith :: "KyuubiCluster \<Rightarrow> refworld" where
  "worldWith k = refInit\<lparr>rw_store := emptyStore\<lparr>kyuubiClusters := [metaKey (kc_Meta k) \<mapsto> k]\<rparr>, rw_version := 1\<rparr>"

lemma sampleCluster_simps [simp]:
  "kc_Meta (sampleCluster t refs) = sampleMeta" "kcs_ClusterRefs (kc_Spec (sampleCluster t refs)) = refs"
  "kcs_KyuubiConf (kc_Spec (sampleCluster t refs)) = sampleKyuubiConf"
  "kc_Status (sampleCluster t refs) = zeroStatus"
  by (simp_all add: sampleCluster_def)

lemma sample_keys [simp]:
  "metaKey sampleMeta = sampleKey" "om_Name sampleMeta = ''kyuubicluster-sample''"
  "om_Namespace sampleMeta = ''kyuubi-operator''"
  by (simp_all add: metaKey_def sampleMeta_def sampleKey_def)

lemma wf_worldWith [simp]: "wf_store (rw_store (worldWith k))"
  by (simp add: worldWith_def wf_store_def wf_map_def emptyStore_def)

lemma worldWith_kyuubi [simp]: "kyuubiClusters (rw_store (worldWith k)) = [metaKey (kc_Meta k) \<mapsto> k]"
  by (simp add: worldWith_def)

end
