(* ===== verification/Resources.thy ===== *)
theory Resources
  imports Controller_Common Controller_Utils Samples
begin

text \<open>
  The builders of the desired child objects in \<open>internal/controller/kyuubicluster_controller.go\<close>:
  service account, role, role binding, volumes and mounts, workload, main ConfigMap and service.
  Every builder returns the object it has built together with the error of
  \<open>SetControllerReference\<close>, as the source does; the callers drop that error. The properties say how
  the built objects refer to each other.
\<close>

section \<open>Builders\<close>

text \<open>The \<open>metav1.ObjectMeta\<close> literal that every builder uses.\<close>

definition childMeta :: "string \<Rightarrow> KyuubiCluster \<Rightarrow> ObjectMeta" where
  "childMeta name kyuubi = zeroMeta\<lparr>om_Name := name, om_Namespace := kc_Namespace kyuubi,
     om_Labels := ClusterResourceLabels kyuubi\<rparr>"

definition constructServiceAccount :: "'w env \<Rightarrow> KyuubiCluster \<Rightarrow> ServiceAccount \<times> GoError option" where
  [construct_defs]: "constructServiceAccount E kyuubi =
     (let saDesired = \<lparr>sa_Meta = childMeta (resourceName kyuubi) kyuubi\<rparr>
      in case SetControllerReference E kyuubi (sa_Meta saDesired) of
           (m, err) \<Rightarrow> (saDesired\<lparr>sa_Meta := m\<rparr>, err))"

definition constructRole :: "'w env \<Rightarrow> KyuubiCluster \<Rightarrow> Role \<times> GoError option" where
  [construct_defs]: "constructRole E kyuubi =
     (let roleDesired = \<lparr>ro_Meta = childMeta (resourceName kyuubi) kyuubi,
            ro_Rules = [\<lparr>pr_APIGroups = [''''],
              pr_Resources = [''pods'', ''configmaps'', ''services'', ''persistentvolumeclaims''],
              pr_Verbs = [''get'', ''create'', ''list'', ''delete'', ''watch'', ''deletecollection'']\<rparr>]\<rparr>
      in case SetControllerReference E kyuubi (ro_Meta roleDesired) of
           (m, err) \<Rightarrow> (roleDesired\<lparr>ro_Meta := m\<rparr>, err))"

definition constructRoleBinding :: "'w env \<Rightarrow> KyuubiCluster \<Rightarrow> RoleBinding \<times> GoError option" where
  [construct_defs]: "constructRoleBinding E kyuubi =
     (let roleBindingDesired = \<lparr>rb_Meta = childMeta (resourceName kyuubi) kyuubi,
            rb_Subjects = [\<lparr>sub_Kind = ''ServiceAccount'', sub_Name = resourceName kyuubi\<rparr>],
            rb_RoleRef = \<lparr>rr_APIGroup = ''rbac.authorization.k8s.io'', rr_Kind = ''Role'',
              rr_Name = resourceName kyuubi\<rparr>\<rparr>
      in case SetControllerReference E kyuubi (rb_Meta roleBindingDesired) of
           (m, err) \<Rightarrow> (roleBindingDesired\<lparr>rb_Meta := m\<rparr>, err))"

fun constructVolumeMounts_loop ::
    "KyuubiCluster \<Rightarrow> ClusterRef list \<Rightarrow> VolumeMount list \<Rightarrow> VolumeMount list" where
  "constructVolumeMounts_loop kyuubi [] volumeMounts = volumeMounts"
| "constructVolumeMounts_loop kyuubi (cluster # refs) volumeMounts =
     constructVolumeMounts_loop kyuubi refs
       (if cr_Type cluster = SparkClusterType then
          volumeMounts @
            [\<lparr>vm_Name = kc_Name kyuubi @ ''-spark'',
              vm_MountPath = DefaultSparkConfDir @ ''/'' @ DefaultSparkConfFile,
              vm_SubPath = DefaultSparkConfFile\<rparr>]
        else if cr_Type cluster = HdfsClusterType then
          volumeMounts @
            [\<lparr>vm_Name = kc_Name kyuubi @ ''-hdfssite'',
              vm_MountPath = DefaultSparkConfDir @ ''/'' @ DefaultHdfsSiteFile,
              vm_SubPath = DefaultHdfsSiteFile\<rparr>,
             \<lparr>vm_Name = kc_Name kyuubi @ ''-coresite'',
              vm_MountPath = DefaultSparkConfDir @ ''/'' @ DefaultCoreSiteFile,
              vm_SubPath = DefaultCoreSiteFile\<rparr>]
        else if cr_Type cluster = MetaStoreClusterType then
          volumeMounts @
            [\<lparr>vm_Name = kc_Name kyuubi @ ''-hivesite'',
              vm_MountPath = DefaultSparkConfDir @ ''/'' @ DefaultHiveSiteFile,
              vm_SubPath = DefaultHiveSiteFile\<rparr>]
        else volumeMounts)"

definition constructVolumeMounts :: "KyuubiCluster \<Rightarrow> VolumeMount list" where
  "constructVolumeMounts kyuubi =
     (let volumeMounts =
            [\<lparr>vm_Name = resourceName kyuubi,
              vm_MountPath = DefaultKyuubiConfDir @ ''/'' @ DefaultKyuubiConfFile,
              vm_SubPath = DefaultKyuubiConfFile\<rparr>]
      in constructVolumeMounts_loop kyuubi (kcs_ClusterRefs (kc_Spec kyuubi)) volumeMounts)"

text \<open>A volume over one key of a ConfigMap: the literal that recurs in \<open>constructVolumes\<close>.\<close>

definition configMapVolume :: "string \<Rightarrow> string \<Rightarrow> string \<Rightarrow> Volume" where
  "configMapVolume name configMap file =
     \<lparr>vol_Name = name,
      vol_ConfigMap = Some \<lparr>cvs_Name = configMap, cvs_Items = [\<lparr>kp_Key = file, kp_Path = file\<rparr>]\<rparr>\<rparr>"

fun constructVolumes_loop :: "KyuubiCluster \<Rightarrow> ClusterRef list \<Rightarrow> Volume list \<Rightarrow> Volume list" where
  "constructVolumes_loop kyuubi [] volumes = volumes"
| "constructVolumes_loop kyuubi (cluster # refs) volumes =
     constructVolumes_loop kyuubi refs
       (if cr_Type cluster = SparkClusterType then
          volumes @ [configMapVolume (kc_Name kyuubi @ ''-spark'') (clusterRefsName kyuubi) DefaultSparkConfFile]
        else if cr_Type cluster = HdfsClusterType then
          volumes @
            [configMapVolume (kc_Name kyuubi @ ''-hdfssite'') (clusterRefsName kyuubi) DefaultHdfsSiteFile,
             configMapVolume (kc_Name kyuubi @ ''-coresite'') (clusterRefsName kyuubi) DefaultCoreSiteFile]
        else if cr_Type cluster = MetaStoreClusterType then
          volumes @ [configMapVolume (kc_Name kyuubi @ ''-hivesite'') (clusterRefsName kyuubi) DefaultHiveSiteFile]
        else volumes)"

definition constructVolumes :: "KyuubiCluster \<Rightarrow> Volume list" where
  "constructVolumes kyuubi =
     (let volumes = [configMapVolume (resourceName kyuubi) (resourceName kyuubi) DefaultKyuubiConfFile]
      in constructVolumes_loop kyuubi (kcs_ClusterRefs (kc_Spec kyuubi)) volumes)"

text \<open>The two probes differ in their command only.\<close>

definition statusProbe :: "string \<Rightarrow> Probe" where
  "statusProbe command =
     \<lparr>pb_Exec = Some \<lparr>ea_Command = [''/bin/bash'', ''-c'', command]\<rparr>,
      pb_InitialDelaySeconds = 30, pb_PeriodSeconds = 10, pb_TimeoutSeconds = 2,
      pb_FailureThreshold = 10, pb_SuccessThreshold = 1\<rparr>"

definition constructDesiredKyuubiWorkload :: "'w env \<Rightarrow> KyuubiCluster \<Rightarrow> StatefulSet \<times> GoError option" where
  [construct_defs]: "constructDesiredKyuubiWorkload E kyuubi =
     (let container =
            \<lparr>ct_Name = kc_Name kyuubi,
             ct_Image = ic_Repository (kcs_KyuubiImage (kc_Spec kyuubi)) @ '':'' @
                        ic_Tag (kcs_KyuubiImage (kc_Spec kyuubi)),
             ct_ImagePullPolicy = ic_PullPolicy (kcs_KyuubiImage (kc_Spec kyuubi)),
             ct_Ports = [\<lparr>cp_Name = ''rest'', cp_ContainerPort = 10099\<rparr>,
                         \<lparr>cp_Name = ''thrift-binary'', cp_ContainerPort = 10009\<rparr>],
             ct_Env = DefaultDownwardAPI,
             ct_LivenessProbe = Some (statusProbe ''bin/kyuubi status''),
             ct_ReadinessProbe = Some (statusProbe ''$KYUUBI_HOME/bin/kyuubi status''),
             ct_VolumeMounts = constructVolumeMounts kyuubi\<rparr>;
          template =
            \<lparr>pt_Meta = zeroMeta\<lparr>om_Labels := ClusterResourceLabels kyuubi\<rparr>,
             pt_Spec = \<lparr>ps_Containers = [container], ps_RestartPolicy = ''Always'',
               ps_ServiceAccountName = resourceName kyuubi, ps_Volumes = constructVolumes kyuubi\<rparr>\<rparr>;
          stsDesired =
            \<lparr>sts_Meta = childMeta (resourceName kyuubi) kyuubi,
             sts_Spec = \<lparr>ss_Selector = Some \<lparr>ls_MatchLabels = ClusterResourceLabels kyuubi\<rparr>,
               ss_ServiceName = resourceName kyuubi,
               ss_Replicas = int32Ptr (rc_Replicas (kcs_KyuubiResource (kc_Spec kyuubi))),
               ss_Template = template, ss_Other = []\<rparr>\<rparr>
      in case SetControllerReference E kyuubi (sts_Meta stsDesired) of
           (m, err) \<Rightarrow> (stsDesired\<lparr>sts_Meta := m\<rparr>, err))"

definition constructKyuubiConfigMap ::
    "'w env \<Rightarrow> KyuubiCluster \<Rightarrow> 'w \<Rightarrow> (ConfigMap \<times> GoError option) \<times> 'w" where
  "constructKyuubiConfigMap E kyuubi w =
     (case map2String E (kcs_KyuubiConf (kc_Spec kyuubi)) w of
        (conf, w1) \<Rightarrow>
          (let cmDesired = \<lparr>cm_Meta = childMeta (resourceName kyuubi) kyuubi,
                 cm_Data = Some (fmap_of_list [(DefaultKyuubiConfFile, conf)])\<rparr>
           in case SetControllerReference E kyuubi (cm_Meta cmDesired) of
                (m, err) \<Rightarrow> ((cmDesired\<lparr>cm_Meta := m\<rparr>, err), w1)))"

definition contructDesiredService :: "'w env \<Rightarrow> KyuubiCluster \<Rightarrow> Service \<times> GoError option" where
  [construct_defs]: "contructDesiredService E kyuubi =
     (let svcDesired =
            \<lparr>svc_Meta = childMeta (resourceName kyuubi) kyuubi,
             svc_Type = ''ClusterIP'',
             svc_Ports =
               [\<lparr>sp_Name = KyuubiRest, sp_Protocol = [], sp_AppProtocol = None, sp_Port = 10099,
                 sp_TargetPort = IntVal 10099, sp_NodePort = 0\<rparr>,
                \<lparr>sp_Name = KyuubiThriftBinary, sp_Protocol = [], sp_AppProtocol = None, sp_Port = 10009,
                 sp_TargetPort = IntVal 10009, sp_NodePort = 0\<rparr>],
             svc_Selector = ClusterResourceLabels kyuubi\<rparr>
      in case SetControllerReference E kyuubi (svc_Meta svcDesired) of
           (m, err) \<Rightarrow> (svcDesired\<lparr>svc_Meta := m\<rparr>, err))"

section \<open>Volumes and mounts\<close>

text \<open>What one cluster reference contributes: volume name and file.\<close>

definition refFiles :: "ClusterRef \<Rightarrow> (string \<times> string) list" where
  "refFiles r =
     (if cr_Type r = SparkClusterType then [(''-spark'', DefaultSparkConfFile)]
      else if cr_Type r = HdfsClusterType then
        [(''-hdfssite'', DefaultHdfsSiteFile), (''-coresite'', DefaultCoreSiteFile)]
      else if cr_Type r = MetaStoreClusterType then [(''-hivesite'', DefaultHiveSiteFile)]
      else [])"

lemma constructVolumeMounts_loop_eq:
  "constructVolumeMounts_loop k refs vs = vs @ map (\<lambda>(suffix, f).
     \<lparr>vm_Name = kc_Name k @ suffix, vm_MountPath = DefaultSparkConfDir @ ''/'' @ f, vm_SubPath = f\<rparr>)
     (concat (map refFiles refs))"
  by (induction k refs vs rule: constructVolumeMounts_loop.induct) (simp_all add: refFiles_def)

lemma constructVolumes_loop_eq:
  "constructVolumes_loop k refs vs = vs @ map (\<lambda>(suffix, f).
     configMapVolume (kc_Name k @ suffix) (clusterRefsName k) f) (concat (map refFiles refs))"
  by (induction k refs vs rule: constructVolumes_loop.induct) (simp_all add: refFiles_def)

abbreviation clusterFiles :: "KyuubiCluster \<Rightarrow> (string \<times> string) list" where
  "clusterFiles k \<equiv> concat (map refFiles (kcs_ClusterRefs (kc_Spec k)))"

lemma constructVolumeMounts_eq:
  "constructVolumeMounts k =
     \<lparr>vm_Name = resourceName k, vm_MountPath = DefaultKyuubiConfDir @ ''/'' @ DefaultKyuubiConfFile,
      vm_SubPath = DefaultKyuubiConfFile\<rparr> #
     map (\<lambda>(suffix, f). \<lparr>vm_Name = kc_Name k @ suffix,
        vm_MountPath = DefaultSparkConfDir @ ''/'' @ f, vm_SubPath = f\<rparr>) (clusterFiles k)"
  by (simp add: constructVolumeMounts_def constructVolumeMounts_loop_eq)

lemma constructVolumes_eq:
  "constructVolumes k =
     configMapVolume (resourceName k) (resourceName k) DefaultKyuubiConfFile #
     map (\<lambda>(suffix, f). configMapVolume (kc_Name k @ suffix) (clusterRefsName k) f) (clusterFiles k)"
  by (simp add: constructVolumes_def constructVolumes_loop_eq)

section \<open>Properties\<close>

lemma refFiles_suffix:
  "''-spark'' \<in> fst ` set (refFiles r) \<longleftrightarrow> cr_Type r = SparkClusterType"
  "''-hdfssite'' \<in> fst ` set (refFiles r) \<longleftrightarrow> cr_Type r = HdfsClusterType"
  "''-coresite'' \<in> fst ` set (refFiles r) \<longleftrightarrow> cr_Type r = HdfsClusterType"
  "''-hivesite'' \<in> fst ` set (refFiles r) \<longleftrightarrow> cr_Type r = MetaStoreClusterType"
  by (auto simp: refFiles_def)

lemma suffix_in_files:
  assumes "\<And>r. s \<in> fst ` set (refFiles r) \<longleftrightarrow> cr_Type r = t"
  shows "s \<in> set (map fst (concat (map refFiles refs))) \<longleftrightarrow> t \<in> set (map cr_Type refs)"
proof (induction refs)
  case (Cons r refs)
  then show ?case using assms [of r] by (simp add: image_Un) metis
qed simp

lemma refFiles_suffix_iff:
  "''-spark'' \<in> set (map fst (concat (map refFiles refs))) \<longleftrightarrow> SparkClusterType \<in> set (map cr_Type refs)"
  "''-hdfssite'' \<in> set (map fst (concat (map refFiles refs))) \<longleftrightarrow> HdfsClusterType \<in> set (map cr_Type refs)"
  "''-coresite'' \<in> set (map fst (concat (map refFiles refs))) \<longleftrightarrow> HdfsClusterType \<in> set (map cr_Type refs)"
  "''-hivesite'' \<in> set (map fst (concat (map refFiles refs))) \<longleftrightarrow> MetaStoreClusterType \<in> set (map cr_Type refs)"
  by (rule suffix_in_files, rule refFiles_suffix)+

lemma refFiles_suffixes: "x \<in> set (map fst (refFiles r)) \<Longrightarrow> x \<noteq> ''-kyuubi''"
  by (auto simp: refFiles_def split: if_splits)

definition atMostOne :: "ClusterType \<Rightarrow> ClusterRef list \<Rightarrow> bool" where
  "atMostOne t refs \<longleftrightarrow> count_list (map cr_Type refs) t \<le> 1"

lemma atMostOne_Cons: "atMostOne t (r # refs) \<longleftrightarrow>
    (if cr_Type r = t then t \<notin> set (map cr_Type refs) else atMostOne t refs)"
  by (auto simp: atMostOne_def count_list_0_iff)

lemma distinct_suffixes:
  "distinct (map fst (concat (map refFiles refs))) \<longleftrightarrow>
     atMostOne SparkClusterType refs \<and> atMostOne HdfsClusterType refs \<and> atMostOne MetaStoreClusterType refs"
proof (induction refs)
  case Nil
  then show ?case by (simp add: atMostOne_def)
next
  case (Cons r refs)
  have absent: "t \<notin> set (map cr_Type refs) \<Longrightarrow> atMostOne t refs" for t
    by (simp add: atMostOne_def count_list_0_iff [THEN iffD2])
  consider (spark) "refFiles r = [(''-spark'', DefaultSparkConfFile)]" "cr_Type r = SparkClusterType"
    | (hdfs) "refFiles r = [(''-hdfssite'', DefaultHdfsSiteFile), (''-coresite'', DefaultCoreSiteFile)]"
        "cr_Type r = HdfsClusterType"
    | (metastore) "refFiles r = [(''-hivesite'', DefaultHiveSiteFile)]" "cr_Type r = MetaStoreClusterType"
    | (other) "refFiles r = []" "cr_Type r \<noteq> SparkClusterType" "cr_Type r \<noteq> HdfsClusterType"
        "cr_Type r \<noteq> MetaStoreClusterType"
    using refFiles_def [of r] by (cases "cr_Type r = SparkClusterType"; cases "cr_Type r = HdfsClusterType";
      cases "cr_Type r = MetaStoreClusterType") auto
  then show ?case
  proof cases
    case spark
    then show ?thesis using Cons refFiles_suffix_iff(1) [of refs] absent
      by (auto simp: atMostOne_Cons)
  next
    case hdfs
    then show ?thesis using Cons refFiles_suffix_iff(2,3) [of refs] absent
      by (auto simp: atMostOne_Cons)
  next
    case metastore
    then show ?thesis using Cons refFiles_suffix_iff(4) [of refs] absent
      by (auto simp: atMostOne_Cons)
  next
    case other
    then show ?thesis using Cons by (auto simp: atMostOne_Cons)
  qed
qed

text \<open>
  Mounts and volumes of the workload match position by position: the volume has the mount's name
  and projects exactly the file that the mount selects by its sub-path.
\<close>

theorem mounts_match_volumes:
  "list_all2 (\<lambda>m v. vm_Name m = vol_Name v \<and>
      (\<exists>src. vol_ConfigMap v = Some src \<and>
        cvs_Items src = [\<lparr>kp_Key = vm_SubPath m, kp_Path = vm_SubPath m\<rparr>]))
    (constructVolumeMounts k) (constructVolumes k)"
  by (auto simp: constructVolumeMounts_eq constructVolumes_eq configMapVolume_def list.rel_map
      list_all2_same split_beta)

text \<open>
  The pod specification has no duplicate volume name exactly when the cluster references name at
  most one Spark, one HDFS and one metastore cluster (a duplicate is an invalid pod).
\<close>

theorem volume_names_distinct_iff:
  "distinct (map vol_Name (constructVolumes k)) \<longleftrightarrow>
     atMostOne SparkClusterType (kcs_ClusterRefs (kc_Spec k)) \<and>
     atMostOne HdfsClusterType (kcs_ClusterRefs (kc_Spec k)) \<and>
     atMostOne MetaStoreClusterType (kcs_ClusterRefs (kc_Spec k))"
proof -
  have names: "map vol_Name (constructVolumes k) = (kc_Name k @ ''-kyuubi'') #
      map (\<lambda>s. kc_Name k @ s) (map fst (clusterFiles k))"
    by (simp add: constructVolumes_eq configMapVolume_def resourceName_eq comp_def split_beta)
  have "''-kyuubi'' \<notin> set (map fst (clusterFiles k))"
    using refFiles_suffixes by fastforce
  then have "kc_Name k @ ''-kyuubi'' \<notin> set (map (\<lambda>s. kc_Name k @ s) (map fst (clusterFiles k)))"
    by auto
  moreover have "inj (\<lambda>s. kc_Name k @ s)" by (simp add: inj_def)
  ultimately have "distinct (map vol_Name (constructVolumes k)) \<longleftrightarrow> distinct (map fst (clusterFiles k))"
    unfolding names by (simp only: distinct.simps distinct_map) (auto intro: inj_on_subset)
  then show ?thesis by (simp add: distinct_suffixes)
qed

lemma labels_match_iff:
  "gm_lookup (ClusterResourceLabels k) \<subseteq>\<^sub>m gm_lookup (ClusterResourceLabels k') \<longleftrightarrow> kc_Name k = kc_Name k'"
  using labels_inject [of k k'] labels_lookup [of k "''cluster''"] labels_lookup [of k' "''cluster''"]
  by (auto simp: map_le_def dom_def)

text \<open>
  The service of a cluster selects the pods of another cluster's workload exactly when the two
  clusters have the same name; the workload's own selector matches its pod template; and every
  service port targets the container port of the same name.
\<close>

theorem service_selects_own_pods:
  "(let svc = fst (contructDesiredService E k);
        sts = sts_Spec (fst (constructDesiredKyuubiWorkload E k'));
        pod = ss_Template sts
    in (gm_lookup (svc_Selector svc) \<subseteq>\<^sub>m gm_lookup (om_Labels (pt_Meta pod)) \<longleftrightarrow> kc_Name k = kc_Name k') \<and>
       map_option ls_MatchLabels (ss_Selector sts) = Some (om_Labels (pt_Meta pod)) \<and>
       map (\<lambda>p. (sp_Name p, sp_TargetPort p)) (svc_Ports svc) =
         map (\<lambda>c. (cp_Name c, IntVal (cp_ContainerPort c))) (concat (map ct_Ports (ps_Containers (pt_Spec pod)))))"
  by (simp add: construct_defs Let_def split_beta labels_match_iff const_defs)

lemma metaKey_eq_iff: "metaKey m = metaKey m' \<longleftrightarrow> om_Name m = om_Name m' \<and> om_Namespace m = om_Namespace m'"
  by (auto simp: metaKey_def)

text \<open>
  The permissions of the workload: its pods run under the service account that the role binding
  has as its only subject, the role binding refers to the role that is created with it, and all
  three live in the namespace of the cluster.
\<close>

theorem rbac_chain:
  assumes "\<And>m. metaKey (fst (SetControllerReference E k m)) = metaKey m"
  shows "let sa = sa_Meta (fst (constructServiceAccount E k));
      role = ro_Meta (fst (constructRole E k));
      rb = fst (constructRoleBinding E k);
      pod = pt_Spec (ss_Template (sts_Spec (fst (constructDesiredKyuubiWorkload E k))))
    in ps_ServiceAccountName pod = om_Name sa \<and>
       rb_Subjects rb = [\<lparr>sub_Kind = ''ServiceAccount'', sub_Name = om_Name sa\<rparr>] \<and>
       rr_Kind (rb_RoleRef rb) = ''Role'' \<and> rr_Name (rb_RoleRef rb) = om_Name role \<and>
       {om_Namespace sa, om_Namespace role, om_Namespace (rb_Meta rb)} = {kc_Namespace k}"
  using assms [of "childMeta (resourceName k) k"]
  by (simp add: construct_defs Let_def split_beta metaKey_eq_iff childMeta_def)

theorem rbac_chain_witness:
  "ps_ServiceAccountName (pt_Spec (ss_Template (sts_Spec (fst (constructDesiredKyuubiWorkload refEnv minioCluster)))))
     = om_Name (sa_Meta (fst (constructServiceAccount refEnv minioCluster)))"
proof -
  have "metaKey (fst (SetControllerReference refEnv minioCluster m)) = metaKey m" for m
    by (rule refApi.owner_key)
  from rbac_chain [OF this] show ?thesis unfolding Let_def by blast
qed

text \<open>
  The image of the workload has no default tag: without one it ends in a colon, although the
  type documents the default \<open>latest\<close>.
\<close>

theorem kyuubi_image_without_tag:
  assumes "ic_Tag (kcs_KyuubiImage (kc_Spec k)) = []"
  shows "map ct_Image (ps_Containers (pt_Spec (ss_Template (sts_Spec (fst (constructDesiredKyuubiWorkload E k))))))
    = [ic_Repository (kcs_KyuubiImage (kc_Spec k)) @ '':'']"
  using assms by (simp add: construct_defs Let_def split_beta)

theorem kyuubi_image_without_tag_witness:
  "map ct_Image (ps_Containers (pt_Spec (ss_Template (sts_Spec
     (fst (constructDesiredKyuubiWorkload refEnv (sampleCluster [] [])))))))
    = [''nineinfra/kyuubi:'']"
  using kyuubi_image_without_tag [of "sampleCluster [] []" refEnv] by (simp add: sampleCluster_def)

end
