(* ===== verification/Cluster_Refs.thy ===== *)
theory Cluster_Refs
  imports Resources
begin

text \<open>
  \<open>desiredClusterRefsConfigMap\<close> of \<open>kyuubicluster_controller.go\<close>: the ConfigMap with the
  configuration files of the referenced Spark, HDFS and metastore clusters. The loop over the
  references is a recursion over the list with the data built so far; its error return stops it.
\<close>

section \<open>The builder\<close>

text \<open>Lines 567 to 573: the sites of the last HDFS reference; both stay nil without one.\<close>

fun hdfsSites_loop :: "ClusterRef list \<Rightarrow> gomap \<times> gomap \<Rightarrow> gomap \<times> gomap" where
  "hdfsSites_loop [] sites = sites"
| "hdfsSites_loop (cluster # refs) sites =
     hdfsSites_loop refs
       (if cr_Type cluster = HdfsClusterType
        then (hc_HdfsSite (cr_Hdfs cluster), hc_CoreSite (cr_Hdfs cluster)) else sites)"

text \<open>Lines 577 to 583, the Spark configuration before the user's defaults are copied into it.\<close>

definition sparkBaseConf :: "'w env \<Rightarrow> KyuubiCluster \<Rightarrow> ClusterRef \<Rightarrow> 'w \<Rightarrow> smap" where
  "sparkBaseConf E kyuubi cluster w =
     (let image = sc_SparkImage (cr_Spark cluster);
          tag = (if ic_Tag image = [] then ''latest'' else ic_Tag image);
          sparkConf = fmempty;
          sparkConf = fmupd ''spark.master''
            (''k8s://https://'' @ Getenv E ''KUBERNETES_SERVICE_HOST'' w @ '':'' @
             Getenv E ''KUBERNETES_SERVICE_PORT'' w) sparkConf;
          sparkConf = fmupd ''spark.kubernetes.container.image'' (ic_Repository image @ '':'' @ tag) sparkConf;
          sparkConf = fmupd ''spark.kubernetes.namespace'' (kc_Namespace kyuubi) sparkConf
      in sparkConf)"

text \<open>Lines 608 to 611: one RPC address per name node of the nameservice.\<close>

fun nameNodes_loop :: "gomap \<Rightarrow> string list \<Rightarrow> smap \<Rightarrow> smap" where
  "nameNodes_loop hdfsSite [] clusterConf = clusterConf"
| "nameNodes_loop hdfsSite (v # vs) clusterConf =
     (let key = ''dfs.namenode.rpc-address.'' @ fm_get clusterConf DFSNameSpacesConfKey @ ''.'' @ v
      in nameNodes_loop hdfsSite vs (fmupd key (gm_get hdfsSite key) clusterConf))"

text \<open>Lines 595 to 616: what the metastore configuration takes from the HDFS reference.\<close>

definition metastoreBaseConf :: "gomap \<Rightarrow> gomap \<Rightarrow> smap" where
  "metastoreBaseConf hdfsSite coreSite =
     (let clusterConf = fmempty;
          clusterConf =
            (if coreSite \<noteq> None \<and> gm_lookup coreSite FSDefaultFSConfKey \<noteq> None
             then fmupd FSDefaultFSConfKey (gm_get coreSite FSDefaultFSConfKey) clusterConf
             else clusterConf)
      in if hdfsSite \<noteq> None \<and> gm_lookup hdfsSite DFSNameSpacesConfKey \<noteq> None then
           (let clusterConf = fmupd DFSNameSpacesConfKey (gm_get hdfsSite DFSNameSpacesConfKey) clusterConf;
                ns = fm_get clusterConf DFSNameSpacesConfKey
            in if gm_lookup hdfsSite (''dfs.ha.namenodes.'' @ ns) \<noteq> None then
                 (let clusterConf = fmupd (''dfs.ha.namenodes.'' @ ns)
                        (gm_get hdfsSite (''dfs.ha.namenodes.'' @ ns)) clusterConf;
                      clusterConf = fmupd (''dfs.client.failover.proxy.provider.'' @ ns)
                        ''org.apache.hadoop.hdfs.server.namenode.ha.ConfiguredFailoverProxyProvider'' clusterConf;
                      nameNodes = gm_get hdfsSite (''dfs.ha.namenodes.'' @ ns);
                      nameNodeList = strings_Split nameNodes (CHR '','')
                  in nameNodes_loop hdfsSite nameNodeList clusterConf)
               else fmupd (''dfs.namenode.rpc-address.'' @ ns)
                      (gm_get hdfsSite (''dfs.namenode.rpc-address.'' @ ns)) clusterConf)
         else clusterConf)"

text \<open>Lines 575 to 622: the switch on the type of one reference, on the data built so far.\<close>

definition clusterRef_step :: "'w env \<Rightarrow> KyuubiCluster \<Rightarrow> gomap \<Rightarrow> gomap \<Rightarrow> ClusterRef \<Rightarrow> smap \<Rightarrow> 'w \<Rightarrow>
    (GoError + smap) \<times> 'w" where
  "clusterRef_step E kyuubi hdfsSite coreSite cluster data w =
     (if cr_Type cluster = SparkClusterType then
        (let sparkConf = sparkBaseConf E kyuubi cluster w
         in if sc_SparkDefaults (cr_Spark cluster) = None
            then (Inl (ErrorString ''spark default conf should not be nil''), w)
            else (case range_map E (sc_SparkDefaults (cr_Spark cluster)) w of
                (es, w1) \<Rightarrow>
                  (case map2String E (Some (copy_entries es sparkConf)) w1 of
                     (text, w2) \<Rightarrow> (Inr (fmupd DefaultSparkConfFile text data), w2))))
      else if cr_Type cluster = HdfsClusterType then
        (case map2Xml E (hc_HdfsSite (cr_Hdfs cluster)) w of
           (hdfsText, w1) \<Rightarrow>
             (case map2Xml E (hc_CoreSite (cr_Hdfs cluster)) w1 of
                (coreText, w2) \<Rightarrow>
                  (Inr (fmupd ''core-site.xml'' coreText (fmupd ''hdfs-site.xml'' hdfsText data)), w2)))
      else if cr_Type cluster = MetaStoreClusterType then
        (let clusterConf = metastoreBaseConf hdfsSite coreSite
         in case range_map E (mc_HiveSite (cr_Metastore cluster)) w of
              (es, w1) \<Rightarrow>
                (case map2Xml E (Some (copy_entries es clusterConf)) w1 of
                   (text, w2) \<Rightarrow> (Inr (fmupd ''hive-site.xml'' text data), w2)))
      else (Inr data, w))"

text \<open>Lines 574 to 623: the loop over the references.\<close>

fun clusterRefs_loop :: "'w env \<Rightarrow> KyuubiCluster \<Rightarrow> gomap \<Rightarrow> gomap \<Rightarrow> ClusterRef list \<Rightarrow> smap \<Rightarrow> 'w \<Rightarrow>
    (GoError + smap) \<times> 'w" where
  "clusterRefs_loop E kyuubi hdfsSite coreSite [] data w = (Inr data, w)"
| "clusterRefs_loop E kyuubi hdfsSite coreSite (cluster # refs) data w =
     (case clusterRef_step E kyuubi hdfsSite coreSite cluster data w of
        (Inl err, w1) \<Rightarrow> (Inl err, w1)
      | (Inr data', w1) \<Rightarrow> clusterRefs_loop E kyuubi hdfsSite coreSite refs data' w1)"

text \<open>
  The Go method returns a ConfigMap and an error; its caller uses the ConfigMap only when the error
  is nil, so the result is a sum.
\<close>

definition desiredClusterRefsConfigMap ::
    "'w env \<Rightarrow> KyuubiCluster \<Rightarrow> 'w \<Rightarrow> (GoError + ConfigMap) \<times> 'w" where
  "desiredClusterRefsConfigMap E kyuubi w =
     (let refs = kcs_ClusterRefs (kc_Spec kyuubi);
          cmDesired = \<lparr>cm_Meta = childMeta (clusterRefsName kyuubi) kyuubi, cm_Data = Some fmempty\<rparr>
      in case hdfsSites_loop refs (None, None) of
           (hdfsSite, coreSite) \<Rightarrow>
             (case clusterRefs_loop E kyuubi hdfsSite coreSite refs fmempty w of
                (Inl err, w1) \<Rightarrow> (Inl err, w1)
              | (Inr data, w1) \<Rightarrow>
                  (case SetControllerReference E kyuubi (cm_Meta cmDesired) of
                     (m, Some err) \<Rightarrow> (Inl err, w1)
                   | (m, None) \<Rightarrow> (Inr (cmDesired\<lparr>cm_Meta := m, cm_Data := Some data\<rparr>), w1))))"

section \<open>When the builder fails\<close>

definition sparkWithoutDefaults :: "ClusterRef \<Rightarrow> bool" where
  "sparkWithoutDefaults r \<longleftrightarrow> cr_Type r = SparkClusterType \<and> sc_SparkDefaults (cr_Spark r) = None"

abbreviation sparkError :: GoError where
  "sparkError \<equiv> ErrorString ''spark default conf should not be nil''"

lemma clusterRef_step_cases:
  "if sparkWithoutDefaults r then clusterRef_step E k h c r data w = (Inl sparkError, w)
   else (\<exists>data' w'. clusterRef_step E k h c r data w = (Inr data', w'))"
  by (auto simp: clusterRef_step_def sparkWithoutDefaults_def Let_def split: prod.splits)

lemma clusterRefs_loop_result:
  "fst (clusterRefs_loop E k h c refs data w) = Inl err \<longleftrightarrow>
     err = sparkError \<and> (\<exists>r \<in> set refs. sparkWithoutDefaults r)"
proof (induction refs arbitrary: data w)
  case (Cons r refs)
  show ?case
  proof (cases "sparkWithoutDefaults r")
    case True
    then have "clusterRef_step E k h c r data w = (Inl sparkError, w)"
      using clusterRef_step_cases [of r E k h c data w] by simp
    with True show ?thesis by auto
  next
    case False
    then obtain data' w' where "clusterRef_step E k h c r data w = (Inr data', w')"
      using clusterRef_step_cases [of r E k h c data w] by auto
    with False Cons show ?thesis by simp
  qed
qed simp

section \<open>Which files the ConfigMap holds\<close>

lemma site_files:
  "''hdfs-site.xml'' = DefaultHdfsSiteFile" "''core-site.xml'' = DefaultCoreSiteFile"
  "''hive-site.xml'' = DefaultHiveSiteFile"
  by (simp_all add: const_defs)

lemma clusterRef_step_files:
  "clusterRef_step E k h c r data w = (Inr data', w') \<Longrightarrow>
     fmdom data' = fmdom data |\<union>| fset_of_list (map snd (refFiles r))"
  by (auto simp: clusterRef_step_def refFiles_def Let_def site_files split: if_splits prod.splits)

lemma clusterRef_step_other:
  "clusterRef_step E k h c r data w = (Inr data', w') \<Longrightarrow> f \<notin> snd ` set (refFiles r) \<Longrightarrow>
     fmlookup data' f = fmlookup data f"
  by (auto simp: clusterRef_step_def refFiles_def Let_def site_files split: if_splits prod.splits)

lemma clusterRefs_loop_files:
  "clusterRefs_loop E k h c refs data w = (Inr data', w') \<Longrightarrow>
     fmdom data' = fmdom data |\<union>| fset_of_list (map snd (concat (map refFiles refs)))"
proof (induction refs arbitrary: data w)
  case (Cons r refs)
  then obtain d1 w1 where "clusterRef_step E k h c r data w = (Inr d1, w1)"
    "clusterRefs_loop E k h c refs d1 w1 = (Inr data', w')"
    by (auto split: prod.splits sum.splits)
  with Cons.IH [of d1 w1] show ?case
    using clusterRef_step_files [of E k h c r data w d1 w1] by (simp add: sup_assoc)
qed simp

lemma clusterRefs_loop_other:
  "clusterRefs_loop E k h c refs data w = (Inr data', w') \<Longrightarrow>
     f \<notin> snd ` set (concat (map refFiles refs)) \<Longrightarrow> fmlookup data' f = fmlookup data f"
proof (induction refs arbitrary: data w)
  case (Cons r refs)
  then obtain d1 w1 where "clusterRef_step E k h c r data w = (Inr d1, w1)"
    "clusterRefs_loop E k h c refs d1 w1 = (Inr data', w')"
    by (auto split: prod.splits sum.splits)
  with Cons.prems(2) Cons.IH [of d1 w1] show ?case
    using clusterRef_step_other [of E k h c r data w d1 w1 f] by (simp add: image_Un)
qed simp

text \<open>The last reference that writes a file determines its text.\<close>

lemma clusterRefs_loop_last:
  assumes "clusterRefs_loop E k h c (pre @ r # post) data w = (Inr data', w')"
    and "f \<notin> snd ` set (concat (map refFiles post))"
  obtains d1 w1 d2 w2 where "clusterRef_step E k h c r d1 w1 = (Inr d2, w2)"
    "fmlookup data' f = fmlookup d2 f"
  using assms
proof (induction pre arbitrary: data w thesis)
  case Nil
  then obtain d2 w2 where "clusterRef_step E k h c r data w = (Inr d2, w2)"
    and "clusterRefs_loop E k h c post d2 w2 = (Inr data', w')"
    by (auto split: prod.splits sum.splits)
  then show ?case using Nil.prems(1,3) clusterRefs_loop_other by metis
next
  case (Cons x pre)
  then obtain d1 w1 where "clusterRefs_loop E k h c (pre @ r # post) d1 w1 = (Inr data', w')"
    by (auto split: prod.splits sum.splits)
  then show ?case using Cons.IH Cons.prems(1,3) by metis
qed

lemma desiredClusterRefsConfigMap_cases:
  assumes "desiredClusterRefsConfigMap E k w = (Inr d, w')"
  obtains data m h c where "clusterRefs_loop E k h c (kcs_ClusterRefs (kc_Spec k)) fmempty w = (Inr data, w')"
    "hdfsSites_loop (kcs_ClusterRefs (kc_Spec k)) (None, None) = (h, c)"
    "SetControllerReference E k (childMeta (clusterRefsName k) k) = (m, None)"
    "d = \<lparr>cm_Meta = m, cm_Data = Some data\<rparr>"
  using assms
  by (auto simp: desiredClusterRefsConfigMap_def Let_def split: prod.splits sum.splits option.splits)

lemma desired_files:
  assumes "desiredClusterRefsConfigMap E k w = (Inr d, w')"
  shows "fset (fmdom (gm_map (cm_Data d))) = snd ` set (clusterFiles k)"
  using assms
proof (cases rule: desiredClusterRefsConfigMap_cases)
  case (1 data m h c)
  then show ?thesis
    using clusterRefs_loop_files [OF 1(1)] by (simp add: gm_map_def fset_of_list.rep_eq)
qed

section \<open>What the files say\<close>

lemma hdfsSites_loop_append:
  "hdfsSites_loop (xs @ ys) s = hdfsSites_loop ys (hdfsSites_loop xs s)"
  by (induction xs s rule: hdfsSites_loop.induct) auto

lemma hdfsSites_loop_none:
  "(\<And>x. x \<in> set xs \<Longrightarrow> cr_Type x \<noteq> HdfsClusterType) \<Longrightarrow> hdfsSites_loop xs s = s"
  by (induction xs s rule: hdfsSites_loop.induct) auto

lemma hdfsSites_loop_last:
  assumes "cr_Type r = HdfsClusterType" and "\<And>x. x \<in> set post \<Longrightarrow> cr_Type x \<noteq> HdfsClusterType"
  shows "hdfsSites_loop (pre @ r # post) s = (hc_HdfsSite (cr_Hdfs r), hc_CoreSite (cr_Hdfs r))"
  using assms by (simp add: hdfsSites_loop_append hdfsSites_loop_none)

lemma refFiles_file:
  "DefaultSparkConfFile \<in> snd ` set (refFiles r) \<longleftrightarrow> cr_Type r = SparkClusterType"
  "DefaultHiveSiteFile \<in> snd ` set (refFiles r) \<longleftrightarrow> cr_Type r = MetaStoreClusterType"
  by (auto simp: refFiles_def const_defs)

lemma clusterRef_step_spark:
  assumes "clusterRef_step E k h c r d1 w1 = (Inr d2, w2)" and "cr_Type r = SparkClusterType"
    and "\<And>g w. enumerates (fst (range_map E g w)) g"
  obtains w3 where "fmlookup d2 DefaultSparkConfFile = Some (fst (map2String E
    (Some (sparkBaseConf E k r w1 ++\<^sub>f gm_map (sc_SparkDefaults (cr_Spark r)))) w3))"
proof -
  obtain es w3 where es: "range_map E (sc_SparkDefaults (cr_Spark r)) w1 = (es, w3)"
    by (metis surj_pair)
  then have "enumerates es (sc_SparkDefaults (cr_Spark r))"
    using assms(3) by (metis fst_conv)
  then have "copy_entries es (sparkBaseConf E k r w1)
      = sparkBaseConf E k r w1 ++\<^sub>f gm_map (sc_SparkDefaults (cr_Spark r))"
    by (rule copy_entries_enumerates)
  with assms(1,2) es show thesis
    by (intro that [of w3]) (auto simp: clusterRef_step_def Let_def split: if_splits prod.splits)
qed

lemma clusterRef_step_metastore:
  assumes "clusterRef_step E k h c r d1 w1 = (Inr d2, w2)" and "cr_Type r = MetaStoreClusterType"
    and "\<And>g w. enumerates (fst (range_map E g w)) g"
  obtains w3 where "fmlookup d2 DefaultHiveSiteFile = Some (fst (map2Xml E
    (Some (metastoreBaseConf h c ++\<^sub>f gm_map (mc_HiveSite (cr_Metastore r)))) w3))"
proof -
  obtain es w3 where es: "range_map E (mc_HiveSite (cr_Metastore r)) w1 = (es, w3)"
    by (metis surj_pair)
  then have "enumerates es (mc_HiveSite (cr_Metastore r))"
    using assms(3) by (metis fst_conv)
  then have "copy_entries es (metastoreBaseConf h c) = metastoreBaseConf h c ++\<^sub>f gm_map (mc_HiveSite (cr_Metastore r))"
    by (rule copy_entries_enumerates)
  with assms(1,2) es show thesis
    by (intro that [of w3])
       (auto simp: clusterRef_step_def Let_def site_files split: if_splits prod.splits)
qed

lemma gm_get_Some: "fmlookup data f = Some v \<Longrightarrow> gm_get (Some data) f = v"
  by (simp add: go_defs)

text \<open>The keys that the workload's volumes project from a ConfigMap.\<close>

definition projectedKeys :: "string \<Rightarrow> Volume list \<Rightarrow> string set" where
  "projectedKeys configMap vs = (\<Union>v \<in> set vs. case vol_ConfigMap v of
     None \<Rightarrow> {} | Some src \<Rightarrow> if cvs_Name src = configMap then kp_Key ` set (cvs_Items src) else {})"

lemma projectedKeys_Cons:
  "projectedKeys cm (configMapVolume n cm' f # vs) = (if cm' = cm then {f} else {}) \<union> projectedKeys cm vs"
  by (simp add: projectedKeys_def configMapVolume_def)

lemma projectedKeys_map:
  "projectedKeys cm (map (\<lambda>(s, f). configMapVolume (n @ s) cm f) fs) = snd ` set fs"
  by (induction fs) (simp_all add: projectedKeys_Cons split_beta, simp add: projectedKeys_def)

lemma projectedKeys_volumes:
  "projectedKeys (clusterRefsName k) (constructVolumes k) = snd ` set (clusterFiles k)"
  by (simp add: constructVolumes_eq projectedKeys_Cons projectedKeys_map)

lemma desired_result:
  assumes "\<And>m. snd (SetControllerReference E k m) = None"
  shows "fst (desiredClusterRefsConfigMap E k w) = Inl e \<longleftrightarrow>
    e = sparkError \<and> (\<exists>r \<in> set (kcs_ClusterRefs (kc_Spec k)). sparkWithoutDefaults r)"
proof -
  obtain h c where hc: "hdfsSites_loop (kcs_ClusterRefs (kc_Spec k)) (None, None) = (h, c)"
    by (metis surj_pair)
  obtain m where m: "SetControllerReference E k (childMeta (clusterRefsName k) k) = (m, None)"
    using assms by (metis prod.collapse)
  have "fst (desiredClusterRefsConfigMap E k w) = Inl e \<longleftrightarrow>
      fst (clusterRefs_loop E k h c (kcs_ClusterRefs (kc_Spec k)) fmempty w) = Inl e"
    by (auto simp: desiredClusterRefsConfigMap_def Let_def hc m split: prod.splits sum.splits)
  then show ?thesis by (simp add: clusterRefs_loop_result)
qed

lemma refEnv_owner: "snd (SetControllerReference refEnv k m) = None"
  by (simp add: refEnv_def)

lemma minio_builds:
  obtains d w' where "desiredClusterRefsConfigMap refEnv minioCluster w = (Inr d, w')"
proof -
  have "fst (desiredClusterRefsConfigMap refEnv minioCluster w) \<noteq> Inl e" for e
    by (simp add: desired_result refEnv_owner sparkWithoutDefaults_def minioCluster_def minioSpark_def
        minioHdfs_def minioMetastore_def minioDefaults_def sampleRef_def sampleSpark_def const_defs)
  then show thesis using that by (metis old.sum.exhaust prod.collapse)
qed

section \<open>The configuration taken from HDFS\<close>

abbreviation rpcAddressKey :: "string \<Rightarrow> string \<Rightarrow> string" where
  "rpcAddressKey ns nn \<equiv> ''dfs.namenode.rpc-address.'' @ ns @ ''.'' @ nn"

lemma nameNodes_loop_lookup:
  assumes "fmlookup conf DFSNameSpacesConfKey = Some ns"
  shows "fmlookup (nameNodes_loop h vs conf) key =
    (if key \<in> rpcAddressKey ns ` set vs then Some (gm_get h key) else fmlookup conf key)"
  using assms
proof (induction vs arbitrary: conf)
  case (Cons v vs)
  have "fmlookup (fmupd (rpcAddressKey ns v) x conf) DFSNameSpacesConfKey = Some ns" for x
    using Cons.prems by (simp add: const_defs)
  moreover have "fm_get conf DFSNameSpacesConfKey = ns"
    using Cons.prems by (simp add: fm_get_def)
  ultimately show ?case
    using Cons.IH by (auto simp: Let_def)
qed simp

section \<open>The Spark configuration\<close>

lemma fmlookup_add_case:
  "fmlookup (m ++\<^sub>f n) key = (case fmlookup n key of Some v \<Rightarrow> Some v | None \<Rightarrow> fmlookup m key)"
  by (simp add: fmdom_notI fmdomI split: option.split)

lemma sparkBaseConf_lookup:
  "fmlookup (sparkBaseConf E k r w) key =
     (if key = ''spark.master'' then Some (''k8s://https://'' @ Getenv E ''KUBERNETES_SERVICE_HOST'' w @
        '':'' @ Getenv E ''KUBERNETES_SERVICE_PORT'' w)
      else if key = ''spark.kubernetes.container.image'' then
        Some (ic_Repository (sc_SparkImage (cr_Spark r)) @ '':'' @
          (if ic_Tag (sc_SparkImage (cr_Spark r)) = [] then ''latest'' else ic_Tag (sc_SparkImage (cr_Spark r))))
      else if key = ''spark.kubernetes.namespace'' then Some (kc_Namespace k)
      else None)"
  by (simp add: sparkBaseConf_def Let_def)

text \<open>A process environment with the two variables that Kubernetes sets in every pod.\<close>

definition podEnviron :: "string \<Rightarrow> string" where
  "podEnviron v = (if v = ''KUBERNETES_SERVICE_HOST'' then ''10.96.0.1''
     else if v = ''KUBERNETES_SERVICE_PORT'' then ''443'' else [])"

definition podEnv :: "refworld env" where
  "podEnv = refEnv\<lparr>Getenv := \<lambda>v w. podEnviron v\<rparr>"

lemma podEnv_laws:
  "enumerates (fst (range_map podEnv g w)) g" "Getenv podEnv v w = podEnviron v"
  "snd (SetControllerReference podEnv k m) = None" "FormatXML podEnv s p i = s"
  using refEnv_enumerates [of g w] by (simp_all add: podEnv_def refEnv_def)

lemma podEnv_builds:
  obtains d w' where "desiredClusterRefsConfigMap podEnv minioCluster w = (Inr d, w')"
proof -
  have "fst (desiredClusterRefsConfigMap podEnv minioCluster w) \<noteq> Inl e" for e
    by (simp add: desired_result podEnv_laws sparkWithoutDefaults_def minioCluster_def minioSpark_def
        minioHdfs_def minioMetastore_def minioDefaults_def sampleRef_def sampleSpark_def const_defs)
  then show thesis using that by (metis old.sum.exhaust prod.collapse)
qed

lemma conf_map_add:
  "conf_map (Some m) \<Longrightarrow> conf_map (Some n) \<Longrightarrow> conf_map (Some (m ++\<^sub>f n))"
  by (auto simp: conf_map_def gm_map_def intro: fmpred_add)

lemma conf_map_upd:
  "conf_entry (k, v) \<Longrightarrow> conf_map (Some m) \<Longrightarrow> conf_map (Some (fmupd k v m))"
  by (auto simp: conf_map_def gm_map_def)

lemma conf_map_of_list: "list_all conf_entry es \<Longrightarrow> conf_map (Some (fmap_of_list es))"
  by (auto simp: conf_map_def gm_map_def fmpred_iff list_all_iff dest: map_of_SomeD)

section \<open>Properties\<close>

text \<open>
  When owner references can be set, building the cluster-references ConfigMap fails exactly when
  some Spark reference has no \<open>sparkDefaults\<close>.
\<close>

theorem clusterRefs_error_iff:
  assumes "\<And>m. snd (SetControllerReference E k m) = None"
  shows "(\<exists>e. fst (desiredClusterRefsConfigMap E k w) = Inl e) \<longleftrightarrow>
    (\<exists>r \<in> set (kcs_ClusterRefs (kc_Spec k)). cr_Type r = SparkClusterType \<and> sc_SparkDefaults (cr_Spark r) = None)"
  by (simp add: desired_result [OF assms] sparkWithoutDefaults_def)

text \<open>The example of the README has no \<open>sparkDefaults\<close>; the second sample has them.\<close>

theorem clusterRefs_error_iff_witness:
  "(\<exists>e. fst (desiredClusterRefsConfigMap refEnv readmeCluster refInit) = Inl e) \<and>
   (\<nexists>e. fst (desiredClusterRefsConfigMap refEnv minioCluster refInit) = Inl e)"
proof -
  have "snd (SetControllerReference refEnv k m) = None" for k m
    by (simp add: refEnv_def)
  from clusterRefs_error_iff [OF this] show ?thesis
    by (simp add: readmeCluster_def minioCluster_def minioSpark_def minioHdfs_def minioMetastore_def
        minioDefaults_def sampleRef_def sampleSpark_def const_defs)
qed

text \<open>
  The cluster-references ConfigMap holds exactly the files that the workload's volumes project
  from it: no volume refers to a missing key, and no file goes unused.
\<close>

theorem clusterRefs_files_are_projected:
  assumes "desiredClusterRefsConfigMap E k w = (Inr d, w')"
  shows "fset (fmdom (gm_map (cm_Data d))) = projectedKeys (clusterRefsName k) (constructVolumes k)"
  using desired_files [OF assms] by (simp add: projectedKeys_volumes)

theorem clusterRefs_files_are_projected_witness:
  "\<exists>d w'. desiredClusterRefsConfigMap refEnv minioCluster refInit = (Inr d, w') \<and>
     fset (fmdom (gm_map (cm_Data d))) =
       {''spark-defaults.conf'', ''hdfs-site.xml'', ''core-site.xml'', ''hive-site.xml''}"
proof -
  obtain d w' where d: "desiredClusterRefsConfigMap refEnv minioCluster refInit = (Inr d, w')"
    by (rule minio_builds)
  have "snd ` set (clusterFiles minioCluster) =
      {''spark-defaults.conf'', ''hdfs-site.xml'', ''core-site.xml'', ''hive-site.xml''}"
    by (auto simp: minioCluster_def minioSpark_def minioHdfs_def minioMetastore_def sampleRef_def
        refFiles_def const_defs)
  with clusterRefs_files_are_projected [OF d] d show ?thesis by (auto simp: projectedKeys_volumes)
qed

section \<open>The entries of the files\<close>

text \<open>
  The specification of what the metastore configuration takes from the HDFS reference, key by key: the default
  file system, the nameservice, and either the name nodes with one RPC address each and the failover
  provider (high availability) or the single RPC address. No other key appears. A missing RPC
  address becomes the empty string.
\<close>

definition hdfsEntry :: "gomap \<Rightarrow> gomap \<Rightarrow> string \<Rightarrow> string option" where
  "hdfsEntry h c key =
     (if key = ''fs.defaultFS'' then gm_lookup c key
      else case gm_lookup h ''dfs.nameservices'' of None \<Rightarrow> None | Some ns \<Rightarrow>
        if key = ''dfs.nameservices'' then Some ns
        else case gm_lookup h (''dfs.ha.namenodes.'' @ ns) of
          None \<Rightarrow> if key = ''dfs.namenode.rpc-address.'' @ ns then Some (gm_get h key) else None
        | Some nns \<Rightarrow>
            if key = ''dfs.ha.namenodes.'' @ ns then Some nns
            else if key = ''dfs.client.failover.proxy.provider.'' @ ns
            then Some ''org.apache.hadoop.hdfs.server.namenode.ha.ConfiguredFailoverProxyProvider''
            else if key \<in> rpcAddressKey ns ` set (strings_Split nns (CHR '','')) then Some (gm_get h key)
            else None)"

lemma metastoreBaseConf_lookup: "fmlookup (metastoreBaseConf h c) key = hdfsEntry h c key"
proof -
  define c0 where "c0 = (if c \<noteq> None \<and> gm_lookup c FSDefaultFSConfKey \<noteq> None
    then fmupd FSDefaultFSConfKey (gm_get c FSDefaultFSConfKey) fmempty else fmempty)"
  have c0: "fmlookup c0 x = (if x = ''fs.defaultFS'' then gm_lookup c x else None)" for x
    by (cases "gm_lookup c FSDefaultFSConfKey") (auto simp: c0_def const_defs dest: gm_lookup_SomeD)
  show ?thesis
  proof (cases "gm_lookup h ''dfs.nameservices''")
    case None
    then have "metastoreBaseConf h c = c0"
      unfolding metastoreBaseConf_def Let_def c0_def by (simp add: DFSNameSpacesConfKey_def)
    with None show ?thesis using c0 [of key] by (simp only: option.case hdfsEntry_def)
  next
    case (Some ns)
    let ?c1 = "fmupd DFSNameSpacesConfKey ns c0"
    have h: "h \<noteq> None" "gm_get h DFSNameSpacesConfKey = ns" "gm_lookup h DFSNameSpacesConfKey \<noteq> None"
      using Some gm_lookup_SomeD [OF Some] by (simp_all add: DFSNameSpacesConfKey_def)
    have ns: "fm_get ?c1 DFSNameSpacesConfKey = ns" by (simp add: fm_get_def)
    show ?thesis
    proof (cases "gm_lookup h (''dfs.ha.namenodes.'' @ ns)")
      case None
      then have "metastoreBaseConf h c = fmupd (''dfs.namenode.rpc-address.'' @ ns)
          (gm_get h (''dfs.namenode.rpc-address.'' @ ns)) ?c1"
        unfolding metastoreBaseConf_def Let_def c0_def [symmetric] using h ns by simp
      with None Some show ?thesis by (simp add: hdfsEntry_def c0 DFSNameSpacesConfKey_def)
    next
      case (Some nns)
      let ?c2 = "fmupd (''dfs.client.failover.proxy.provider.'' @ ns)
        ''org.apache.hadoop.hdfs.server.namenode.ha.ConfiguredFailoverProxyProvider''
        (fmupd (''dfs.ha.namenodes.'' @ ns) nns ?c1)"
      have "metastoreBaseConf h c = nameNodes_loop h (strings_Split nns (CHR '','')) ?c2"
        unfolding metastoreBaseConf_def Let_def c0_def [symmetric]
        using h ns Some gm_lookup_SomeD [OF Some] by simp
      moreover have "fmlookup ?c2 DFSNameSpacesConfKey = Some ns"
        by (simp add: DFSNameSpacesConfKey_def)
      ultimately show ?thesis
        using Some \<open>gm_lookup h ''dfs.nameservices'' = Some ns\<close>
        by (auto simp: hdfsEntry_def nameNodes_loop_lookup c0 DFSNameSpacesConfKey_def)
    qed
  qed
qed

text \<open>The sites of the last HDFS reference, nil without one.\<close>

definition lastHdfs :: "ClusterRef list \<Rightarrow> gomap \<times> gomap" where
  "lastHdfs refs = (case rev (filter (\<lambda>r. cr_Type r = HdfsClusterType) refs) of
     [] \<Rightarrow> (None, None) | r # _ \<Rightarrow> (hc_HdfsSite (cr_Hdfs r), hc_CoreSite (cr_Hdfs r)))"

lemma hdfsSites_lastHdfs: "hdfsSites_loop refs (None, None) = lastHdfs refs"
proof (induction refs rule: rev_induct)
  case (snoc x xs)
  then show ?case by (simp add: hdfsSites_loop_append lastHdfs_def)
qed (simp add: lastHdfs_def)

text \<open>\<open>hive-site.xml\<close>: the user's \<open>hiveSite\<close> over what is taken from the HDFS reference.\<close>

definition hiveSiteEntry :: "ClusterRef list \<Rightarrow> ClusterRef \<Rightarrow> string \<Rightarrow> string option" where
  "hiveSiteEntry refs r key = (case gm_lookup (mc_HiveSite (cr_Metastore r)) key of Some v \<Rightarrow> Some v
     | None \<Rightarrow> hdfsEntry (fst (lastHdfs refs)) (snd (lastHdfs refs)) key)"

text \<open>
  \<open>spark-defaults.conf\<close>: the user's \<open>sparkDefaults\<close> over the API server's address, the image, with tag
  \<open>latest\<close> when none is given, and the namespace of the custom resource.
\<close>

definition sparkEntry :: "(string \<Rightarrow> string) \<Rightarrow> KyuubiCluster \<Rightarrow> ClusterRef \<Rightarrow> string \<Rightarrow> string option" where
  "sparkEntry environ k r key =
    (case gm_lookup (sc_SparkDefaults (cr_Spark r)) key of Some v \<Rightarrow> Some v
     | None \<Rightarrow>
         if key = ''spark.master'' then Some (''k8s://https://'' @ environ ''KUBERNETES_SERVICE_HOST'' @
           '':'' @ environ ''KUBERNETES_SERVICE_PORT'')
         else if key = ''spark.kubernetes.container.image'' then
           Some (ic_Repository (sc_SparkImage (cr_Spark r)) @ '':'' @
             (if ic_Tag (sc_SparkImage (cr_Spark r)) = [] then ''latest'' else ic_Tag (sc_SparkImage (cr_Spark r))))
         else if key = ''spark.kubernetes.namespace'' then Some (kc_Namespace k)
         else None)"

lemma sparkConf_lookup:
  assumes "\<And>v w. Getenv E v w = environ v"
  shows "fmlookup (sparkBaseConf E k r w ++\<^sub>f gm_map (sc_SparkDefaults (cr_Spark r))) key = sparkEntry environ k r key"
  by (simp only: fmlookup_add_case sparkBaseConf_lookup assms gm_lookup_fun sparkEntry_def)

lemma hiveConf_lookup:
  assumes "lastHdfs refs = (h, c)"
  shows "fmlookup (metastoreBaseConf h c ++\<^sub>f gm_map (mc_HiveSite (cr_Metastore r))) key = hiveSiteEntry refs r key"
  by (simp only: fmlookup_add_case metastoreBaseConf_lookup assms gm_lookup_fun hiveSiteEntry_def fst_conv snd_conv)

text \<open>The built file \<open>spark-defaults.conf\<close> is that of the last Spark reference, \<open>hive-site.xml\<close> that of the last metastore reference.\<close>

lemma spark_defaults_file:
  assumes "desiredClusterRefsConfigMap E k w = (Inr d, w')"
    and "kcs_ClusterRefs (kc_Spec k) = pre @ r # post" and "cr_Type r = SparkClusterType"
    and "\<forall>x \<in> set post. cr_Type x \<noteq> SparkClusterType"
    and "\<And>g w. enumerates (fst (range_map E g w)) g"
    and "\<And>v w. Getenv E v w = environ v"
    and "\<And>key v. sparkEntry environ k r key = Some v \<Longrightarrow> conf_entry (key, v)"
  shows "map_of (readConf (gm_get (cm_Data d) ''spark-defaults.conf'')) = sparkEntry environ k r"
  using assms(1)
proof (cases rule: desiredClusterRefsConfigMap_cases)
  case (1 data m h c)
  have "DefaultSparkConfFile \<notin> snd ` set (concat (map refFiles post))"
    using assms(4) refFiles_file(1) by force
  then obtain d1 w1 d2 w2 where s: "clusterRef_step E k h c r d1 w1 = (Inr d2, w2)"
    and f: "fmlookup data DefaultSparkConfFile = fmlookup d2 DefaultSparkConfFile"
    using clusterRefs_loop_last 1(1) assms(2) by metis
  obtain w3 where "fmlookup d2 DefaultSparkConfFile = Some (fst (map2String E
      (Some (sparkBaseConf E k r w1 ++\<^sub>f gm_map (sc_SparkDefaults (cr_Spark r)))) w3))"
    using clusterRef_step_spark [OF s assms(3,5)] by metis
  moreover have "conf_map (Some (sparkBaseConf E k r w1 ++\<^sub>f gm_map (sc_SparkDefaults (cr_Spark r))))" for w1
    using assms(7) sparkConf_lookup [OF assms(6), of k r w1] by (auto simp: conf_map_def gm_map_def fmpred_iff)
  ultimately have "fmap_of_list (readConf (gm_get (cm_Data d) DefaultSparkConfFile))
      = sparkBaseConf E k r w1 ++\<^sub>f gm_map (sc_SparkDefaults (cr_Spark r))"
    using 1(4) f map2String_read [OF assms(5)] by (simp add: gm_get_Some gm_map_def)
  then have "map_of (readConf (gm_get (cm_Data d) DefaultSparkConfFile)) key = sparkEntry environ k r key" for key
    using sparkConf_lookup [OF assms(6), of k r w1 key] by (simp only: flip: fmlookup_of_list)
  then show ?thesis by (simp add: DefaultSparkConfFile_def fun_eq_iff)
qed

lemma hive_site_file:
  assumes "desiredClusterRefsConfigMap E k w = (Inr d, w')"
    and "kcs_ClusterRefs (kc_Spec k) = pre @ r # post" and "cr_Type r = MetaStoreClusterType"
    and "\<forall>x \<in> set post. cr_Type x \<noteq> MetaStoreClusterType"
    and "\<And>g w. enumerates (fst (range_map E g w)) g"
    and "\<And>key v. hiveSiteEntry (kcs_ClusterRefs (kc_Spec k)) r key = Some v \<Longrightarrow> xml_entry (key, v)"
  shows "\<exists>doc es. gm_get (cm_Data d) ''hive-site.xml'' = FormatXML E doc [] ''  '' \<and>
    readProperties doc = Some es \<and> map_of es = hiveSiteEntry (kcs_ClusterRefs (kc_Spec k)) r"
  using assms(1)
proof (cases rule: desiredClusterRefsConfigMap_cases)
  case (1 data m h c)
  have "DefaultHiveSiteFile \<notin> snd ` set (concat (map refFiles post))"
    using assms(4) refFiles_file(2) by force
  then obtain d1 w1 d2 w2 where s: "clusterRef_step E k h c r d1 w1 = (Inr d2, w2)"
    and f: "fmlookup data DefaultHiveSiteFile = fmlookup d2 DefaultHiveSiteFile"
    using clusterRefs_loop_last 1(1) assms(2) by metis
  let ?m = "Some (metastoreBaseConf h c ++\<^sub>f gm_map (mc_HiveSite (cr_Metastore r)))"
  obtain w3 where "fmlookup d2 DefaultHiveSiteFile = Some (fst (map2Xml E ?m w3))"
    using clusterRef_step_metastore [OF s assms(3,5)] by metis
  then have "gm_get (cm_Data d) ''hive-site.xml'' = fst (map2Xml E ?m w3)"
    using 1(4) f by (simp add: gm_get_Some site_files)
  moreover have sites: "lastHdfs (kcs_ClusterRefs (kc_Spec k)) = (h, c)" using 1(2) by (simp add: hdfsSites_lastHdfs)
  have "fmpred (\<lambda>k v. xml_entry (k, v)) (gm_map ?m)"
    using assms(6) hiveConf_lookup [OF sites, of r] by (auto simp: gm_map_def fmpred_iff)
  then obtain es doc where "fst (map2Xml E ?m w3) = FormatXML E doc [] ''  ''" "readProperties doc = Some es"
    "fmap_of_list es = gm_map ?m"
    using map2Xml_read [OF assms(5), of ?m w3] by (auto simp: map_option_case split: option.splits)
  moreover from this(3) have "map_of es = hiveSiteEntry (kcs_ClusterRefs (kc_Spec k)) r"
    using hiveConf_lookup [OF sites, of r] by (simp add: fun_eq_iff gm_map_def flip: fmlookup_of_list)
  ultimately show ?thesis by metis
qed

end
