(* ===== verification/Reconciler.thy ===== *)
theory Reconciler
  imports Cluster_Refs
begin

text \<open>
  The reconciliation of \<open>kyuubicluster_controller.go\<close>: one definition per \<open>createOrUpdate\<close> method,
  the status update, the composition of the stages in \<open>createOrUpdateClusters\<close> and the entry point
  \<open>Reconcile\<close>. A stage returns its error (nil is \<open>None\<close>) and the next world. The two stages that
  poll for a ConfigMap after creating it may never return; their result is an option and \<open>None\<close>
  means that the loop runs forever. Log lines are not modelled.
\<close>

section \<open>Stages that create an object when it is absent\<close>

definition createOrUpdateServiceAccount :: "'w env \<Rightarrow> KyuubiCluster \<Rightarrow> 'w \<Rightarrow> GoError option \<times> 'w" where
  [stage_defs]: "createOrUpdateServiceAccount E kyuubi w =
     (let desiredKyuubiSa = fst (constructServiceAccount E kyuubi)
      in case Get (saClient E) (metaKey (sa_Meta desiredKyuubiSa)) zeroServiceAccount w of
           ((existingKyuubeSa, err), w1) \<Rightarrow>
             if err \<noteq> None \<and> \<not> IsNotFound err then (err, w1)
             else if IsNotFound err then
               (case Create (saClient E) desiredKyuubiSa w1 of
                  ((_, err), w2) \<Rightarrow> if err \<noteq> None then (err, w2) else (None, w2))
             else (None, w1))"

definition createOrUpdateRole :: "'w env \<Rightarrow> KyuubiCluster \<Rightarrow> 'w \<Rightarrow> GoError option \<times> 'w" where
  [stage_defs]: "createOrUpdateRole E kyuubi w =
     (let desiredKyuubiRole = fst (constructRole E kyuubi)
      in case Get (roleClient E) (metaKey (ro_Meta desiredKyuubiRole)) zeroRole w of
           ((existingKyuubeRole, err), w1) \<Rightarrow>
             if err \<noteq> None \<and> \<not> IsNotFound err then (err, w1)
             else if IsNotFound err then
               (case Create (roleClient E) desiredKyuubiRole w1 of
                  ((_, err), w2) \<Rightarrow> if err \<noteq> None then (err, w2) else (None, w2))
             else (None, w1))"

definition createOrUpdateRoleBinding :: "'w env \<Rightarrow> KyuubiCluster \<Rightarrow> 'w \<Rightarrow> GoError option \<times> 'w" where
  [stage_defs]: "createOrUpdateRoleBinding E kyuubi w =
     (let desiredKyuubiRoleBinding = fst (constructRoleBinding E kyuubi)
      in case Get (rbClient E) (metaKey (rb_Meta desiredKyuubiRoleBinding)) zeroRoleBinding w of
           ((existingKyuubiRoleBinding, err), w1) \<Rightarrow>
             if err \<noteq> None \<and> \<not> IsNotFound err then (err, w1)
             else if IsNotFound err then
               (case Create (rbClient E) desiredKyuubiRoleBinding w1 of
                  ((_, err), w2) \<Rightarrow> if err \<noteq> None then (err, w2) else (None, w2))
             else (None, w1))"

definition createOrUpdateK8sResources :: "'w env \<Rightarrow> KyuubiCluster \<Rightarrow> 'w \<Rightarrow> GoError option \<times> 'w" where
  "createOrUpdateK8sResources E kyuubi w =
     (case createOrUpdateServiceAccount E kyuubi w of
        (err, w1) \<Rightarrow>
          if err \<noteq> None then (err, w1)
          else (case createOrUpdateRole E kyuubi w1 of
            (err, w2) \<Rightarrow>
              if err \<noteq> None then (err, w2)
              else (case createOrUpdateRoleBinding E kyuubi w2 of
                (err, w3) \<Rightarrow> if err \<noteq> None then (err, w3) else (None, w3))))"

text \<open>
  The Go method returns a service and an error; the caller looks at the service only when the error
  is nil, so the result is a sum. After a create the method returns the object that the failed
  \<open>Get\<close> was given, not the created one.
\<close>

definition createOrUpdateService ::
    "'w env \<Rightarrow> KyuubiCluster \<Rightarrow> 'w \<Rightarrow> (GoError + Service) \<times> 'w" where
  "createOrUpdateService E kyuubi w =
     (let desiredService = fst (contructDesiredService E kyuubi)
      in case Get (svcClient E) (metaKey (svc_Meta desiredService)) zeroService w of
           ((existingService, err), w1) \<Rightarrow>
             if err \<noteq> None \<and> \<not> IsNotFound err then (Inl (the err), w1)
             else if IsNotFound err then
               (case Create (svcClient E) desiredService w1 of
                  ((_, err), w2) \<Rightarrow>
                    if err \<noteq> None then (Inl (the err), w2)
                    else (Inr existingService, w2))
             else (Inr existingService, w1))"

section \<open>The workload\<close>

definition createOrUpdateKyuubi :: "'w env \<Rightarrow> KyuubiCluster \<Rightarrow> 'w \<Rightarrow> GoError option \<times> 'w" where
  "createOrUpdateKyuubi E kyuubi w =
     (let desiredKyuubeWorkload = fst (constructDesiredKyuubiWorkload E kyuubi)
      in case Get (stsClient E) (metaKey (sts_Meta desiredKyuubeWorkload)) zeroStatefulSet w of
           ((existingKyuubeWorkload, err), w1) \<Rightarrow>
             if err \<noteq> None \<and> \<not> IsNotFound err then (err, w1)
             else if IsNotFound err then
               (case Create (stsClient E) desiredKyuubeWorkload w1 of
                  ((_, err), w2) \<Rightarrow> if err \<noteq> None then (err, w2) else (None, w2))
             else if sts_Spec existingKyuubeWorkload \<noteq> sts_Spec desiredKyuubeWorkload then
               (case Update (stsClient E) desiredKyuubeWorkload w1 of
                  ((_, err), w2) \<Rightarrow> if err \<noteq> None then (err, w2) else (None, w2))
             else (None, w1))"

section \<open>ConfigMaps\<close>

text \<open>The polling loop \<open>for { Get; if not found sleep 100 ms; else break }\<close>.\<close>

partial_function (option) waitForConfigMap ::
    "'w env \<Rightarrow> NamespacedName \<Rightarrow> 'w \<Rightarrow> (GoError option \<times> 'w) option" where
  "waitForConfigMap E key w =
     (case Get (cmClient E) key zeroConfigMap w of
        ((existingConfigMap, err), w1) \<Rightarrow>
          if err \<noteq> None \<and> \<not> IsNotFound err then Some (err, w1)
          else if IsNotFound err then waitForConfigMap E key (Sleep E 100 w1)
          else Some (None, w1))"

definition createOrUpdateClusterRefsConfigmap ::
    "'w env \<Rightarrow> KyuubiCluster \<Rightarrow> 'w \<Rightarrow> (GoError option \<times> 'w) option" where
  "createOrUpdateClusterRefsConfigmap E kyuubi w =
     (case desiredClusterRefsConfigMap E kyuubi w of
        (Inl err, w1) \<Rightarrow> Some (Some err, w1)
      | (Inr desiredConfigMap, w1) \<Rightarrow>
          (case Get (cmClient E) (metaKey (cm_Meta desiredConfigMap)) zeroConfigMap w1 of
             ((existingConfigMap, err), w2) \<Rightarrow>
               if err \<noteq> None \<and> \<not> IsNotFound err then Some (err, w2)
               else if IsNotFound err then
                 (case Create (cmClient E) desiredConfigMap w2 of
                    ((desiredConfigMap', err), w3) \<Rightarrow>
                      if err \<noteq> None then Some (err, w3)
                      else waitForConfigMap E (metaKey (cm_Meta desiredConfigMap')) w3)
               else
                 (case compareConf E (cm_Data desiredConfigMap) (cm_Data existingConfigMap) w2 of
                    (same, w3) \<Rightarrow>
                      if \<not> same then
                        (case Update (cmClient E) (existingConfigMap\<lparr>cm_Data := cm_Data desiredConfigMap\<rparr>) w3 of
                           ((_, err), w4) \<Rightarrow> if err \<noteq> None then Some (err, w4) else Some (None, w4))
                      else Some (None, w3))))"

definition createOrUpdateKyuubiConfigmap ::
    "'w env \<Rightarrow> KyuubiCluster \<Rightarrow> 'w \<Rightarrow> (GoError option \<times> 'w) option" where
  "createOrUpdateKyuubiConfigmap E kyuubi w =
     (case constructKyuubiConfigMap E kyuubi w of
        ((desiredConfigMap, _), w1) \<Rightarrow>
          (case Get (cmClient E) (metaKey (cm_Meta desiredConfigMap)) zeroConfigMap w1 of
             ((existingConfigMap, err), w2) \<Rightarrow>
               if err \<noteq> None \<and> \<not> IsNotFound err then Some (err, w2)
               else if IsNotFound err then
                 (case Create (cmClient E) desiredConfigMap w2 of
                    ((desiredConfigMap', err), w3) \<Rightarrow>
                      if err \<noteq> None then Some (err, w3)
                      else waitForConfigMap E (metaKey (cm_Meta desiredConfigMap')) w3)
               else
                 (case compareConf E (cm_Data desiredConfigMap) (cm_Data existingConfigMap) w2 of
                    (same, w3) \<Rightarrow>
                      if \<not> same then
                        (case Update (cmClient E) (existingConfigMap\<lparr>cm_Data := cm_Data desiredConfigMap\<rparr>) w3 of
                           ((_, err), w4) \<Rightarrow> if err \<noteq> None then Some (err, w4) else Some (None, w4))
                      else Some (None, w3))))"

section \<open>Status\<close>

fun exposedInfos_loop :: "KyuubiCluster \<Rightarrow> Service \<Rightarrow> nat \<Rightarrow> ServicePort list \<Rightarrow> ExposedInfo list \<Rightarrow> ExposedInfo list" where
  "exposedInfos_loop kyuubi kyuubiService k [] exposedInfos = exposedInfos"
| "exposedInfos_loop kyuubi kyuubiService k (v # vs) exposedInfos =
     (let exposedInfo =
            \<lparr>ei_Name = kc_Name kyuubi @ ''-'' @ strconv_Itoa k,
             ei_ExposedType = sp_Name v,
             ei_ServiceName = om_Name (svc_Meta kyuubiService),
             ei_ServicePort = v\<rparr>
      in exposedInfos_loop kyuubi kyuubiService (Suc k) vs (exposedInfos @ [exposedInfo]))"

definition updateKyuubiClusterStatus ::
    "'w env \<Rightarrow> KyuubiCluster \<Rightarrow> Service \<Rightarrow> 'w \<Rightarrow> GoError option \<times> 'w" where
  "updateKyuubiClusterStatus E kyuubi kyuubiService w =
     (let exposedInfos = exposedInfos_loop kyuubi kyuubiService 0 (svc_Ports kyuubiService) [];
          status = kc_Status kyuubi
      in if st_ExposedInfos status = None \<or> Some exposedInfos \<noteq> st_ExposedInfos status then
           (case (if st_ExposedInfos status = None then Now E w else (st_CreationTime status, w)) of
              (creationTime, w1) \<Rightarrow>
                (case Now E w1 of
                   (updateTime, w2) \<Rightarrow>
                     (let desiredKyuubiStatus =
                            \<lparr>st_ExposedInfos = Some exposedInfos, st_CreationTime = creationTime,
                             st_UpdateTime = updateTime\<rparr>
                      in case StatusUpdate E (kyuubi\<lparr>kc_Status := desiredKyuubiStatus\<rparr>) w2 of
                           ((_, err), w3) \<Rightarrow> if err \<noteq> None then (err, w3) else (None, w3))))
         else (None, w))"

section \<open>The whole reconciliation\<close>

definition createOrUpdateClusters :: "'w env \<Rightarrow> KyuubiCluster \<Rightarrow> 'w \<Rightarrow> (GoError option \<times> 'w) option" where
  "createOrUpdateClusters E kyuubi w = do {
     (err, w1) \<leftarrow> Some (createOrUpdateK8sResources E kyuubi w);
     if err \<noteq> None then Some (err, w1) else do {
     (err, w2) \<leftarrow> createOrUpdateKyuubiConfigmap E kyuubi w1;
     if err \<noteq> None then Some (err, w2) else do {
     (err, w3) \<leftarrow> createOrUpdateClusterRefsConfigmap E kyuubi w2;
     if err \<noteq> None then Some (err, w3) else do {
     (err, w4) \<leftarrow> Some (createOrUpdateKyuubi E kyuubi w3);
     if err \<noteq> None then Some (err, w4) else do {
     (r, w5) \<leftarrow> Some (createOrUpdateService E kyuubi w4);
     case r of
       Inl err \<Rightarrow> Some (Some err, w5)
     | Inr existingService \<Rightarrow> do {
         (err, w6) \<leftarrow> Some (updateKyuubiClusterStatus E kyuubi existingService w5);
         if err \<noteq> None then Some (err, w6) else Some (None, w6) }}}}}}"

record Result =
  res_Requeue :: bool
  res_RequeueAfter :: int

definition zeroResult :: Result where
  "zeroResult = \<lparr>res_Requeue = False, res_RequeueAfter = 0\<rparr>"

text \<open>
  A call of \<open>Reconcile\<close> returns a result and an error, or panics (an index out of range).
\<close>

datatype outcome = Returned Result "GoError option" | Panicked

definition Reconcile :: "'w env \<Rightarrow> NamespacedName \<Rightarrow> 'w \<Rightarrow> (outcome \<times> 'w) option" where
  "Reconcile E req w =
     (case Get (kyuubiClient E) req zeroKyuubiCluster w of
        ((kyuubi, err), w1) \<Rightarrow>
          if err \<noteq> None then Some (Returned zeroResult err, w1)
          else
            (let requestArray = strings_Split (SprintRequest E req) (CHR ''/'')
             in if length requestArray \<le> 1 then Some (Panicked, w1)
                else
                  (let requestName = requestArray ! 1
                   in if requestName = kc_Name kyuubi then do {
                        (err, w2) \<leftarrow> createOrUpdateClusters E kyuubi w1;
                        if err \<noteq> None then Some (Returned zeroResult err, w2)
                        else Some (Returned zeroResult None, w2) }
                      else Some (Returned zeroResult None, w1))))"

end
