(* ===== verification/Stage_Contracts.thy ===== *)
theory Stage_Contracts
  imports Reconciler
begin

text \<open>
  The contract of a reconciliation stage and its proof for every stage of the controller. The four
  create-if-absent stages are instances of one routine, \<open>ensureCreated\<close>, and the two ConfigMap
  stages of another, \<open>ensureConfigMap\<close>; each is analysed once against the client contracts of
  \<open>Kube_Api\<close>. The locale \<open>reconcile_stage\<close> says what the composition relies on: a stage changes
  only the objects in its footprint and keeps the store well-formed.
\<close>

section \<open>The shared routines\<close>

definition ensureCreated :: "('o, 'w) client \<Rightarrow> ('o \<Rightarrow> ObjectMeta) \<Rightarrow> 'o \<Rightarrow> 'o \<Rightarrow> 'w \<Rightarrow> GoError option \<times> 'w" where
  "ensureCreated cl meta zero desired w =
     (case Get cl (metaKey (meta desired)) zero w of
        ((x, err), w1) \<Rightarrow>
          if err \<noteq> None \<and> \<not> IsNotFound err then (err, w1)
          else if IsNotFound err then (case Create cl desired w1 of ((y, err), w2) \<Rightarrow> (err, w2))
          else (None, w1))"

definition ensureConfigMap :: "'w env \<Rightarrow> ConfigMap \<Rightarrow> 'w \<Rightarrow> (GoError option \<times> 'w) option" where
  "ensureConfigMap E desired w =
     (case Get (cmClient E) (metaKey (cm_Meta desired)) zeroConfigMap w of
        ((x, err), w1) \<Rightarrow>
          if err \<noteq> None \<and> \<not> IsNotFound err then Some (err, w1)
          else if IsNotFound err then
            (case Create (cmClient E) desired w1 of
               ((y, err), w2) \<Rightarrow>
                 if err \<noteq> None then Some (err, w2) else waitForConfigMap E (metaKey (cm_Meta y)) w2)
          else
            (case compareConf E (cm_Data desired) (cm_Data x) w1 of
               (same, w2) \<Rightarrow>
                 if same then Some (None, w2)
                 else (case Update (cmClient E) (x\<lparr>cm_Data := cm_Data desired\<rparr>) w2 of
                         ((_, err), w3) \<Rightarrow> Some (err, w3))))"

lemma if_None_collapse: "(if e \<noteq> None then (e, w) else (None, w)) = (e, w)"
  by simp

lemma createOrUpdateServiceAccount_eq:
  "createOrUpdateServiceAccount E k =
     ensureCreated (saClient E) sa_Meta zeroServiceAccount (fst (constructServiceAccount E k))"
  by (rule ext) (simp add: createOrUpdateServiceAccount_def ensureCreated_def if_None_collapse Let_def split_beta)

lemma createOrUpdateRole_eq:
  "createOrUpdateRole E k = ensureCreated (roleClient E) ro_Meta zeroRole (fst (constructRole E k))"
  by (rule ext) (simp add: createOrUpdateRole_def ensureCreated_def if_None_collapse Let_def split_beta)

lemma createOrUpdateRoleBinding_eq:
  "createOrUpdateRoleBinding E k =
     ensureCreated (rbClient E) rb_Meta zeroRoleBinding (fst (constructRoleBinding E k))"
  by (rule ext) (simp add: createOrUpdateRoleBinding_def ensureCreated_def if_None_collapse Let_def split_beta)

lemma createOrUpdateService_eq:
  "apfst (case_sum Some (\<lambda>_. None)) (createOrUpdateService E k w) =
     ensureCreated (svcClient E) svc_Meta zeroService (fst (contructDesiredService E k)) w"
  by (auto simp: createOrUpdateService_def ensureCreated_def Let_def split_beta)

lemma createOrUpdateKyuubiConfigmap_eq:
  "createOrUpdateKyuubiConfigmap E k w =
     (case constructKyuubiConfigMap E k w of ((d, _), w1) \<Rightarrow> ensureConfigMap E d w1)"
  by (simp add: createOrUpdateKyuubiConfigmap_def ensureConfigMap_def split_beta cong: if_cong)

lemma createOrUpdateClusterRefsConfigmap_eq:
  "createOrUpdateClusterRefsConfigmap E k w =
     (case desiredClusterRefsConfigMap E k w of
        (Inl err, w1) \<Rightarrow> Some (Some err, w1) | (Inr d, w1) \<Rightarrow> ensureConfigMap E d w1)"
  by (simp add: createOrUpdateClusterRefsConfigmap_def ensureConfigMap_def split_beta
      split: prod.split sum.split cong: if_cong)

section \<open>Single writes as changes of the store\<close>

lemmas touches_unfold = touches_def Image_singleton created_only_new changed_only_upd

lemma touches_create:
  "serviceAccounts s k = None \<Longrightarrow> touches {(KServiceAccount, k)} s (serviceAccounts_update (\<lambda>m. m(k \<mapsto> a)) s)"
  "roles s k = None \<Longrightarrow> touches {(KRole, k)} s (roles_update (\<lambda>m. m(k \<mapsto> r)) s)"
  "roleBindings s k = None \<Longrightarrow> touches {(KRoleBinding, k)} s (roleBindings_update (\<lambda>m. m(k \<mapsto> b)) s)"
  "services s k = None \<Longrightarrow> touches {(KService, k)} s (services_update (\<lambda>m. m(k \<mapsto> v)) s)"
  by (simp_all add: touches_unfold)

lemma touches_change:
  "touches {(KConfigMap, k)} s (configMaps_update (\<lambda>m. m(k \<mapsto> c)) s)"
  "touches {(KStatefulSet, k)} s (statefulSets_update (\<lambda>m. m(k \<mapsto> t)) s)"
  by (simp_all add: touches_unfold)

lemma touches_status:
  "kyuubiClusters s k = Some old \<Longrightarrow> kc_Spec x = kc_Spec old \<Longrightarrow>
     touches {(KKyuubiCluster, k)} s (kyuubiClusters_update (\<lambda>m. m(k \<mapsto> x)) s)"
  by (simp add: touches_unfold)

lemma wf_store_upd:
  "wf_store s \<Longrightarrow> metaKey (kc_Meta y) = k \<Longrightarrow> wf_store (kyuubiClusters_update (\<lambda>m. m(k \<mapsto> y)) s)"
  "wf_store s \<Longrightarrow> metaKey (sa_Meta a) = k \<Longrightarrow> wf_store (serviceAccounts_update (\<lambda>m. m(k \<mapsto> a)) s)"
  "wf_store s \<Longrightarrow> metaKey (ro_Meta r) = k \<Longrightarrow> wf_store (roles_update (\<lambda>m. m(k \<mapsto> r)) s)"
  "wf_store s \<Longrightarrow> metaKey (rb_Meta b) = k \<Longrightarrow> wf_store (roleBindings_update (\<lambda>m. m(k \<mapsto> b)) s)"
  "wf_store s \<Longrightarrow> metaKey (cm_Meta c) = k \<Longrightarrow> wf_store (configMaps_update (\<lambda>m. m(k \<mapsto> c)) s)"
  "wf_store s \<Longrightarrow> metaKey (sts_Meta t) = k \<Longrightarrow> wf_store (statefulSets_update (\<lambda>m. m(k \<mapsto> t)) s)"
  "wf_store s \<Longrightarrow> metaKey (svc_Meta v) = k \<Longrightarrow> wf_store (services_update (\<lambda>m. m(k \<mapsto> v)) s)"
  by (simp_all add: wf_store_def wf_map_upd)

section \<open>ensureCreated against the client contracts\<close>

context typed_client
begin

lemma ensureCreated_store:
  assumes "ensureCreated cl meta z d w = (e, w')"
  shows "store w' = store w \<or>
    sel (store w) (metaKey (meta d)) = None \<and>
    (\<exists>w1. store w' = upd (\<lambda>m. m(metaKey (meta d) \<mapsto> admit w1 None d)) (store w))"
proof -
  obtain x err w1 where g: "Get cl (metaKey (meta d)) z w = ((x, err), w1)"
    by (metis surj_pair)
  then have s1: "store w1 = store w" by (rule get_store)
  obtain y err2 w2 where c: "Create cl d w1 = ((y, err2), w2)"
    by (metis surj_pair)
  have "store w2 = store w1 \<or> sel (store w1) (metaKey (meta d)) = None \<and>
      store w2 = upd (\<lambda>m. m(metaKey (meta d) \<mapsto> admit w1 None d)) (store w1)"
    using c by (cases rule: create_effect) auto
  then show ?thesis
    using assms g c s1 by (auto simp: ensureCreated_def split: if_splits)
qed

end

context fresh_client
begin

lemma ensureCreated_exists:
  assumes "ensureCreated cl meta z d w = (None, w')"
  shows "metaKey (meta d) \<in> dom (sel (store w'))"
proof -
  obtain x err w1 where g: "Get cl (metaKey (meta d)) z w = ((x, err), w1)"
    by (metis surj_pair)
  show ?thesis
  proof (cases err)
    case None
    with g assms have "w' = w1" by (simp add: ensureCreated_def)
    with g None get_fresh [of _ z w x w1] get_store [OF g] show ?thesis by auto
  next
    case (Some e)
    with g assms obtain y where "Create cl d w1 = ((y, None), w')"
      by (auto simp: ensureCreated_def split: if_splits prod.splits)
    then show ?thesis using create_ok [of d w1 y w'] by (auto simp: sel_upd)
  qed
qed

end

context reliable_client
begin

lemma ensureCreated_succeeds: "fst (ensureCreated cl meta z d w) = None"
proof -
  obtain x err w1 where g: "Get cl (metaKey (meta d)) z w = ((x, err), w1)"
    by (metis surj_pair)
  show ?thesis
  proof (cases err)
    case None
    with g show ?thesis by (simp add: ensureCreated_def)
  next
    case (Some e)
    with g have nf: "IsNotFound err" using get_answers by blast
    with g have "sel (store w1) (metaKey (meta d)) = None"
      using get_absent get_store by (metis IsNotFound_iff)
    then show ?thesis
      using g nf create_succeeds [of w1 d] by (auto simp: ensureCreated_def)
  qed
qed

end

section \<open>ensureConfigMap against the API contracts\<close>

context kube_api
begin

lemma compareConf_store: "compareConf E a b w = (r, w') \<Longrightarrow> store w' = store w"
  using range_store by (fastforce simp: compareConf_def split: if_splits prod.splits)

lemma compareConf_api: "compareConf E a b w = (r, w') \<Longrightarrow> r \<longleftrightarrow> gm_map a = gm_map b"
  using compareConf_correct [of E a w b] range_enumerates [of a w]
  by (metis fst_conv prod.collapse)

lemma waitForConfigMap_store:
  assumes ret: "waitForConfigMap E key w = Some (e, w')"
  shows "store w' = store w"
proof -
  have "store (snd r) = store w" if "waitForConfigMap E key w = Some r" for r
  proof (rule waitForConfigMap.raw_induct [where P = "\<lambda>F key w r. F = E \<longrightarrow> store (snd r) = store w",
        OF _ that, THEN mp, OF _ refl], rule impI)
    fix wait F key w r
    assume IH: "\<And>F key w r. wait F key w = Some r \<Longrightarrow> F = E \<longrightarrow> store (snd r) = store w"
      and eq: "(case Get (cmClient F) key zeroConfigMap w of
        ((existingConfigMap, err), w1) \<Rightarrow>
          if err \<noteq> None \<and> \<not> IsNotFound err then Some (err, w1)
          else if IsNotFound err then wait F key (Sleep F 100 w1)
          else Some (None, w1)) = Some r"
      and F: "F = E"
    obtain x err w1 where g: "Get (cmClient E) key zeroConfigMap w = ((x, err), w1)"
      by (metis surj_pair)
    with eq F IH [of E key "Sleep E 100 w1" r] show "store (snd r) = store w"
      using cm.get_store [OF g] by (auto simp: sleep_store split: if_splits)
  qed
  from this [OF ret] show ?thesis by simp
qed

lemma ensureConfigMap_store:
  assumes wf: "wf_store (store w)" and ret: "ensureConfigMap E d w = Some (e, w')"
  shows "store w' = store w \<or>
    (\<exists>c. cm_Data c = cm_Data d \<and> metaKey (cm_Meta c) = metaKey (cm_Meta d) \<and>
       store w' = configMaps_update (\<lambda>m. m(metaKey (cm_Meta d) \<mapsto> c)) (store w))"
proof -
  obtain x err w1 where g: "Get (cmClient E) (metaKey (cm_Meta d)) zeroConfigMap w = ((x, err), w1)"
    by (metis surj_pair)
  have s1: "store w1 = store w" using g by (rule cm.get_store)
  consider (fail) "err \<noteq> None" "\<not> IsNotFound err" | (absent) "IsNotFound err" | (found) "err = None"
    by auto
  then show ?thesis
  proof cases
    case fail
    with ret g s1 show ?thesis by (simp add: ensureConfigMap_def)
  next
    case absent
    obtain y err2 w2 where c: "Create (cmClient E) d w1 = ((y, err2), w2)"
      by (metis surj_pair)
    show ?thesis
    proof (cases err2)
      case None
      with ret g absent c have "store w' = store w2"
        by (auto simp: ensureConfigMap_def intro: waitForConfigMap_store)
      moreover have "store w2 = configMaps_update (\<lambda>m. m(metaKey (cm_Meta d) \<mapsto> adm_cm A w1 None d)) (store w1)"
        using cm.create_ok c None by blast
      ultimately show ?thesis using s1 cm.admit_key admit_data by metis
    next
      case (Some err3)
      with ret g absent c have "w' = w2" by (auto simp: ensureConfigMap_def)
      with c s1 cm.admit_key admit_data show ?thesis by (cases rule: cm.create_effect) metis+
    qed
  next
    case found
    obtain same w2 where cc: "compareConf E (cm_Data d) (cm_Data x) w1 = (same, w2)"
      by (metis surj_pair)
    have s2: "store w2 = store w" using compareConf_store [OF cc] s1 by simp
    have key: "metaKey (cm_Meta x) = metaKey (cm_Meta d)"
      using cm.get_key g found wf by (auto simp: wf_store_def)
    let ?x = "x\<lparr>cm_Data := cm_Data d\<rparr>"
    obtain y err2 w3 where u: "Update (cmClient E) ?x w2 = ((y, err2), w3)"
      by (metis surj_pair)
    have w': "w' = (if same then w2 else w3)"
      using ret g found cc u by (auto simp: ensureConfigMap_def split: if_splits)
    from u show ?thesis
    proof (cases rule: cm.update_effect)
      case (applied old)
      then have "store w3 = configMaps_update
          (\<lambda>m. m(metaKey (cm_Meta d) \<mapsto> adm_cm A w2 (Some old) ?x)) (store w2)"
        using key by auto
      moreover have "metaKey (cm_Meta (adm_cm A w2 (Some old) ?x)) = metaKey (cm_Meta d)"
        "cm_Data (adm_cm A w2 (Some old) ?x) = cm_Data d"
        using cm.admit_key [of w2 "Some old" ?x] admit_data [of w2 "Some old" ?x] key by simp_all
      ultimately show ?thesis using w' s2 by (cases same) auto
    next
      case failed
      then show ?thesis using w' s2 by (cases same) auto
    qed
  qed
qed

end

context fresh_api
begin

text \<open>With reads that agree with the store, the polling loop stops at its first read.\<close>

lemma waitForConfigMap_present:
  assumes "configMaps (store w) key = Some c"
  obtains e w' where "waitForConfigMap E key w = Some (e, w')" "store w' = store w"
proof -
  obtain x err w1 where g: "Get (cmClient E) key zeroConfigMap w = ((x, err), w1)"
    by (metis surj_pair)
  have "\<not> IsNotFound err"
    using g assms cm.get_absent by (fastforce simp: IsNotFound_iff)
  with g have "waitForConfigMap E key w = Some (err, w1)"
    by (subst waitForConfigMap.simps) auto
  then show thesis using cm.get_store [OF g] by (rule that)
qed

lemma ensureConfigMap_returns: "ensureConfigMap E d w \<noteq> None"
proof -
  obtain x err w1 where g: "Get (cmClient E) (metaKey (cm_Meta d)) zeroConfigMap w = ((x, err), w1)"
    by (metis surj_pair)
  obtain y err2 w2 where c: "Create (cmClient E) d w1 = ((y, err2), w2)"
    by (metis surj_pair)
  have "waitForConfigMap E (metaKey (cm_Meta y)) w2 \<noteq> None" if "err2 = None"
    using c that cm.create_ok [of d w1 y w2] cm.create_answer [of d w1 y w2]
      waitForConfigMap_present [of w2 "metaKey (cm_Meta y)"] by fastforce
  then show ?thesis using g c by (auto simp: ensureConfigMap_def split: prod.splits)
qed

lemma ensureConfigMap_data:
  assumes wf: "wf_store (store w)" and ret: "ensureConfigMap E d w = Some (None, w')"
  shows "\<exists>c. configMaps (store w') (metaKey (cm_Meta d)) = Some c \<and> gm_map (cm_Data c) = gm_map (cm_Data d)"
proof (cases "store w' = store w")
  case False
  with ensureConfigMap_store [OF wf ret] show ?thesis by auto
next
  case True
  obtain x err w1 where g: "Get (cmClient E) (metaKey (cm_Meta d)) zeroConfigMap w = ((x, err), w1)"
    by (metis surj_pair)
  show ?thesis
  proof (cases err)
    case None
    with g have x: "configMaps (store w) (metaKey (cm_Meta d)) = Some x"
      by (simp add: cm.get_fresh)
    obtain same w2 where cc: "compareConf E (cm_Data d) (cm_Data x) w1 = (same, w2)"
      by (metis surj_pair)
    show ?thesis
    proof (cases same)
      case True
      with cc x \<open>store w' = store w\<close> show ?thesis using compareConf_api [OF cc] by auto
    next
      case False
      obtain y where u: "Update (cmClient E) (x\<lparr>cm_Data := cm_Data d\<rparr>) w2 = ((y, None), w')"
        using ret g None cc False by (auto simp: ensureConfigMap_def split: prod.splits)
      moreover have "metaKey (cm_Meta x) = metaKey (cm_Meta d)"
        using wf x by (auto simp: wf_store_def wf_map_def)
      ultimately show ?thesis using cm.update_ok [OF u] by (auto simp: admit_data)
    qed
  next
    case (Some e)
    with ret g obtain y w2 where c: "Create (cmClient E) d w1 = ((y, None), w2)"
      and "waitForConfigMap E (metaKey (cm_Meta y)) w2 = Some (None, w')"
      by (auto simp: ensureConfigMap_def split: if_splits prod.splits)
    then have "store w' = store w2" by (blast intro: waitForConfigMap_store)
    with cm.create_ok [OF c] show ?thesis by (auto simp: admit_data)
  qed
qed

end

context reliable_api
begin

lemma waitForConfigMap_succeeds:
  assumes "configMaps (store w) key = Some c"
  shows "\<exists>w'. waitForConfigMap E key w = Some (None, w')"
proof -
  obtain x err w1 where g: "Get (cmClient E) key zeroConfigMap w = ((x, err), w1)"
    by (metis surj_pair)
  have "err = None"
    using g assms cm.get_absent cm.get_answers by (cases err) (fastforce simp: IsNotFound_iff)+
  with g show ?thesis by (subst waitForConfigMap.simps) auto
qed

lemma ensureConfigMap_succeeds:
  assumes wf: "wf_store (store w)"
  shows "\<exists>w'. ensureConfigMap E d w = Some (None, w')"
proof -
  obtain x err w1 where g: "Get (cmClient E) (metaKey (cm_Meta d)) zeroConfigMap w = ((x, err), w1)"
    by (metis surj_pair)
  have s1: "store w1 = store w" using g by (rule cm.get_store)
  show ?thesis
  proof (cases err)
    case (Some e)
    with g have nf: "IsNotFound err" using cm.get_answers by blast
    with g s1 have "configMaps (store w1) (metaKey (cm_Meta d)) = None"
      using cm.get_absent by (metis IsNotFound_iff)
    then obtain y w2 where c: "Create (cmClient E) d w1 = ((y, None), w2)"
      using cm.create_succeeds by blast
    then have "\<exists>w'. waitForConfigMap E (metaKey (cm_Meta y)) w2 = Some (None, w')"
      using cm.create_ok [OF c] cm.create_answer [OF c] by (intro waitForConfigMap_succeeds) auto
    with g nf c show ?thesis by (auto simp: ensureConfigMap_def)
  next
    case None
    with g have x: "configMaps (store w) (metaKey (cm_Meta d)) = Some x" by (simp add: cm.get_fresh)
    obtain same w2 where cc: "compareConf E (cm_Data d) (cm_Data x) w1 = (same, w2)"
      by (metis surj_pair)
    have "configMaps (store w2) (metaKey (cm_Meta x)) = Some x"
      using x wf compareConf_store [OF cc] s1 by (auto simp: wf_store_def wf_map_def)
    then obtain y w3 where "Update (cmClient E) (x\<lparr>cm_Data := cm_Data d\<rparr>) w2 = ((y, None), w3)"
      using cm.update_succeeds [of w2 "x\<lparr>cm_Data := cm_Data d\<rparr>" x] by auto
    with g None cc show ?thesis by (cases same) (auto simp: ensureConfigMap_def)
  qed
qed

end

section \<open>Desired objects\<close>

lemma metaKey_childMeta [simp]:
  "metaKey (childMeta (resourceName k) k) = resourceKey k"
  "metaKey (childMeta (clusterRefsName k) k) = clusterRefsKey k"
  by (simp_all add: metaKey_def childMeta_def resourceKey_def clusterRefsKey_def)

lemma metaKey_kyuubi: "metaKey (kc_Meta k) = kyuubiKey k"
  by (simp add: metaKey_def kyuubiKey_def)

context kube_api
begin

lemma desired_keys:
  "metaKey (sa_Meta (fst (constructServiceAccount E k))) = resourceKey k"
  "metaKey (ro_Meta (fst (constructRole E k))) = resourceKey k"
  "metaKey (rb_Meta (fst (constructRoleBinding E k))) = resourceKey k"
  "metaKey (sts_Meta (fst (constructDesiredKyuubiWorkload E k))) = resourceKey k"
  "metaKey (svc_Meta (fst (contructDesiredService E k))) = resourceKey k"
  by (simp_all add: construct_defs Let_def split_beta owner_key)

lemma map2String_store: "map2String E m w = (r, w') \<Longrightarrow> store w' = store w"
  using range_store by (fastforce simp: map2String_def split: prod.splits)

lemma map2Xml_store: "map2Xml E m w = (r, w') \<Longrightarrow> store w' = store w"
  using range_store by (fastforce simp: map2Xml_def split: prod.splits)

lemma constructKyuubiConfigMap_spec:
  assumes "constructKyuubiConfigMap E k w = ((d, e), w1)"
  shows "metaKey (cm_Meta d) = resourceKey k \<and> store w1 = store w \<and>
    cm_Data d = Some (fmap_of_list [(DefaultKyuubiConfFile, fst (map2String E (kcs_KyuubiConf (kc_Spec k)) w))])"
  using assms owner_key [of k "childMeta (resourceName k) k"] map2String_store
  by (auto simp: constructKyuubiConfigMap_def Let_def split: prod.splits)

lemma clusterRef_step_store: "clusterRef_step E k h c r data w = (res, w') \<Longrightarrow> store w' = store w"
  using range_store map2String_store map2Xml_store
  by (fastforce simp: clusterRef_step_def Let_def split: if_splits prod.splits)

lemma clusterRefs_loop_store:
  "clusterRefs_loop E k h c refs data w = (res, w') \<Longrightarrow> store w' = store w"
proof (induction refs arbitrary: data w)
  case (Cons r refs)
  then show ?case
    using clusterRef_step_store [of k h c r data w]
    by (fastforce split: prod.splits sum.splits)
qed simp

lemma desiredClusterRefsConfigMap_spec:
  assumes "desiredClusterRefsConfigMap E k w = (r, w1)"
  shows "store w1 = store w \<and> (\<forall>d. r = Inr d \<longrightarrow> metaKey (cm_Meta d) = clusterRefsKey k)"
  using assms owner_key [of k "childMeta (clusterRefsName k) k"] clusterRefs_loop_store
  by (auto simp: desiredClusterRefsConfigMap_def Let_def split: prod.splits sum.splits option.splits)

end

end
