(* ===== verification/Stage_Frames.thy ===== *)
theory Stage_Frames
  imports Stage_Contracts
begin

text \<open>
  The contract that the composition of the stages relies on, \<open>reconcile_stage\<close>: a stage changes
  only the objects of its footprint and keeps the store well-formed. Every stage of the controller
  has it under \<open>kube_api\<close>, and sequential composition adds footprints, so \<open>createOrUpdateClusters\<close>
  has it for the union.
\<close>

locale reconcile_stage =
  fixes stage :: "KyuubiCluster \<Rightarrow> 'w \<Rightarrow> (GoError option \<times> 'w) option"
    and store :: "'w \<Rightarrow> cluster_store"
    and footprint :: "KyuubiCluster \<Rightarrow> (Kind \<times> NamespacedName) set"
  assumes frame: "wf_store (store w) \<Longrightarrow> stage k w = Some (e, w') \<Longrightarrow>
      touches (footprint k) (store w) (store w')"
    and keeps_wf: "wf_store (store w) \<Longrightarrow> stage k w = Some (e, w') \<Longrightarrow> wf_store (store w')"

text \<open>Run the second stage when the first returned no error.\<close>

definition seqStage :: "(KyuubiCluster \<Rightarrow> 'w \<Rightarrow> (GoError option \<times> 'w) option) \<Rightarrow>
    (KyuubiCluster \<Rightarrow> 'w \<Rightarrow> (GoError option \<times> 'w) option) \<Rightarrow> KyuubiCluster \<Rightarrow> 'w \<Rightarrow>
    (GoError option \<times> 'w) option" where
  "seqStage s1 s2 k w = Option.bind (s1 k w) (\<lambda>(err, w1). if err \<noteq> None then Some (err, w1) else s2 k w1)"

lemma seqStage_cases:
  assumes "seqStage s1 s2 k w = Some (e, w')"
  obtains (stopped) err where "e = Some err" "s1 k w = Some (e, w')"
    | (both) w1 where "s1 k w = Some (None, w1)" "s2 k w1 = Some (e, w')"
  using assms that by (auto simp: seqStage_def split: bind_splits if_splits)

lemma seqStage_frame:
  assumes "reconcile_stage s1 store F" and "reconcile_stage s2 store G"
  shows "reconcile_stage (seqStage s1 s2) store (\<lambda>k. F k \<union> G k)"
proof
  fix w k e w'
  assume wf: "wf_store (store w)" and r: "seqStage s1 s2 k w = Some (e, w')"
  from r show "touches (F k \<union> G k) (store w) (store w')"
  proof (cases rule: seqStage_cases)
    case stopped
    then show ?thesis
      using reconcile_stage.frame [OF assms(1) wf] by (blast intro: touches_mono)
  next
    case (both w1)
    have "touches (F k) (store w) (store w1)" "wf_store (store w1)"
      using reconcile_stage.frame [OF assms(1) wf both(1)]
        reconcile_stage.keeps_wf [OF assms(1) wf both(1)] by auto
    then show ?thesis
      using reconcile_stage.frame [OF assms(2) _ both(2)] by (blast intro: touches_trans)
  qed
  from r show "wf_store (store w')"
    using reconcile_stage.keeps_wf [OF assms(1)] reconcile_stage.keeps_wf [OF assms(2)] wf
    by (cases rule: seqStage_cases) blast+
qed

section \<open>The stages as functions of cluster and world\<close>

definition saStage :: "'w env \<Rightarrow> KyuubiCluster \<Rightarrow> 'w \<Rightarrow> (GoError option \<times> 'w) option" where
  "saStage E k w = Some (createOrUpdateServiceAccount E k w)"

definition roleStage :: "'w env \<Rightarrow> KyuubiCluster \<Rightarrow> 'w \<Rightarrow> (GoError option \<times> 'w) option" where
  "roleStage E k w = Some (createOrUpdateRole E k w)"

definition rbStage :: "'w env \<Rightarrow> KyuubiCluster \<Rightarrow> 'w \<Rightarrow> (GoError option \<times> 'w) option" where
  "rbStage E k w = Some (createOrUpdateRoleBinding E k w)"

definition workloadStage :: "'w env \<Rightarrow> KyuubiCluster \<Rightarrow> 'w \<Rightarrow> (GoError option \<times> 'w) option" where
  "workloadStage E k w = Some (createOrUpdateKyuubi E k w)"

definition serviceStatusStage :: "'w env \<Rightarrow> KyuubiCluster \<Rightarrow> 'w \<Rightarrow> (GoError option \<times> 'w) option" where
  "serviceStatusStage E k w =
     (case createOrUpdateService E k w of
        (Inl err, w1) \<Rightarrow> Some (Some err, w1)
      | (Inr svc, w1) \<Rightarrow> Some (updateKyuubiClusterStatus E k svc w1))"

definition allStages :: "'w env \<Rightarrow> KyuubiCluster \<Rightarrow> 'w \<Rightarrow> (GoError option \<times> 'w) option" where
  "allStages E =
     seqStage (seqStage (saStage E) (seqStage (roleStage E) (rbStage E)))
    (seqStage (createOrUpdateKyuubiConfigmap E)
    (seqStage (createOrUpdateClusterRefsConfigmap E)
    (seqStage (workloadStage E) (serviceStatusStage E))))"

lemma bind_Some_collapse:
  "Option.bind (Some x) (\<lambda>(e, w). if e \<noteq> None then Some (e, w) else Some (None, w)) = Some x"
  by (cases x) simp

lemma createOrUpdateK8sResources_eq:
  "Some (createOrUpdateK8sResources E k w) = seqStage (saStage E) (seqStage (roleStage E) (rbStage E)) k w"
  by (simp add: createOrUpdateK8sResources_def seqStage_def saStage_def roleStage_def rbStage_def
      if_None_collapse split: prod.split)

lemma createOrUpdateClusters_eq: "createOrUpdateClusters E = allStages E"
proof (intro ext)
  fix k w
  show "createOrUpdateClusters E k w = allStages E k w"
    unfolding createOrUpdateClusters_def allStages_def createOrUpdateK8sResources_eq
      bind_Some_collapse
    by (simp add: seqStage_def workloadStage_def serviceStatusStage_def
        split_beta cong: if_cong Option.bind_cong split: sum.split)
qed

text \<open>What the status reports for a service.\<close>

abbreviation exposedInfosOf :: "KyuubiCluster \<Rightarrow> Service \<Rightarrow> ExposedInfo list" where
  "exposedInfosOf k svc \<equiv> exposedInfos_loop k svc 0 (svc_Ports svc) []"

section \<open>Every stage has the contract\<close>

context kube_api
begin

lemma sa_reconcile_stage: "reconcile_stage (saStage E) store (\<lambda>k. {(KServiceAccount, resourceKey k)})"
proof
  fix w k e w'
  assume wf: "wf_store (store w)" and "saStage E k w = Some (e, w')"
  then have r: "ensureCreated (saClient E) sa_Meta zeroServiceAccount (fst (constructServiceAccount E k)) w = (e, w')"
    by (simp add: saStage_def createOrUpdateServiceAccount_eq)
  show "touches {(KServiceAccount, resourceKey k)} (store w) (store w')" "wf_store (store w')"
    using sa.ensureCreated_store [OF r] wf
    by (auto simp: desired_keys sa.admit_key intro!: touches_create wf_store_upd)
qed

lemma role_reconcile_stage: "reconcile_stage (roleStage E) store (\<lambda>k. {(KRole, resourceKey k)})"
proof
  fix w k e w'
  assume wf: "wf_store (store w)" and "roleStage E k w = Some (e, w')"
  then have r: "ensureCreated (roleClient E) ro_Meta zeroRole (fst (constructRole E k)) w = (e, w')"
    by (simp add: roleStage_def createOrUpdateRole_eq)
  show "touches {(KRole, resourceKey k)} (store w) (store w')" "wf_store (store w')"
    using ro.ensureCreated_store [OF r] wf
    by (auto simp: desired_keys ro.admit_key intro!: touches_create wf_store_upd)
qed

lemma rb_reconcile_stage: "reconcile_stage (rbStage E) store (\<lambda>k. {(KRoleBinding, resourceKey k)})"
proof
  fix w k e w'
  assume wf: "wf_store (store w)" and "rbStage E k w = Some (e, w')"
  then have r: "ensureCreated (rbClient E) rb_Meta zeroRoleBinding (fst (constructRoleBinding E k)) w = (e, w')"
    by (simp add: rbStage_def createOrUpdateRoleBinding_eq)
  show "touches {(KRoleBinding, resourceKey k)} (store w) (store w')" "wf_store (store w')"
    using rb.ensureCreated_store [OF r] wf
    by (auto simp: desired_keys rb.admit_key intro!: touches_create wf_store_upd)
qed

lemma ensureConfigMap_frame:
  assumes "wf_store (store w)" and "ensureConfigMap E d w = Some (e, w')"
  shows "touches {(KConfigMap, metaKey (cm_Meta d))} (store w) (store w') \<and> wf_store (store w')"
  using ensureConfigMap_store [OF assms] assms(1) by (auto intro: touches_change wf_store_upd)

lemma conf_reconcile_stage:
  "reconcile_stage (createOrUpdateKyuubiConfigmap E) store (\<lambda>k. {(KConfigMap, resourceKey k)})"
proof
  fix w k e w'
  assume wf: "wf_store (store w)" and r: "createOrUpdateKyuubiConfigmap E k w = Some (e, w')"
  obtain d e1 w1 where d: "constructKyuubiConfigMap E k w = ((d, e1), w1)"
    by (metis surj_pair)
  with r have "ensureConfigMap E d w1 = Some (e, w')"
    by (simp add: createOrUpdateKyuubiConfigmap_eq)
  then show "touches {(KConfigMap, resourceKey k)} (store w) (store w')" "wf_store (store w')"
    using ensureConfigMap_frame [of w1 d] constructKyuubiConfigMap_spec [OF d] wf by auto
qed

lemma refs_reconcile_stage:
  "reconcile_stage (createOrUpdateClusterRefsConfigmap E) store (\<lambda>k. {(KConfigMap, clusterRefsKey k)})"
proof
  fix w k e w'
  assume wf: "wf_store (store w)" and r: "createOrUpdateClusterRefsConfigmap E k w = Some (e, w')"
  obtain res w1 where d: "desiredClusterRefsConfigMap E k w = (res, w1)"
    by (metis surj_pair)
  note spec = desiredClusterRefsConfigMap_spec [OF d]
  have "touches {(KConfigMap, clusterRefsKey k)} (store w) (store w') \<and> wf_store (store w')"
  proof (cases res)
    case (Inl err)
    with r d spec wf show ?thesis by (auto simp: createOrUpdateClusterRefsConfigmap_eq)
  next
    case (Inr c)
    with r d have "ensureConfigMap E c w1 = Some (e, w')"
      by (simp add: createOrUpdateClusterRefsConfigmap_eq)
    then show ?thesis using ensureConfigMap_frame [of w1 c] Inr spec wf by auto
  qed
  then show "touches {(KConfigMap, clusterRefsKey k)} (store w) (store w')" "wf_store (store w')"
    by auto
qed

lemma workload_store:
  assumes "createOrUpdateKyuubi E k w = (e, w')"
  shows "store w' = store w \<or> (\<exists>w1 old. store w' = statefulSets_update
      (\<lambda>m. m(resourceKey k \<mapsto> adm_sts A w1 old (fst (constructDesiredKyuubiWorkload E k)))) (store w))"
proof -
  let ?d = "fst (constructDesiredKyuubiWorkload E k)"
  obtain x err w1 where g: "Get (stsClient E) (metaKey (sts_Meta ?d)) zeroStatefulSet w = ((x, err), w1)"
    by (metis surj_pair)
  obtain y err2 w2 where c: "Create (stsClient E) ?d w1 = ((y, err2), w2)"
    by (metis surj_pair)
  obtain z err3 w3 where u: "Update (stsClient E) ?d w1 = ((z, err3), w3)"
    by (metis surj_pair)
  have s1: "store w1 = store w" using g by (rule sts.get_store)
  have "w' = w1 \<or> w' = w2 \<or> w' = w3"
    using assms g c u by (auto simp: createOrUpdateKyuubi_def Let_def split: if_splits)
  moreover have "store w2 = store w \<or> store w2 = statefulSets_update
      (\<lambda>m. m(resourceKey k \<mapsto> adm_sts A w1 None ?d)) (store w)"
    using c s1 by (cases rule: sts.create_effect) (auto simp: desired_keys)
  moreover have "store w3 = store w \<or> (\<exists>old. store w3 = statefulSets_update
      (\<lambda>m. m(resourceKey k \<mapsto> adm_sts A w1 (Some old) ?d)) (store w))"
    using u s1 by (cases rule: sts.update_effect) (auto simp: desired_keys)
  ultimately show ?thesis using s1 by metis
qed

lemma workload_reconcile_stage:
  "reconcile_stage (workloadStage E) store (\<lambda>k. {(KStatefulSet, resourceKey k)})"
proof
  fix w k e w'
  assume wf: "wf_store (store w)" and "workloadStage E k w = Some (e, w')"
  then have "createOrUpdateKyuubi E k w = (e, w')" by (simp add: workloadStage_def)
  from workload_store [OF this] wf
  show "touches {(KStatefulSet, resourceKey k)} (store w) (store w')" "wf_store (store w')"
    by (auto simp: desired_keys sts.admit_key intro!: touches_change wf_store_upd)
qed

text \<open>Either the status is up to date and nothing is sent, or one status update is sent.\<close>

lemma updateKyuubiClusterStatus_cases:
  assumes "updateKyuubiClusterStatus E k svc w = (e, w')"
  obtains (unchanged) "st_ExposedInfos (kc_Status k) = Some (exposedInfosOf k svc)" "e = None" "w' = w"
  | (sent) st w2 y where "st_ExposedInfos (kc_Status k) \<noteq> Some (exposedInfosOf k svc)"
      "st_ExposedInfos st = Some (exposedInfosOf k svc)"
      "st_ExposedInfos (kc_Status k) \<noteq> None \<longrightarrow> st_CreationTime st = st_CreationTime (kc_Status k)"
      "store w2 = store w" "StatusUpdate E (k\<lparr>kc_Status := st\<rparr>) w2 = ((y, e), w')"
      "st_ExposedInfos (kc_Status k) = None \<longrightarrow> (\<exists>v. st_CreationTime st = fst (Now E v))"
proof (cases "st_ExposedInfos (kc_Status k) = Some (exposedInfosOf k svc)")
  case True
  with assms show ?thesis by (intro unchanged) (auto simp: updateKyuubiClusterStatus_def)
next
  case False
  obtain t1 w1 where c: "(if st_ExposedInfos (kc_Status k) = None then Now E w
      else (st_CreationTime (kc_Status k), w)) = (t1, w1)" by (metis surj_pair)
  obtain t2 w2 where n: "Now E w1 = (t2, w2)" by (metis surj_pair)
  let ?st = "\<lparr>st_ExposedInfos = Some (exposedInfosOf k svc), st_CreationTime = t1, st_UpdateTime = t2\<rparr>"
  have s: "store w2 = store w"
    using c n now_store by (metis prod.inject)
  obtain y e3 w3 where u: "StatusUpdate E (k\<lparr>kc_Status := ?st\<rparr>) w2 = ((y, e3), w3)" by (metis surj_pair)
  have "e = e3" "w' = w3"
    using assms False c n u by (auto simp: updateKyuubiClusterStatus_def Let_def split: if_splits)
  with False s u c show ?thesis by (intro sent [of ?st w2 y]) (auto simp: prod_eq_iff)
qed

lemma status_frame:
  assumes wf: "wf_store (store w)" and ret: "updateKyuubiClusterStatus E k svc w = (e, w')"
  shows "touches {(KKyuubiCluster, kyuubiKey k)} (store w) (store w') \<and> wf_store (store w')"
  using ret
proof (cases rule: updateKyuubiClusterStatus_cases)
  case unchanged
  with wf show ?thesis by simp
next
  case (sent st w2 y)
  from sent(4) wf have "wf_store (store w2)" by simp
  from this sent(5) show ?thesis
  proof (cases rule: status_effect)
    case failed
    with sent wf show ?thesis by auto
  next
    case (applied old)
    then have old: "kyuubiClusters (store w) (kyuubiKey k) = Some old" "metaKey (kc_Meta old) = kyuubiKey k"
      and s': "store w' = kyuubiClusters_update (\<lambda>m. m(kyuubiKey k \<mapsto>
        adm_kyuubi A w2 (Some old) (old\<lparr>kc_Status := st\<rparr>))) (store w)"
      using sent(4) by (simp_all add: metaKey_kyuubi)
    with wf show ?thesis
      by (auto simp: kc.admit_key admit_spec intro!: touches_status wf_store_upd)
  qed
qed

lemma service_frame:
  assumes wf: "wf_store (store w)" and ret: "createOrUpdateService E k w = (r, w')"
  shows "touches {(KService, resourceKey k)} (store w) (store w') \<and> wf_store (store w')"
proof -
  have "ensureCreated (svcClient E) svc_Meta zeroService (fst (contructDesiredService E k)) w
      = (case_sum Some (\<lambda>_. None) r, w')"
    using ret by (simp flip: createOrUpdateService_eq)
  from svc.ensureCreated_store [OF this] wf show ?thesis
    by (auto simp: desired_keys svc.admit_key intro!: touches_create wf_store_upd)
qed

lemma serviceStatus_reconcile_stage:
  "reconcile_stage (serviceStatusStage E) store (\<lambda>k. {(KService, resourceKey k), (KKyuubiCluster, kyuubiKey k)})"
proof
  fix w k e w'
  assume wf: "wf_store (store w)" and ret: "serviceStatusStage E k w = Some (e, w')"
  obtain r w1 where r: "createOrUpdateService E k w = (r, w1)" by (metis surj_pair)
  note f1 = service_frame [OF wf r]
  have "touches ({(KService, resourceKey k)} \<union> {(KKyuubiCluster, kyuubiKey k)}) (store w) (store w')
      \<and> wf_store (store w')"
  proof (cases r)
    case (Inl err)
    with ret r f1 show ?thesis by (auto simp: serviceStatusStage_def intro: touches_mono)
  next
    case (Inr svc)
    with ret r have "updateKyuubiClusterStatus E k svc w1 = (e, w')"
      by (simp add: serviceStatusStage_def)
    with f1 show ?thesis using status_frame by (blast intro: touches_trans)
  qed
  then show "touches {(KService, resourceKey k), (KKyuubiCluster, kyuubiKey k)} (store w) (store w')"
    "wf_store (store w')"
    by (auto elim: touches_mono)
qed

end

section \<open>The footprint of a reconciliation\<close>

definition clusterFootprint :: "KyuubiCluster \<Rightarrow> (Kind \<times> NamespacedName) set" where
  "clusterFootprint k =
     {KServiceAccount, KRole, KRoleBinding, KConfigMap, KStatefulSet, KService} \<times> {resourceKey k} \<union>
     {(KConfigMap, clusterRefsKey k), (KKyuubiCluster, kyuubiKey k)}"

sublocale kube_api \<subseteq> clusters: reconcile_stage "createOrUpdateClusters E" store clusterFootprint
proof -
  have "(\<lambda>k. {(KServiceAccount, resourceKey k)} \<union> ({(KRole, resourceKey k)} \<union> {(KRoleBinding, resourceKey k)}) \<union>
      ({(KConfigMap, resourceKey k)} \<union> ({(KConfigMap, clusterRefsKey k)} \<union> ({(KStatefulSet, resourceKey k)} \<union>
       {(KService, resourceKey k), (KKyuubiCluster, kyuubiKey k)})))) = clusterFootprint"
    by (intro ext) (auto simp: clusterFootprint_def)
  then show "reconcile_stage (createOrUpdateClusters E) store clusterFootprint"
    unfolding createOrUpdateClusters_eq allStages_def
    using seqStage_frame [OF seqStage_frame [OF sa_reconcile_stage seqStage_frame [OF role_reconcile_stage rb_reconcile_stage]]
      seqStage_frame [OF conf_reconcile_stage seqStage_frame [OF refs_reconcile_stage
        seqStage_frame [OF workload_reconcile_stage serviceStatus_reconcile_stage]]]]
    by metis
qed

end
