(* ===== verification/Reconcile_Run.thy ===== *)
theory Reconcile_Run
  imports Stage_Frames
begin

text \<open>
  What a whole run of \<open>createOrUpdateClusters\<close> and \<open>Reconcile\<close> does, on top of the contracts of the
  single stages: how a request is dispatched, the intermediate worlds of a successful run, what each
  stage leaves behind for the stages after it, and when the run returns and succeeds.
\<close>

section \<open>The footprint of a request\<close>

definition childKey :: "string \<Rightarrow> NamespacedName \<Rightarrow> NamespacedName" where
  "childKey suffix req = req\<lparr>nn_Name := nn_Name req @ suffix\<rparr>"

definition requestFootprint :: "NamespacedName \<Rightarrow> (Kind \<times> NamespacedName) set" where
  "requestFootprint req =
     {KServiceAccount, KRole, KRoleBinding, KConfigMap, KStatefulSet, KService} \<times> {childKey ''-kyuubi'' req} \<union>
     {(KConfigMap, childKey ''-clusterrefs'' req), (KKyuubiCluster, req)}"

lemma keys_of_request:
  "resourceKey k = childKey ''-kyuubi'' (kyuubiKey k)"
  "clusterRefsKey k = childKey ''-clusterrefs'' (kyuubiKey k)"
  by (simp_all add: resourceKey_def clusterRefsKey_def kyuubiKey_def childKey_def
      resourceName_eq clusterRefsName_eq)

lemma clusterFootprint_request: "clusterFootprint k = requestFootprint (kyuubiKey k)"
  by (simp add: clusterFootprint_def requestFootprint_def keys_of_request)

lemma childKey_inject [simp]: "childKey s r = childKey s r' \<longleftrightarrow> r = r'"
  by (cases r; cases r') (auto simp: childKey_def)

lemma childKey_neq [simp]:
  "childKey ''-kyuubi'' r \<noteq> childKey ''-clusterrefs'' r'" "childKey ''-clusterrefs'' r' \<noteq> childKey ''-kyuubi'' r"
proof -
  have "nn_Name (childKey ''-kyuubi'' r) \<noteq> nn_Name (childKey ''-clusterrefs'' r')"
  proof
    assume "nn_Name (childKey ''-kyuubi'' r) = nn_Name (childKey ''-clusterrefs'' r')"
    then have "last (nn_Name r @ ''-kyuubi'') = last (nn_Name r' @ ''-clusterrefs'')"
      unfolding childKey_def by simp
    then show False by simp
  qed
  then show "childKey ''-kyuubi'' r \<noteq> childKey ''-clusterrefs'' r'"
    "childKey ''-clusterrefs'' r' \<noteq> childKey ''-kyuubi'' r" by metis+
qed

lemma requestFootprint_disjoint:
  "r \<noteq> r' \<Longrightarrow> requestFootprint r \<inter> requestFootprint r' = {}"
  by (auto simp: requestFootprint_def)

text \<open>The object of a kind at a key is the same in both stores.\<close>

fun sameObject :: "cluster_store \<Rightarrow> cluster_store \<Rightarrow> Kind \<Rightarrow> NamespacedName \<Rightarrow> bool" where
  "sameObject s s' KKyuubiCluster n = (kyuubiClusters s' n = kyuubiClusters s n)"
| "sameObject s s' KServiceAccount n = (serviceAccounts s' n = serviceAccounts s n)"
| "sameObject s s' KRole n = (roles s' n = roles s n)"
| "sameObject s s' KRoleBinding n = (roleBindings s' n = roleBindings s n)"
| "sameObject s s' KConfigMap n = (configMaps s' n = configMaps s n)"
| "sameObject s s' KStatefulSet n = (statefulSets s' n = statefulSets s n)"
| "sameObject s s' KService n = (services s' n = services s n)"

lemma touches_same: "touches F s s' \<Longrightarrow> (kd, n) \<notin> F \<Longrightarrow> sameObject s s' kd n"
  by (cases kd) (simp_all add: touches_def created_only_def changed_only_def Image_singleton)

text \<open>Objects of the create-only kinds stay as they are; no object disappears.\<close>

lemma touches_keeps:
  assumes "touches F s s'"
  shows "serviceAccounts s n = Some a \<Longrightarrow> serviceAccounts s' n = Some a"
    and "roles s n = Some r \<Longrightarrow> roles s' n = Some r"
    and "roleBindings s n = Some b \<Longrightarrow> roleBindings s' n = Some b"
    and "services s n = Some v \<Longrightarrow> services s' n = Some v"
  using assms unfolding touches_def created_only_def map_le_def by (metis domI)+

lemma touches_dom:
  assumes "touches F s s'"
  shows "n \<in> dom (serviceAccounts s) \<Longrightarrow> n \<in> dom (serviceAccounts s')"
    and "n \<in> dom (roles s) \<Longrightarrow> n \<in> dom (roles s')"
    and "n \<in> dom (roleBindings s) \<Longrightarrow> n \<in> dom (roleBindings s')"
    and "n \<in> dom (services s) \<Longrightarrow> n \<in> dom (services s')"
  using touches_keeps [OF assms] by blast+

lemma touches_spec:
  "touches F s s' \<Longrightarrow> kyuubiClusters s n = Some k \<Longrightarrow>
     \<exists>k'. kyuubiClusters s' n = Some k' \<and> kc_Spec k' = kc_Spec k"
  unfolding touches_def by (metis map_option_eq_Some option.simps(9))

section \<open>Dispatch of a request\<close>

definition plainName :: "NamespacedName \<Rightarrow> bool" where
  "plainName n \<longleftrightarrow> CHR ''/'' \<notin> set (nn_Namespace n) \<and> CHR ''/'' \<notin> set (nn_Name n)"

lemma Reconcile_cases:
  assumes "Reconcile E req w = Some (out, w')"
  obtains (failed) k e where "Get (kyuubiClient E) req zeroKyuubiCluster w = ((k, Some e), w')"
      "out = Returned zeroResult (Some e)"
  | (idle) k where "Get (kyuubiClient E) req zeroKyuubiCluster w = ((k, None), w')"
      "out = Panicked \<and> length (strings_Split (SprintRequest E req) (CHR ''/'')) \<le> 1 \<or>
       out = Returned zeroResult None \<and> strings_Split (SprintRequest E req) (CHR ''/'') ! 1 \<noteq> kc_Name k"
  | (run) k w1 err where "Get (kyuubiClient E) req zeroKyuubiCluster w = ((k, None), w1)"
      "createOrUpdateClusters E k w1 = Some (err, w')" "out = Returned zeroResult err"
proof -
  obtain k e w1 where g: "Get (kyuubiClient E) req zeroKyuubiCluster w = ((k, e), w1)"
    by (metis surj_pair)
  show thesis
  proof (cases e)
    case (Some x)
    with g assms failed show thesis by (simp add: Reconcile_def)
  next
    case None
    with g assms idle run show thesis
      by (auto simp: Reconcile_def Let_def split: if_splits bind_splits)
  qed
qed

context kube_api
begin

lemma request_parts:
  assumes "plainName req"
  shows "strings_Split (SprintRequest E req) (CHR ''/'') = [nn_Namespace req, nn_Name req]"
  using assms Split_append_sep [of "CHR ''/''" "nn_Namespace req" "nn_Name req"]
  by (simp add: plainName_def sprint_request Split_no_sep)

lemma request_two_parts: "1 < length (strings_Split (SprintRequest E req) (CHR ''/''))"
proof (rule ccontr)
  let ?s = "strings_Split (SprintRequest E req) (CHR ''/'')"
  assume "\<not> 1 < length ?s"
  then obtain p where p: "?s = [p]" by (cases ?s) (auto simp: Suc_le_eq)
  then have "p = SprintRequest E req" using Join_split [of "SprintRequest E req" "CHR ''/''"] by simp
  moreover have "CHR ''/'' \<notin> set p" using p Split_parts [of p "SprintRequest E req"] by simp
  ultimately show False by (simp add: sprint_request)
qed

text \<open>A fetched object has the key of the request, so a request for a plain name is always run.\<close>

lemma fetched_key:
  "wf_store (store w) \<Longrightarrow> Get (kyuubiClient E) req zeroKyuubiCluster w = ((k, None), w1) \<Longrightarrow> kyuubiKey k = req"
  using kc.get_key by (auto simp: wf_store_def metaKey_kyuubi)

lemma Reconcile_dispatch:
  assumes "wf_store (store w)" and "plainName req"
  shows "Reconcile E req w =
    (case Get (kyuubiClient E) req zeroKyuubiCluster w of
       ((k, Some e), w1) \<Rightarrow> Some (Returned zeroResult (Some e), w1)
     | ((k, None), w1) \<Rightarrow> map_option (apfst (Returned zeroResult)) (createOrUpdateClusters E k w1))"
proof -
  obtain k e w1 where g: "Get (kyuubiClient E) req zeroKyuubiCluster w = ((k, e), w1)"
    by (metis surj_pair)
  have "nn_Name req = kc_Name k" if "e = None"
    using fetched_key [of w req k w1] assms(1) g that by (auto simp: kyuubiKey_def)
  then show ?thesis
    by (auto simp: Reconcile_def g request_parts [OF assms(2)] Let_def map_option_case
        split: option.split)
qed

lemma Reconcile_no_panic:
  assumes "Reconcile E req w = Some (out, w')"
  shows "\<exists>e. out = Returned zeroResult e"
  using assms request_two_parts [of req] by (cases rule: Reconcile_cases) auto

lemma Reconcile_frame:
  assumes wf: "wf_store (store w)" and ret: "Reconcile E req w = Some (out, w')"
  shows "touches (requestFootprint req) (store w) (store w') \<and> wf_store (store w')"
  using ret
proof (cases rule: Reconcile_cases)
  case (run k w1 err)
  have "store w1 = store w" using run(1) by (rule kc.get_store)
  moreover have "kyuubiKey k = req" using fetched_key [OF wf run(1)] .
  ultimately show ?thesis
    using clusters.frame [of w1 k err w'] clusters.keeps_wf [of w1 k err w'] run(2) wf
    by (simp add: clusterFootprint_request)
qed (use wf kc.get_store in auto)

end

section \<open>The stages of a successful run\<close>

definition rbacStage :: "'w env \<Rightarrow> KyuubiCluster \<Rightarrow> 'w \<Rightarrow> (GoError option \<times> 'w) option" where
  "rbacStage E = seqStage (saStage E) (seqStage (roleStage E) (rbStage E))"

lemma createOrUpdateClusters_run:
  assumes "createOrUpdateClusters E k w = Some (None, w')"
  obtains w1 w2 w3 w4 where "rbacStage E k w = Some (None, w1)"
    "createOrUpdateKyuubiConfigmap E k w1 = Some (None, w2)"
    "createOrUpdateClusterRefsConfigmap E k w2 = Some (None, w3)"
    "workloadStage E k w3 = Some (None, w4)" "serviceStatusStage E k w4 = Some (None, w')"
  using assms that
  by (auto simp: createOrUpdateClusters_eq allStages_def simp flip: rbacStage_def elim!: seqStage_cases)

lemma serviceStatusStage_run:
  assumes "serviceStatusStage E k w = Some (None, w')"
  obtains svc w1 where "createOrUpdateService E k w = (Inr svc, w1)"
    "updateKyuubiClusterStatus E k svc w1 = (None, w')"
  using assms by (auto simp: serviceStatusStage_def split: sum.splits prod.splits)

context kube_api
begin

lemma rbac_reconcile_stage:
  "reconcile_stage (rbacStage E) store (\<lambda>k. {KServiceAccount, KRole, KRoleBinding} \<times> {resourceKey k})"
proof -
  have "(\<lambda>k. {(KServiceAccount, resourceKey k)} \<union> ({(KRole, resourceKey k)} \<union> {(KRoleBinding, resourceKey k)}))
      = (\<lambda>k. {KServiceAccount, KRole, KRoleBinding} \<times> {resourceKey k})"
    by (intro ext) auto
  then show ?thesis
    unfolding rbacStage_def
    using seqStage_frame [OF sa_reconcile_stage seqStage_frame [OF role_reconcile_stage rb_reconcile_stage]]
    by simp
qed

lemma run_frames:
  assumes wf: "wf_store (store w)"
    and r: "rbacStage E k w = Some (e1, w1)" "createOrUpdateKyuubiConfigmap E k w1 = Some (e2, w2)"
      "createOrUpdateClusterRefsConfigmap E k w2 = Some (e3, w3)" "workloadStage E k w3 = Some (e4, w4)"
  shows "wf_store (store w1)" "wf_store (store w2)" "wf_store (store w3)" "wf_store (store w4)"
    and "touches ({KServiceAccount, KRole, KRoleBinding} \<times> {resourceKey k}) (store w) (store w1)"
    and "touches {(KConfigMap, resourceKey k)} (store w1) (store w2)"
    and "touches {(KConfigMap, clusterRefsKey k)} (store w2) (store w3)"
    and "touches {(KStatefulSet, resourceKey k)} (store w3) (store w4)"
proof -
  show wf1: "wf_store (store w1)" using reconcile_stage.keeps_wf [OF rbac_reconcile_stage wf r(1)] .
  show wf2: "wf_store (store w2)" using reconcile_stage.keeps_wf [OF conf_reconcile_stage wf1 r(2)] .
  show wf3: "wf_store (store w3)" using reconcile_stage.keeps_wf [OF refs_reconcile_stage wf2 r(3)] .
  show "wf_store (store w4)" using reconcile_stage.keeps_wf [OF workload_reconcile_stage wf3 r(4)] .
  show "touches ({KServiceAccount, KRole, KRoleBinding} \<times> {resourceKey k}) (store w) (store w1)"
    using reconcile_stage.frame [OF rbac_reconcile_stage wf r(1)] .
  show "touches {(KConfigMap, resourceKey k)} (store w1) (store w2)"
    using reconcile_stage.frame [OF conf_reconcile_stage wf1 r(2)] .
  show "touches {(KConfigMap, clusterRefsKey k)} (store w2) (store w3)"
    using reconcile_stage.frame [OF refs_reconcile_stage wf2 r(3)] .
  show "touches {(KStatefulSet, resourceKey k)} (store w3) (store w4)"
    using reconcile_stage.frame [OF workload_reconcile_stage wf3 r(4)] .
qed

text \<open>No stage before the last touches the custom resource or the service.\<close>

lemma run_untouched:
  assumes "wf_store (store w)"
    and "rbacStage E k w = Some (e1, w1)" "createOrUpdateKyuubiConfigmap E k w1 = Some (e2, w2)"
      "createOrUpdateClusterRefsConfigmap E k w2 = Some (e3, w3)" "workloadStage E k w3 = Some (e4, w4)"
  shows "kyuubiClusters (store w4) n = kyuubiClusters (store w) n"
    and "services (store w4) n = services (store w) n"
  using run_frames(5-8) [OF assms, THEN touches_same, of KKyuubiCluster n]
    run_frames(5-8) [OF assms, THEN touches_same, of KService n] by simp_all

end

section \<open>With fresh reads\<close>

lemma seqStage_returns: "s1 k w \<noteq> None \<Longrightarrow> (\<And>w1. s2 k w1 \<noteq> None) \<Longrightarrow> seqStage s1 s2 k w \<noteq> None"
  by (auto simp: seqStage_def)

lemma simple_stages_return [simp]:
  "saStage E k w \<noteq> None" "roleStage E k w \<noteq> None" "rbStage E k w \<noteq> None" "workloadStage E k w \<noteq> None"
  "serviceStatusStage E k w \<noteq> None"
  by (simp_all add: saStage_def roleStage_def rbStage_def workloadStage_def serviceStatusStage_def
      split: prod.split sum.split)

context fresh_api
begin

lemma configmap_stages_return:
  "createOrUpdateKyuubiConfigmap E k w \<noteq> None" "createOrUpdateClusterRefsConfigmap E k w \<noteq> None"
  using ensureConfigMap_returns
  by (simp_all add: createOrUpdateKyuubiConfigmap_eq createOrUpdateClusterRefsConfigmap_eq
      split: prod.split sum.split)

lemma createOrUpdateClusters_returns: "createOrUpdateClusters E k w \<noteq> None"
  unfolding createOrUpdateClusters_eq allStages_def
  by (intro seqStage_returns simple_stages_return configmap_stages_return)

lemma Reconcile_returns: "Reconcile E req w \<noteq> None"
proof -
  obtain k e w1 where "Get (kyuubiClient E) req zeroKyuubiCluster w = ((k, e), w1)"
    by (metis surj_pair)
  moreover obtain e2 w2 where "createOrUpdateClusters E k w1 = Some (e2, w2)"
    using createOrUpdateClusters_returns by fast
  ultimately show ?thesis by (auto simp: Reconcile_def Let_def)
qed

lemma rbac_post:
  assumes "wf_store (store w)" and "rbacStage E k w = Some (None, w')"
  shows "resourceKey k \<in> dom (serviceAccounts (store w')) \<inter> dom (roles (store w')) \<inter> dom (roleBindings (store w'))"
proof -
  obtain w1 w2 where s: "saStage E k w = Some (None, w1)" "roleStage E k w1 = Some (None, w2)"
    "rbStage E k w2 = Some (None, w')"
    using assms(2) by (auto simp: rbacStage_def elim!: seqStage_cases)
  have "resourceKey k \<in> dom (serviceAccounts (store w1))"
    using s(1) sa.ensureCreated_exists desired_keys(1)
    by (metis createOrUpdateServiceAccount_eq option.inject saStage_def)
  moreover have "resourceKey k \<in> dom (roles (store w2))"
    using s(2) ro.ensureCreated_exists desired_keys(2)
    by (metis createOrUpdateRole_eq option.inject roleStage_def)
  moreover have "resourceKey k \<in> dom (roleBindings (store w'))"
    using s(3) rb.ensureCreated_exists desired_keys(3)
    by (metis createOrUpdateRoleBinding_eq option.inject rbStage_def)
  moreover have f2: "touches {(KRole, resourceKey k)} (store w1) (store w2)"
    and wf2: "wf_store (store w2)"
    using reconcile_stage.frame [OF role_reconcile_stage _ s(2)]
      reconcile_stage.keeps_wf [OF role_reconcile_stage _ s(2)]
      reconcile_stage.keeps_wf [OF sa_reconcile_stage assms(1) s(1)] by auto
  moreover have f3: "touches {(KRoleBinding, resourceKey k)} (store w2) (store w')"
    using reconcile_stage.frame [OF rb_reconcile_stage wf2 s(3)] .
  ultimately show ?thesis
    by (intro IntI touches_dom(1) [OF f3 touches_dom(1) [OF f2]] touches_dom(2) [OF f3])
qed

lemma conf_post:
  assumes "wf_store (store w)" and "createOrUpdateKyuubiConfigmap E k w = Some (None, w')"
  shows "\<exists>c. configMaps (store w') (resourceKey k) = Some c \<and>
    gm_map (cm_Data c) = fmap_of_list [(DefaultKyuubiConfFile, fst (map2String E (kcs_KyuubiConf (kc_Spec k)) w))]"
proof -
  obtain d e w1 where d: "constructKyuubiConfigMap E k w = ((d, e), w1)" by (metis surj_pair)
  note spec = constructKyuubiConfigMap_spec [OF d]
  from assms(2) d have "ensureConfigMap E d w1 = Some (None, w')"
    by (simp add: createOrUpdateKyuubiConfigmap_eq)
  with ensureConfigMap_data [of w1 d w'] spec assms(1) show ?thesis by (auto simp: gm_map_def)
qed

lemma refs_post:
  assumes "wf_store (store w)" and "createOrUpdateClusterRefsConfigmap E k w = Some (None, w')"
  shows "\<exists>d w1 c. desiredClusterRefsConfigMap E k w = (Inr d, w1) \<and>
    configMaps (store w') (clusterRefsKey k) = Some c \<and> gm_map (cm_Data c) = gm_map (cm_Data d)"
proof -
  obtain d w1 where d: "desiredClusterRefsConfigMap E k w = (Inr d, w1)"
    and "ensureConfigMap E d w1 = Some (None, w')"
    using assms(2) by (auto simp: createOrUpdateClusterRefsConfigmap_eq split: prod.splits sum.splits)
  with desiredClusterRefsConfigMap_spec [OF d] ensureConfigMap_data [of w1 d w'] assms(1)
  show ?thesis by auto
qed

lemma workload_post:
  assumes "workloadStage E k w = Some (None, w')"
  shows "\<exists>t. statefulSets (store w') (resourceKey k) = Some t \<and>
    (sts_Spec t = sts_Spec (fst (constructDesiredKyuubiWorkload E k)) \<or>
     (\<exists>w1 old. t = adm_sts A w1 old (fst (constructDesiredKyuubiWorkload E k))))"
proof -
  let ?d = "fst (constructDesiredKyuubiWorkload E k)"
  obtain x err w1 where g: "Get (stsClient E) (metaKey (sts_Meta ?d)) zeroStatefulSet w = ((x, err), w1)"
    by (metis surj_pair)
  obtain y err2 w2 where c: "Create (stsClient E) ?d w1 = ((y, err2), w2)" by (metis surj_pair)
  obtain z err3 w3 where u: "Update (stsClient E) ?d w1 = ((z, err3), w3)" by (metis surj_pair)
  have s1: "store w1 = store w" using g by (rule sts.get_store)
  consider (same) "err = None" "sts_Spec x = sts_Spec ?d" "w' = w1"
    | (created) "err2 = None" "w' = w2" | (updated) "err3 = None" "w' = w3"
    using assms g c u by (auto simp: workloadStage_def createOrUpdateKyuubi_def Let_def split: if_splits)
  then show ?thesis
  proof cases
    case same
    then show ?thesis using g s1 sts.get_fresh by (auto simp: desired_keys)
  next
    case created
    then show ?thesis using c sts.create_ok [of ?d w1 y w2] by (auto simp: desired_keys)
  next
    case updated
    then show ?thesis using u sts.update_ok [of ?d w1 z w3] by (fastforce simp: desired_keys)
  qed
qed

lemma workload_existing:
  assumes t: "statefulSets (store w) (resourceKey k) = Some t"
    and r: "createOrUpdateKyuubi E k w = (None, w')"
  shows "if sts_Spec t = sts_Spec (fst (constructDesiredKyuubiWorkload E k)) then store w' = store w
    else \<exists>w1. store w1 = store w \<and> statefulSets (store w') (resourceKey k) =
      Some (adm_sts A w1 (Some t) (fst (constructDesiredKyuubiWorkload E k)))"
proof -
  let ?d = "fst (constructDesiredKyuubiWorkload E k)"
  obtain x err w1 where g: "Get (stsClient E) (metaKey (sts_Meta ?d)) zeroStatefulSet w = ((x, err), w1)"
    by (metis surj_pair)
  have "\<not> IsNotFound err"
    using g t sts.get_absent by (fastforce simp: IsNotFound_iff desired_keys)
  with g r have e: "err = None"
    by (auto simp: createOrUpdateKyuubi_def Let_def split: if_splits)
  with g t have x: "x = t" using sts.get_fresh by (fastforce simp: desired_keys)
  have s1: "store w1 = store w" using g by (rule sts.get_store)
  show ?thesis
  proof (cases "sts_Spec t = sts_Spec ?d")
    case True
    with g e x r s1 show ?thesis by (simp add: createOrUpdateKyuubi_def Let_def)
  next
    case False
    with g e x r obtain y where u: "Update (stsClient E) ?d w1 = ((y, None), w')"
      by (auto simp: createOrUpdateKyuubi_def Let_def split: if_splits prod.splits)
    with False show ?thesis using sts.update_ok [OF u] s1 t by (auto simp: desired_keys)
  qed
qed

lemma workload_absent:
  assumes t: "statefulSets (store w) (resourceKey k) = None"
    and r: "createOrUpdateKyuubi E k w = (None, w')"
  shows "\<exists>w1. statefulSets (store w') (resourceKey k) =
      Some (adm_sts A w1 None (fst (constructDesiredKyuubiWorkload E k)))"
proof -
  let ?d = "fst (constructDesiredKyuubiWorkload E k)"
  obtain x err w1 where g: "Get (stsClient E) (metaKey (sts_Meta ?d)) zeroStatefulSet w = ((x, err), w1)"
    by (metis surj_pair)
  have "err \<noteq> None" using g t sts.get_fresh by (fastforce simp: desired_keys)
  with g r obtain y where c: "Create (stsClient E) ?d w1 = ((y, None), w')"
    by (auto simp: createOrUpdateKyuubi_def Let_def split: if_splits prod.splits)
  then show ?thesis using sts.create_ok [OF c] by (auto simp: desired_keys)
qed

text \<open>
  The service that the status is computed from: the stored one, or the zero service when this run
  has just created it.
\<close>

lemma service_post:
  assumes "createOrUpdateService E k w = (Inr svc, w1)"
  obtains (present) "services (store w) (resourceKey k) = Some svc" "store w1 = store w"
  | (created) w0 where "services (store w) (resourceKey k) = None" "svc = zeroService"
      "store w1 = services_update (\<lambda>m. m(resourceKey k \<mapsto>
         adm_svc A w0 None (fst (contructDesiredService E k)))) (store w)"
proof -
  let ?d = "fst (contructDesiredService E k)"
  obtain x err w0 where g: "Get (svcClient E) (metaKey (svc_Meta ?d)) zeroService w = ((x, err), w0)"
    by (metis surj_pair)
  have s0: "store w0 = store w" using g by (rule svc.get_store)
  show thesis
  proof (cases err)
    case None
    with g assms have "svc = x" "w1 = w0" by (simp_all add: createOrUpdateService_def)
    with None g s0 show thesis using svc.get_fresh by (intro present) (auto simp: desired_keys)
  next
    case (Some e)
    with g assms obtain y m where c: "Create (svcClient E) ?d w0 = ((y, None), w1)" and "svc = x"
      and e: "e = NotFound m"
      by (auto simp: createOrUpdateService_def Let_def IsNotFound_iff split: if_splits prod.splits)
    moreover have "x = zeroService" using svc.get_notfound g Some e by blast
    ultimately show thesis
      using svc.create_ok [OF c] s0 by (intro created [of w0]) (auto simp: desired_keys)
  qed
qed

lemma status_post:
  assumes wf: "wf_store (store w)" and r: "updateKyuubiClusterStatus E k svc w = (None, w')"
    and k: "kyuubiClusters (store w) (kyuubiKey k) = Some k"
  shows "\<exists>k'. kyuubiClusters (store w') (kyuubiKey k) = Some k' \<and> kc_Spec k' = kc_Spec k \<and>
    st_ExposedInfos (kc_Status k') = Some (exposedInfosOf k svc) \<and>
    (st_ExposedInfos (kc_Status k) \<noteq> None \<longrightarrow>
      st_CreationTime (kc_Status k') = st_CreationTime (kc_Status k))"
  using r
proof (cases rule: updateKyuubiClusterStatus_cases)
  case unchanged
  with k show ?thesis by simp
next
  case (sent st w2 y)
  with k have "store w' = kyuubiClusters_update (\<lambda>m. m(kyuubiKey k \<mapsto>
      adm_kyuubi A w2 (Some k) (k\<lparr>kc_Status := st\<rparr>))) (store w)"
    using status_ok [of w2 "k\<lparr>kc_Status := st\<rparr>" y w'] wf by (auto simp: metaKey_kyuubi)
  with sent show ?thesis by (simp add: admit_spec admit_status)
qed

lemma status_service:
  assumes "updateKyuubiClusterStatus E k svc w = (e, w')" and "wf_store (store w)"
  shows "services (store w') = services (store w)"
  using status_frame [OF assms(2,1)] touches_same [of _ "store w" "store w'" KService] by auto

text \<open>What holds at the end of a successful run.\<close>

lemma run_post:
  assumes wf: "wf_store (store w)" and run: "createOrUpdateClusters E k w = Some (None, w')"
  shows "resourceKey k \<in> dom (serviceAccounts (store w')) \<inter> dom (roles (store w')) \<inter>
      dom (roleBindings (store w')) \<inter> dom (services (store w'))"
    and "\<exists>w1 c. configMaps (store w') (resourceKey k) = Some c \<and> gm_map (cm_Data c) =
      fmap_of_list [(DefaultKyuubiConfFile, fst (map2String E (kcs_KyuubiConf (kc_Spec k)) w1))]"
    and "\<exists>w1 w2 d c. desiredClusterRefsConfigMap E k w1 = (Inr d, w2) \<and>
      configMaps (store w') (clusterRefsKey k) = Some c \<and> gm_map (cm_Data c) = gm_map (cm_Data d)"
    and "\<exists>t. statefulSets (store w') (resourceKey k) = Some t \<and>
      (sts_Spec t = sts_Spec (fst (constructDesiredKyuubiWorkload E k)) \<or>
       (\<exists>w1 old. t = adm_sts A w1 old (fst (constructDesiredKyuubiWorkload E k))))"
proof -
  obtain w1 w2 w3 w4 where r: "rbacStage E k w = Some (None, w1)"
    "createOrUpdateKyuubiConfigmap E k w1 = Some (None, w2)"
    "createOrUpdateClusterRefsConfigmap E k w2 = Some (None, w3)"
    "workloadStage E k w3 = Some (None, w4)" and r5: "serviceStatusStage E k w4 = Some (None, w')"
    using run by (rule createOrUpdateClusters_run)
  note wfs = run_frames(1-4) [OF wf r] and frames = run_frames(5-8) [OF wf r]
  have f5: "touches {(KService, resourceKey k), (KKyuubiCluster, kyuubiKey k)} (store w4) (store w')"
    using reconcile_stage.frame [OF serviceStatus_reconcile_stage wfs(4) r5] .
  obtain svc w5 where v: "createOrUpdateService E k w4 = (Inr svc, w5)"
    "updateKyuubiClusterStatus E k svc w5 = (None, w')"
    using r5 by (rule serviceStatusStage_run)
  have "resourceKey k \<in> dom (services (store w5))"
    using v(1) by (cases rule: service_post) auto
  then have "resourceKey k \<in> dom (services (store w'))"
    using status_service [OF v(2)] service_frame [OF wfs(4) v(1)] by simp
  moreover have "resourceKey k \<in> dom (serviceAccounts (store w1)) \<inter> dom (roles (store w1)) \<inter> dom (roleBindings (store w1))"
    using rbac_post [OF wf r(1)] .
  ultimately show "resourceKey k \<in> dom (serviceAccounts (store w')) \<inter> dom (roles (store w')) \<inter>
      dom (roleBindings (store w')) \<inter> dom (services (store w'))"
    using touches_dom(1-3) [OF frames(2)] touches_dom(1-3) [OF frames(3)] touches_dom(1-3) [OF frames(4)]
      touches_dom(1-3) [OF f5] by simp
  have "configMaps (store w') (resourceKey k) = configMaps (store w2) (resourceKey k)"
    using touches_same [OF frames(3), of KConfigMap] touches_same [OF frames(4), of KConfigMap]
      touches_same [OF f5, of KConfigMap] by simp
  with conf_post [OF wfs(1) r(2)] show "\<exists>w1 c. configMaps (store w') (resourceKey k) = Some c \<and>
      gm_map (cm_Data c) =
      fmap_of_list [(DefaultKyuubiConfFile, fst (map2String E (kcs_KyuubiConf (kc_Spec k)) w1))]"
    by auto
  have "configMaps (store w') (clusterRefsKey k) = configMaps (store w3) (clusterRefsKey k)"
    using touches_same [OF frames(4), of KConfigMap] touches_same [OF f5, of KConfigMap] by simp
  with refs_post [OF wfs(2) r(3)] show "\<exists>w1 w2 d c. desiredClusterRefsConfigMap E k w1 = (Inr d, w2) \<and>
      configMaps (store w') (clusterRefsKey k) = Some c \<and> gm_map (cm_Data c) = gm_map (cm_Data d)"
    by metis
  have "statefulSets (store w') (resourceKey k) = statefulSets (store w4) (resourceKey k)"
    using touches_same [OF f5, of KStatefulSet] by simp
  with workload_post [OF r(4)] show "\<exists>t. statefulSets (store w') (resourceKey k) = Some t \<and>
      (sts_Spec t = sts_Spec (fst (constructDesiredKyuubiWorkload E k)) \<or>
       (\<exists>w1 old. t = adm_sts A w1 old (fst (constructDesiredKyuubiWorkload E k))))" by simp
qed

lemma run_status:
  assumes wf: "wf_store (store w)" and run: "createOrUpdateClusters E k w = Some (None, w')"
    and k: "kyuubiClusters (store w) (kyuubiKey k) = Some k"
  shows "\<exists>k'. kyuubiClusters (store w') (kyuubiKey k) = Some k' \<and> kc_Spec k' = kc_Spec k \<and>
    st_ExposedInfos (kc_Status k') = Some (case services (store w) (resourceKey k) of
      None \<Rightarrow> [] | Some svc \<Rightarrow> exposedInfosOf k svc) \<and>
    (st_ExposedInfos (kc_Status k) \<noteq> None \<longrightarrow>
      st_CreationTime (kc_Status k') = st_CreationTime (kc_Status k))"
proof -
  obtain w1 w2 w3 w4 where r: "rbacStage E k w = Some (None, w1)"
    "createOrUpdateKyuubiConfigmap E k w1 = Some (None, w2)"
    "createOrUpdateClusterRefsConfigmap E k w2 = Some (None, w3)"
    "workloadStage E k w3 = Some (None, w4)" and r5: "serviceStatusStage E k w4 = Some (None, w')"
    using run by (rule createOrUpdateClusters_run)
  note wf4 = run_frames(4) [OF wf r] and same = run_untouched [OF wf r]
  obtain svc w5 where v: "createOrUpdateService E k w4 = (Inr svc, w5)"
    "updateKyuubiClusterStatus E k svc w5 = (None, w')"
    using r5 by (rule serviceStatusStage_run)
  note f5 = service_frame [OF wf4 v(1)]
  have "kyuubiClusters (store w5) (kyuubiKey k) = Some k"
    using f5 touches_same [of _ "store w4" "store w5" KKyuubiCluster] same(1) k by auto
  note st = status_post [OF conjunct2 [OF f5] v(2) this]
  have "exposedInfosOf k svc = (case services (store w) (resourceKey k) of
      None \<Rightarrow> [] | Some svc \<Rightarrow> exposedInfosOf k svc)"
    using v(1)
  proof (cases rule: service_post)
    case present
    then show ?thesis using same(2) by simp
  next
    case (created w0)
    then show ?thesis using same(2) by (simp add: zeroService_def)
  qed
  with st show ?thesis by simp
qed

lemma Reconcile_success:
  assumes "wf_store (store w)" and "plainName req" and "Reconcile E req w = Some (Returned res None, w')"
  obtains k w0 where "kyuubiClusters (store w) req = Some k" "kyuubiKey k = req" "store w0 = store w"
    "createOrUpdateClusters E k w0 = Some (None, w')"
proof -
  obtain k e w0 where g: "Get (kyuubiClient E) req zeroKyuubiCluster w = ((k, e), w0)"
    by (metis surj_pair)
  with assms have e: "e = None" and run: "createOrUpdateClusters E k w0 = Some (None, w')"
    by (auto simp: Reconcile_dispatch split: option.splits)
  have "kyuubiClusters (store w) req = Some k" using kc.get_fresh g e by blast
  moreover have "store w0 = store w" using g by (rule kc.get_store)
  ultimately show thesis using that fetched_key [OF assms(1)] g e run by blast
qed

end

section \<open>With reliable calls\<close>

lemma seqStage_ok:
  "s1 k w = Some (None, w1) \<Longrightarrow> seqStage s1 s2 k w = s2 k w1"
  "s1 k w = Some (Some e, w1) \<Longrightarrow> seqStage s1 s2 k w = Some (Some e, w1)"
  by (simp_all add: seqStage_def)

context reliable_api
begin

lemma rbac_succeeds: "\<exists>w'. rbacStage E k w = Some (None, w')"
proof -
  have "\<exists>w'. saStage E k w = Some (None, w')" for w
    using sa.ensureCreated_succeeds by (metis createOrUpdateServiceAccount_eq prod.collapse saStage_def)
  moreover have "\<exists>w'. roleStage E k w = Some (None, w')" for w
    using ro.ensureCreated_succeeds by (metis createOrUpdateRole_eq prod.collapse roleStage_def)
  moreover have "\<exists>w'. rbStage E k w = Some (None, w')" for w
    using rb.ensureCreated_succeeds by (metis createOrUpdateRoleBinding_eq prod.collapse rbStage_def)
  ultimately show ?thesis unfolding rbacStage_def by (metis seqStage_ok(1))
qed

lemma conf_succeeds:
  assumes "wf_store (store w)"
  shows "\<exists>w'. createOrUpdateKyuubiConfigmap E k w = Some (None, w')"
proof -
  obtain d e w1 where d: "constructKyuubiConfigMap E k w = ((d, e), w1)" by (metis surj_pair)
  with constructKyuubiConfigMap_spec [OF d] assms show ?thesis
    using ensureConfigMap_succeeds [of w1 d] by (simp add: createOrUpdateKyuubiConfigmap_eq)
qed

lemma refs_result:
  assumes wf: "wf_store (store w)" and owner: "\<And>m. snd (SetControllerReference E k m) = None"
  shows "\<exists>w'. createOrUpdateClusterRefsConfigmap E k w =
    Some (if \<exists>r \<in> set (kcs_ClusterRefs (kc_Spec k)). sparkWithoutDefaults r then Some sparkError else None, w')"
proof -
  obtain r w1 where d: "desiredClusterRefsConfigMap E k w = (r, w1)" by (metis surj_pair)
  note iff = desired_result [OF owner, where w = w, unfolded d fst_conv]
  show ?thesis
  proof (cases r)
    case (Inl e)
    with d iff [of e] show ?thesis by (simp add: createOrUpdateClusterRefsConfigmap_eq)
  next
    case (Inr c)
    then have "\<not> (\<exists>r \<in> set (kcs_ClusterRefs (kc_Spec k)). sparkWithoutDefaults r)"
      using iff [of sparkError] by simp
    moreover have "\<exists>w'. ensureConfigMap E c w1 = Some (None, w')"
      using ensureConfigMap_succeeds [of w1 c] desiredClusterRefsConfigMap_spec [OF d] wf by simp
    ultimately show ?thesis using d Inr by (simp add: createOrUpdateClusterRefsConfigmap_eq)
  qed
qed

lemma workload_succeeds: "\<exists>w'. workloadStage E k w = Some (None, w')"
proof -
  let ?d = "fst (constructDesiredKyuubiWorkload E k)"
  obtain x err w1 where g: "Get (stsClient E) (metaKey (sts_Meta ?d)) zeroStatefulSet w = ((x, err), w1)"
    by (metis surj_pair)
  have s1: "store w1 = store w" using g by (rule sts.get_store)
  have v: "om_ResourceVersion (sts_Meta ?d) = []"
    by (simp add: constructDesiredKyuubiWorkload_def Let_def split_beta owner_version childMeta_def zeroMeta_def)
  show ?thesis
  proof (cases err)
    case None
    with g s1 have "statefulSets (store w1) (metaKey (sts_Meta ?d)) = Some x"
      using sts.get_fresh by auto
    then obtain y w2 where "Update (stsClient E) ?d w1 = ((y, None), w2)"
      using sts.update_succeeds v by blast
    with g None show ?thesis by (auto simp: workloadStage_def createOrUpdateKyuubi_def Let_def)
  next
    case (Some e)
    with g have nf: "IsNotFound err" using sts.get_answers by blast
    with g s1 have "statefulSets (store w1) (metaKey (sts_Meta ?d)) = None"
      using sts.get_absent by (metis IsNotFound_iff)
    then obtain y w2 where "Create (stsClient E) ?d w1 = ((y, None), w2)"
      using sts.create_succeeds by blast
    with g nf show ?thesis by (auto simp: workloadStage_def createOrUpdateKyuubi_def Let_def)
  qed
qed

lemma serviceStatus_succeeds:
  assumes wf: "wf_store (store w)" and k: "kyuubiClusters (store w) (kyuubiKey k) = Some k"
  shows "\<exists>w'. serviceStatusStage E k w = Some (None, w')"
proof -
  obtain r w1 where r: "createOrUpdateService E k w = (r, w1)" by (metis surj_pair)
  have "case_sum Some (\<lambda>_. None) r = None"
    using svc.ensureCreated_succeeds [of zeroService "fst (contructDesiredService E k)" w] r
    by (simp flip: createOrUpdateService_eq)
  then obtain v where v: "r = Inr v" by (cases r) auto
  have k1: "kyuubiClusters (store w1) (kyuubiKey k) = Some k"
    using service_frame [OF wf r] touches_same [of _ "store w" "store w1" KKyuubiCluster] k by auto
  obtain e w2 where u: "updateKyuubiClusterStatus E k v w1 = (e, w2)" by (metis surj_pair)
  then have "e = None"
  proof (cases rule: updateKyuubiClusterStatus_cases)
    case (sent st w3 y)
    then show ?thesis
      using status_succeeds [of w3 "k\<lparr>kc_Status := st\<rparr>" k] k1 by (auto simp: metaKey_kyuubi)
  qed simp
  with r v u show ?thesis by (simp add: serviceStatusStage_def)
qed

text \<open>
  With a reliable server the run fails exactly when a Spark reference has no defaults.
\<close>

lemma createOrUpdateClusters_result:
  assumes wf: "wf_store (store w)" and owner: "\<And>m. snd (SetControllerReference E k m) = None"
    and k: "kyuubiClusters (store w) (kyuubiKey k) = Some k"
  shows "\<exists>w'. createOrUpdateClusters E k w =
    Some (if \<exists>r \<in> set (kcs_ClusterRefs (kc_Spec k)). sparkWithoutDefaults r then Some sparkError else None, w')"
proof -
  obtain w1 where r1: "rbacStage E k w = Some (None, w1)" using rbac_succeeds by blast
  have wf1: "wf_store (store w1)" using reconcile_stage.keeps_wf [OF rbac_reconcile_stage wf r1] .
  obtain w2 where r2: "createOrUpdateKyuubiConfigmap E k w1 = Some (None, w2)"
    using conf_succeeds [OF wf1] by blast
  have wf2: "wf_store (store w2)" using reconcile_stage.keeps_wf [OF conf_reconcile_stage wf1 r2] .
  obtain w3 where r3: "createOrUpdateClusterRefsConfigmap E k w2 =
      Some (if \<exists>r \<in> set (kcs_ClusterRefs (kc_Spec k)). sparkWithoutDefaults r then Some sparkError else None, w3)"
    using refs_result [OF wf2 owner] by blast
  obtain w4 where r4: "workloadStage E k w3 = Some (None, w4)" using workload_succeeds by blast
  have wf4: "wf_store (store w4)" using run_frames(4) [OF wf r1 r2 r3 r4] .
  have "kyuubiClusters (store w4) (kyuubiKey k) = Some k"
    using run_untouched(1) [OF wf r1 r2 r3 r4] k by simp
  then obtain w5 where r5: "serviceStatusStage E k w4 = Some (None, w5)"
    using serviceStatus_succeeds [OF wf4] by blast
  have "createOrUpdateClusters E k w = seqStage (createOrUpdateClusterRefsConfigmap E)
      (seqStage (workloadStage E) (serviceStatusStage E)) k w2"
    unfolding createOrUpdateClusters_eq allStages_def using r1 r2
    by (simp add: seqStage_ok flip: rbacStage_def)
  then show ?thesis using r3 r4 r5
    by (cases "\<exists>r \<in> set (kcs_ClusterRefs (kc_Spec k)). sparkWithoutDefaults r") (auto simp: seqStage_ok)
qed

lemma Reconcile_missing:
  assumes "kyuubiClusters (store w) req = None"
  shows "\<exists>m w'. Reconcile E req w = Some (Returned zeroResult (Some (NotFound m)), w') \<and> store w' = store w"
proof -
  obtain k m w1 where g: "Get (kyuubiClient E) req zeroKyuubiCluster w = ((k, Some (NotFound m)), w1)"
    using assms by (rule kc.get_missing)
  with g kc.get_store [OF g] show ?thesis by (auto simp: Reconcile_def)
qed

lemma Reconcile_succeeds_iff:
  assumes wf: "wf_store (store w)" and p: "plainName req"
    and owner: "\<And>k m. snd (SetControllerReference E k m) = None"
  shows "(\<exists>w'. Reconcile E req w = Some (Returned zeroResult None, w')) \<longleftrightarrow>
    (\<exists>k. kyuubiClusters (store w) req = Some k \<and>
      \<not> (\<exists>r \<in> set (kcs_ClusterRefs (kc_Spec k)). sparkWithoutDefaults r))"
proof (cases "kyuubiClusters (store w) req")
  case None
  then show ?thesis using Reconcile_missing [OF None] by auto
next
  case (Some k)
  then obtain w1 where g: "Get (kyuubiClient E) req zeroKyuubiCluster w = ((k, None), w1)"
    by (rule kc.get_present)
  have s: "store w1 = store w" using g by (rule kc.get_store)
  have "kyuubiKey k = req" using wf Some by (auto simp: wf_store_def wf_map_def metaKey_kyuubi)
  then obtain w2 where "createOrUpdateClusters E k w1 =
      Some (if \<exists>r \<in> set (kcs_ClusterRefs (kc_Spec k)). sparkWithoutDefaults r then Some sparkError else None, w2)"
    using createOrUpdateClusters_result [of w1 k] wf owner Some s by auto
  then show ?thesis using Some g by (simp add: Reconcile_dispatch [OF wf p])
qed

end

section \<open>Exposed infos\<close>

lemma exposedInfos_loop_eq:
  "exposedInfos_loop k svc n ps acc = acc @ map (\<lambda>(i, v).
     \<lparr>ei_Name = kc_Name k @ ''-'' @ strconv_Itoa i, ei_ExposedType = sp_Name v,
      ei_ServiceName = om_Name (svc_Meta svc), ei_ServicePort = v\<rparr>) (enumerate n ps)"
  by (induction ps arbitrary: n acc) (simp_all add: Let_def)

lemma exposedInfos_loop_name:
  "kc_Name k = kc_Name k' \<Longrightarrow> exposedInfos_loop k svc n ps acc = exposedInfos_loop k' svc n ps acc"
  by (simp add: exposedInfos_loop_eq)

section \<open>The polling loop\<close>

text \<open>The answer of one poll, and the world after a number of polls with the sleeps between them.\<close>

definition pollError :: "'w env \<Rightarrow> NamespacedName \<Rightarrow> 'w \<Rightarrow> GoError option" where
  "pollError E key w = snd (fst (Get (cmClient E) key zeroConfigMap w))"

primrec poll :: "'w env \<Rightarrow> NamespacedName \<Rightarrow> nat \<Rightarrow> 'w \<Rightarrow> 'w" where
  "poll E key 0 w = w"
| "poll E key (Suc n) w = poll E key n (Sleep E 100 (snd (Get (cmClient E) key zeroConfigMap w)))"

lemma waitForConfigMap_step:
  "IsNotFound (pollError E key w) \<Longrightarrow>
     waitForConfigMap E key w = waitForConfigMap E key (poll E key 1 w)"
  "\<not> IsNotFound (pollError E key w) \<Longrightarrow>
     waitForConfigMap E key w = Some (pollError E key w, snd (Get (cmClient E) key zeroConfigMap w))"
  by (subst waitForConfigMap.simps, auto simp: pollError_def split_beta)+

lemma waitForConfigMap_after:
  "(\<And>i. i < n \<Longrightarrow> IsNotFound (pollError E key (poll E key i w))) \<Longrightarrow>
     waitForConfigMap E key w = waitForConfigMap E key (poll E key n w)"
proof (induction n arbitrary: w)
  case (Suc n)
  have "IsNotFound (pollError E key w)" using Suc.prems [of 0] by simp
  moreover have "IsNotFound (pollError E key (poll E key i (poll E key 1 w)))" if "i < n" for i
    using Suc.prems [of "Suc i"] that by simp
  ultimately show ?case
    using Suc.IH [of "poll E key 1 w"] waitForConfigMap_step(1) [of E key w] by simp
qed simp

lemma waitForConfigMap_found:
  assumes "\<And>i. i < n \<Longrightarrow> IsNotFound (pollError E key (poll E key i w))"
    and "\<not> IsNotFound (pollError E key (poll E key n w))"
  shows "waitForConfigMap E key w = Some (pollError E key (poll E key n w),
    snd (Get (cmClient E) key zeroConfigMap (poll E key n w)))"
  using waitForConfigMap_after [OF assms(1), of n] waitForConfigMap_step(2) [OF assms(2)] by simp

lemma waitForConfigMap_returned:
  assumes ret: "waitForConfigMap E key w = Some r"
  shows "\<exists>n. \<not> IsNotFound (pollError E key (poll E key n w))"
proof (rule waitForConfigMap.raw_induct
    [where P = "\<lambda>E key w r. \<exists>n. \<not> IsNotFound (pollError E key (poll E key n w))", OF _ ret])
  fix wait F key w r
  assume IH: "\<And>F key w r. wait F key w = Some r \<Longrightarrow> \<exists>n. \<not> IsNotFound (pollError F key (poll F key n w))"
    and eq: "(case Get (cmClient F) key zeroConfigMap w of
      ((existingConfigMap, err), w1) \<Rightarrow>
        if err \<noteq> None \<and> \<not> IsNotFound err then Some (err, w1)
        else if IsNotFound err then wait F key (Sleep F 100 w1)
        else Some (None, w1)) = Some r"
  show "\<exists>n. \<not> IsNotFound (pollError F key (poll F key n w))"
  proof (cases "IsNotFound (pollError F key w)")
    case True
    with eq have "wait F key (poll F key 1 w) = Some r" by (auto simp: pollError_def split_beta)
    then obtain n where "\<not> IsNotFound (pollError F key (poll F key n (poll F key 1 w)))" using IH by blast
    then have "\<not> IsNotFound (pollError F key (poll F key (Suc n) w))" by simp
    then show ?thesis ..
  next
    case False
    then have "\<not> IsNotFound (pollError F key (poll F key 0 w))" by simp
    then show ?thesis ..
  qed
qed

lemma waitForConfigMap_Some_iff:
  "waitForConfigMap E key w = Some r \<longleftrightarrow>
     (\<exists>n. \<not> IsNotFound (pollError E key (poll E key n w)) \<and>
        (\<forall>i<n. IsNotFound (pollError E key (poll E key i w))) \<and>
        r = (pollError E key (poll E key n w), snd (Get (cmClient E) key zeroConfigMap (poll E key n w))))"
proof
  assume r: "waitForConfigMap E key w = Some r"
  then obtain n where n: "\<not> IsNotFound (pollError E key (poll E key n w))"
    "\<forall>i<n. IsNotFound (pollError E key (poll E key i w))"
    using waitForConfigMap_returned [OF r]
      exists_least_iff [of "\<lambda>n. \<not> IsNotFound (pollError E key (poll E key n w))"] by auto
  then show "\<exists>n. \<not> IsNotFound (pollError E key (poll E key n w)) \<and>
      (\<forall>i<n. IsNotFound (pollError E key (poll E key i w))) \<and>
      r = (pollError E key (poll E key n w), snd (Get (cmClient E) key zeroConfigMap (poll E key n w)))"
    using waitForConfigMap_found [of n E key w] r by auto
qed (use waitForConfigMap_found in metis)

lemma waitForConfigMap_None_iff:
  "waitForConfigMap E key w = None \<longleftrightarrow> (\<forall>n. IsNotFound (pollError E key (poll E key n w)))"
proof
  assume "waitForConfigMap E key w = None"
  then have "\<not> (\<exists>n. \<not> IsNotFound (pollError E key (poll E key n w)) \<and>
      (\<forall>i<n. IsNotFound (pollError E key (poll E key i w))))"
    using waitForConfigMap_Some_iff [of E key w] by auto
  then show "\<forall>n. IsNotFound (pollError E key (poll E key n w))"
    using exists_least_iff [of "\<lambda>n. \<not> IsNotFound (pollError E key (poll E key n w))"] by auto
next
  assume "\<forall>n. IsNotFound (pollError E key (poll E key n w))"
  then show "waitForConfigMap E key w = None"
    using waitForConfigMap_returned by (metis not_None_eq)
qed

end
