(* ===== verification/Reconcile_Correct.thy ===== *)
theory Reconcile_Correct
  imports Reconcile_Run
begin

text \<open>
  The properties of \<open>Reconcile\<close>: what it may change, when it returns, what holds after a successful
  call, when it succeeds, and what the status says. Each is stated for every environment that meets
  the contract named in its first hypothesis; the witnesses run the controller against the reference
  server on the custom resources of \<open>config/samples\<close>.
\<close>

lemma minioKey [simp]: "metaKey (kc_Meta minioCluster) = sampleKey"
  by (simp add: minioCluster_def)

lemma plain_sampleKey [simp]: "plainName sampleKey"
  by (simp add: plainName_def sampleKey_def)

lemma refEnv_fresh_api: "fresh_api refEnv rw_store refAdmission"
  by (rule refApi.fresh_api_axioms)

lemma refEnv_reliable_api: "reliable_api refEnv rw_store refAdmission"
  by (rule refApi.reliable_api_axioms)

section \<open>What a call may change\<close>

text \<open>
  C1. A call of \<open>Reconcile\<close> for a request changes at most the custom resource of that name (its
  status, never its spec) and the child objects \<open>name-kyuubi\<close> and \<open>name-clusterrefs\<close> of its
  namespace. It never deletes an object, it never changes an existing service account, role, role
  binding or service, and every object stays under its own key. This holds for stale reads, failing
  calls and every error return.
\<close>

theorem reconcile_frame:
  assumes "kube_api E store A" and "wf_store (store w)" and "Reconcile E req w = Some (out, w')"
  shows "touches (requestFootprint req) (store w) (store w') \<and> wf_store (store w')"
  using assms by (rule kube_api.Reconcile_frame)

theorem reconcile_frame_witness:
  "\<exists>out w'. Reconcile refEnv sampleKey (worldWith minioCluster) = Some (out, w') \<and>
     touches (requestFootprint sampleKey) (rw_store (worldWith minioCluster)) (rw_store w') \<and>
     wf_store (rw_store w')"
proof -
  obtain out w' where r: "Reconcile refEnv sampleKey (worldWith minioCluster) = Some (out, w')"
    using refApi.Reconcile_returns by fast
  from reconcile_frame [OF refApi_kube wf_worldWith r] r show ?thesis by blast
qed

text \<open>
  C4. Reconciling one custom resource leaves every object that belongs to another one as it is, also
  when both are in the same namespace.
\<close>

theorem reconcile_isolation:
  assumes "kube_api E store A" and "wf_store (store w)" and "Reconcile E req w = Some (out, w')"
    and "other \<noteq> req" and "(kind, key) \<in> requestFootprint other"
  shows "sameObject (store w) (store w') kind key"
  using kube_api.Reconcile_frame [OF assms(1-3)] requestFootprint_disjoint [OF assms(4)] assms(5)
  by (blast intro: touches_same)

theorem reconcile_isolation_witness:
  "\<exists>out w'. Reconcile refEnv sampleKey (worldWith minioCluster) = Some (out, w') \<and>
     sameObject (rw_store (worldWith minioCluster)) (rw_store w') KStatefulSet
       \<lparr>nn_Namespace = ''kyuubi-operator'', nn_Name = ''other-kyuubi''\<rparr>"
proof -
  let ?o = "\<lparr>nn_Namespace = ''kyuubi-operator'', nn_Name = ''other''\<rparr>"
  obtain out w' where r: "Reconcile refEnv sampleKey (worldWith minioCluster) = Some (out, w')"
    using refApi.Reconcile_returns by fast
  have "(KStatefulSet, childKey ''-kyuubi'' ?o) \<in> requestFootprint ?o"
    by (simp add: requestFootprint_def)
  from reconcile_isolation [OF refApi_kube wf_worldWith r _ this] r show ?thesis
    by (auto simp: sampleKey_def childKey_def)
qed

section \<open>Dispatch, errors and termination\<close>

text \<open>
  \<open>Reconcile\<close> never panics on the index into the split request, and it always returns the zero
  result: no requeue is asked for other than by an error.
\<close>

theorem reconcile_no_panic:
  assumes "kube_api E store A" and "Reconcile E req w = Some (out, w')"
  shows "\<exists>e. out = Returned zeroResult e"
  using assms by (rule kube_api.Reconcile_no_panic)

theorem reconcile_no_panic_witness:
  "\<exists>e w'. Reconcile refEnv \<lparr>nn_Namespace = [], nn_Name = ''a/b''\<rparr> refInit = Some (Returned zeroResult e, w')"
proof -
  obtain out w' where "Reconcile refEnv \<lparr>nn_Namespace = [], nn_Name = ''a/b''\<rparr> refInit = Some (out, w')"
    using refApi.Reconcile_returns by fast
  with reconcile_no_panic [OF refApi_kube this] show ?thesis by auto
qed

text \<open>
  For a request whose namespace and name have no slash, the comparison of names in \<open>Reconcile\<close>
  always holds: the outcome is the error of the read, or that of \<open>createOrUpdateClusters\<close> on the
  fetched object.
\<close>

theorem reconcile_dispatch:
  assumes "kube_api E store A" and "wf_store (store w)" and "plainName req"
  shows "Reconcile E req w =
    (case Get (kyuubiClient E) req zeroKyuubiCluster w of
       ((k, Some e), w1) \<Rightarrow> Some (Returned zeroResult (Some e), w1)
     | ((k, None), w1) \<Rightarrow> map_option (apfst (Returned zeroResult)) (createOrUpdateClusters E k w1))"
  using assms by (rule kube_api.Reconcile_dispatch)

theorem reconcile_dispatch_witness:
  "Reconcile refEnv sampleKey (worldWith minioCluster) =
     map_option (apfst (Returned zeroResult)) (createOrUpdateClusters refEnv minioCluster (worldWith minioCluster))"
  using reconcile_dispatch [OF refApi_kube wf_worldWith plain_sampleKey, of minioCluster]
  by (simp add: refEnv_def refClient_defs)

text \<open>
  A request for a custom resource that does not exist (it was deleted) returns the \<open>NotFound\<close>
  error of the read, so that the request is queued again, and changes nothing.
\<close>

theorem reconcile_missing:
  assumes "reliable_api E store A" and "kyuubiClusters (store w) req = None"
  shows "\<exists>m w'. Reconcile E req w = Some (Returned zeroResult (Some (NotFound m)), w') \<and> store w' = store w"
  using assms by (rule reliable_api.Reconcile_missing)

theorem reconcile_missing_witness:
  "\<exists>m w'. Reconcile refEnv sampleKey refInit = Some (Returned zeroResult (Some (NotFound m)), w') \<and>
     rw_store w' = emptyStore"
  using reconcile_missing [OF refEnv_reliable_api, of refInit sampleKey]
  by (simp add: refInit_def emptyStore_def)

text \<open>
  C6. Against a server that fails only for the documented reasons, and when owner references can be
  set, a call succeeds exactly when the custom resource exists and every Spark reference in it has
  \<open>sparkDefaults\<close>.
\<close>

theorem reconcile_succeeds_iff:
  assumes "reliable_api E store A" and "wf_store (store w)" and "plainName req"
    and "\<And>k m. snd (SetControllerReference E k m) = None"
  shows "(\<exists>w'. Reconcile E req w = Some (Returned zeroResult None, w')) \<longleftrightarrow>
    (\<exists>k. kyuubiClusters (store w) req = Some k \<and>
      \<not> (\<exists>r \<in> set (kcs_ClusterRefs (kc_Spec k)).
            cr_Type r = SparkClusterType \<and> sc_SparkDefaults (cr_Spark r) = None))"
  using reliable_api.Reconcile_succeeds_iff [OF assms] by (simp add: sparkWithoutDefaults_def)

text \<open>The example of the README is rejected, the second sample is reconciled.\<close>

theorem reconcile_succeeds_iff_witness:
  "(\<nexists>w'. Reconcile refEnv sampleKey (worldWith readmeCluster) = Some (Returned zeroResult None, w')) \<and>
   (\<exists>w'. Reconcile refEnv sampleKey (worldWith minioCluster) = Some (Returned zeroResult None, w'))"
proof -
  note iff = reconcile_succeeds_iff [OF refEnv_reliable_api wf_worldWith plain_sampleKey refEnv_owner]
  show ?thesis
    by (simp add: iff readmeCluster_def minioCluster_def minioSpark_def minioHdfs_def minioMetastore_def
        minioDefaults_def sampleRef_def sampleSpark_def const_defs)
qed

lemma minio_succeeds:
  obtains w' where "Reconcile refEnv sampleKey (worldWith minioCluster) = Some (Returned zeroResult None, w')"
proof -
  have "\<exists>w'. Reconcile refEnv sampleKey (worldWith minioCluster) = Some (Returned zeroResult None, w')"
    unfolding refApi.Reconcile_succeeds_iff [OF wf_worldWith plain_sampleKey refEnv_owner]
    by (simp add: sparkWithoutDefaults_def minioCluster_def minioSpark_def minioHdfs_def minioMetastore_def
        minioDefaults_def sampleRef_def sampleSpark_def const_defs)
  then show thesis using that by blast
qed

section \<open>What holds after a successful call\<close>

text \<open>
  After a successful call the service account, the role, the role binding and the service of the
  custom resource exist.
\<close>

theorem reconcile_creates_children:
  assumes "fresh_api E store A" and "wf_store (store w)" and "plainName req"
    and "Reconcile E req w = Some (Returned res None, w')"
  shows "childKey ''-kyuubi'' req \<in> dom (serviceAccounts (store w')) \<inter> dom (roles (store w')) \<inter>
    dom (roleBindings (store w')) \<inter> dom (services (store w'))"
proof -
  obtain k w0 where "kyuubiKey k = req" "store w0 = store w" "createOrUpdateClusters E k w0 = Some (None, w')"
    using fresh_api.Reconcile_success [OF assms] by metis
  then show ?thesis
    using fresh_api.run_post(1) [OF assms(1), of w0 k w'] assms(2) by (simp add: keys_of_request)
qed

theorem reconcile_creates_children_witness:
  "\<exists>w'. Reconcile refEnv sampleKey (worldWith minioCluster) = Some (Returned zeroResult None, w') \<and>
     \<lparr>nn_Namespace = ''kyuubi-operator'', nn_Name = ''kyuubicluster-sample-kyuubi''\<rparr> \<in> dom (services (rw_store w'))"
proof -
  obtain w' where r: "Reconcile refEnv sampleKey (worldWith minioCluster) = Some (Returned zeroResult None, w')"
    by (rule minio_succeeds)
  from reconcile_creates_children [OF refEnv_fresh_api wf_worldWith plain_sampleKey r] r show ?thesis
    by (simp add: childKey_def sampleKey_def)
qed

text \<open>
  C11. After a successful call the stored file \<open>kyuubi-defaults.conf\<close> reads back to exactly the
  \<open>kyuubiConf\<close> of the custom resource, provided no key has an equals sign and no entry a line break.
\<close>

theorem reconcile_kyuubi_conf:
  assumes "fresh_api E store A" and "wf_store (store w)" and "plainName req"
    and "Reconcile E req w = Some (Returned res None, w')"
    and "kyuubiClusters (store w) req = Some k" and "conf_map (kcs_KyuubiConf (kc_Spec k))"
  shows "\<exists>c. configMaps (store w') (childKey ''-kyuubi'' req) = Some c \<and>
    fmap_of_list (readConf (gm_get (cm_Data c) ''kyuubi-defaults.conf'')) = gm_map (kcs_KyuubiConf (kc_Spec k))"
proof -
  obtain w0 where k: "kyuubiKey k = req" and "store w0 = store w"
    and "createOrUpdateClusters E k w0 = Some (None, w')"
    using fresh_api.Reconcile_success [OF assms(1-4)] assms(5) by (metis option.inject)
  then obtain w1 c where c: "configMaps (store w') (resourceKey k) = Some c"
    and data: "gm_map (cm_Data c) =
      fmap_of_list [(DefaultKyuubiConfFile, fst (map2String E (kcs_KyuubiConf (kc_Spec k)) w1))]"
    using fresh_api.run_post(2) [OF assms(1), of w0 k w'] assms(2) by auto
  have "enumerates (fst (range_map E (kcs_KyuubiConf (kc_Spec k)) w1)) (kcs_KyuubiConf (kc_Spec k))"
    using kube_api.range_enumerates [OF fresh_api.axioms(1) [OF assms(1)]] by (metis prod.collapse)
  note read = map2String_read [OF this assms(6)]
  from data have "gm_get (cm_Data c) ''kyuubi-defaults.conf'' = fst (map2String E (kcs_KyuubiConf (kc_Spec k)) w1)"
    by (simp add: go_defs DefaultKyuubiConfFile_def)
  with read c k show ?thesis by (auto simp: keys_of_request)
qed

lemma conf_sampleKyuubiConf: "conf_map sampleKyuubiConf"
  unfolding sampleKyuubiConf_def by (rule conf_map_of_list) (simp add: conf_entry_def)

theorem reconcile_kyuubi_conf_witness:
  "\<exists>w' c. Reconcile refEnv sampleKey (worldWith minioCluster) = Some (Returned zeroResult None, w') \<and>
     configMaps (rw_store w') (childKey ''-kyuubi'' sampleKey) = Some c \<and>
     fmap_of_list (readConf (gm_get (cm_Data c) ''kyuubi-defaults.conf'')) = gm_map sampleKyuubiConf"
proof -
  obtain w' where r: "Reconcile refEnv sampleKey (worldWith minioCluster) = Some (Returned zeroResult None, w')"
    by (rule minio_succeeds)
  have k: "kyuubiClusters (rw_store (worldWith minioCluster)) sampleKey = Some minioCluster"
    by simp
  have c: "conf_map (kcs_KyuubiConf (kc_Spec minioCluster))"
    by (simp add: minioCluster_def conf_sampleKyuubiConf)
  from reconcile_kyuubi_conf [OF refEnv_fresh_api wf_worldWith plain_sampleKey r k c] r show ?thesis
    by (auto simp: minioCluster_def)
qed

text \<open>
  C12. After a successful call the stored ConfigMap of the cluster references has the data of one
  that \<open>desiredClusterRefsConfigMap\<close> built from the custom resource during the call.
\<close>

theorem reconcile_cluster_refs:
  assumes "fresh_api E store A" and "wf_store (store w)" and "plainName req"
    and "Reconcile E req w = Some (Returned res None, w')"
  shows "\<exists>k d c w1 w2. kyuubiClusters (store w) req = Some k \<and>
    desiredClusterRefsConfigMap E k w1 = (Inr d, w2) \<and>
    configMaps (store w') (childKey ''-clusterrefs'' req) = Some c \<and> gm_map (cm_Data c) = gm_map (cm_Data d)"
proof -
  obtain k w0 where "kyuubiClusters (store w) req = Some k" "kyuubiKey k = req" "store w0 = store w"
    "createOrUpdateClusters E k w0 = Some (None, w')"
    using fresh_api.Reconcile_success [OF assms] by metis
  then show ?thesis
    using fresh_api.run_post(3) [OF assms(1), of w0 k w'] assms(2) by (simp add: keys_of_request) metis
qed

theorem reconcile_cluster_refs_witness:
  "\<exists>w' c d w1 w2. Reconcile refEnv sampleKey (worldWith minioCluster) = Some (Returned zeroResult None, w') \<and>
     desiredClusterRefsConfigMap refEnv minioCluster w1 = (Inr d, w2) \<and>
     configMaps (rw_store w') (childKey ''-clusterrefs'' sampleKey) = Some c \<and>
     gm_map (cm_Data c) = gm_map (cm_Data d)"
proof -
  obtain w' where r: "Reconcile refEnv sampleKey (worldWith minioCluster) = Some (Returned zeroResult None, w')"
    by (rule minio_succeeds)
  from reconcile_cluster_refs [OF refEnv_fresh_api wf_worldWith plain_sampleKey r] r show ?thesis
    by auto
qed

text \<open>
  C13. After a successful call the StatefulSet of the custom resource exists, and its spec is the
  desired one or what admission made of the desired object.
\<close>

theorem reconcile_workload:
  assumes "fresh_api E store A" and "wf_store (store w)" and "plainName req"
    and "Reconcile E req w = Some (Returned res None, w')" and "kyuubiClusters (store w) req = Some k"
  shows "\<exists>t. statefulSets (store w') (childKey ''-kyuubi'' req) = Some t \<and>
    (sts_Spec t = sts_Spec (fst (constructDesiredKyuubiWorkload E k)) \<or>
     (\<exists>w1 old. t = adm_sts A w1 old (fst (constructDesiredKyuubiWorkload E k))))"
proof -
  obtain w0 where "kyuubiKey k = req" "store w0 = store w" "createOrUpdateClusters E k w0 = Some (None, w')"
    using fresh_api.Reconcile_success [OF assms(1-4)] assms(5) by (metis option.inject)
  then show ?thesis
    using fresh_api.run_post(4) [OF assms(1), of w0 k w'] assms(2) by (simp add: keys_of_request)
qed

theorem reconcile_workload_witness:
  "\<exists>w' t. Reconcile refEnv sampleKey (worldWith minioCluster) = Some (Returned zeroResult None, w') \<and>
     statefulSets (rw_store w') (childKey ''-kyuubi'' sampleKey) = Some t \<and>
     ss_Replicas (sts_Spec t) = Some 1"
proof -
  obtain w' where r: "Reconcile refEnv sampleKey (worldWith minioCluster) = Some (Returned zeroResult None, w')"
    by (rule minio_succeeds)
  have k: "kyuubiClusters (rw_store (worldWith minioCluster)) sampleKey = Some minioCluster" by simp
  from reconcile_workload [OF refEnv_fresh_api wf_worldWith plain_sampleKey r k] r show ?thesis
    by (auto simp: refAdmission_def constructDesiredKyuubiWorkload_def Let_def split_beta int32Ptr_def
        minioCluster_def sampleCluster_def)
qed

section \<open>The status\<close>

lemma exposedInfos_columns:
  "map ei_ServicePort (exposedInfosOf k svc) = svc_Ports svc"
  "map ei_ExposedType (exposedInfosOf k svc) = map sp_Name (svc_Ports svc)"
  "map ei_Name (exposedInfosOf k svc) = map (\<lambda>i. kc_Name k @ ''-'' @ strconv_Itoa i) [0..<length (exposedInfosOf k svc)]"
  "distinct (map ei_Name (exposedInfosOf k svc))"
  "ei_ServiceName ` set (exposedInfosOf k svc) \<subseteq> {om_Name (svc_Meta svc)}"
proof -
  let ?name = "\<lambda>i. kc_Name k @ ''-'' @ strconv_Itoa i"
  have "map ei_Name (exposedInfosOf k svc) = map ?name (map fst (enumerate 0 (svc_Ports svc)))"
    unfolding exposedInfos_loop_eq map_map by (simp add: comp_def split_beta)
  then show n: "map ei_Name (exposedInfosOf k svc) = map ?name [0..<length (exposedInfosOf k svc)]"
    by (simp only: map_fst_enumerate add_0) (simp add: exposedInfos_loop_eq)
  show "distinct (map ei_Name (exposedInfosOf k svc))"
    unfolding n by (simp add: distinct_map inj_on_def)
  have "map (f \<circ> snd) (enumerate 0 (svc_Ports svc)) = map f (svc_Ports svc)" for f
    by (metis map_map map_snd_enumerate)
  from this [of id] this [of sp_Name]
  show "map ei_ServicePort (exposedInfosOf k svc) = svc_Ports svc" "map ei_ExposedType (exposedInfosOf k svc) = map sp_Name (svc_Ports svc)"
    by (simp_all add: exposedInfos_loop_eq comp_def split_beta)
qed (auto simp: exposedInfos_loop_eq)

text \<open>
  C15. After a successful call the status lists the ports of the service that was stored before the call, one entry for each
  in their order: the port itself, its name as the exposed type, the name of the service, and a name of its own with the
  position of the port. When the call itself created the service the list is empty. The spec is kept, and so is the creation
  time once the status has been set.
\<close>

theorem reconcile_status:
  assumes "fresh_api E store A" and "wf_store (store w)" and "plainName req"
    and "Reconcile E req w = Some (Returned res None, w')"
  shows "\<exists>k k' infos. kyuubiClusters (store w) req = Some k \<and> kyuubiClusters (store w') req = Some k' \<and>
    kc_Spec k' = kc_Spec k \<and> st_ExposedInfos (kc_Status k') = Some infos \<and>
    map ei_ServicePort infos = (case services (store w) (childKey ''-kyuubi'' req) of None \<Rightarrow> [] | Some svc \<Rightarrow> svc_Ports svc) \<and>
    map ei_ExposedType infos = map sp_Name (map ei_ServicePort infos) \<and>
    map ei_Name infos = map (\<lambda>i. nn_Name req @ ''-'' @ strconv_Itoa i) [0..<length infos] \<and> distinct (map ei_Name infos) \<and>
    list_all (\<lambda>x. ei_ServiceName x = nn_Name req @ ''-kyuubi'') infos \<and>
    (st_ExposedInfos (kc_Status k) \<noteq> None \<longrightarrow>
      st_CreationTime (kc_Status k') = st_CreationTime (kc_Status k))"
proof -
  obtain k w0 where k: "kyuubiClusters (store w) req = Some k" "kyuubiKey k = req" "store w0 = store w"
    "createOrUpdateClusters E k w0 = Some (None, w')"
    using fresh_api.Reconcile_success [OF assms] by metis
  then obtain k' where k': "kyuubiClusters (store w') req = Some k'" "kc_Spec k' = kc_Spec k"
    "st_ExposedInfos (kc_Status k') = Some (case services (store w) (childKey ''-kyuubi'' req) of
      None \<Rightarrow> [] | Some svc \<Rightarrow> exposedInfosOf k svc)"
    "st_ExposedInfos (kc_Status k) \<noteq> None \<longrightarrow> st_CreationTime (kc_Status k') = st_CreationTime (kc_Status k)"
    using fresh_api.run_status [OF assms(1), of w0 k w'] assms(2) by (auto simp: keys_of_request)
  have n: "kc_Name k = nn_Name req" using k(2) by (auto simp: kyuubiKey_def)
  show ?thesis
  proof (cases "services (store w) (childKey ''-kyuubi'' req)")
    case None
    with k(1) k' show ?thesis by auto
  next
    case (Some svc)
    then have "metaKey (svc_Meta svc) = childKey ''-kyuubi'' req"
      using assms(2) unfolding wf_store_def wf_map_def by blast
    from arg_cong [OF this, of nn_Name] have "om_Name (svc_Meta svc) = nn_Name req @ ''-kyuubi''"
      by (simp add: metaKey_def childKey_def)
    then have "list_all (\<lambda>x. ei_ServiceName x = nn_Name req @ ''-kyuubi'') (exposedInfosOf k svc)"
      using exposedInfos_columns(5) [of k svc] by (auto simp: list_all_iff)
    with k(1) k' exposedInfos_columns(1-4) [of k svc, unfolded n] show ?thesis unfolding Some option.case by metis
  qed
qed

text \<open>A cluster whose service is stored with two ports.\<close>

definition servedWorld :: refworld where
  "servedWorld = (let w = worldWith minioCluster; ports = svc_Ports (fst (contructDesiredService refEnv minioCluster));
      svc = zeroService\<lparr>svc_Meta := zeroMeta\<lparr>om_Name := ''kyuubicluster-sample-kyuubi'', om_Namespace := ''kyuubi-operator''\<rparr>,
        svc_Ports := ports\<rparr>
    in w\<lparr>rw_store := services_update (\<lambda>m. m(childKey ''-kyuubi'' sampleKey \<mapsto> svc)) (rw_store w)\<rparr>)"

lemma servedWorld_parts:
  "wf_store (rw_store servedWorld)" "kyuubiClusters (rw_store servedWorld) sampleKey = Some minioCluster"
  "\<exists>svc. services (rw_store servedWorld) (childKey ''-kyuubi'' sampleKey) = Some svc \<and>
     map sp_Name (svc_Ports svc) = [KyuubiRest, KyuubiThriftBinary] \<and> map sp_Port (svc_Ports svc) = [10099, 10009]"
proof -
  have "metaKey (zeroMeta\<lparr>om_Name := ''kyuubicluster-sample-kyuubi'', om_Namespace := ''kyuubi-operator''\<rparr>) = childKey ''-kyuubi'' sampleKey"
    by (simp add: metaKey_def childKey_def sampleKey_def)
  then show "wf_store (rw_store servedWorld)" by (simp add: servedWorld_def Let_def wf_store_upd)
qed (simp_all add: servedWorld_def Let_def contructDesiredService_def split_beta)

lemma Itoa_digit: "n < 10 \<Longrightarrow> strconv_Itoa n = [digit n]"
  by (subst strconv_Itoa.simps) simp

lemma first_digits: "digit 0 = CHR ''0''" "digit (Suc 0) = CHR ''1''"
  by code_simp+

lemma first_numbers: "map strconv_Itoa [0..<2] = [''0'', ''1'']"
proof -
  have "[0..<2::nat] = [0, Suc 0]" by (simp add: upt_conv_Cons)
  then show ?thesis by (simp add: Itoa_digit first_digits)
qed

theorem reconcile_status_witness:
  "\<exists>w' k' infos. Reconcile refEnv sampleKey servedWorld = Some (Returned zeroResult None, w') \<and>
     kyuubiClusters (rw_store w') sampleKey = Some k' \<and> st_ExposedInfos (kc_Status k') = Some infos \<and>
     map ei_Name infos = [''kyuubicluster-sample-0'', ''kyuubicluster-sample-1''] \<and>
     map (\<lambda>x. sp_Port (ei_ServicePort x)) infos = [10099, 10009]"
proof -
  have "\<exists>w'. Reconcile refEnv sampleKey servedWorld = Some (Returned zeroResult None, w')"
    unfolding refApi.Reconcile_succeeds_iff [OF servedWorld_parts(1) plain_sampleKey refEnv_owner]
    by (simp add: servedWorld_parts(2) sparkWithoutDefaults_def minioCluster_def minioSpark_def minioHdfs_def minioMetastore_def
        minioDefaults_def sampleRef_def sampleSpark_def const_defs)
  then obtain w' where r: "Reconcile refEnv sampleKey servedWorld = Some (Returned zeroResult None, w')" ..
  obtain svc where svc: "services (rw_store servedWorld) (childKey ''-kyuubi'' sampleKey) = Some svc"
    "map sp_Port (svc_Ports svc) = [10099, 10009]"
    using servedWorld_parts(3) by (elim exE conjE)
  have two: "length (svc_Ports svc) = 2" using arg_cong [OF svc(2), of length] by simp
  from reconcile_status [OF refEnv_fresh_api servedWorld_parts(1) plain_sampleKey r] svc(1)
  obtain k' infos where i: "kyuubiClusters (rw_store w') sampleKey = Some k'" "st_ExposedInfos (kc_Status k') = Some infos"
    "map ei_ServicePort infos = svc_Ports svc"
    "map ei_Name infos = map (\<lambda>i. nn_Name sampleKey @ ''-'' @ strconv_Itoa i) [0..<length infos]" by auto
  have "length infos = 2" using i(3) two by (metis length_map)
  moreover note first_numbers
  moreover have "map ei_Name infos = map (\<lambda>s. nn_Name sampleKey @ ''-'' @ s) (map strconv_Itoa [0..<length infos])"
    using i(4) by (simp add: comp_def)
  ultimately have "map ei_Name infos = [''kyuubicluster-sample-0'', ''kyuubicluster-sample-1'']"
    by (simp add: sampleKey_def del: map_map)
  moreover have "map (\<lambda>x. sp_Port (ei_ServicePort x)) infos = [10099, 10009]"
    using arg_cong [OF i(3), of "map sp_Port"] svc(2) by (simp add: comp_def)
  ultimately show ?thesis using r i(1,2) by metis
qed

text \<open>
  After two successful calls in a row the status lists the ports of the service that is stored
  then, whatever the first call found.
\<close>

theorem reconcile_twice_status:
  assumes "fresh_api E store A" and "wf_store (store w)" and "plainName req"
    and "Reconcile E req w = Some (Returned res None, w1)"
    and "Reconcile E req w1 = Some (Returned res' None, w2)"
  shows "\<exists>k svc. kyuubiClusters (store w2) req = Some k \<and>
    services (store w2) (childKey ''-kyuubi'' req) = Some svc \<and>
    st_ExposedInfos (kc_Status k) = Some (exposedInfos_loop k svc 0 (svc_Ports svc) [])"
proof -
  note api = fresh_api.axioms(1) [OF assms(1)]
  have wf1: "wf_store (store w1)" using kube_api.Reconcile_frame [OF api assms(2,4)] by simp
  obtain k0 w0 where "kyuubiKey k0 = req" "store w0 = store w" "createOrUpdateClusters E k0 w0 = Some (None, w1)"
    using fresh_api.Reconcile_success [OF assms(1-4)] by metis
  then obtain svc where v: "services (store w1) (childKey ''-kyuubi'' req) = Some svc"
    using fresh_api.run_post(1) [OF assms(1), of w0 k0 w1] assms(2) by (auto simp: keys_of_request)
  obtain k v0 where k: "kyuubiKey k = req" "store v0 = store w1" "createOrUpdateClusters E k v0 = Some (None, w2)"
    "kyuubiClusters (store w1) req = Some k"
    using fresh_api.Reconcile_success [OF assms(1) wf1 assms(3,5)] by metis
  then obtain k' where k': "kyuubiClusters (store w2) req = Some k'"
    "st_ExposedInfos (kc_Status k') = Some (exposedInfosOf k svc)"
    using fresh_api.run_status [OF assms(1), of v0 k w2] wf1 v by (auto simp: keys_of_request)
  note f2 = kube_api.Reconcile_frame [OF api wf1 assms(5)]
  have "kyuubiKey k' = req"
    using f2 k'(1) by (auto simp: wf_store_def wf_map_def metaKey_kyuubi)
  with k(1) have "exposedInfosOf k' svc = exposedInfosOf k svc"
    by (intro exposedInfos_loop_name) (auto simp: kyuubiKey_def)
  moreover have "services (store w2) (childKey ''-kyuubi'' req) = Some svc"
    using touches_keeps(4) f2 v by blast
  ultimately show ?thesis using k' by auto
qed

theorem reconcile_twice_status_witness:
  "\<exists>w1 w2 k. Reconcile refEnv sampleKey (worldWith minioCluster) = Some (Returned zeroResult None, w1) \<and>
     Reconcile refEnv sampleKey w1 = Some (Returned zeroResult None, w2) \<and>
     kyuubiClusters (rw_store w2) sampleKey = Some k \<and> st_ExposedInfos (kc_Status k) \<noteq> None"
proof -
  obtain w1 where r: "Reconcile refEnv sampleKey (worldWith minioCluster) = Some (Returned zeroResult None, w1)"
    by (rule minio_succeeds)
  note f = refApi.Reconcile_frame [OF wf_worldWith r]
  obtain k1 where k1: "kyuubiClusters (rw_store w1) sampleKey = Some k1" "kc_Spec k1 = kc_Spec minioCluster"
    using touches_spec [OF conjunct1 [OF f], of sampleKey minioCluster] by auto
  have "\<exists>w2. Reconcile refEnv sampleKey w1 = Some (Returned zeroResult None, w2)"
    unfolding refApi.Reconcile_succeeds_iff [OF conjunct2 [OF f] plain_sampleKey refEnv_owner]
    using k1 by (simp add: sparkWithoutDefaults_def minioCluster_def minioSpark_def minioHdfs_def
        minioMetastore_def minioDefaults_def sampleRef_def sampleSpark_def const_defs)
  then obtain w2 where r2: "Reconcile refEnv sampleKey w1 = Some (Returned zeroResult None, w2)" ..
  from reconcile_twice_status [OF refEnv_fresh_api wf_worldWith plain_sampleKey r r2] r r2
  show ?thesis by auto
qed

text \<open>
  The entries of the status are numbered in the order of the service's ports, carry the port
  and the name of the service, and have different names.
\<close>

theorem exposedInfos_numbered:
  "exposedInfos_loop k svc 0 (svc_Ports svc) [] = map (\<lambda>(i, v).
     \<lparr>ei_Name = kc_Name k @ ''-'' @ strconv_Itoa i, ei_ExposedType = sp_Name v,
      ei_ServiceName = om_Name (svc_Meta svc), ei_ServicePort = v\<rparr>) (enumerate 0 (svc_Ports svc)) \<and>
   distinct (map ei_Name (exposedInfos_loop k svc 0 (svc_Ports svc) []))"
proof -
  let ?name = "\<lambda>i. kc_Name k @ ''-'' @ strconv_Itoa i"
  have "map ei_Name (exposedInfos_loop k svc 0 (svc_Ports svc) []) = map (?name \<circ> fst) (enumerate 0 (svc_Ports svc))"
    unfolding exposedInfos_loop_eq by (simp add: comp_def split_beta)
  also have "\<dots> = map ?name (map fst (enumerate 0 (svc_Ports svc)))" by (rule map_map [symmetric])
  finally have "map ei_Name (exposedInfos_loop k svc 0 (svc_Ports svc) []) = map ?name [0..<length (svc_Ports svc)]"
    by (simp only: map_fst_enumerate add_0)
  then show ?thesis by (simp add: exposedInfos_loop_eq distinct_map inj_on_def)
qed

section \<open>The workload\<close>

text \<open>
  An existing StatefulSet is left alone when its spec equals the desired one and is replaced by
  the desired object otherwise.
\<close>

theorem workload_rewritten:
  assumes "fresh_api E store A" and "statefulSets (store w) (resourceKey k) = Some t"
    and "createOrUpdateKyuubi E k w = (None, w')"
  shows "if sts_Spec t = sts_Spec (fst (constructDesiredKyuubiWorkload E k)) then store w' = store w
    else \<exists>w1. store w1 = store w \<and> statefulSets (store w') (resourceKey k) =
      Some (adm_sts A w1 (Some t) (fst (constructDesiredKyuubiWorkload E k)))"
  using assms by (rule fresh_api.workload_existing)

theorem workload_rewritten_witness:
  "\<exists>w1 w2 w3 d. d = fst (constructDesiredKyuubiWorkload refEnv minioCluster) \<and>
     createOrUpdateKyuubi refEnv minioCluster (worldWith minioCluster) = (None, w1) \<and>
     createOrUpdateKyuubi refEnv minioCluster w1 = (None, w2) \<and>
     statefulSets (rw_store w2) (resourceKey minioCluster) =
       Some (adm_sts refAdmission w3 (statefulSets (rw_store w1) (resourceKey minioCluster)) d)"
proof -
  let ?d = "fst (constructDesiredKyuubiWorkload refEnv minioCluster)"
  obtain w1 w2 where r: "createOrUpdateKyuubi refEnv minioCluster (worldWith minioCluster) = (None, w1)"
    "createOrUpdateKyuubi refEnv minioCluster w1 = (None, w2)"
    using refApi.workload_succeeds by (metis option.inject workloadStage_def)
  have "statefulSets (rw_store (worldWith minioCluster)) (resourceKey minioCluster) = None"
    by (simp add: worldWith_def emptyStore_def)
  then obtain w0 where t: "statefulSets (rw_store w1) (resourceKey minioCluster) = Some (adm_sts refAdmission w0 None ?d)"
    using refApi.workload_absent [OF _ r(1)] by auto
  have "ss_Other (sts_Spec (adm_sts refAdmission w0 None ?d)) \<noteq> ss_Other (sts_Spec ?d)"
    by (simp add: refAdmission_def constructDesiredKyuubiWorkload_def Let_def split_beta)
  then have "sts_Spec (adm_sts refAdmission w0 None ?d) \<noteq> sts_Spec ?d" by metis
  with workload_rewritten [OF refEnv_fresh_api t r(2)] r t show ?thesis by auto
qed

section \<open>The polling loop\<close>

text \<open>
  C26. The polling loop returns exactly when some poll is answered by anything but \<open>NotFound\<close>; it
  then has slept once before each further poll and returns the answer of the first such poll.
  Otherwise it runs forever: nothing bounds the number of polls, and the cancellation of the context
  is not looked at.
\<close>

theorem waitForConfigMap_iff:
  "(waitForConfigMap E key w = Some r \<longleftrightarrow>
     (\<exists>n. \<not> IsNotFound (pollError E key (poll E key n w)) \<and>
        (\<forall>i<n. IsNotFound (pollError E key (poll E key i w))) \<and>
        r = (pollError E key (poll E key n w), snd (Get (cmClient E) key zeroConfigMap (poll E key n w))))) \<and>
   (waitForConfigMap E key w = None \<longleftrightarrow> (\<forall>n. IsNotFound (pollError E key (poll E key n w))))"
  by (intro conjI waitForConfigMap_Some_iff waitForConfigMap_None_iff)

text \<open>A cache that shows the ConfigMap only from time 3 on: three polls, then success.\<close>

definition lagEnv :: "refworld env" where
  "lagEnv = refEnv\<lparr>cmClient := (cmClient refEnv)\<lparr>Get := \<lambda>key z w.
     if rw_clock w < 3 then ((z, Some (NotFound ''lag'')), w)
     else ((z, None), w)\<rparr>\<rparr>"

lemma lagEnv_calls:
  "Get (cmClient lagEnv) key z w = (if rw_clock w < 3 then ((z, Some (NotFound ''lag'')), w) else ((z, None), w))"
  "Sleep lagEnv n w = w\<lparr>rw_clock := rw_clock w + 1\<rparr>"
  by (simp_all add: lagEnv_def refEnv_def)

lemma lagEnv_poll: "poll lagEnv key n w = w\<lparr>rw_clock := rw_clock w + of_nat n\<rparr>"
  by (induction n arbitrary: w) (simp_all add: lagEnv_calls add.assoc)

theorem waitForConfigMap_iff_witness:
  "\<exists>w'. waitForConfigMap lagEnv sampleKey refInit = Some (None, w') \<and> rw_clock w' = 3"
proof -
  have e: "pollError lagEnv sampleKey (poll lagEnv sampleKey n refInit) =
      (if n < 3 then Some (NotFound ''lag'') else None)" for n
    by (simp add: pollError_def lagEnv_poll lagEnv_calls refInit_def)
  have "\<exists>n. \<not> IsNotFound (pollError lagEnv sampleKey (poll lagEnv sampleKey n refInit)) \<and>
      (\<forall>i<n. IsNotFound (pollError lagEnv sampleKey (poll lagEnv sampleKey i refInit))) \<and>
      (None, refInit\<lparr>rw_clock := 3\<rparr>) = (pollError lagEnv sampleKey (poll lagEnv sampleKey n refInit),
        snd (Get (cmClient lagEnv) sampleKey zeroConfigMap (poll lagEnv sampleKey n refInit)))"
    unfolding e by (rule exI [of _ 3]) (simp add: lagEnv_poll lagEnv_calls refInit_def)
  with waitForConfigMap_iff [of lagEnv sampleKey refInit "(None, refInit\<lparr>rw_clock := 3\<rparr>)"] show ?thesis
    by (intro exI [of _ "refInit\<lparr>rw_clock := 3\<rparr>"]) simp
qed

end
