(* ===== verification/Cluster_System.thy ===== *)
theory Cluster_System
  imports Reconcile_Correct
begin

text \<open>
  The controller among the other actors on the cluster, as a step relation: calls of \<open>Reconcile\<close> in
  any order for any requests, users who create or edit custom resources, deletions of any object by
  anyone (the garbage collector included), and steps that change nothing in the store (time, caches,
  the environment). A run is a sequence of such steps with its events; the invariants are proved by
  rule induction over it.
\<close>

section \<open>Events and steps\<close>

datatype event =
    Reconciled NamespacedName outcome
  | Applied KyuubiCluster
  | Deleted Kind NamespacedName
  | Idle

fun removeObject :: "Kind \<Rightarrow> NamespacedName \<Rightarrow> cluster_store \<Rightarrow> cluster_store" where
  "removeObject KKyuubiCluster n = kyuubiClusters_update (\<lambda>m. m(n := None))"
| "removeObject KServiceAccount n = serviceAccounts_update (\<lambda>m. m(n := None))"
| "removeObject KRole n = roles_update (\<lambda>m. m(n := None))"
| "removeObject KRoleBinding n = roleBindings_update (\<lambda>m. m(n := None))"
| "removeObject KConfigMap n = configMaps_update (\<lambda>m. m(n := None))"
| "removeObject KStatefulSet n = statefulSets_update (\<lambda>m. m(n := None))"
| "removeObject KService n = services_update (\<lambda>m. m(n := None))"

inductive step :: "'w env \<Rightarrow> ('w \<Rightarrow> cluster_store) \<Rightarrow> 'w \<Rightarrow> event \<Rightarrow> 'w \<Rightarrow> bool" for E store where
  reconciled: "Reconcile E req w = Some (out, w') \<Longrightarrow> step E store w (Reconciled req out) w'"
| applied: "store w' = kyuubiClusters_update (\<lambda>m. m(metaKey (kc_Meta k) \<mapsto> k)) (store w) \<Longrightarrow>
    step E store w (Applied k) w'"
| deleted: "store w' = removeObject kind n (store w) \<Longrightarrow> step E store w (Deleted kind n) w'"
| idle: "store w' = store w \<Longrightarrow> step E store w Idle w'"

inductive run :: "'w env \<Rightarrow> ('w \<Rightarrow> cluster_store) \<Rightarrow> 'w \<Rightarrow> event list \<Rightarrow> 'w \<Rightarrow> bool" for E store w0 where
  start: "run E store w0 [] w0"
| more: "run E store w0 es w \<Longrightarrow> step E store w e w' \<Longrightarrow> run E store w0 (es @ [e]) w'"

inductive_cases step_cases: "step E store w e w'"

inductive_simps step_simps:
  "step E store w (Reconciled req out) w'"
  "step E store w (Applied k) w'"
  "step E store w (Deleted kind n) w'"
  "step E store w Idle w'"

text \<open>The objects that an event may concern.\<close>

fun concerns :: "event \<Rightarrow> (Kind \<times> NamespacedName) set" where
  "concerns (Reconciled req out) = requestFootprint req"
| "concerns (Applied k) = {(KKyuubiCluster, metaKey (kc_Meta k))}"
| "concerns (Deleted kind n) = {(kind, n)}"
| "concerns Idle = {}"

fun present :: "cluster_store \<Rightarrow> Kind \<Rightarrow> NamespacedName \<Rightarrow> bool" where
  "present s KKyuubiCluster n = (n \<in> dom (kyuubiClusters s))"
| "present s KServiceAccount n = (n \<in> dom (serviceAccounts s))"
| "present s KRole n = (n \<in> dom (roles s))"
| "present s KRoleBinding n = (n \<in> dom (roleBindings s))"
| "present s KConfigMap n = (n \<in> dom (configMaps s))"
| "present s KStatefulSet n = (n \<in> dom (statefulSets s))"
| "present s KService n = (n \<in> dom (services s))"

text \<open>The custom resources that a run has ever seen.\<close>

definition everApplied :: "cluster_store \<Rightarrow> event list \<Rightarrow> NamespacedName set" where
  "everApplied s es = dom (kyuubiClusters s) \<union> {metaKey (kc_Meta k) | k. Applied k \<in> set es}"

section \<open>Single steps\<close>

lemma sameObject_trans: "sameObject s s1 kd n \<Longrightarrow> sameObject s1 s2 kd n \<Longrightarrow> sameObject s s2 kd n"
  by (cases kd) auto

lemma sameObject_refl [simp]: "sameObject s s kd n"
  by (cases kd) auto

lemma sameObject_present: "sameObject s s' kd n \<Longrightarrow> present s' kd n = present s kd n"
  by (cases kd) (auto simp: dom_def)

lemma removeObject_same: "(kd, n) \<noteq> (kind, key) \<Longrightarrow> sameObject s (removeObject kind key s) kd n"
  by (cases kind; cases kd) auto

lemma removeObject_gone: "\<not> present (removeObject kd n s) kd n"
  by (cases kd) auto

lemma removeObject_present: "present (removeObject kind key s) kd n \<Longrightarrow> present s kd n"
  using removeObject_same removeObject_gone sameObject_present by (metis prod.inject)

lemma removeObject_wf: "wf_store s \<Longrightarrow> wf_store (removeObject kind n s)"
  by (cases kind) (auto simp: wf_store_def wf_map_def)

context kube_api
begin

lemma step_wf: "step E store w e w' \<Longrightarrow> wf_store (store w) \<Longrightarrow> wf_store (store w')"
  by (erule step_cases) (auto dest: Reconcile_frame intro: removeObject_wf wf_store_upd)

lemma step_same:
  assumes "step E store w e w'" and "wf_store (store w)" and "(kd, n) \<notin> concerns e"
  shows "sameObject (store w) (store w') kd n"
  using assms(1)
proof (cases rule: step.cases)
  case (reconciled req out)
  then show ?thesis using assms(2,3) Reconcile_frame touches_same by fastforce
next
  case (applied k)
  then show ?thesis using assms(3) by (cases kd) auto
next
  case (deleted kind key)
  then show ?thesis using assms(3) removeObject_same by simp
qed simp

lemma run_wf: "run E store w0 es w \<Longrightarrow> wf_store (store w0) \<Longrightarrow> wf_store (store w)"
  by (induction rule: run.induct) (auto intro: step_wf)

lemma run_same:
  "run E store w0 es w \<Longrightarrow> wf_store (store w0) \<Longrightarrow> (kd, n) \<notin> \<Union> (concerns ` set es) \<Longrightarrow>
     sameObject (store w0) (store w) kd n"
proof (induction rule: run.induct)
  case (more es w e w')
  then show ?case using step_same run_wf sameObject_trans by (metis UN_iff Un_iff set_append list.set_intros(1))
qed simp

end

context fresh_api
begin

text \<open>A request for a custom resource that is not stored changes nothing.\<close>

lemma Reconcile_absent:
  assumes "kyuubiClusters (store w) req = None" and "Reconcile E req w = Some (out, w')"
  shows "store w' = store w"
  using assms(2)
proof (cases rule: Reconcile_cases)
  case (failed k e)
  then show ?thesis using kc.get_store by blast
next
  case (idle k)
  then show ?thesis using kc.get_store by blast
next
  case (run k w1 err)
  then show ?thesis using kc.get_fresh [of req zeroKyuubiCluster w k w1] assms(1) by simp
qed

lemma step_strays:
  assumes st: "step E store w e w'" and wf: "wf_store (store w)"
    and new: "present (store w') kd n" "\<not> present (store w) kd n" "kd \<noteq> KKyuubiCluster"
  shows "\<exists>r \<in> dom (kyuubiClusters (store w)). (kd, n) \<in> requestFootprint r"
  using st
proof (cases rule: step.cases)
  case (reconciled req out)
  have "(kd, n) \<in> requestFootprint req"
    using step_same [OF st wf, of kd n] sameObject_present new reconciled by (metis concerns.simps(1))
  moreover have "req \<in> dom (kyuubiClusters (store w))"
    using Reconcile_absent reconciled(2) new by (metis domIff)
  ultimately show ?thesis by blast
next
  case (applied k)
  with new show ?thesis by (cases kd) auto
next
  case (deleted kind key)
  with new show ?thesis using removeObject_present by metis
qed (use new in simp)

lemma step_everApplied:
  assumes "step E store w e w'" and "wf_store (store w)"
    and "dom (kyuubiClusters (store w)) \<subseteq> everApplied s es"
  shows "dom (kyuubiClusters (store w')) \<subseteq> everApplied s (es @ [e])"
  using assms(1)
proof (cases rule: step.cases)
  case (reconciled req out)
  then have "map_option kc_Spec (kyuubiClusters (store w') n) = map_option kc_Spec (kyuubiClusters (store w) n)" for n
    using Reconcile_frame [OF assms(2)] by (metis touches_def)
  then have "dom (kyuubiClusters (store w')) = dom (kyuubiClusters (store w))"
    by (auto simp: dom_def) (metis map_option_eq_Some option.exhaust_sel option.map_disc_iff)+
  with assms(3) show ?thesis by (auto simp: everApplied_def)
next
  case (deleted kind key)
  then show ?thesis using assms(3) by (cases kind) (auto simp: everApplied_def)
qed (use assms(3) in \<open>auto simp: everApplied_def\<close>)

lemma run_everApplied:
  "run E store w0 es w \<Longrightarrow> wf_store (store w0) \<Longrightarrow> dom (kyuubiClusters (store w)) \<subseteq> everApplied (store w0) es"
proof (induction rule: run.induct)
  case start
  then show ?case by (simp add: everApplied_def)
next
  case (more es w e w')
  then show ?case using step_everApplied run_wf by blast
qed

lemma run_strays:
  "run E store w0 es w \<Longrightarrow> wf_store (store w0) \<Longrightarrow> present (store w) kd n \<Longrightarrow> kd \<noteq> KKyuubiCluster \<Longrightarrow>
     present (store w0) kd n \<or> (\<exists>r \<in> everApplied (store w0) es. (kd, n) \<in> requestFootprint r)"
proof (induction rule: run.induct)
  case (more es w e w')
  have "everApplied (store w0) es \<subseteq> everApplied (store w0) (es @ [e])"
    by (auto simp: everApplied_def)
  moreover have "present (store w) kd n \<or> (\<exists>r \<in> everApplied (store w0) es. (kd, n) \<in> requestFootprint r)"
    using step_strays [OF more.hyps(2) run_wf [OF more.hyps(1)]] run_everApplied [OF more.hyps(1)] more.prems
    by blast
  ultimately show ?case using more.IH more.prems by blast
qed simp

end

end
