(* ===== verification/Steady_State.thy ===== *)
theory Steady_State
  imports Reconcile_Correct
begin

text \<open>
  When reconciling comes to rest. \<open>converged\<close> says of a custom resource that every object it asks for is
  stored, that ConfigMaps and workload have the content that the controller would build, and that the status is that of the
  stored service; a call then changes nothing. \<open>builtObjects\<close> adds what is known of objects that are created and never
  updated. With a runtime
  that visits maps in a fixed order and a server that adds no defaults to workloads, two calls reach
  such a state. The two conditions are needed: \<open>map2String_order_visible\<close> and the theory \<open>Workload_Updates\<close> show
  what happens without them.
\<close>

section \<open>Converged stores\<close>

definition converged :: "'w env \<Rightarrow> cluster_store \<Rightarrow> KyuubiCluster \<Rightarrow> bool" where
  "converged E s k \<longleftrightarrow>
     resourceKey k \<in> dom (serviceAccounts s) \<inter> dom (roles s) \<inter> dom (roleBindings s) \<and>
     (\<exists>c. configMaps s (resourceKey k) = Some c \<and>
        (\<forall>w. gm_map (cm_Data c) = gm_map (cm_Data (fst (fst (constructKyuubiConfigMap E k w)))))) \<and>
     (\<exists>c. configMaps s (clusterRefsKey k) = Some c \<and>
        (\<forall>w d w'. desiredClusterRefsConfigMap E k w = (Inr d, w') \<longrightarrow> gm_map (cm_Data c) = gm_map (cm_Data d))) \<and>
     (\<exists>t. statefulSets s (resourceKey k) = Some t \<and> sts_Spec t = sts_Spec (fst (constructDesiredKyuubiWorkload E k))) \<and>
     (\<exists>v. services s (resourceKey k) = Some v \<and> st_ExposedInfos (kc_Status k) = Some (exposedInfosOf k v))"

text \<open>A stage that keeps a given store.\<close>

definition keeps :: "('w \<Rightarrow> cluster_store) \<Rightarrow> cluster_store \<Rightarrow> KyuubiCluster \<Rightarrow>
    (KyuubiCluster \<Rightarrow> 'w \<Rightarrow> (GoError option \<times> 'w) option) \<Rightarrow> bool" where
  "keeps store s k stage \<longleftrightarrow> (\<forall>w e w'. store w = s \<longrightarrow> stage k w = Some (e, w') \<longrightarrow> store w' = s)"

lemma keepsI:
  assumes "\<And>w e w'. store w = s \<Longrightarrow> stage k w = Some (e, w') \<Longrightarrow> store w' = store w"
  shows "keeps store s k stage"
  unfolding keeps_def
proof (intro allI impI)
  fix w e w'
  assume "store w = s" "stage k w = Some (e, w')"
  from assms [OF this] this(1) show "store w' = s" by (rule trans)
qed

lemma keepsD: "keeps store s k stage \<Longrightarrow> stage k w = Some (e, w') \<Longrightarrow> store w = s \<Longrightarrow> store w' = s"
  unfolding keeps_def by (elim allE impE)

lemma keeps_seq:
  assumes "keeps store s k s1" and "keeps store s k s2"
  shows "keeps store s k (seqStage s1 s2)"
  unfolding keeps_def
proof (intro allI impI)
  fix w e w'
  assume s: "store w = s" and "seqStage s1 s2 k w = Some (e, w')"
  from this(2) show "store w' = s"
  proof (cases rule: seqStage_cases)
    case stopped
    from keepsD [OF assms(1) this(2) s] show ?thesis .
  next
    case (both w1)
    from keepsD [OF assms(2) both(2) keepsD [OF assms(1) both(1) s]] show ?thesis .
  qed
qed

context fresh_client
begin

lemma ensureCreated_present:
  assumes "sel (store w) (metaKey (meta d)) \<noteq> None" and "ensureCreated cl meta z d w = (e, w')"
  shows "store w' = store w"
proof -
  obtain x err w1 where g: "Get cl (metaKey (meta d)) z w = ((x, err), w1)" by (metis surj_pair)
  have "\<not> IsNotFound err" using g assms(1) get_absent by (fastforce simp: IsNotFound_iff)
  with g assms(2) get_store [OF g] show ?thesis by (auto simp: ensureCreated_def split: if_splits)
qed

end

context fresh_api
begin

lemma ensureConfigMap_same:
  assumes "configMaps (store w) (metaKey (cm_Meta d)) = Some c" and "gm_map (cm_Data c) = gm_map (cm_Data d)"
    and "ensureConfigMap E d w = Some (e, w')"
  shows "store w' = store w"
proof -
  obtain x err w1 where g: "Get (cmClient E) (metaKey (cm_Meta d)) zeroConfigMap w = ((x, err), w1)" by (metis surj_pair)
  have s: "store w1 = store w" using g by (rule cm.get_store)
  have n: "\<not> IsNotFound err" using g assms(1) cm.get_absent by (fastforce simp: IsNotFound_iff)
  show ?thesis
  proof (cases err)
    case None
    obtain same w2 where cc: "compareConf E (cm_Data d) (cm_Data x) w1 = (same, w2)" by (metis surj_pair)
    have "x = c" using g None assms(1) cm.get_fresh by fastforce
    with cc assms(2) have same using compareConf_api [OF cc] by simp
    with g None cc assms(3) s compareConf_store [OF cc] show ?thesis by (auto simp: ensureConfigMap_def)
  next
    case (Some e')
    with g n assms(3) s show ?thesis by (auto simp: ensureConfigMap_def)
  qed
qed

lemma created_stages_keep:
  assumes "converged E s k"
  shows "keeps store s k (saStage E)" "keeps store s k (roleStage E)" "keeps store s k (rbStage E)"
proof -
  note d = assms [unfolded converged_def] and present = sa.ensureCreated_present ro.ensureCreated_present rb.ensureCreated_present
  show "keeps store s k (saStage E)"
    by (rule keepsI, rule present(1) [of _ "fst (constructServiceAccount E k)"])
      (use d in \<open>auto simp: saStage_def createOrUpdateServiceAccount_eq desired_keys\<close>)
  show "keeps store s k (roleStage E)"
    by (rule keepsI, rule present(2) [of _ "fst (constructRole E k)"])
      (use d in \<open>auto simp: roleStage_def createOrUpdateRole_eq desired_keys\<close>)
  show "keeps store s k (rbStage E)"
    by (rule keepsI, rule present(3) [of _ "fst (constructRoleBinding E k)"])
      (use d in \<open>auto simp: rbStage_def createOrUpdateRoleBinding_eq desired_keys\<close>)
qed

lemma conf_keeps:
  assumes "converged E s k"
  shows "keeps store s k (createOrUpdateKyuubiConfigmap E)"
proof (rule keepsI)
  fix w e w'
  assume s: "store w = s" and r: "createOrUpdateKyuubiConfigmap E k w = Some (e, w')"
  obtain d x w1 where d: "constructKyuubiConfigMap E k w = ((d, x), w1)" by (metis surj_pair)
  note spec = constructKyuubiConfigMap_spec [OF d]
  obtain c where c: "configMaps s (resourceKey k) = Some c"
    "gm_map (cm_Data c) = gm_map (cm_Data (fst (fst (constructKyuubiConfigMap E k w))))"
    using assms by (auto simp: converged_def)
  with ensureConfigMap_same [of w1 d c e w'] r d spec s show "store w' = store w"
    by (simp add: createOrUpdateKyuubiConfigmap_eq)
qed

lemma refs_keeps:
  assumes "converged E s k"
  shows "keeps store s k (createOrUpdateClusterRefsConfigmap E)"
proof (rule keepsI)
  fix w e w'
  assume s: "store w = s" and r: "createOrUpdateClusterRefsConfigmap E k w = Some (e, w')"
  obtain d w1 where d: "desiredClusterRefsConfigMap E k w = (d, w1)" by (metis surj_pair)
  note spec = desiredClusterRefsConfigMap_spec [OF d]
  obtain c where c: "configMaps s (clusterRefsKey k) = Some c"
    "\<And>cm. d = Inr cm \<Longrightarrow> gm_map (cm_Data c) = gm_map (cm_Data cm)"
    using assms d unfolding converged_def by metis
  show "store w' = store w"
  proof (cases d)
    case (Inl err)
    with r d spec show ?thesis by (simp add: createOrUpdateClusterRefsConfigmap_eq)
  next
    case (Inr cm)
    with ensureConfigMap_same [of w1 cm c e w'] r d spec s c show ?thesis
      by (simp add: createOrUpdateClusterRefsConfigmap_eq)
  qed
qed

lemma workload_keeps:
  assumes "converged E s k"
  shows "keeps store s k (workloadStage E)"
proof (rule keepsI)
  fix w e w'
  let ?d = "fst (constructDesiredKyuubiWorkload E k)"
  assume s: "store w = s" and r: "workloadStage E k w = Some (e, w')"
  obtain t where t: "statefulSets (store w) (resourceKey k) = Some t" "sts_Spec t = sts_Spec ?d"
    using assms s by (auto simp: converged_def)
  obtain x err w1 where g: "Get (stsClient E) (resourceKey k) zeroStatefulSet w = ((x, err), w1)" by (metis surj_pair)
  have "\<not> IsNotFound err" using g t(1) sts.get_absent by (fastforce simp: IsNotFound_iff)
  moreover have "err = None \<Longrightarrow> x = t" using g t(1) sts.get_fresh by fastforce
  ultimately show "store w' = store w"
    using r g t(2) sts.get_store [OF g]
    by (auto simp: workloadStage_def createOrUpdateKyuubi_def Let_def desired_keys split: if_splits)
qed

lemma serviceStatus_keeps:
  assumes "converged E s k"
  shows "keeps store s k (serviceStatusStage E)"
proof (rule keepsI)
  fix w e w'
  assume s: "store w = s" and r: "serviceStatusStage E k w = Some (e, w')"
  obtain v where v: "services (store w) (resourceKey k) = Some v" "st_ExposedInfos (kc_Status k) = Some (exposedInfosOf k v)"
    using assms s by (auto simp: converged_def)
  obtain x err w1 where g: "Get (svcClient E) (resourceKey k) zeroService w = ((x, err), w1)" by (metis surj_pair)
  have "\<not> IsNotFound err" using g v(1) svc.get_absent by (fastforce simp: IsNotFound_iff)
  moreover have "err = None \<Longrightarrow> x = v" using g v(1) svc.get_fresh by fastforce
  ultimately show "store w' = store w"
    using r g v(2) svc.get_store [OF g]
    by (auto simp: serviceStatusStage_def createOrUpdateService_def updateKyuubiClusterStatus_def Let_def desired_keys
        split: if_splits)
qed

lemma converged_keeps: "converged E s k \<Longrightarrow> keeps store s k (createOrUpdateClusters E)"
  unfolding createOrUpdateClusters_eq allStages_def
  by (intro keeps_seq created_stages_keep conf_keeps refs_keeps workload_keeps serviceStatus_keeps)

lemma Reconcile_fixpoint:
  assumes "kyuubiClusters (store w) req = Some k" and "converged E (store w) k"
    and "Reconcile E req w = Some (out, w')"
  shows "store w' = store w"
  using assms(3)
proof (cases rule: Reconcile_cases)
  case (failed k e)
  then show ?thesis using kc.get_store by blast
next
  case (idle k)
  then show ?thesis using kc.get_store by blast
next
  case (run k' w1 err)
  have "k' = k" using run(1) kc.get_fresh assms(1) by fastforce
  moreover have "store w1 = store w" using run(1) by (rule kc.get_store)
  ultimately show ?thesis using converged_keeps [OF assms(2)] run(2) unfolding keeps_def by blast
qed

end

section \<open>What is created\<close>

text \<open>
  Service account, role, role binding and service are created once and not updated: each of them that is there
  afterwards and was not there before is what the controller builds, up to admission.
\<close>

definition builtObjects :: "'w env \<Rightarrow> 'w admission \<Rightarrow> KyuubiCluster \<Rightarrow> cluster_store \<Rightarrow> cluster_store \<Rightarrow> bool" where
  "builtObjects E A k s s' \<longleftrightarrow>
     (\<forall>n a. serviceAccounts s n = None \<longrightarrow> serviceAccounts s' n = Some a \<longrightarrow> (\<exists>u. a = adm_sa A u None (fst (constructServiceAccount E k)))) \<and>
     (\<forall>n a. roles s n = None \<longrightarrow> roles s' n = Some a \<longrightarrow> (\<exists>u. a = adm_role A u None (fst (constructRole E k)))) \<and>
     (\<forall>n a. roleBindings s n = None \<longrightarrow> roleBindings s' n = Some a \<longrightarrow> (\<exists>u. a = adm_rb A u None (fst (constructRoleBinding E k)))) \<and>
     (\<forall>n a. services s n = None \<longrightarrow> services s' n = Some a \<longrightarrow> (\<exists>u. a = adm_svc A u None (fst (contructDesiredService E k))))"

lemma built_unchanged:
  "serviceAccounts s' = serviceAccounts s \<Longrightarrow> roles s' = roles s \<Longrightarrow> roleBindings s' = roleBindings s \<Longrightarrow> services s' = services s \<Longrightarrow>
     builtObjects E A k s s'"
  by (simp add: builtObjects_def)

lemma built_trans:
  assumes "builtObjects E A k s s1" and "builtObjects E A k s1 s2" and "touches F s1 s2"
  shows "builtObjects E A k s s2"
proof -
  note keeps = touches_keeps [OF assms(3)]
  show ?thesis
    using assms(1,2) unfolding builtObjects_def
    by (intro conjI allI impI; metis keeps option.exhaust option.inject)
qed

text \<open>A step that touches none of these kinds, or keeps each that is there.\<close>

lemma built_other:
  assumes "touches F s s'" and "fst ` F \<subseteq> {KKyuubiCluster, KConfigMap, KStatefulSet}"
  shows "builtObjects E A k s s'"
proof -
  have "(kind, n) \<notin> F" if "kind \<in> {KServiceAccount, KRole, KRoleBinding, KService}" for kind n
    using assms(2) that by force
  then have "sameObject s s' kind n" if "kind \<in> {KServiceAccount, KRole, KRoleBinding, KService}" for kind n
    using touches_same [OF assms(1)] that by blast
  from this [of KServiceAccount] this [of KRole] this [of KRoleBinding] this [of KService] show ?thesis
    by (intro built_unchanged ext) simp_all
qed

lemma built_present:
  assumes "touches (requestFootprint req) s s'"
    and "childKey ''-kyuubi'' req \<in> dom (serviceAccounts s) \<inter> dom (roles s) \<inter> dom (roleBindings s) \<inter> dom (services s)"
  shows "builtObjects E A k s s'"
proof -
  have same: "sameObject s s' kind n" if "n \<noteq> childKey ''-kyuubi'' req" "kind \<in> {KServiceAccount, KRole, KRoleBinding, KService}" for kind n
    using touches_same [OF assms(1)] that by (auto simp: requestFootprint_def)
  have "serviceAccounts s n = None \<Longrightarrow> serviceAccounts s' n = None" "roles s n = None \<Longrightarrow> roles s' n = None"
    "roleBindings s n = None \<Longrightarrow> roleBindings s' n = None" "services s n = None \<Longrightarrow> services s' n = None" for n
    using same [of n KServiceAccount] same [of n KRole] same [of n KRoleBinding] same [of n KService] assms(2)
    by (cases "n = childKey ''-kyuubi'' req"; auto)+
  then show ?thesis by (simp add: builtObjects_def)
qed

context kube_api
begin

lemma created_stages_build:
  "saStage E k w = Some (e, w') \<Longrightarrow> builtObjects E A k (store w) (store w')"
  "roleStage E k w = Some (e, w') \<Longrightarrow> builtObjects E A k (store w) (store w')"
  "rbStage E k w = Some (e, w') \<Longrightarrow> builtObjects E A k (store w) (store w')"
  "createOrUpdateService E k w = (r, w') \<Longrightarrow> builtObjects E A k (store w) (store w')"
proof -
  show "builtObjects E A k (store w) (store w')" if "saStage E k w = Some (e, w')"
    using sa.ensureCreated_store [of zeroServiceAccount "fst (constructServiceAccount E k)" w e w'] that
    by (auto simp: saStage_def createOrUpdateServiceAccount_eq builtObjects_def split: if_splits)
  show "builtObjects E A k (store w) (store w')" if "roleStage E k w = Some (e, w')"
    using ro.ensureCreated_store [of zeroRole "fst (constructRole E k)" w e w'] that
    by (auto simp: roleStage_def createOrUpdateRole_eq builtObjects_def split: if_splits)
  show "builtObjects E A k (store w) (store w')" if "rbStage E k w = Some (e, w')"
    using rb.ensureCreated_store [of zeroRoleBinding "fst (constructRoleBinding E k)" w e w'] that
    by (auto simp: rbStage_def createOrUpdateRoleBinding_eq builtObjects_def split: if_splits)
  show "builtObjects E A k (store w) (store w')" if "createOrUpdateService E k w = (r, w')"
  proof -
    have "ensureCreated (svcClient E) svc_Meta zeroService (fst (contructDesiredService E k)) w = (case_sum Some (\<lambda>_. None) r, w')"
      using createOrUpdateService_eq [of E k w] that by simp
    from svc.ensureCreated_store [OF this] show ?thesis by (auto simp: builtObjects_def split: if_splits)
  qed
qed

lemma run_built:
  assumes wf: "wf_store (store w)" and run: "createOrUpdateClusters E k w = Some (None, w')"
  shows "builtObjects E A k (store w) (store w')"
proof -
  obtain w1 w2 w3 w4 where r: "rbacStage E k w = Some (None, w1)" "createOrUpdateKyuubiConfigmap E k w1 = Some (None, w2)"
    "createOrUpdateClusterRefsConfigmap E k w2 = Some (None, w3)" "workloadStage E k w3 = Some (None, w4)"
    "serviceStatusStage E k w4 = Some (None, w')"
    using run by (rule createOrUpdateClusters_run)
  obtain u1 u2 where b: "saStage E k w = Some (None, u1)" "roleStage E k u1 = Some (None, u2)" "rbStage E k u2 = Some (None, w1)"
    using r(1) by (auto simp: rbacStage_def elim!: seqStage_cases)
  have wfu: "wf_store (store u1)" "wf_store (store u2)"
    using reconcile_stage.keeps_wf [OF sa_reconcile_stage wf b(1)] reconcile_stage.keeps_wf [OF role_reconcile_stage _ b(2)] by auto
  note rbac = built_trans [OF built_trans [OF created_stages_build(1) [OF b(1)] created_stages_build(2) [OF b(2)]
      reconcile_stage.frame [OF role_reconcile_stage wfu(1) b(2)]] created_stages_build(3) [OF b(3)]
      reconcile_stage.frame [OF rb_reconcile_stage wfu(2) b(3)]]
  note f = run_frames [OF wf r(1-4)]
  have "builtObjects E A k (store w1) (store w2)" "builtObjects E A k (store w2) (store w3)" "builtObjects E A k (store w3) (store w4)"
    by (rule built_other [OF f(6)] built_other [OF f(7)] built_other [OF f(8)], simp)+
  note upto = built_trans [OF built_trans [OF built_trans [OF rbac this(1) f(6)] this(2) f(7)] this(3) f(8)]
  obtain svc u where s: "createOrUpdateService E k w4 = (Inr svc, u)" "updateKyuubiClusterStatus E k svc u = (None, w')"
    using r(5) by (rule serviceStatusStage_run)
  have "touches {(KService, resourceKey k)} (store w4) (store u) \<and> wf_store (store u)"
    using service_frame [OF f(4) s(1)] .
  then have fs: "touches {(KService, resourceKey k)} (store w4) (store u)" and wfs: "wf_store (store u)" by simp_all
  note ft = conjunct1 [OF status_frame [OF wfs s(2)]]
  have "builtObjects E A k (store u) (store w')" by (rule built_other [OF ft]) simp
  then show ?thesis
    using built_trans [OF built_trans [OF upto created_stages_build(4) [OF s(1)] fs] _ ft] by blast
qed

end

section \<open>A runtime without surprises\<close>

text \<open>Maps are visited in the same order each time, and the environment of the process does not change.\<close>

locale steady_runtime =
  fixes E :: "'w env" and order :: "gomap \<Rightarrow> (string \<times> string) list" and environ :: "string \<Rightarrow> string"
  assumes steady_range [simp]: "fst (range_map E g w) = order g"
    and steady_env [simp]: "Getenv E v w = environ v"
begin

lemma steady_text [simp]:
  "fst (map2String E m w) = map2String_loop (order m) []"
  "fst (map2Xml E m w) = FormatXML E (map2Xml_loop (order m) ''<configuration>'' @ ''</configuration>'') [] ''  ''"
  by (simp_all add: map2String_def map2Xml_def split_beta Let_def)

lemma steady_step:
  "kc_Namespace k = kc_Namespace k' \<Longrightarrow>
     fst (clusterRef_step E k h c r data w) = fst (clusterRef_step E k' h c r data w')"
  by (simp add: clusterRef_step_def sparkBaseConf_def split_beta Let_def)

lemma steady_loop:
  assumes "kc_Namespace k = kc_Namespace k'"
  shows "fst (clusterRefs_loop E k h c refs data w) = fst (clusterRefs_loop E k' h c refs data w')"
proof (induction refs arbitrary: data w w')
  case (Cons r refs)
  show ?case
    using steady_step [OF assms, of h c r data w w'] Cons.IH by (auto split: prod.splits sum.splits)
qed simp

text \<open>The cluster references of two custom resources with the same spec and namespace have the same data.\<close>

lemma steady_refs:
  assumes "kc_Namespace k = kc_Namespace k'" and "kc_Spec k = kc_Spec k'"
    and "desiredClusterRefsConfigMap E k w = (Inr d, w1)" and "desiredClusterRefsConfigMap E k' w' = (Inr d', w2)"
  shows "cm_Data d = cm_Data d'"
proof -
  obtain h c where h: "hdfsSites_loop (kcs_ClusterRefs (kc_Spec k')) (None, None) = (h, c)" by (metis surj_pair)
  have "fst (clusterRefs_loop E k h c (kcs_ClusterRefs (kc_Spec k')) fmempty w) =
      fst (clusterRefs_loop E k' h c (kcs_ClusterRefs (kc_Spec k')) fmempty w')"
    by (rule steady_loop [OF assms(1)])
  with assms(2-4) h show ?thesis
    by (auto simp: desiredClusterRefsConfigMap_def Let_def split: prod.splits sum.splits option.splits)
qed

end

lemma workload_spec_cong:
  assumes "kc_Spec k = kc_Spec k'" and "kyuubiKey k = kyuubiKey k'"
  shows "sts_Spec (fst (constructDesiredKyuubiWorkload E k)) = sts_Spec (fst (constructDesiredKyuubiWorkload E k'))"
proof -
  have "kc_Name k = kc_Name k'" using assms(2) by (simp add: kyuubiKey_def)
  with assms(1) show ?thesis
    by (simp add: constructDesiredKyuubiWorkload_def Let_def split_beta constructVolumes_eq constructVolumeMounts_eq
        ClusterResourceLabels_def resourceName_eq clusterRefsName_eq)
qed

section \<open>Two calls converge\<close>

text \<open>A server that adds nothing to the specification of a workload.\<close>

locale plain_api = reliable_api E store A + steady_runtime E order environ
  for E :: "'w env" and store A order environ +
  assumes no_defaults: "sts_Spec (adm_sts A w old x) = sts_Spec x"
    and owner_accepted: "snd (SetControllerReference E k m) = None"
begin

lemma run_converged:
  assumes wf: "wf_store (store w)" and run: "createOrUpdateClusters E k w = Some (None, w')"
    and k': "kc_Spec k' = kc_Spec k" "kyuubiKey k' = kyuubiKey k"
    and v: "services (store w') (resourceKey k') = Some v" "st_ExposedInfos (kc_Status k') = Some (exposedInfosOf k' v)"
  shows "converged E (store w') k'"
proof -
  have n: "kc_Namespace k' = kc_Namespace k" "resourceKey k' = resourceKey k" "clusterRefsKey k' = clusterRefsKey k"
    using k'(2) by (simp_all add: kyuubiKey_def resourceKey_def clusterRefsKey_def resourceName_eq clusterRefsName_eq)
  note post = run_post [OF wf run]
  obtain c where c: "configMaps (store w') (resourceKey k) = Some c"
    "gm_map (cm_Data c) = fmap_of_list [(DefaultKyuubiConfFile, map2String_loop (order (kcs_KyuubiConf (kc_Spec k))) [])]"
    using post(2) by auto
  have conf: "gm_map (cm_Data (fst (fst (constructKyuubiConfigMap E k' u)))) = gm_map (cm_Data c)" for u
    using c(2) by (simp add: constructKyuubiConfigMap_def split_beta Let_def k'(1) gm_map_def)
  obtain u1 u2 d c' where d: "desiredClusterRefsConfigMap E k u1 = (Inr d, u2)"
    "configMaps (store w') (clusterRefsKey k) = Some c'" "gm_map (cm_Data c') = gm_map (cm_Data d)"
    using post(3) by metis
  have refs: "gm_map (cm_Data c') = gm_map (cm_Data d')" if "desiredClusterRefsConfigMap E k' u = (Inr d', u')" for u d' u'
    using steady_refs [OF n(1) k'(1) that d(1)] d(3) by simp
  obtain t where "statefulSets (store w') (resourceKey k) = Some t"
    "sts_Spec t = sts_Spec (fst (constructDesiredKyuubiWorkload E k))"
    using post(4) no_defaults by auto
  then show ?thesis
    unfolding converged_def n(2,3) workload_spec_cong [OF k'] using post(1) c(1) conf d(2) refs v n(2) by auto
qed

lemma Reconcile_converges:
  assumes wf: "wf_store (store w)" and p: "plainName req" and k: "kyuubiClusters (store w) req = Some k"
    and ok: "\<not> (\<exists>r \<in> set (kcs_ClusterRefs (kc_Spec k)). sparkWithoutDefaults r)"
  shows "\<exists>w1 w2 k2. Reconcile E req w = Some (Returned zeroResult None, w1) \<and>
    Reconcile E req w1 = Some (Returned zeroResult None, w2) \<and>
    kyuubiClusters (store w2) req = Some k2 \<and> kc_Spec k2 = kc_Spec k \<and> converged E (store w2) k2 \<and>
    builtObjects E A k (store w) (store w2)"
proof -
  obtain w1 where r1: "Reconcile E req w = Some (Returned zeroResult None, w1)"
    using Reconcile_succeeds_iff [OF wf p owner_accepted] k ok by blast
  note f1 = Reconcile_frame [OF wf r1]
  obtain k1 where k1: "kyuubiClusters (store w1) req = Some k1" "kc_Spec k1 = kc_Spec k"
    using touches_spec [OF conjunct1 [OF f1], of req k] k by auto
  obtain w2 where r2: "Reconcile E req w1 = Some (Returned zeroResult None, w2)"
    using Reconcile_succeeds_iff [OF conjunct2 [OF f1] p owner_accepted] k1 ok by auto
  note f2 = Reconcile_frame [OF conjunct2 [OF f1] r2]
  obtain k2 v where k2: "kyuubiClusters (store w2) req = Some k2" "services (store w2) (childKey ''-kyuubi'' req) = Some v"
    "st_ExposedInfos (kc_Status k2) = Some (exposedInfosOf k2 v)"
    using reconcile_twice_status [OF fresh_api_axioms wf p r1 r2] by blast
  have s2: "kc_Spec k2 = kc_Spec k1"
    using touches_spec [OF conjunct1 [OF f2], of req k1] k1 k2(1) by auto
  have q2: "kyuubiKey k2 = req"
    using f2 k2(1) by (auto simp: wf_store_def wf_map_def metaKey_kyuubi)
  obtain k' w0 where run: "kyuubiClusters (store w1) req = Some k'" "kyuubiKey k' = req" "store w0 = store w1"
    "createOrUpdateClusters E k' w0 = Some (None, w2)"
    using Reconcile_success [OF conjunct2 [OF f1] p r2] by metis
  have "converged E (store w2) k2"
  proof (rule run_converged [OF _ run(4)])
    show "services (store w2) (resourceKey k2) = Some v" using k2(2) q2 by (auto simp: keys_of_request)
  qed (use f1 run k1 k2 s2 q2 in auto)
  moreover have "builtObjects E A k (store w) (store w2)"
  proof -
    obtain v0 where run1: "kyuubiKey k = req" "store v0 = store w" "createOrUpdateClusters E k v0 = Some (None, w1)"
      using Reconcile_success [OF wf p r1] k by (metis option.inject)
    have "builtObjects E A k (store w) (store w1)" using run_built [OF _ run1(3)] run1(2) wf by simp
    moreover have "resourceKey k \<in> dom (serviceAccounts (store w1)) \<inter> dom (roles (store w1)) \<inter>
        dom (roleBindings (store w1)) \<inter> dom (services (store w1))"
      using run_post(1) [OF _ run1(3)] run1(2) wf by simp
    ultimately have "builtObjects E A k (store w) (store w1)" and "builtObjects E A k (store w1) (store w2)"
      using run1(1) by (auto simp: keys_of_request intro: built_present [OF conjunct1 [OF f2]])
    then show ?thesis by (rule built_trans [OF _ _ conjunct1 [OF f2]])
  qed
  ultimately show ?thesis using r1 r2 k2(1) s2 k1(2) by metis
qed

end

section \<open>An instance\<close>

text \<open>The reference server without defaults, and a process whose environment has no variables.\<close>

definition plainAdmission :: "refworld admission" where
  "plainAdmission = refAdmission\<lparr>adm_sts := (\<lambda>w old x. x\<lparr>sts_Meta := stamp w (sts_Meta x)\<rparr>)\<rparr>"

definition plainEnv :: "refworld env" where
  "plainEnv = refEnv\<lparr>stsClient := refClient statefulSets statefulSets_update sts_Meta (adm_sts plainAdmission),
     Getenv := (\<lambda>v w. [])\<rparr>"

lemma plainEnv_fields [simp]:
  "kyuubiClient plainEnv = kyuubiClient refEnv" "saClient plainEnv = saClient refEnv" "roleClient plainEnv = roleClient refEnv"
  "rbClient plainEnv = rbClient refEnv" "cmClient plainEnv = cmClient refEnv" "svcClient plainEnv = svcClient refEnv"
  "StatusUpdate plainEnv = StatusUpdate refEnv" "SetControllerReference plainEnv = SetControllerReference refEnv"
  "Now plainEnv = Now refEnv" "Sleep plainEnv = Sleep refEnv" "range_map plainEnv = range_map refEnv"
  "SprintRequest plainEnv = SprintRequest refEnv"
  by (simp_all add: plainEnv_def)

lemma plainAdmission_fields [simp]:
  "adm_kyuubi plainAdmission = adm_kyuubi refAdmission" "adm_sa plainAdmission = adm_sa refAdmission"
  "adm_role plainAdmission = adm_role refAdmission" "adm_rb plainAdmission = adm_rb refAdmission"
  "adm_cm plainAdmission = adm_cm refAdmission" "adm_svc plainAdmission = adm_svc refAdmission"
  by (simp_all add: plainAdmission_def)

lemma plain_sts: "reliable_client (stsClient plainEnv) sts_Meta statefulSets statefulSets_update rw_store (adm_sts plainAdmission)"
  unfolding plainEnv_def by (simp add: refClient_reliable plainAdmission_def)

lemma plain_kube: "kube_api plainEnv rw_store plainAdmission"
  using refApi_kube plain_sts [THEN reliable_client.axioms(1), THEN fresh_client.axioms(1)]
  by (simp add: kube_api_def kube_api_axioms_def)

lemma plain_fresh: "fresh_api plainEnv rw_store plainAdmission"
  using refEnv_fresh_api plain_kube plain_sts [THEN reliable_client.axioms(1)]
  by (simp add: fresh_api_def)

lemma plain_reliable: "reliable_api plainEnv rw_store plainAdmission"
  using refEnv_reliable_api plain_fresh plain_sts
  by (simp add: reliable_api_def reliable_api_axioms_def)

interpretation plainApi: plain_api plainEnv rw_store plainAdmission "\<lambda>g. sorted_list_of_fmap (gm_map g)" "\<lambda>v. []"
  by (intro plain_api.intro plain_reliable steady_runtime.intro plain_api_axioms.intro)
    (simp_all add: plainEnv_def plainAdmission_def refEnv_def refRange_def)

lemma minio_stored: "kyuubiClusters (rw_store (worldWith minioCluster)) sampleKey = Some minioCluster"
  by simp

lemma minio_defaults: "\<not> (\<exists>r \<in> set (kcs_ClusterRefs (kc_Spec minioCluster)). sparkWithoutDefaults r)"
  by (simp add: sparkWithoutDefaults_def minioCluster_def minioSpark_def minioHdfs_def minioMetastore_def
      minioDefaults_def sampleRef_def sampleSpark_def const_defs)

section \<open>Properties\<close>

text \<open>
  C14. A converged store is a fixed point: with reads that agree with the store, a call for its custom
  resource, whatever it returns, changes no object.
\<close>

theorem reconcile_fixpoint:
  assumes "fresh_api E store A" and "kyuubiClusters (store w) req = Some k" and "converged E (store w) k"
    and "Reconcile E req w = Some (out, w')"
  shows "store w' = store w"
  using fresh_api.Reconcile_fixpoint [OF assms] .

theorem reconcile_fixpoint_witness:
  "\<exists>w k out w'. kyuubiClusters (rw_store w) sampleKey = Some k \<and> converged plainEnv (rw_store w) k \<and>
     Reconcile plainEnv sampleKey w = Some (out, w') \<and> rw_store w' = rw_store w"
proof -
  obtain w :: refworld and k where k: "kyuubiClusters (rw_store w) sampleKey = Some k" "converged plainEnv (rw_store w) k"
    using plainApi.Reconcile_converges [OF wf_worldWith plain_sampleKey minio_stored minio_defaults] by blast
  obtain out w' where r: "Reconcile plainEnv sampleKey w = Some (out, w')"
    using plainApi.Reconcile_returns [of sampleKey w] by (metis option.exhaust surj_pair)
  from reconcile_fixpoint [OF plain_fresh k r] k r show ?thesis by blast
qed



end
