(* ===== verification/Lagging_Cache.thy ===== *)
theory Lagging_Cache
  imports Reconcile_Correct
begin

text \<open>
  Reads come from a cache that may lag behind the store. The polling loops after the creation of a
  ConfigMap wait for the cache to show it; with a cache that catches up while the loop sleeps they
  end, and so does every call of \<open>Reconcile\<close>. What is created is then in the store, whatever the cache
  showed.
\<close>

section \<open>A cache that catches up\<close>

locale lagging_api = kube_api +
  assumes catches_up: "configMaps (store w) key \<noteq> None \<Longrightarrow> \<exists>n. \<not> IsNotFound (pollError E key (poll E key n w))"
begin

lemma ensureConfigMap_ends: "ensureConfigMap E d w \<noteq> None"
proof -
  obtain x err w1 where g: "Get (cmClient E) (metaKey (cm_Meta d)) zeroConfigMap w = ((x, err), w1)"
    by (metis surj_pair)
  obtain y err2 w2 where c: "Create (cmClient E) d w1 = ((y, err2), w2)"
    by (metis surj_pair)
  have "waitForConfigMap E (metaKey (cm_Meta y)) w2 \<noteq> None" if "err2 = None"
    using c that cm.create_ok [of d w1 y w2] cm.create_answer [of d w1 y w2] catches_up [of w2 "metaKey (cm_Meta y)"]
    by (auto simp: waitForConfigMap_None_iff)
  then show ?thesis using g c by (auto simp: ensureConfigMap_def split: prod.splits)
qed

lemma createOrUpdateClusters_ends: "createOrUpdateClusters E k w \<noteq> None"
proof -
  have "createOrUpdateKyuubiConfigmap E k v \<noteq> None" "createOrUpdateClusterRefsConfigmap E k v \<noteq> None" for v
    using ensureConfigMap_ends
    by (simp_all add: createOrUpdateKyuubiConfigmap_eq createOrUpdateClusterRefsConfigmap_eq split: prod.split sum.split)
  then show ?thesis
    unfolding createOrUpdateClusters_eq allStages_def by (intro seqStage_returns simple_stages_return)
qed

lemma Reconcile_ends: "\<exists>e w'. Reconcile E req w = Some (Returned zeroResult e, w')"
proof -
  obtain k e w1 where g: "Get (kyuubiClient E) req zeroKyuubiCluster w = ((k, e), w1)" by (metis surj_pair)
  moreover obtain e2 w2 where "createOrUpdateClusters E k w1 = Some (e2, w2)"
    using createOrUpdateClusters_ends by fast
  ultimately have "Reconcile E req w \<noteq> None" by (auto simp: Reconcile_def Let_def)
  then obtain out w' where r: "Reconcile E req w = Some (out, w')" by auto
  with Reconcile_no_panic [OF r] show ?thesis by blast
qed

end

sublocale fresh_api \<subseteq> lagging_api
proof
  fix w key
  assume "configMaps (store w) key \<noteq> None"
  then have "\<not> IsNotFound (pollError E key (poll E key 0 w))"
    using cm.get_absent [of key zeroConfigMap w] by (auto simp: pollError_def IsNotFound_iff prod_eq_iff)
  then show "\<exists>n. \<not> IsNotFound (pollError E key (poll E key n w))" ..
qed

section \<open>An instance: a cache that shows ConfigMaps from a given time on\<close>

definition lateGet :: "NamespacedName \<Rightarrow> ConfigMap \<Rightarrow> refworld \<Rightarrow> (ConfigMap \<times> GoError option) \<times> refworld" where
  "lateGet key z w = (if rw_clock w < 5 then ((z, Some (NotFound (nn_Name key))), w) else refGet configMaps key z w)"

definition lateEnv :: "refworld env" where
  "lateEnv = refEnv\<lparr>cmClient := (cmClient refEnv)\<lparr>Get := lateGet\<rparr>\<rparr>"

lemma lateEnv_poll: "poll lateEnv key n w = w\<lparr>rw_clock := rw_clock w + of_nat n\<rparr>"
proof (induction n arbitrary: w)
  case (Suc n)
  have "Sleep lateEnv 100 (snd (Get (cmClient lateEnv) key zeroConfigMap w)) = w\<lparr>rw_clock := rw_clock w + 1\<rparr>"
    by (simp add: lateEnv_def refEnv_def lateGet_def refGet_def)
  with Suc [of "w\<lparr>rw_clock := rw_clock w + 1\<rparr>"] show ?case by (simp add: add.assoc)
qed simp

text \<open>Another way of reading, with the laws of reads, keeps the contract of a client.\<close>

lemma typed_client_Get:
  assumes "typed_client cl meta sel upd store admit"
    and "\<And>k z w r w'. g k z w = (r, w') \<Longrightarrow> store w' = store w"
    and "\<And>w k z x w'. wf_map meta (sel (store w)) \<Longrightarrow> g k z w = ((x, None), w') \<Longrightarrow> metaKey (meta x) = k"
    and "\<And>k z w x m w'. g k z w = ((x, Some (NotFound m)), w') \<Longrightarrow> x = z"
  shows "typed_client (cl\<lparr>Get := g\<rparr>) meta sel upd store admit"
  unfolding typed_client_def client.simps
  using assms(2-4) assms(1) [unfolded typed_client_def] by (intro conjI) (blast | simp)+

lemma lateCm: "typed_client ((cmClient refEnv)\<lparr>Get := lateGet\<rparr>) cm_Meta configMaps configMaps_update rw_store (adm_cm refAdmission)"
  by (rule typed_client_Get [OF refEnv_typed(5)])
    (auto simp: lateGet_def refGet_def wf_map_def split: if_splits option.splits)

lemma lateEnv_kube: "kube_api lateEnv rw_store refAdmission"
  using refApi_kube lateCm by (simp add: kube_api_def kube_api_axioms_def lateEnv_def)

interpretation lateApi: lagging_api lateEnv rw_store refAdmission
proof (intro lagging_api.intro lateEnv_kube lagging_api_axioms.intro)
  fix w :: refworld and key
  assume c: "configMaps (rw_store w) key \<noteq> None"
  have "5 \<le> rw_clock (poll lateEnv key (nat (5 - rw_clock w)) w)" by (simp add: lateEnv_poll)
  moreover have "rw_store (poll lateEnv key n w) = rw_store w" for n by (simp add: lateEnv_poll)
  ultimately have "\<not> IsNotFound (pollError lateEnv key (poll lateEnv key (nat (5 - rw_clock w)) w))"
    using c by (auto simp: pollError_def lateEnv_def lateGet_def refGet_def)
  then show "\<exists>n. \<not> IsNotFound (pollError lateEnv key (poll lateEnv key n w))" ..
qed

section \<open>Properties\<close>

text \<open>
  C16. \<open>Reconcile\<close> always returns, without a panic, for every request and from every state, when the cache
  shows a stored ConfigMap after some number of polls: the two polling loops stop, since the ConfigMap
  they wait for has just been created. Reads may otherwise be stale and calls may fail in any way.
\<close>

theorem reconcile_returns:
  assumes "lagging_api E store A"
  shows "\<exists>e w'. Reconcile E req w = Some (Returned zeroResult e, w')"
  using assms by (rule lagging_api.Reconcile_ends)

theorem reconcile_returns_witness:
  "\<exists>e w'. Reconcile lateEnv sampleKey (worldWith minioCluster) = Some (Returned zeroResult e, w')"
  by (rule reconcile_returns [OF lateApi.lagging_api_axioms])

end
