(* ===== verification/World_Simulation.thy ===== *)
theory World_Simulation
  imports Reconcile_Run
begin

text \<open>
  The reconciliation looks at the world only through its environment. The locale \<open>world_simulation\<close> is a
  map between two kinds of worlds under which every call of one environment answers as the call of the other;
  then whole runs of \<open>Reconcile\<close> correspond, returning or not. It carries a run over to a world that records more.
\<close>

definition simGet :: "('v \<Rightarrow> 'w) \<Rightarrow> ('o, 'v) client \<Rightarrow> ('o, 'w) client \<Rightarrow> bool" where
  "simGet h c d \<longleftrightarrow> (\<forall>n z v. Get d n z (h v) = apsnd h (Get c n z v))"

definition simCreate :: "('v \<Rightarrow> 'w) \<Rightarrow> ('o, 'v) client \<Rightarrow> ('o, 'w) client \<Rightarrow> bool" where
  "simCreate h c d \<longleftrightarrow> simGet h c d \<and> (\<forall>x v. Create d x (h v) = apsnd h (Create c x v))"

definition simClient :: "('v \<Rightarrow> 'w) \<Rightarrow> ('o, 'v) client \<Rightarrow> ('o, 'w) client \<Rightarrow> bool" where
  "simClient h c d \<longleftrightarrow> simCreate h c d \<and> (\<forall>x v. Update d x (h v) = apsnd h (Update c x v))"

lemma simD:
  "simGet h c d \<Longrightarrow> Get d n z (h v) = apsnd h (Get c n z v)" "simCreate h c d \<Longrightarrow> simGet h c d"
  "simCreate h c d \<Longrightarrow> Create d x (h v) = apsnd h (Create c x v)" "simClient h c d \<Longrightarrow> simCreate h c d"
  "simClient h c d \<Longrightarrow> Update d x (h v) = apsnd h (Update c x v)"
  by (simp_all add: simGet_def simCreate_def simClient_def)

lemma ensureCreated_sim:
  "simCreate h c d \<Longrightarrow> ensureCreated d meta z x (h v) = apsnd h (ensureCreated c meta z x v)"
  by (simp add: ensureCreated_def simD(3) simD(1) [OF simD(2)] split_beta)

definition simStage :: "('v \<Rightarrow> 'w) \<Rightarrow> (KyuubiCluster \<Rightarrow> 'v \<Rightarrow> (GoError option \<times> 'v) option) \<Rightarrow>
    (KyuubiCluster \<Rightarrow> 'w \<Rightarrow> (GoError option \<times> 'w) option) \<Rightarrow> bool" where
  "simStage h s t \<longleftrightarrow> (\<forall>k v. t k (h v) = map_option (apsnd h) (s k v))"

lemma simStageD: "simStage h s t \<Longrightarrow> t k (h v) = map_option (apsnd h) (s k v)"
  by (simp add: simStage_def)

lemma seqStage_sim: "simStage h s1 t1 \<Longrightarrow> simStage h s2 t2 \<Longrightarrow> simStage h (seqStage s1 s2) (seqStage t1 t2)"
proof (unfold simStage_def, intro allI)
  fix k v
  assume "\<forall>k v. t1 k (h v) = map_option (apsnd h) (s1 k v)" "\<forall>k v. t2 k (h v) = map_option (apsnd h) (s2 k v)"
  then show "seqStage t1 t2 k (h v) = map_option (apsnd h) (seqStage s1 s2 k v)"
    by (cases "s1 k v") (auto simp: seqStage_def)
qed

text \<open>The parts of the environment that are not clients.\<close>

locale world_map =
  fixes E :: "'v env" and G :: "'w env" and h :: "'v \<Rightarrow> 'w"
  assumes pure: "SetControllerReference G = SetControllerReference E" "FormatXML G = FormatXML E"
      "SprintRequest G = SprintRequest E"
    and environ: "Getenv G s (h v) = Getenv E s v"
    and clock: "Now G (h v) = apsnd h (Now E v)"
    and sleep: "Sleep G n (h v) = h (Sleep E n v)"
    and range: "range_map G m (h v) = apsnd h (range_map E m v)"
begin

lemmas parts = pure environ clock sleep range

lemma desired_sim:
  "constructServiceAccount G = constructServiceAccount E" "constructRole G = constructRole E"
  "constructRoleBinding G = constructRoleBinding E" "constructDesiredKyuubiWorkload G = constructDesiredKyuubiWorkload E"
  "contructDesiredService G = contructDesiredService E"
  unfolding fun_eq_iff construct_defs pure by simp_all

lemma texts_sim:
  "map2String G m (h v) = apsnd h (map2String E m v)" "map2Xml G m (h v) = apsnd h (map2Xml E m v)"
  "compareConf G a b (h v) = apsnd h (compareConf E a b v)"
  by (simp_all add: map2String_def map2Xml_def compareConf_def parts split_beta Let_def)

lemma refs_sim: "clusterRefs_loop G k a c refs data (h v) = apsnd h (clusterRefs_loop E k a c refs data v)"
proof (induction refs arbitrary: data v)
  case (Cons r refs)
  have "clusterRef_step G k a c r data (h v) = apsnd h (clusterRef_step E k a c r data v)"
    by (simp add: clusterRef_step_def sparkBaseConf_def parts texts_sim split_beta Let_def)
  with Cons.IH show ?case by (simp split: prod.split sum.split)
qed simp

lemma configMap_sim:
  "constructKyuubiConfigMap G k (h v) = apsnd h (constructKyuubiConfigMap E k v)"
  "desiredClusterRefsConfigMap G k (h v) = apsnd h (desiredClusterRefsConfigMap E k v)"
  by (simp_all add: constructKyuubiConfigMap_def desiredClusterRefsConfigMap_def refs_sim texts_sim parts split_beta Let_def
      split: prod.split sum.split option.split)

end

text \<open>Of the client of the custom resource only the reads matter, of four other clients only reads and creates.\<close>

locale world_simulation = world_map +
  assumes read: "simGet h (kyuubiClient E) (kyuubiClient G)"
    and creators: "simCreate h (saClient E) (saClient G)" "simCreate h (roleClient E) (roleClient G)"
      "simCreate h (rbClient E) (rbClient G)" "simCreate h (svcClient E) (svcClient G)"
    and clients: "simClient h (cmClient E) (cmClient G)" "simClient h (stsClient E) (stsClient G)"
    and status: "StatusUpdate G k (h v) = apsnd h (StatusUpdate E k v)"
begin

lemmas all_creators = creators clients [THEN simD(4)]

lemmas calls = simD(1) [OF read] all_creators [THEN simD(2), THEN simD(1)] all_creators [THEN simD(3)] clients [THEN simD(5)]
  status parts

lemma poll_sim: "poll G key n (h v) = h (poll E key n v)"
  by (induction n arbitrary: v) (simp_all add: calls)

lemma wait_sim: "waitForConfigMap G key (h v) = map_option (apsnd h) (waitForConfigMap E key v)"
proof -
  have e: "pollError G key (poll G key i (h v)) = pollError E key (poll E key i v)" for i
    by (simp add: poll_sim pollError_def calls)
  show ?thesis
  proof (cases "waitForConfigMap E key v")
    case None
    then have "waitForConfigMap G key (h v) = None" by (simp add: waitForConfigMap_None_iff e)
    with None show ?thesis by simp
  next
    case (Some r)
    then have "waitForConfigMap G key (h v) = Some (apsnd h r)"
      unfolding waitForConfigMap_Some_iff e by (auto simp: poll_sim calls)
    with Some show ?thesis by simp
  qed
qed

lemma ensureConfigMap_sim: "ensureConfigMap G d (h v) = map_option (apsnd h) (ensureConfigMap E d v)"
  by (simp add: ensureConfigMap_def calls texts_sim wait_sim split_beta)

lemma service_sim: "createOrUpdateService G k (h v) = apsnd h (createOrUpdateService E k v)"
  by (simp add: createOrUpdateService_def desired_sim calls split_beta Let_def)

lemma status_sim: "updateKyuubiClusterStatus G k svc (h v) = apsnd h (updateKyuubiClusterStatus E k svc v)"
  by (simp add: updateKyuubiClusterStatus_def calls split_beta Let_def)

lemma stages_sim:
  "simStage h (saStage E) (saStage G)" "simStage h (roleStage E) (roleStage G)" "simStage h (rbStage E) (rbStage G)"
  "simStage h (workloadStage E) (workloadStage G)" "simStage h (serviceStatusStage E) (serviceStatusStage G)"
  "simStage h (createOrUpdateKyuubiConfigmap E) (createOrUpdateKyuubiConfigmap G)"
  "simStage h (createOrUpdateClusterRefsConfigmap E) (createOrUpdateClusterRefsConfigmap G)"
  unfolding simStage_def saStage_def roleStage_def rbStage_def workloadStage_def serviceStatusStage_def
    createOrUpdateServiceAccount_eq createOrUpdateRole_eq createOrUpdateRoleBinding_eq createOrUpdateKyuubi_def
    createOrUpdateKyuubiConfigmap_eq createOrUpdateClusterRefsConfigmap_eq
  by (simp_all add: desired_sim ensureCreated_sim creators calls configMap_sim ensureConfigMap_sim service_sim status_sim
      split_beta Let_def split: sum.split)

lemma createOrUpdateClusters_sim: "createOrUpdateClusters G k (h v) = map_option (apsnd h) (createOrUpdateClusters E k v)"
  unfolding createOrUpdateClusters_eq allStages_def
  by (intro simStageD seqStage_sim stages_sim)

lemma Reconcile_sim: "Reconcile G req (h v) = map_option (apsnd h) (Reconcile E req v)"
proof -
  obtain k e v1 where g: "Get (kyuubiClient E) req zeroKyuubiCluster v = ((k, e), v1)" by (metis surj_pair)
  then show ?thesis
    by (cases "createOrUpdateClusters E k v1") (auto simp: Reconcile_def calls createOrUpdateClusters_sim Let_def)
qed

end

end
