(* ===== verification/Permissions.thy ===== *)
theory Permissions
  imports Reconcile_Correct World_Simulation
begin

text \<open>
  The permissions of the operator's own service account. \<open>markerRules\<close> are the kubebuilder RBAC markers
  of \<open>kyuubicluster_controller.go\<close>, from which the manager role of \<open>config/rbac/role.yaml\<close> is generated;
  \<open>kustomizeRules\<close> is all that
  the manifests under \<open>config\<close> bind to that account, and \<open>chartRules\<close> is the cluster role of the Helm chart. \<open>restrict\<close> is the environment that a service account
  with given rules sees: a call that no rule allows is refused. Reads go through the cache of the
  client, which lists and watches.
\<close>

section \<open>Rules\<close>

definition allows :: "PolicyRule list \<Rightarrow> string \<Rightarrow> string \<Rightarrow> string \<Rightarrow> bool" where
  "allows rules apiGroup resource verb = list_ex (\<lambda>r. apiGroup \<in> set (pr_APIGroups r) \<and>
     resource \<in> set (pr_Resources r) \<and> verb \<in> set (pr_Verbs r)) rules"

definition markerRules :: "PolicyRule list" where
  "markerRules =
     [\<lparr>pr_APIGroups = [''kyuubi.nineinfra.tech''], pr_Resources = [''kyuubiclusters''],
       pr_Verbs = [''get'', ''list'', ''watch'', ''create'', ''update'', ''patch'', ''delete'']\<rparr>,
      \<lparr>pr_APIGroups = [''kyuubi.nineinfra.tech''], pr_Resources = [''kyuubiclusters/status''],
       pr_Verbs = [''get'', ''update'', ''patch'']\<rparr>,
      \<lparr>pr_APIGroups = [''kyuubi.nineinfra.tech''], pr_Resources = [''kyuubiclusters/finalizers''],
       pr_Verbs = [''update'']\<rparr>]"

text \<open>The rules of the chart in their order, but for the last, which is restricted to one resource name (\<open>chartBindRule\<close>).\<close>

definition chartRules :: "PolicyRule list" where
  "chartRules =
     [\<lparr>pr_APIGroups = [[]], pr_Resources = [''nodes''], pr_Verbs = [''list'', ''watch'']\<rparr>,
      \<lparr>pr_APIGroups = [[]],
       pr_Resources = [''pods'', ''configmaps'', ''secrets'', ''services'', ''endpoints'', ''serviceaccounts'', ''secrets'',
         ''persistentvolumeclaims''],
       pr_Verbs = [''create'', ''delete'', ''get'', ''list'', ''patch'', ''update'', ''watch'', ''deletecollection'']\<rparr>,
      \<lparr>pr_APIGroups = [''rbac.authorization.k8s.io''], pr_Resources = [''roles'', ''rolebindings''],
       pr_Verbs = [''create'', ''delete'', ''get'', ''list'', ''patch'', ''update'', ''watch'']\<rparr>,
      \<lparr>pr_APIGroups = [''apps''], pr_Resources = [''statefulsets''],
       pr_Verbs = [''get'', ''create'', ''delete'', ''list'', ''patch'', ''update'', ''watch'']\<rparr>,
      \<lparr>pr_APIGroups = [''batch''], pr_Resources = [''jobs''],
       pr_Verbs = [''create'', ''get'', ''list'', ''patch'', ''update'', ''watch'']\<rparr>,
      \<lparr>pr_APIGroups = [''apiextensions.k8s.io''], pr_Resources = [''customresourcedefinitions''], pr_Verbs = [''get'']\<rparr>,
      \<lparr>pr_APIGroups = [''events.k8s.io''], pr_Resources = [''events''], pr_Verbs = [''create'']\<rparr>,
      \<lparr>pr_APIGroups = [''kyuubi.nineinfra.tech''], pr_Resources = [''kyuubiclusters'', ''kyuubiclusters/status''],
       pr_Verbs = [''get'', ''list'', ''patch'', ''watch'', ''update'']\<rparr>]"

text \<open>
  The other roles that the manifests bind to the operator's service account, for leader election (within its own
  namespace; \<open>kustomizeRules\<close> is generous and grants it everywhere) and for the proxy before its metrics.
\<close>

definition leaderElectionRules :: "PolicyRule list" where
  "leaderElectionRules =
     [\<lparr>pr_APIGroups = [[]], pr_Resources = [''configmaps''],
       pr_Verbs = [''get'', ''list'', ''watch'', ''create'', ''update'', ''patch'', ''delete'']\<rparr>,
      \<lparr>pr_APIGroups = [''coordination.k8s.io''], pr_Resources = [''leases''],
       pr_Verbs = [''get'', ''list'', ''watch'', ''create'', ''update'', ''patch'', ''delete'']\<rparr>,
      \<lparr>pr_APIGroups = [[]], pr_Resources = [''events''], pr_Verbs = [''create'', ''patch'']\<rparr>]"

definition authProxyRules :: "PolicyRule list" where
  "authProxyRules =
     [\<lparr>pr_APIGroups = [''authentication.k8s.io''], pr_Resources = [''tokenreviews''], pr_Verbs = [''create'']\<rparr>,
      \<lparr>pr_APIGroups = [''authorization.k8s.io''], pr_Resources = [''subjectaccessreviews''], pr_Verbs = [''create'']\<rparr>]"

definition kustomizeRules :: "PolicyRule list" where
  "kustomizeRules = markerRules @ leaderElectionRules @ authProxyRules"

text \<open>
  The roles for users of the custom resource, and the rest of the chart's roles: the rule that allows to bind the
  cluster role of the given name, and the rules of that role. No part of the operator refers to it.
\<close>

definition editorRules :: "PolicyRule list" where
  "editorRules =
     [\<lparr>pr_APIGroups = [''kyuubi.nineinfra.tech''], pr_Resources = [''kyuubiclusters''],
       pr_Verbs = [''create'', ''delete'', ''get'', ''list'', ''patch'', ''update'', ''watch'']\<rparr>,
      \<lparr>pr_APIGroups = [''kyuubi.nineinfra.tech''], pr_Resources = [''kyuubiclusters/status''], pr_Verbs = [''get'']\<rparr>]"

definition viewerRules :: "PolicyRule list" where
  "viewerRules =
     [\<lparr>pr_APIGroups = [''kyuubi.nineinfra.tech''], pr_Resources = [''kyuubiclusters''], pr_Verbs = [''get'', ''list'', ''watch'']\<rparr>,
      \<lparr>pr_APIGroups = [''kyuubi.nineinfra.tech''], pr_Resources = [''kyuubiclusters/status''], pr_Verbs = [''get'']\<rparr>]"

definition chartBindRule :: "string \<Rightarrow> PolicyRule \<times> string list" where
  "chartBindRule operatorName =
     (\<lparr>pr_APIGroups = [''rbac.authorization.k8s.io''], pr_Resources = [''clusterroles''], pr_Verbs = [''bind'']\<rparr>, [operatorName])"

definition chartNamedRoleRules :: "PolicyRule list" where
  "chartNamedRoleRules =
     [\<lparr>pr_APIGroups = [[]], pr_Resources = [''configmaps'', ''secrets'', ''serviceaccounts''], pr_Verbs = [''get'']\<rparr>,
      \<lparr>pr_APIGroups = [''events.k8s.io''], pr_Resources = [''events''], pr_Verbs = [''create'']\<rparr>]"

text \<open>
  A rule that names resources applies to these alone. The API server refuses to bind a role, or to create one, that
  grants more than its creator has (\<open>covers\<close>), unless the creator may bind it.
\<close>

definition allowsNamed :: "PolicyRule \<times> string list \<Rightarrow> string \<Rightarrow> string \<Rightarrow> string \<Rightarrow> string \<Rightarrow> bool" where
  "allowsNamed r apiGroup resource name verb \<longleftrightarrow> name \<in> set (snd r) \<and> allows [fst r] apiGroup resource verb"

definition covers :: "PolicyRule list \<Rightarrow> PolicyRule list \<Rightarrow> bool" where
  "covers rules granted = list_all (\<lambda>r. list_all (\<lambda>g. list_all (\<lambda>res. list_all (\<lambda>v. allows rules g res v) (pr_Verbs r))
     (pr_Resources r)) (pr_APIGroups r)) granted"

lemma covers_iff: "covers rules granted \<longleftrightarrow> (\<forall>g res v. allows granted g res v \<longrightarrow> allows rules g res v)"
  unfolding covers_def allows_def list_all_iff list_ex_iff by blast

lemma chart_bind_only:
  "allowsNamed (chartBindRule n) g res name v \<longleftrightarrow>
     g = ''rbac.authorization.k8s.io'' \<and> res = ''clusterroles'' \<and> v = ''bind'' \<and> name = n"
  by (auto simp: allowsNamed_def chartBindRule_def allows_def)

text \<open>The bind rule is not needed either: the chart's role covers the role that may be bound.\<close>

lemma named_role_covered: "covers chartRules chartNamedRoleRules" "\<not> covers kustomizeRules chartNamedRoleRules"
  by (simp_all add: covers_def allows_def chartRules_def chartNamedRoleRules_def kustomizeRules_def markerRules_def
      leaderElectionRules_def authProxyRules_def)

lemma user_roles_covered: "covers markerRules editorRules" "covers editorRules viewerRules" "\<not> covers chartRules editorRules"
  by (simp_all add: covers_def allows_def markerRules_def editorRules_def viewerRules_def chartRules_def)

lemmas kustomize_rules = kustomizeRules_def markerRules_def leaderElectionRules_def authProxyRules_def

section \<open>The restricted environment\<close>

text \<open>\<open>deny\<close> is the error that a refused call reports, and the world after it.\<close>

definition restrictClient :: "PolicyRule list \<Rightarrow> ('w \<Rightarrow> GoError \<times> 'w) \<Rightarrow> string \<Rightarrow> string \<Rightarrow> ('o, 'w) client \<Rightarrow> ('o, 'w) client" where
  "restrictClient rules deny apiGroup resource cl =
     (let refused = (\<lambda>x w. case deny w of (e, w') \<Rightarrow> ((x, Some e), w'));
          may = allows rules apiGroup resource
      in \<lparr>Get = (if may ''get'' \<and> may ''list'' \<and> may ''watch'' then Get cl else (\<lambda>k. refused)),
          Create = (if may ''create'' then Create cl else refused),
          Update = (if may ''update'' then Update cl else refused)\<rparr>)"

definition restrict :: "PolicyRule list \<Rightarrow> ('w \<Rightarrow> GoError \<times> 'w) \<Rightarrow> 'w env \<Rightarrow> 'w env" where
  "restrict rules deny E = E\<lparr>
     kyuubiClient := restrictClient rules deny ''kyuubi.nineinfra.tech'' ''kyuubiclusters'' (kyuubiClient E),
     saClient := restrictClient rules deny [] ''serviceaccounts'' (saClient E),
     roleClient := restrictClient rules deny ''rbac.authorization.k8s.io'' ''roles'' (roleClient E),
     rbClient := restrictClient rules deny ''rbac.authorization.k8s.io'' ''rolebindings'' (rbClient E),
     cmClient := restrictClient rules deny [] ''configmaps'' (cmClient E),
     stsClient := restrictClient rules deny ''apps'' ''statefulsets'' (stsClient E),
     svcClient := restrictClient rules deny [] ''services'' (svcClient E),
     StatusUpdate := (if allows rules ''kyuubi.nineinfra.tech'' ''kyuubiclusters/status'' ''update'' then StatusUpdate E
       else (\<lambda>k w. case deny w of (e, w') \<Rightarrow> ((k, Some e), w')))\<rparr>"

section \<open>What a reconciliation needs\<close>

text \<open>The accesses of the operator: reads of every kind, creates of every child, updates of ConfigMaps, StatefulSets and the status.\<close>

definition requiredAccess :: "(string \<times> string \<times> string) list" where
  "requiredAccess =
     map (\<lambda>v. (''kyuubi.nineinfra.tech'', ''kyuubiclusters'', v)) [''get'', ''list'', ''watch''] @
     [(''kyuubi.nineinfra.tech'', ''kyuubiclusters/status'', ''update'')] @
     concat (map (\<lambda>(g, r). map (\<lambda>v. (g, r, v)) [''get'', ''list'', ''watch'', ''create''])
       [([], ''serviceaccounts''), (''rbac.authorization.k8s.io'', ''roles''), (''rbac.authorization.k8s.io'', ''rolebindings''),
        ([], ''configmaps''), (''apps'', ''statefulsets''), ([], ''services'')]) @
     [([], ''configmaps'', ''update''), (''apps'', ''statefulsets'', ''update'')]"

definition permits :: "PolicyRule list \<Rightarrow> bool" where
  "permits rules \<longleftrightarrow> list_all (\<lambda>(g, r, v). allows rules g r v) requiredAccess"

lemma apsnd_id: "apsnd id p = p"
  by (cases p) simp

lemma restrictClient_sim:
  assumes "allows rules g r ''get''" "allows rules g r ''list''" "allows rules g r ''watch''"
  shows "simGet id (restrictClient rules deny g r cl) cl"
    and "allows rules g r ''create'' \<Longrightarrow> simCreate id (restrictClient rules deny g r cl) cl"
    and "allows rules g r ''create'' \<Longrightarrow> allows rules g r ''update'' \<Longrightarrow> simClient id (restrictClient rules deny g r cl) cl"
  using assms by (simp_all add: simGet_def simCreate_def simClient_def restrictClient_def apsnd_id Let_def)

lemma restrict_sim: "permits rules \<Longrightarrow> world_simulation (restrict rules deny E) E id"
  by unfold_locales
    (auto simp: permits_def requiredAccess_def restrict_def apsnd_id intro!: restrictClient_sim)

lemma permitted_same:
  assumes "permits rules"
  shows "Reconcile (restrict rules deny E) req w = Reconcile E req w"
  using world_simulation.Reconcile_sim [OF restrict_sim [OF assms, of deny E], of req w] by (cases "Reconcile (restrict rules deny E) req w") (simp_all add: apsnd_id)

section \<open>Properties\<close>

text \<open>
  C27. The cluster role of the chart is enough: under it every call of \<open>Reconcile\<close> does what it does
  without restrictions, and the operator holds every permission that the role it creates for a Kyuubi
  cluster grants, without which the API server would refuse that role; with the roles of the manifests it does not.
\<close>

theorem chart_permissions_suffice:
  "Reconcile (restrict chartRules deny E) req w = Reconcile E req w \<and>
   covers chartRules (ro_Rules (fst (constructRole E k))) \<and> \<not> covers kustomizeRules (ro_Rules (fst (constructRole E k)))"
proof (intro conjI)
  show "Reconcile (restrict chartRules deny E) req w = Reconcile E req w"
    by (rule permitted_same) (simp add: permits_def requiredAccess_def allows_def chartRules_def)
qed (simp_all add: constructRole_def covers_def allows_def chartRules_def kustomize_rules Let_def split_beta)

text \<open>
  C28. The roles that the manifests under \<open>config\<close> bind to the operator are not enough: with the manager role made of
  the markers, the role for leader election and the role of the proxy together, the operator reads the custom resource
  and then fails at the service account. Nothing is created, for any custom resource.
\<close>

theorem marker_permissions_fail:
  assumes "kube_api E store A" and "wf_store (store w)" and "plainName req"
    and "Get (kyuubiClient E) req zeroKyuubiCluster w = ((k, None), w1)"
    and "\<And>w. \<not> IsNotFound (Some (fst (deny w))) \<and> store (snd (deny w)) = store w"
  shows "\<exists>e w'. Reconcile (restrict kustomizeRules deny E) req w = Some (Returned zeroResult (Some e), w') \<and> store w' = store w"
proof -
  obtain e w' where d: "deny w1 = (e, w')" by (metis surj_pair)
  have "Get (kyuubiClient (restrict kustomizeRules deny E)) = Get (kyuubiClient E)"
    "Get (saClient (restrict kustomizeRules deny E)) n z w1 = ((z, Some e), w')" for n z
    by (simp_all add: restrict_def restrictClient_def allows_def kustomize_rules Let_def d)
  moreover have "strings_Split (SprintRequest (restrict kustomizeRules deny E) req) (CHR ''/'') =
      strings_Split (SprintRequest E req) (CHR ''/'')"
    by (simp add: restrict_def)
  moreover have "strings_Split (SprintRequest E req) (CHR ''/'') = [nn_Namespace req, kc_Name k]"
    using kube_api.request_parts [OF assms(1,3)] kube_api.fetched_key [OF assms(1,2,4)] by (auto simp: kyuubiKey_def)
  moreover have "store w1 = store w"
    using typed_client.get_store [OF kube_api.axioms(1) [OF assms(1)] assms(4)] .
  ultimately show ?thesis
    using assms(4) assms(5) [of w1] d
    by (simp add: Reconcile_def Let_def createOrUpdateClusters_def createOrUpdateK8sResources_def stage_defs)
qed

theorem marker_permissions_fail_witness:
  "\<exists>e w'. Reconcile (restrict kustomizeRules (\<lambda>w. (ApiError ''Forbidden'' [], w)) refEnv) sampleKey (worldWith minioCluster) =
     Some (Returned zeroResult (Some e), w') \<and> rw_store w' = rw_store (worldWith minioCluster)"
proof -
  obtain w1 where g: "Get (kyuubiClient refEnv) sampleKey zeroKyuubiCluster (worldWith minioCluster) = ((minioCluster, None), w1)"
    by (rule refApi.kc.get_present [of "worldWith minioCluster" sampleKey minioCluster]) simp
  show ?thesis
    by (rule marker_permissions_fail [OF refApi_kube wf_worldWith plain_sampleKey g]) simp
qed

end
