(* ===== verification/Object_Names.thy ===== *)
theory Object_Names
  imports Resources Samples
begin

text \<open>
  The names that the generated objects get, against the rules of the API: a service is named by a
  DNS-1035 label, containers and volumes by DNS-1123 labels. The name of a custom resource may be any DNS
  subdomain, up to 253 characters with dots; only some of those names lead to objects that the server
  accepts, and the webhooks reject none of the others.
\<close>

section \<open>Labels\<close>

definition lowerChar :: "char \<Rightarrow> bool" where
  "lowerChar c \<longleftrightarrow> CHR ''a'' \<le> c \<and> c \<le> CHR ''z''"

definition digitChar :: "char \<Rightarrow> bool" where
  "digitChar c \<longleftrightarrow> CHR ''0'' \<le> c \<and> c \<le> CHR ''9''"

definition labelChars :: "string \<Rightarrow> bool" where
  "labelChars s \<longleftrightarrow> list_all (\<lambda>c. lowerChar c \<or> digitChar c \<or> c = CHR ''-'') s"

definition dns1123Label :: "string \<Rightarrow> bool" where
  "dns1123Label s \<longleftrightarrow> s \<noteq> [] \<and> length s \<le> 63 \<and> labelChars s \<and> (lowerChar (hd s) \<or> digitChar (hd s)) \<and> last s \<noteq> CHR ''-''"

definition dns1035Label :: "string \<Rightarrow> bool" where
  "dns1035Label s \<longleftrightarrow> s \<noteq> [] \<and> length s \<le> 63 \<and> labelChars s \<and> lowerChar (hd s) \<and> last s \<noteq> CHR ''-''"

lemma labelChars_append [simp]: "labelChars (s @ t) \<longleftrightarrow> labelChars s \<and> labelChars t"
  by (simp add: labelChars_def)

lemma labelChars_Cons [simp]: "labelChars (c # s) \<longleftrightarrow> (lowerChar c \<or> digitChar c \<or> c = CHR ''-'') \<and> labelChars s"
  by (simp add: labelChars_def)

lemma labelChars_Nil [simp]: "labelChars []"
  by (simp add: labelChars_def)

lemma dns1035_1123: "dns1035Label s \<Longrightarrow> dns1123Label s"
  by (simp add: dns1035Label_def dns1123Label_def)

text \<open>A label with a suffix that starts with a dash and ends with a letter.\<close>

definition labelSuffix :: "string \<Rightarrow> bool" where
  "labelSuffix t \<longleftrightarrow> t \<noteq> [] \<and> labelChars t \<and> hd t = CHR ''-'' \<and> last t \<noteq> CHR ''-''"

lemma not_dash: "\<not> lowerChar (CHR ''-'')" "\<not> digitChar (CHR ''-'')"
  by (simp_all add: lowerChar_def digitChar_def less_eq_char_def)

lemma dns1035_suffix:
  "labelSuffix t \<Longrightarrow> dns1035Label (s @ t) \<longleftrightarrow> s \<noteq> [] \<and> length s + length t \<le> 63 \<and> labelChars s \<and> lowerChar (hd s)"
  by (cases s) (auto simp: labelSuffix_def dns1035Label_def not_dash)

lemma dns1123_suffix:
  "labelSuffix t \<Longrightarrow> dns1123Label (s @ t) \<longleftrightarrow>
     s \<noteq> [] \<and> length s + length t \<le> 63 \<and> labelChars s \<and> (lowerChar (hd s) \<or> digitChar (hd s))"
  by (cases s) (auto simp: labelSuffix_def dns1123Label_def not_dash)

lemma suffixes: "labelSuffix ''-kyuubi''" "labelSuffix ''-spark''" "labelSuffix ''-hdfssite''" "labelSuffix ''-coresite''"
  "labelSuffix ''-hivesite''"
  by (simp_all add: labelSuffix_def lowerChar_def less_eq_char_def)

section \<open>The names of the generated objects\<close>

text \<open>Service, containers and volumes of a custom resource are named as the API asks.\<close>

definition namesAccepted :: "'w env \<Rightarrow> KyuubiCluster \<Rightarrow> bool" where
  "namesAccepted E k \<longleftrightarrow>
     (let pod = pt_Spec (ss_Template (sts_Spec (fst (constructDesiredKyuubiWorkload E k))))
      in dns1035Label (om_Name (svc_Meta (fst (contructDesiredService E k)))) \<and>
         list_all (\<lambda>c. dns1123Label (ct_Name c)) (ps_Containers pod) \<and>
         list_all (\<lambda>v. dns1123Label (vol_Name v)) (ps_Volumes pod))"

text \<open>The longest name of a custom resource: the longest suffix of a volume takes nine characters, that of the service seven.\<close>

definition maxNameLength :: "KyuubiCluster \<Rightarrow> nat" where
  "maxNameLength k = (if list_ex (\<lambda>r. cr_Type r = HdfsClusterType \<or> cr_Type r = MetaStoreClusterType)
     (kcs_ClusterRefs (kc_Spec k)) then 54 else 56)"

lemma volumes_accepted:
  assumes "dns1035Label n" and "length n \<le> 56"
  shows "list_all (\<lambda>x. dns1123Label (n @ fst x)) (refFiles r) \<longleftrightarrow>
    (cr_Type r = HdfsClusterType \<or> cr_Type r = MetaStoreClusterType \<longrightarrow> length n \<le> 54)"
  using assms by (auto simp: refFiles_def dns1123_suffix suffixes dns1035Label_def const_defs)

lemma clusterFiles_accepted:
  assumes "dns1035Label n" and "length n \<le> 56"
  shows "list_all (\<lambda>x. dns1123Label (n @ fst x)) (concat (map refFiles refs)) \<longleftrightarrow>
    (list_ex (\<lambda>r. cr_Type r = HdfsClusterType \<or> cr_Type r = MetaStoreClusterType) refs \<longrightarrow> length n \<le> 54)"
  by (induction refs) (auto simp: volumes_accepted [OF assms])

text \<open>
  C29. The server accepts the names of the service, the container and the volumes exactly when the
  custom resource is named by a DNS-1035 label of at most 54 characters, or 56 without a reference to
  HDFS or a metastore. Names with dots, with a leading digit or longer ones are legal for the custom
  resource but not for its objects.
\<close>

theorem names_accepted_iff:
  assumes "\<And>m. metaKey (fst (SetControllerReference E k m)) = metaKey m"
  shows "namesAccepted E k \<longleftrightarrow> dns1035Label (kc_Name k) \<and> length (kc_Name k) \<le> maxNameLength k"
proof -
  let ?n = "kc_Name k"
  have "om_Name (fst (SetControllerReference E k m)) = om_Name m" for m
    using assms [of m] by (simp add: metaKey_def)
  then have svc: "om_Name (svc_Meta (fst (contructDesiredService E k))) = ?n @ ''-kyuubi''"
    by (simp add: contructDesiredService_def Let_def split_beta childMeta_def resourceName_eq zeroMeta_def)
  have "namesAccepted E k \<longleftrightarrow> dns1035Label (?n @ ''-kyuubi'') \<and> dns1123Label ?n \<and> dns1123Label (?n @ ''-kyuubi'') \<and>
      list_all (\<lambda>x. dns1123Label (?n @ fst x)) (clusterFiles k)"
    unfolding namesAccepted_def svc
    by (simp add: constructDesiredKyuubiWorkload_def Let_def split_beta constructVolumes_eq configMapVolume_def
        resourceName_eq list.pred_map comp_def)
  also have "\<dots> \<longleftrightarrow> dns1035Label ?n \<and> length ?n \<le> 56 \<and> list_all (\<lambda>x. dns1123Label (?n @ fst x)) (clusterFiles k)"
    by (auto simp: dns1035_suffix dns1123_suffix suffixes) (auto simp: dns1035Label_def dns1123Label_def)
  also have "\<dots> \<longleftrightarrow> dns1035Label ?n \<and> length ?n \<le> maxNameLength k"
    using clusterFiles_accepted [of ?n "kcs_ClusterRefs (kc_Spec k)"] by (auto simp: maxNameLength_def)
  finally show ?thesis .
qed

theorem names_accepted_iff_witness:
  "namesAccepted refEnv minioCluster \<and> \<not> namesAccepted refEnv (minioCluster\<lparr>kc_Meta := (kc_Meta minioCluster)\<lparr>om_Name := ''a.b''\<rparr>\<rparr>)"
proof -
  have o: "metaKey (fst (SetControllerReference refEnv k m)) = metaKey m" for k m
    by (simp add: refEnv_def metaKey_def)
  show ?thesis
    unfolding names_accepted_iff [OF o]
    by (simp add: minioCluster_def sampleMeta_def zeroMeta_def dns1035Label_def lowerChar_def digitChar_def less_eq_char_def maxNameLength_def)
qed

end
