(* ===== verification/Clientset.thy ===== *)
theory Clientset
  imports Api_Types "HOL-Library.Word" Complex_Main
begin

text \<open>
  The typed clientset under \<open>client/clientset/versioned\<close>: \<open>typed/.../kyuubicluster.go\<close>,
  \<open>typed/.../kyuubi-operator_client.go\<close> and \<open>clientset.go\<close>, with the group and version of
  \<open>groupversion_info.go\<close> and \<open>register.go\<close>. The REST client of client-go is a parameter: a request is
  the verb with the list of builder calls made on it, and sending it is a function of the parameter.
  A method called on a nil REST client panics; then the result is \<open>None\<close>.
\<close>

section \<open>Group, version, options\<close>

record GroupVersion =
  gv_Group :: string
  gv_Version :: string

record GroupResource =
  gr_Group :: string
  gr_Resource :: string

definition v1alpha1_GroupVersion :: GroupVersion where
  "v1alpha1_GroupVersion = \<lparr>gv_Group = ''kyuubi.nineinfra.tech'', gv_Version = ''v1alpha1''\<rparr>"

definition SchemeGroupVersion :: GroupVersion where
  "SchemeGroupVersion = v1alpha1_GroupVersion"

definition Resource :: "string \<Rightarrow> GroupResource" where
  "Resource resource = \<lparr>gr_Group = gv_Group SchemeGroupVersion, gr_Resource = resource\<rparr>"

type_synonym int64 = "64 word"

text \<open>
  The option structs of \<open>metav1\<close>. The client reads one field of \<open>ListOptions\<close> and sets another; the
  remaining fields, and the other structs, are handed on as they are.
\<close>

record ListOptions =
  lo_LabelSelector :: string
  lo_Watch :: bool
  lo_TimeoutSeconds :: "int64 option"
  lo_Other :: string

type_synonym GetOptions = string
type_synonym CreateOptions = string
type_synonym UpdateOptions = string
type_synonym DeleteOptions = string
type_synonym PatchOptions = string
type_synonym PatchType = string

section \<open>Requests\<close>

datatype verb = GET | POST | PUT | DELETE | PATCH PatchType

datatype params = GetParams GetOptions | ListParams ListOptions | CreateParams CreateOptions
  | UpdateParams UpdateOptions | PatchParams PatchOptions

datatype body = ClusterBody KyuubiCluster | OptionsBody DeleteOptions | BytesBody string

datatype build = Namespace string | ResourceName string | Name string | SubResource "string list"
  | VersionedParams params | Timeout int64 | Body body

type_synonym request = "verb \<times> build list"

text \<open>
  \<open>rest.Interface\<close>: sending a request and decoding the answer into an object (\<open>Do(ctx).Into\<close>), into a
  list, or looking at the error only (\<open>Do(ctx).Error\<close>), and opening a watch.
\<close>

record ('wt, 'w) rest_interface =
  DoInto :: "request \<Rightarrow> KyuubiCluster \<Rightarrow> 'w \<Rightarrow> (KyuubiCluster \<times> GoError option) \<times> 'w"
  DoIntoList :: "request \<Rightarrow> KyuubiClusterList \<Rightarrow> 'w \<Rightarrow> (KyuubiClusterList \<times> GoError option) \<times> 'w"
  DoError :: "request \<Rightarrow> 'w \<Rightarrow> GoError option \<times> 'w"
  DoWatch :: "request \<Rightarrow> 'w \<Rightarrow> (GoError + 'wt) \<times> 'w"

definition zeroKyuubiClusterList :: KyuubiClusterList where
  "zeroKyuubiClusterList = \<lparr>kl_TypeMeta = \<lparr>tm_Kind = [], tm_APIVersion = []\<rparr>, kl_ListMeta = zeroListMeta, kl_Items = []\<rparr>"

section \<open>The client of the API group\<close>

record 'r KyuubiV1alpha1Client =
  restClient :: "'r option"

definition RESTClient :: "'r KyuubiV1alpha1Client option \<Rightarrow> 'r option" where
  "RESTClient c = (if c = None then None else restClient (the c))"

record 'r kyuubiClusters =
  kcl_client :: "'r option"
  kcl_ns :: string

definition newKyuubiClusters :: "'r KyuubiV1alpha1Client option \<Rightarrow> string \<Rightarrow> 'r kyuubiClusters" where
  "newKyuubiClusters c namespace = \<lparr>kcl_client = RESTClient c, kcl_ns = namespace\<rparr>"

definition KyuubiClusters :: "'r KyuubiV1alpha1Client option \<Rightarrow> string \<Rightarrow> 'r kyuubiClusters" where
  "KyuubiClusters c namespace = newKyuubiClusters c namespace"

section \<open>The operations on custom resources\<close>

definition kyuubiClusters_Get :: "('wt, 'w) rest_interface kyuubiClusters \<Rightarrow> string \<Rightarrow> GetOptions \<Rightarrow> 'w \<Rightarrow>
    ((KyuubiCluster \<times> GoError option) \<times> 'w) option" where
  "kyuubiClusters_Get c name options w = do {
     client \<leftarrow> kcl_client c;
     Some (DoInto client (GET, [Namespace (kcl_ns c), ResourceName ''kyuubiclusters'', Name name,
       VersionedParams (GetParams options)]) zeroKyuubiCluster w) }"

text \<open>\<open>time.Duration( *opts.TimeoutSeconds) * time.Second\<close>, zero when the pointer is nil.\<close>

definition listTimeout :: "ListOptions \<Rightarrow> int64" where
  "listTimeout opts =
     (let timeout = 0
      in if lo_TimeoutSeconds opts \<noteq> None then the (lo_TimeoutSeconds opts) * 1000000000 else timeout)"

definition kyuubiClusters_List :: "('wt, 'w) rest_interface kyuubiClusters \<Rightarrow> ListOptions \<Rightarrow> 'w \<Rightarrow>
    ((KyuubiClusterList \<times> GoError option) \<times> 'w) option" where
  "kyuubiClusters_List c opts w = do {
     client \<leftarrow> kcl_client c;
     Some (DoIntoList client (GET, [Namespace (kcl_ns c), ResourceName ''kyuubiclusters'',
       VersionedParams (ListParams opts), Timeout (listTimeout opts)]) zeroKyuubiClusterList w) }"

definition kyuubiClusters_Watch :: "('wt, 'w) rest_interface kyuubiClusters \<Rightarrow> ListOptions \<Rightarrow> 'w \<Rightarrow>
    ((GoError + 'wt) \<times> 'w) option" where
  "kyuubiClusters_Watch c opts w = do {
     client \<leftarrow> kcl_client c;
     Some (DoWatch client (GET, [Namespace (kcl_ns c), ResourceName ''kyuubiclusters'',
       VersionedParams (ListParams (opts\<lparr>lo_Watch := True\<rparr>)), Timeout (listTimeout opts)]) w) }"

definition kyuubiClusters_Create :: "('wt, 'w) rest_interface kyuubiClusters \<Rightarrow> KyuubiCluster \<Rightarrow> CreateOptions \<Rightarrow> 'w \<Rightarrow>
    ((KyuubiCluster \<times> GoError option) \<times> 'w) option" where
  "kyuubiClusters_Create c kyuubiCluster opts w = do {
     client \<leftarrow> kcl_client c;
     Some (DoInto client (POST, [Namespace (kcl_ns c), ResourceName ''kyuubiclusters'',
       VersionedParams (CreateParams opts), Body (ClusterBody kyuubiCluster)]) zeroKyuubiCluster w) }"

definition kyuubiClusters_Update :: "('wt, 'w) rest_interface kyuubiClusters \<Rightarrow> KyuubiCluster \<Rightarrow> UpdateOptions \<Rightarrow> 'w \<Rightarrow>
    ((KyuubiCluster \<times> GoError option) \<times> 'w) option" where
  "kyuubiClusters_Update c kyuubiCluster opts w = do {
     client \<leftarrow> kcl_client c;
     Some (DoInto client (PUT, [Namespace (kcl_ns c), ResourceName ''kyuubiclusters'', Name (kc_Name kyuubiCluster),
       VersionedParams (UpdateParams opts), Body (ClusterBody kyuubiCluster)]) zeroKyuubiCluster w) }"

definition kyuubiClusters_UpdateStatus :: "('wt, 'w) rest_interface kyuubiClusters \<Rightarrow> KyuubiCluster \<Rightarrow> UpdateOptions \<Rightarrow> 'w \<Rightarrow>
    ((KyuubiCluster \<times> GoError option) \<times> 'w) option" where
  "kyuubiClusters_UpdateStatus c kyuubiCluster opts w = do {
     client \<leftarrow> kcl_client c;
     Some (DoInto client (PUT, [Namespace (kcl_ns c), ResourceName ''kyuubiclusters'', Name (kc_Name kyuubiCluster),
       SubResource [''status''], VersionedParams (UpdateParams opts), Body (ClusterBody kyuubiCluster)])
       zeroKyuubiCluster w) }"

definition kyuubiClusters_Delete :: "('wt, 'w) rest_interface kyuubiClusters \<Rightarrow> string \<Rightarrow> DeleteOptions \<Rightarrow> 'w \<Rightarrow>
    (GoError option \<times> 'w) option" where
  "kyuubiClusters_Delete c name opts w = do {
     client \<leftarrow> kcl_client c;
     Some (DoError client (DELETE, [Namespace (kcl_ns c), ResourceName ''kyuubiclusters'', Name name,
       Body (OptionsBody opts)]) w) }"

definition kyuubiClusters_DeleteCollection :: "('wt, 'w) rest_interface kyuubiClusters \<Rightarrow> DeleteOptions \<Rightarrow> ListOptions \<Rightarrow> 'w \<Rightarrow>
    (GoError option \<times> 'w) option" where
  "kyuubiClusters_DeleteCollection c opts listOpts w = do {
     client \<leftarrow> kcl_client c;
     Some (DoError client (DELETE, [Namespace (kcl_ns c), ResourceName ''kyuubiclusters'',
       VersionedParams (ListParams listOpts), Timeout (listTimeout listOpts), Body (OptionsBody opts)]) w) }"

definition kyuubiClusters_Patch :: "('wt, 'w) rest_interface kyuubiClusters \<Rightarrow> string \<Rightarrow> PatchType \<Rightarrow> string \<Rightarrow>
    PatchOptions \<Rightarrow> string list \<Rightarrow> 'w \<Rightarrow> ((KyuubiCluster \<times> GoError option) \<times> 'w) option" where
  "kyuubiClusters_Patch c name pt data opts subresources w = do {
     client \<leftarrow> kcl_client c;
     Some (DoInto client (PATCH pt, [Namespace (kcl_ns c), ResourceName ''kyuubiclusters'', Name name,
       SubResource subresources, VersionedParams (PatchParams opts), Body (BytesBody data)]) zeroKyuubiCluster w) }"

section \<open>Construction\<close>

text \<open>
  \<open>rest.Config\<close> with the fields that the clientset reads or sets. Values of client-go that are only
  handed on (rate limiters, serializers, HTTP clients, discovery clients, the rest of a configuration)
  have an opaque type \<open>'x\<close>.
\<close>

record 'x rest_config =
  cfg_UserAgent :: string
  cfg_RateLimiter :: "'x option"
  cfg_QPS :: rat
  cfg_Burst :: int
  cfg_GroupVersion :: "GroupVersion option"
  cfg_APIPath :: string
  cfg_NegotiatedSerializer :: "'x option"
  cfg_Other :: 'x

record ('x, 'r) client_go =
  DefaultKubernetesUserAgent :: string
  HTTPClientFor :: "'x rest_config \<Rightarrow> GoError + 'x"
  NewTokenBucketRateLimiter :: "rat \<Rightarrow> int \<Rightarrow> 'x"
  RESTClientForConfigAndClient :: "'x rest_config \<Rightarrow> 'x \<Rightarrow> GoError + 'r"
  NewDiscoveryClientForConfigAndClient :: "'x rest_config \<Rightarrow> 'x \<Rightarrow> GoError + 'x"
  NewDiscoveryClient :: "'r option \<Rightarrow> 'x"
  CodecsWithoutConversion :: 'x

definition setConfigDefaults :: "('x, 'r) client_go \<Rightarrow> 'x rest_config \<Rightarrow> GoError option \<times> 'x rest_config" where
  "setConfigDefaults L config =
     (let gv = SchemeGroupVersion;
          config = config\<lparr>cfg_GroupVersion := Some gv, cfg_APIPath := ''/apis'',
                          cfg_NegotiatedSerializer := Some (CodecsWithoutConversion L)\<rparr>;
          config = (if cfg_UserAgent config = [] then config\<lparr>cfg_UserAgent := DefaultKubernetesUserAgent L\<rparr> else config)
      in (None, config))"

definition v1alpha1_NewForConfigAndClient ::
    "('x, 'r) client_go \<Rightarrow> 'x rest_config \<Rightarrow> 'x \<Rightarrow> GoError + 'r KyuubiV1alpha1Client" where
  "v1alpha1_NewForConfigAndClient L c h =
     (case setConfigDefaults L c of
        (Some err, config) \<Rightarrow> Inl err
      | (None, config) \<Rightarrow>
          (case RESTClientForConfigAndClient L config h of
             Inl err \<Rightarrow> Inl err
           | Inr client \<Rightarrow> Inr \<lparr>restClient = Some client\<rparr>))"

definition v1alpha1_NewForConfig ::
    "('x, 'r) client_go \<Rightarrow> 'x rest_config \<Rightarrow> GoError + 'r KyuubiV1alpha1Client" where
  "v1alpha1_NewForConfig L c =
     (case setConfigDefaults L c of
        (Some err, config) \<Rightarrow> Inl err
      | (None, config) \<Rightarrow>
          (case HTTPClientFor L config of
             Inl err \<Rightarrow> Inl err
           | Inr httpClient \<Rightarrow> v1alpha1_NewForConfigAndClient L config httpClient))"

text \<open>A panic is \<open>None\<close>.\<close>

definition v1alpha1_NewForConfigOrDie ::
    "('x, 'r) client_go \<Rightarrow> 'x rest_config \<Rightarrow> 'r KyuubiV1alpha1Client option" where
  "v1alpha1_NewForConfigOrDie L c =
     (case v1alpha1_NewForConfig L c of Inl err \<Rightarrow> None | Inr client \<Rightarrow> Some client)"

definition v1alpha1_New :: "'r option \<Rightarrow> 'r KyuubiV1alpha1Client" where
  "v1alpha1_New c = \<lparr>restClient = c\<rparr>"

record ('x, 'r) Clientset =
  cs_DiscoveryClient :: "'x option"
  cs_kyuubiV1alpha1 :: "'r KyuubiV1alpha1Client option"

definition Clientset_KyuubiV1alpha1 :: "('x, 'r) Clientset \<Rightarrow> 'r KyuubiV1alpha1Client option" where
  "Clientset_KyuubiV1alpha1 c = cs_kyuubiV1alpha1 c"

definition Clientset_Discovery :: "('x, 'r) Clientset option \<Rightarrow> 'x option" where
  "Clientset_Discovery c = (if c = None then None else cs_DiscoveryClient (the c))"

definition burstError :: GoError where
  "burstError = ErrorString ''burst is required to be greater than 0 when RateLimiter is not set and QPS is set to greater than 0''"

definition clientset_NewForConfigAndClient ::
    "('x, 'r) client_go \<Rightarrow> 'x rest_config \<Rightarrow> 'x \<Rightarrow> GoError + ('x, 'r) Clientset" where
  "clientset_NewForConfigAndClient L c httpClient =
     (let configShallowCopy = c
      in if cfg_RateLimiter configShallowCopy = None \<and> cfg_QPS configShallowCopy > 0 \<and> cfg_Burst configShallowCopy \<le> 0
         then Inl burstError
         else
           (let configShallowCopy =
                  (if cfg_RateLimiter configShallowCopy = None \<and> cfg_QPS configShallowCopy > 0
                   then configShallowCopy\<lparr>cfg_RateLimiter :=
                     Some (NewTokenBucketRateLimiter L (cfg_QPS configShallowCopy) (cfg_Burst configShallowCopy))\<rparr>
                   else configShallowCopy)
            in case v1alpha1_NewForConfigAndClient L configShallowCopy httpClient of
                 Inl err \<Rightarrow> Inl err
               | Inr client \<Rightarrow>
                   (case NewDiscoveryClientForConfigAndClient L configShallowCopy httpClient of
                      Inl err \<Rightarrow> Inl err
                    | Inr d \<Rightarrow> Inr \<lparr>cs_DiscoveryClient = Some d, cs_kyuubiV1alpha1 = Some client\<rparr>)))"

definition clientset_NewForConfig :: "('x, 'r) client_go \<Rightarrow> 'x rest_config \<Rightarrow> GoError + ('x, 'r) Clientset" where
  "clientset_NewForConfig L c =
     (let configShallowCopy = c;
          configShallowCopy = (if cfg_UserAgent configShallowCopy = []
            then configShallowCopy\<lparr>cfg_UserAgent := DefaultKubernetesUserAgent L\<rparr> else configShallowCopy)
      in case HTTPClientFor L configShallowCopy of
           Inl err \<Rightarrow> Inl err
         | Inr httpClient \<Rightarrow> clientset_NewForConfigAndClient L configShallowCopy httpClient)"

definition clientset_NewForConfigOrDie :: "('x, 'r) client_go \<Rightarrow> 'x rest_config \<Rightarrow> ('x, 'r) Clientset option" where
  "clientset_NewForConfigOrDie L c =
     (case clientset_NewForConfig L c of Inl err \<Rightarrow> None | Inr cs \<Rightarrow> Some cs)"

definition clientset_New :: "('x, 'r) client_go \<Rightarrow> 'r option \<Rightarrow> ('x, 'r) Clientset" where
  "clientset_New L c = \<lparr>cs_DiscoveryClient = Some (NewDiscoveryClient L c), cs_kyuubiV1alpha1 = Some (v1alpha1_New c)\<rparr>"

end
