(* ===== verification/Scheme_Registration.thy ===== *)
theory Scheme_Registration
  imports Clientset
begin

text \<open>
  The registration of the custom resource's types in the three schemes of the program: the one of the
  manager (\<open>init\<close> of \<open>cmd/main.go\<close>), of the clientset (\<open>scheme/register.go\<close>) and of the fake clientset
  (\<open>fake/register.go\<close>), all through the scheme builder of the API package
  (\<open>groupversion_info.go\<close>, \<open>init\<close> of \<open>kyuubicluster_types.go\<close>). Schemes and builders are those of
  apimachinery and controller-runtime.
\<close>

record ('b, 's) scheme_library =
  NewScheme :: 's
  NewBuilder :: "GroupVersion \<Rightarrow> 'b"
  Register :: "string list \<Rightarrow> 'b \<Rightarrow> 'b"
  BuilderAddToScheme :: "'b \<Rightarrow> 's \<Rightarrow> GoError option \<times> 's"
  AddToGroupVersion :: "GroupVersion \<Rightarrow> 's \<Rightarrow> 's"
  ClientgoAddToScheme :: "'s \<Rightarrow> GoError option \<times> 's"

text \<open>\<open>SchemeBuilder\<close> as it is after \<open>init\<close>, and \<open>AddToScheme\<close>.\<close>

definition SchemeBuilder :: "('b, 's) scheme_library \<Rightarrow> 'b" where
  "SchemeBuilder L = NewBuilder L v1alpha1_GroupVersion"

definition types_init :: "('b, 's) scheme_library \<Rightarrow> 'b" where
  "types_init L = Register L [''KyuubiCluster'', ''KyuubiClusterList''] (SchemeBuilder L)"

definition AddToScheme :: "('b, 's) scheme_library \<Rightarrow> 's \<Rightarrow> GoError option \<times> 's" where
  "AddToScheme L s = BuilderAddToScheme L (types_init L) s"

text \<open>\<open>utilruntime.Must\<close>: an error panics.\<close>

definition Must :: "GoError option \<times> 's \<Rightarrow> 's option" where
  "Must r = (case r of (None, s) \<Rightarrow> Some s | (Some e, s) \<Rightarrow> None)"

text \<open>
  \<open>runtime.SchemeBuilder{f}.AddToScheme\<close> runs its functions in order and stops at the first error.
\<close>

fun runBuilder :: "('s \<Rightarrow> GoError option \<times> 's) list \<Rightarrow> 's \<Rightarrow> GoError option \<times> 's" where
  "runBuilder [] s = (None, s)"
| "runBuilder (f # fs) s = (case f s of (None, s) \<Rightarrow> runBuilder fs s | (Some e, s) \<Rightarrow> (Some e, s))"

definition clientset_scheme :: "('b, 's) scheme_library \<Rightarrow> 's option" where
  "clientset_scheme L =
     (let localSchemeBuilder = [AddToScheme L];
          Scheme = NewScheme L;
          Scheme = AddToGroupVersion L \<lparr>gv_Group = [], gv_Version = ''v1''\<rparr> Scheme
      in Must (runBuilder localSchemeBuilder Scheme))"

definition fake_scheme :: "('b, 's) scheme_library \<Rightarrow> 's option" where
  "fake_scheme L =
     (let localSchemeBuilder = [AddToScheme L];
          scheme = NewScheme L;
          scheme = AddToGroupVersion L \<lparr>gv_Group = [], gv_Version = ''v1''\<rparr> scheme
      in Must (runBuilder localSchemeBuilder scheme))"

definition main_init :: "('b, 's) scheme_library \<Rightarrow> 's option" where
  "main_init L = do {
     scheme \<leftarrow> Must (ClientgoAddToScheme L (NewScheme L));
     Must (AddToScheme L scheme) }"

section \<open>What a scheme knows\<close>

text \<open>
  A builder adds the types it was given under its group and version, which \<open>AddToScheme\<close> reports as done;
  a scheme forgets nothing.
\<close>

locale schemes =
  fixes L :: "('b, 's) scheme_library"
    and knows :: "'s \<Rightarrow> (GroupVersion \<times> string) set"
    and registered :: "'b \<Rightarrow> GroupVersion \<times> string list"
  assumes new_builder: "registered (NewBuilder L gv) = (gv, [])"
    and register: "registered b = (gv, ts) \<Longrightarrow> registered (Register L ts' b) = (gv, ts @ ts')"
    and add: "registered b = (gv, ts) \<Longrightarrow> BuilderAddToScheme L b s = (e, s') \<Longrightarrow>
      e = None \<and> knows s' = knows s \<union> Pair gv ` set ts"
    and group_version: "knows s \<subseteq> knows (AddToGroupVersion L gv s)"
    and clientgo: "ClientgoAddToScheme L s = (e, s') \<Longrightarrow> e = None \<and> knows s \<subseteq> knows s'"
begin

lemma adds_types:
  "\<exists>s'. AddToScheme L s = (None, s') \<and> knows s' = knows s \<union>
     {(v1alpha1_GroupVersion, ''KyuubiCluster''), (v1alpha1_GroupVersion, ''KyuubiClusterList'')}"
proof -
  have "registered (types_init L) = (v1alpha1_GroupVersion, [''KyuubiCluster'', ''KyuubiClusterList''])"
    using register [OF new_builder] by (simp add: types_init_def SchemeBuilder_def)
  from add [OF this, of s] show ?thesis
    by (cases "AddToScheme L s") (auto simp: AddToScheme_def)
qed

text \<open>All three schemes are built without a panic and know both types.\<close>

lemma schemes_know:
  assumes "init \<in> {clientset_scheme, fake_scheme, main_init}"
  shows "\<exists>s. init L = Some s \<and>
    {(v1alpha1_GroupVersion, ''KyuubiCluster''), (v1alpha1_GroupVersion, ''KyuubiClusterList'')} \<subseteq> knows s"
proof -
  obtain e s1 where c: "ClientgoAddToScheme L (NewScheme L) = (e, s1)" by (metis surj_pair)
  show ?thesis
    using assms adds_types [of "AddToGroupVersion L \<lparr>gv_Group = [], gv_Version = ''v1''\<rparr> (NewScheme L)"]
      adds_types [of s1] clientgo [OF c] c
    by (auto simp: clientset_scheme_def fake_scheme_def main_init_def Must_def Let_def)
qed

end

text \<open>Schemes as lists of the types they know.\<close>

definition listSchemes :: "(GroupVersion \<times> string list, (GroupVersion \<times> string) list) scheme_library" where
  "listSchemes = \<lparr>NewScheme = [], NewBuilder = (\<lambda>gv. (gv, [])), Register = (\<lambda>ts b. (fst b, snd b @ ts)),
     BuilderAddToScheme = (\<lambda>b s. (None, s @ map (Pair (fst b)) (snd b))),
     AddToGroupVersion = (\<lambda>gv s. (gv, ''WatchEvent'') # s), ClientgoAddToScheme = (\<lambda>s. (None, s))\<rparr>"

interpretation listSchemes: schemes listSchemes set "\<lambda>b. b"
  by unfold_locales (auto simp: listSchemes_def)

end
