(* ===== verification/Startup.thy ===== *)
theory Startup
  imports Scheme_Registration
begin

text \<open>
  \<open>main\<close> of \<open>cmd/main.go\<close>: the options of the manager, the order in which its parts are set up, and
  the exits with status 1. The manager is controller-runtime's: its calls are parameters that act on
  a state \<open>'m\<close> of the manager, and so is reading the cluster's configuration, which ends the process
  when it fails.
\<close>

section \<open>Flags and options\<close>

record flags =
  metricsAddr :: string
  probeAddr :: string
  enableLeaderElection :: bool

text \<open>The values when a flag is not given.\<close>

definition flagDefaults :: flags where
  "flagDefaults = \<lparr>metricsAddr = '':8080'', probeAddr = '':8081'', enableLeaderElection = False\<rparr>"

text \<open>\<open>ctrl.Options\<close>; the scheme is the package variable that \<open>main_init\<close> has filled when \<open>main\<close> starts.\<close>

record 's managerOptions =
  opt_Scheme :: 's
  opt_MetricsBindAddress :: string
  opt_HealthProbeBindAddress :: string
  opt_LeaderElection :: bool
  opt_LeaderElectionID :: string

definition options :: "'s \<Rightarrow> flags \<Rightarrow> 's managerOptions" where
  "options scheme f = \<lparr>opt_Scheme = scheme, opt_MetricsBindAddress = metricsAddr f, opt_HealthProbeBindAddress = probeAddr f,
     opt_LeaderElection = enableLeaderElection f, opt_LeaderElectionID = ''4d7dcee9.nineinfra.tech''\<rparr>"

text \<open>
  What a controller builder was told: the type given to \<open>For\<close> and the types given to \<open>Owns\<close>. Events of
  these types lead to requests.
\<close>

record controllerBuilder =
  cb_For :: string
  cb_Owns :: "string list"

text \<open>
  The calls into controller-runtime, \<open>Complete\<close> of a controller builder and of a webhook builder among
  them. \<open>GetConfig\<close> is \<open>ctrl.GetConfigOrDie\<close>, with \<open>False\<close> for the
  call that ends the process.
\<close>

record ('s, 'm) runtime =
  GetConfig :: bool
  NewManager :: "'s managerOptions \<Rightarrow> GoError + 'm"
  CompleteController :: "controllerBuilder \<Rightarrow> 'm \<Rightarrow> GoError option \<times> 'm"
  CompleteWebhook :: "string \<Rightarrow> 'm \<Rightarrow> GoError option \<times> 'm"
  AddHealthzCheck :: "string \<Rightarrow> 'm \<Rightarrow> GoError option \<times> 'm"
  AddReadyzCheck :: "string \<Rightarrow> 'm \<Rightarrow> GoError option \<times> 'm"
  Start :: "'m \<Rightarrow> GoError option \<times> 'm"

text \<open>\<open>SetupWithManager\<close> of the reconciler and \<open>SetupWebhookWithManager\<close> of the custom resource.\<close>

definition kyuubiBuilder :: controllerBuilder where
  "kyuubiBuilder = \<lparr>cb_For = ''KyuubiCluster'', cb_Owns = []\<rparr>"

definition SetupWithManager :: "('s, 'm) runtime \<Rightarrow> 'm \<Rightarrow> GoError option \<times> 'm" where
  "SetupWithManager R mgr = CompleteController R kyuubiBuilder mgr"

definition SetupWebhookWithManager :: "('s, 'm) runtime \<Rightarrow> 'm \<Rightarrow> GoError option \<times> 'm" where
  "SetupWebhookWithManager R mgr = CompleteWebhook R ''KyuubiCluster'' mgr"

section \<open>The start-up sequence\<close>

text \<open>
  How the process ends: with status 1 after a failed call, or by returning from \<open>main\<close> (status 0)
  after \<open>Start\<close>; with the manager's last state when there is one.
\<close>

datatype 'm exit = Exit1 "'m option" | Finished 'm

definition main :: "('s, 'm) runtime \<Rightarrow> 's \<Rightarrow> flags \<Rightarrow> string \<Rightarrow> 'm exit" where
  "main R scheme f ENABLE_WEBHOOKS =
     (if \<not> GetConfig R then Exit1 None
      else case NewManager R (options scheme f) of
        Inl err \<Rightarrow> Exit1 None
      | Inr mgr \<Rightarrow>
          (case SetupWithManager R mgr of
             (err, mgr1) \<Rightarrow>
               if err \<noteq> None then Exit1 (Some mgr1)
               else
                 (case (if ENABLE_WEBHOOKS \<noteq> ''false'' then SetupWebhookWithManager R mgr1 else (None, mgr1)) of
                    (err, mgr2) \<Rightarrow>
                      if err \<noteq> None then Exit1 (Some mgr2)
                      else
                        (case AddHealthzCheck R ''healthz'' mgr2 of
                           (err, mgr3) \<Rightarrow>
                             if err \<noteq> None then Exit1 (Some mgr3)
                             else
                               (case AddReadyzCheck R ''readyz'' mgr3 of
                                  (err, mgr4) \<Rightarrow>
                                    if err \<noteq> None then Exit1 (Some mgr4)
                                    else
                                      (case Start R mgr4 of
                                         (err, mgr5) \<Rightarrow>
                                           if err \<noteq> None then Exit1 (Some mgr5) else Finished mgr5))))))"

section \<open>Properties\<close>

text \<open>
  The set-up calls in the order of the code, as a list; a manager that records its calls sees them
  in that order.
\<close>

datatype call = CController controllerBuilder | CWebhook string | CHealthz string | CReadyz string | CStart

definition startupCalls :: "string \<Rightarrow> call list" where
  "startupCalls webhooks = [CController \<lparr>cb_For = ''KyuubiCluster'', cb_Owns = []\<rparr>] @
     (if webhooks \<noteq> ''false'' then [CWebhook ''KyuubiCluster''] else []) @
     [CHealthz ''healthz'', CReadyz ''readyz'', CStart]"

text \<open>A runtime that records the calls and in which the calls of a given set fail.\<close>

definition recorder :: "bool \<Rightarrow> bool \<Rightarrow> call set \<Rightarrow> ('s, 's managerOptions \<times> call list) runtime" where
  "recorder config manager fails =
     (let act = (\<lambda>c (ops, cs). (if c \<in> fails then Some (ErrorString ''failed'') else None, (ops, cs @ [c])))
      in \<lparr>GetConfig = config,
          NewManager = (\<lambda>ops. if manager then Inr (ops, []) else Inl (ErrorString ''failed'')),
          CompleteController = (\<lambda>b. act (CController b)), CompleteWebhook = (\<lambda>t. act (CWebhook t)),
          AddHealthzCheck = (\<lambda>n. act (CHealthz n)), AddReadyzCheck = (\<lambda>n. act (CReadyz n)),
          Start = act CStart\<rparr>)"

text \<open>
  C40. The manager is created with the scheme and the options of the flags, and its parts are set up in the order
  controller (for events of custom resources only), webhook (unless \<open>ENABLE_WEBHOOKS\<close> is \<open>false\<close>),
  health check, ready check, start. The
  process ends with status 1 exactly when the configuration, the manager or one of these calls
  fails, and no call after the failed one is made.
\<close>

theorem main_sequence:
  "main (recorder config manager fails) scheme f webhooks =
     (if config \<and> manager then
        let ok = takeWhile (\<lambda>c. c \<notin> fails) (startupCalls webhooks);
            failed = take 1 (dropWhile (\<lambda>c. c \<notin> fails) (startupCalls webhooks))
        in if failed = [] then Finished (options scheme f, ok) else Exit1 (Some (options scheme f, ok @ failed))
      else Exit1 None)"
  by (simp add: main_def SetupWithManager_def kyuubiBuilder_def SetupWebhookWithManager_def recorder_def startupCalls_def Let_def)

end
