(* ===== verification/Work_Queue.thy ===== *)
theory Work_Queue
  imports Cluster_System Startup
begin

text \<open>
  The controller as the manager runs it. \<open>SetupWithManager\<close> tells the builder which types to watch; a
  change of a watched object puts a request into the work queue, and a worker takes a request, calls
  \<open>Reconcile\<close> and puts the request back when the call asks for it. The queue holds a request once. What
  controller-runtime watches is a parameter with the laws its documentation states.
\<close>

section \<open>Watches\<close>

fun kindName :: "Kind \<Rightarrow> string" where
  "kindName KKyuubiCluster = ''KyuubiCluster''"
| "kindName KServiceAccount = ''ServiceAccount''"
| "kindName KRole = ''Role''"
| "kindName KRoleBinding = ''RoleBinding''"
| "kindName KConfigMap = ''ConfigMap''"
| "kindName KStatefulSet = ''StatefulSet''"
| "kindName KService = ''Service''"

lemma kindName_cluster [simp]: "kindName kd = ''KyuubiCluster'' \<longleftrightarrow> kd = KKyuubiCluster"
  by (cases kd) simp_all

text \<open>
  \<open>watch B s s'\<close>: the requests that the change from store \<open>s\<close> to \<open>s'\<close> puts into the queue of a controller
  built with \<open>B\<close>. An object of the type of \<open>For\<close> that changes gives the request with its key; nothing
  else does unless an object of a type of \<open>Owns\<close> changes.
\<close>

locale watches =
  fixes watch :: "controllerBuilder \<Rightarrow> cluster_store \<Rightarrow> cluster_store \<Rightarrow> NamespacedName set"
  assumes watch_for: "cb_For B = kindName KKyuubiCluster \<Longrightarrow> \<not> sameObject s s' KKyuubiCluster n \<Longrightarrow> n \<in> watch B s s'"
    and watch_only: "n \<in> watch B s s' \<Longrightarrow>
      (cb_For B = kindName KKyuubiCluster \<and> \<not> sameObject s s' KKyuubiCluster n) \<or>
      (\<exists>kd m. kindName kd \<in> set (cb_Owns B) \<and> \<not> sameObject s s' kd m)"

text \<open>
  One such function: owned objects lead to their controller, which the owner references name.
\<close>

fun metaAt :: "cluster_store \<Rightarrow> Kind \<Rightarrow> NamespacedName \<Rightarrow> ObjectMeta option" where
  "metaAt s KKyuubiCluster n = map_option kc_Meta (kyuubiClusters s n)"
| "metaAt s KServiceAccount n = map_option sa_Meta (serviceAccounts s n)"
| "metaAt s KRole n = map_option ro_Meta (roles s n)"
| "metaAt s KRoleBinding n = map_option rb_Meta (roleBindings s n)"
| "metaAt s KConfigMap n = map_option cm_Meta (configMaps s n)"
| "metaAt s KStatefulSet n = map_option sts_Meta (statefulSets s n)"
| "metaAt s KService n = map_option svc_Meta (services s n)"

definition ownerWatch :: "controllerBuilder \<Rightarrow> cluster_store \<Rightarrow> cluster_store \<Rightarrow> NamespacedName set" where
  "ownerWatch B s s' =
     {n. cb_For B = kindName KKyuubiCluster \<and> \<not> sameObject s s' KKyuubiCluster n} \<union>
     {\<lparr>nn_Namespace = nn_Namespace m, nn_Name = or_Name r\<rparr> | kd m om r.
        kindName kd \<in> set (cb_Owns B) \<and> \<not> sameObject s s' kd m \<and> (metaAt s kd m = Some om \<or> metaAt s' kd m = Some om) \<and>
        r \<in> set (om_OwnerReferences om) \<and> or_Controller r \<and> or_Kind r = cb_For B}"

interpretation ownerWatch: watches ownerWatch
  by unfold_locales (auto simp: ownerWatch_def)

section \<open>The queue\<close>

text \<open>When a worker puts the request back: after an error, or when the result asks for it.\<close>

fun requeues :: "outcome \<Rightarrow> bool" where
  "requeues (Returned r err) = (err \<noteq> None \<or> res_Requeue r \<or> res_RequeueAfter r > 0)"
| "requeues Panicked = True"

datatype qevent = Worked NamespacedName outcome | Other event | Resync

text \<open>
  Work on a queued request; a step of anyone else; and the resynchronisation of the cache, which
  queues every stored custom resource.
\<close>

inductive qstep :: "(controllerBuilder \<Rightarrow> cluster_store \<Rightarrow> cluster_store \<Rightarrow> NamespacedName set) \<Rightarrow> 'w env \<Rightarrow>
    ('w \<Rightarrow> cluster_store) \<Rightarrow> 'w \<times> NamespacedName set \<Rightarrow> qevent \<Rightarrow> 'w \<times> NamespacedName set \<Rightarrow> bool" for watch E store where
  worked: "req \<in> Q \<Longrightarrow> Reconcile E req w = Some (out, w') \<Longrightarrow>
    qstep watch E store (w, Q) (Worked req out)
      (w', Q - {req} \<union> (if requeues out then {req} else {}) \<union> watch kyuubiBuilder (store w) (store w'))"
| other: "step E store w e w' \<Longrightarrow> (\<And>req out. e \<noteq> Reconciled req out) \<Longrightarrow>
    qstep watch E store (w, Q) (Other e) (w', Q \<union> watch kyuubiBuilder (store w) (store w'))"
| resync: "qstep watch E store (w, Q) Resync (w, Q \<union> dom (kyuubiClusters (store w)))"

inductive qrun :: "(controllerBuilder \<Rightarrow> cluster_store \<Rightarrow> cluster_store \<Rightarrow> NamespacedName set) \<Rightarrow> 'w env \<Rightarrow>
    ('w \<Rightarrow> cluster_store) \<Rightarrow> 'w \<times> NamespacedName set \<Rightarrow> qevent list \<Rightarrow> 'w \<times> NamespacedName set \<Rightarrow> bool" for watch E store q0 where
  qstart: "qrun watch E store q0 [] q0"
| qmore: "qrun watch E store q0 es q \<Longrightarrow> qstep watch E store q e q' \<Longrightarrow> qrun watch E store q0 (es @ [e]) q'"

inductive_cases qstep_cases: "qstep watch E store q e q'"

text \<open>Everything that belongs to a custom resource is there.\<close>

definition allPresent :: "cluster_store \<Rightarrow> NamespacedName \<Rightarrow> bool" where
  "allPresent s n \<longleftrightarrow> (\<forall>(kd, m) \<in> requestFootprint n. present s kd m)"

text \<open>
  Steps that leave the children of stored custom resources alone: the API server admits only plain
  names, and deletes children only of custom resources that are gone.
\<close>

fun undisturbed :: "cluster_store \<Rightarrow> qevent \<Rightarrow> bool" where
  "undisturbed s (Other (Applied k)) = plainName (metaKey (kc_Meta k))"
| "undisturbed s (Other (Deleted kd m)) = (kd = KKyuubiCluster \<or> (\<forall>n \<in> dom (kyuubiClusters s). (kd, m) \<notin> requestFootprint n))"
| "undisturbed s e = True"

inductive calm :: "(controllerBuilder \<Rightarrow> cluster_store \<Rightarrow> cluster_store \<Rightarrow> NamespacedName set) \<Rightarrow> 'w env \<Rightarrow>
    ('w \<Rightarrow> cluster_store) \<Rightarrow> 'w \<times> NamespacedName set \<Rightarrow> 'w \<times> NamespacedName set \<Rightarrow> bool" for watch E store q0 where
  calm_start: "calm watch E store q0 q0"
| calm_more: "calm watch E store q0 q \<Longrightarrow> qstep watch E store q e q' \<Longrightarrow> undisturbed (store (fst q)) e \<Longrightarrow> calm watch E store q0 q'"

text \<open>The invariant: a custom resource whose objects are not all there is queued.\<close>

definition attended :: "('w \<Rightarrow> cluster_store) \<Rightarrow> 'w \<times> NamespacedName set \<Rightarrow> bool" where
  "attended store q \<longleftrightarrow> wf_store (store (fst q)) \<and>
     (\<forall>n \<in> dom (kyuubiClusters (store (fst q))). plainName n \<and> (n \<in> snd q \<or> allPresent (store (fst q)) n))"

section \<open>Single steps\<close>

lemma touches_present: "touches F s s' \<Longrightarrow> present s kd n \<Longrightarrow> present s' kd n"
  by (cases kd) (auto simp: touches_def created_only_def changed_only_def dest!: map_le_implies_dom_le)

lemma touches_clusters: "touches F s s' \<Longrightarrow> dom (kyuubiClusters s') = dom (kyuubiClusters s)"
proof -
  assume "touches F s s'"
  then have "map_option kc_Spec (kyuubiClusters s' n) = map_option kc_Spec (kyuubiClusters s n)" for n
    by (simp add: touches_def)
  then have "kyuubiClusters s' n = None \<longleftrightarrow> kyuubiClusters s n = None" for n by (metis option.map_disc_iff)
  then show ?thesis unfolding dom_def by simp
qed

lemma touches_allPresent: "touches F s s' \<Longrightarrow> allPresent s n \<Longrightarrow> allPresent s' n"
  using touches_present unfolding allPresent_def by blast

lemma allPresent_same:
  "allPresent s n \<Longrightarrow> (\<And>kd m. (kd, m) \<in> requestFootprint n \<Longrightarrow> present s' kd m = present s kd m) \<Longrightarrow> allPresent s' n"
  unfolding allPresent_def by blast

lemma kyuubi_footprint: "(KKyuubiCluster, m) \<in> requestFootprint n \<longleftrightarrow> m = n"
  by (auto simp: requestFootprint_def)

locale work_queue = fresh_api E store A + watches watch
  for E :: "'w env" and store :: "'w \<Rightarrow> cluster_store" and A :: "'w admission" and watch
begin

lemma watch_cluster: "n \<in> watch kyuubiBuilder s s' \<longleftrightarrow> kyuubiClusters s' n \<noteq> kyuubiClusters s n"
  using watch_for [of kyuubiBuilder s s' n] watch_only [of n kyuubiBuilder s s'] by (auto simp: kyuubiBuilder_def)

lemma Reconcile_allPresent:
  assumes "wf_store (store w)" and "plainName req" and "Reconcile E req w = Some (Returned res None, w')"
  shows "allPresent (store w') req"
proof -
  obtain k w0 where k: "kyuubiClusters (store w) req = Some k" "kyuubiKey k = req" "store w0 = store w"
    "createOrUpdateClusters E k w0 = Some (None, w')"
    using Reconcile_success [OF assms] .
  note post = run_post [OF _ k(4), unfolded k(3), OF assms(1)]
  have "req \<in> dom (kyuubiClusters (store w'))"
    using run_status [OF _ k(4)] k assms(1) by auto
  with post k(2) show ?thesis by (auto simp: allPresent_def requestFootprint_def keys_of_request)
qed

lemma worked_attended:
  assumes a: "attended store (w, Q)" and r: "Reconcile E req w = Some (out, w')"
  shows "attended store (w', Q - {req} \<union> (if requeues out then {req} else {}) \<union> watch kyuubiBuilder (store w) (store w'))"
proof -
  have wf: "wf_store (store w)" using a by (simp add: attended_def)
  note f = Reconcile_frame [OF wf r]
  have d: "dom (kyuubiClusters (store w')) = dom (kyuubiClusters (store w))"
    using touches_clusters f by blast
  have "n \<in> Q - {req} \<union> (if requeues out then {req} else {}) \<or> allPresent (store w') n"
    if n: "n \<in> dom (kyuubiClusters (store w))" for n
  proof (cases "n = req \<and> \<not> requeues out")
    case True
    obtain e where e: "out = Returned zeroResult e" using Reconcile_no_panic [OF r] by blast
    with True have "e = None" by simp
    with True n a r e Reconcile_allPresent [OF wf, of req zeroResult w'] show ?thesis by (auto simp: attended_def)
  next
    case False
    with n a f touches_allPresent show ?thesis by (auto simp: attended_def)
  qed
  with a f show ?thesis unfolding attended_def fst_conv snd_conv d by blast
qed

lemma other_attended:
  assumes a: "attended store (w, Q)" and st: "step E store w e w'" and n: "\<And>req out. e \<noteq> Reconciled req out"
    and u: "undisturbed (store w) (Other e)"
  shows "attended store (w', Q \<union> watch kyuubiBuilder (store w) (store w'))"
  using st
proof (cases rule: step.cases)
  case (applied k)
  let ?n = "metaKey (kc_Meta k)"
  have "n \<in> Q \<union> watch kyuubiBuilder (store w) (store w') \<or> allPresent (store w') n" and "plainName n"
    if "n \<in> dom (kyuubiClusters (store w'))" for n
  proof -
    have p: "present (store w') kd m = present (store w) kd m" if "(kd, m) \<noteq> (KKyuubiCluster, ?n)" for kd m
      using that applied by (cases kd) auto
    show "plainName n" using that applied a u by (cases "n = ?n") (auto simp: attended_def)
    show "n \<in> Q \<union> watch kyuubiBuilder (store w) (store w') \<or> allPresent (store w') n"
    proof (cases "kyuubiClusters (store w') n = kyuubiClusters (store w) n")
      case False
      then show ?thesis by (simp add: watch_cluster)
    next
      case True
      have "allPresent (store w) n \<Longrightarrow> allPresent (store w') n"
      proof (erule allPresent_same)
        fix kd m
        assume "(kd, m) \<in> requestFootprint n"
        then show "present (store w') kd m = present (store w) kd m"
          using p [of kd m] kyuubi_footprint [of m n] True by (cases "kd = KKyuubiCluster") (auto simp: dom_def)
      qed
      with True that a show ?thesis by (auto simp: attended_def dom_def)
    qed
  qed
  with step_wf [OF st] a show ?thesis unfolding attended_def by auto
next
  case (deleted kd m)
  have "n \<in> Q \<or> allPresent (store w') n" and "plainName n" if c: "n \<in> dom (kyuubiClusters (store w'))" for n
  proof -
    have n: "n \<in> dom (kyuubiClusters (store w))" using removeObject_present [of kd m "store w" KKyuubiCluster n] c deleted by simp
    have "(kd, m) \<notin> requestFootprint n"
      using u deleted n c kyuubi_footprint removeObject_gone by (cases "kd = KKyuubiCluster") auto
    then have "allPresent (store w) n \<Longrightarrow> allPresent (store w') n"
      by (erule_tac allPresent_same) (use removeObject_same sameObject_present deleted in \<open>metis+\<close>)
    with n a show "n \<in> Q \<or> allPresent (store w') n" "plainName n" by (auto simp: attended_def)
  qed
  with step_wf [OF st] a show ?thesis by (auto simp: attended_def)
next
  case idle
  with a show ?thesis by (auto simp: attended_def)
qed (use n in auto)

lemma calm_attended: "calm watch E store q0 q \<Longrightarrow> attended store q0 \<Longrightarrow> attended store q"
proof (induction rule: calm.induct)
  case (calm_more q e q')
  obtain w Q where q: "q = (w, Q)" by fastforce
  from calm_more.hyps(2) have "attended store (w, Q) \<Longrightarrow> attended store q'"
    unfolding q
  proof (cases rule: qstep.cases)
    case (worked req out w')
    then show "attended store (w, Q) \<Longrightarrow> attended store q'" using worked_attended by simp
  next
    case (other e' w')
    then show "attended store (w, Q) \<Longrightarrow> attended store q'" using other_attended calm_more.hyps(3) q by simp
  next
    case resync
    then show "attended store (w, Q) \<Longrightarrow> attended store q'" by (auto simp: attended_def)
  qed
  with calm_more q show ?case by simp
qed simp

end

context fresh_api
begin

text \<open>A call that finds the service and the status in agreement leaves the custom resources alone.\<close>

lemma run_settled:
  assumes wf: "wf_store (store w)" and run: "createOrUpdateClusters E k w = Some (None, w')"
    and svc: "services (store w) (resourceKey k) = Some svc"
    and st: "st_ExposedInfos (kc_Status k) = Some (exposedInfosOf k svc)"
  shows "kyuubiClusters (store w') = kyuubiClusters (store w)"
proof -
  obtain w1 w2 w3 w4 where r: "rbacStage E k w = Some (None, w1)"
    "createOrUpdateKyuubiConfigmap E k w1 = Some (None, w2)"
    "createOrUpdateClusterRefsConfigmap E k w2 = Some (None, w3)"
    "workloadStage E k w3 = Some (None, w4)" and r5: "serviceStatusStage E k w4 = Some (None, w')"
    using run by (rule createOrUpdateClusters_run)
  note same = run_untouched [OF wf r]
  obtain v w5 where v: "createOrUpdateService E k w4 = (Inr v, w5)" "updateKyuubiClusterStatus E k v w5 = (None, w')"
    using r5 by (rule serviceStatusStage_run)
  have "v = svc" "store w5 = store w4" using v(1) svc same(2) by (cases rule: service_post; simp)+
  moreover from v(2) this(1) st have "w' = w5" by (cases rule: updateKyuubiClusterStatus_cases) auto
  ultimately show ?thesis using same(1) by auto
qed

end

locale reliable_queue = reliable_api E store A + watches watch
  for E :: "'w env" and store :: "'w \<Rightarrow> cluster_store" and A :: "'w admission" and watch +
  assumes owner: "snd (SetControllerReference E k m) = None"

sublocale reliable_queue \<subseteq> work_queue E store A watch
  by unfold_locales

text \<open>A custom resource that can be reconciled.\<close>

definition acceptable :: "cluster_store \<Rightarrow> NamespacedName \<Rightarrow> bool" where
  "acceptable s n \<longleftrightarrow> (\<exists>k. kyuubiClusters s n = Some k \<and> \<not> (\<exists>r \<in> set (kcs_ClusterRefs (kc_Spec k)). sparkWithoutDefaults r))"

context reliable_queue
begin

lemma acceptable_kept: "touches F s s' \<Longrightarrow> acceptable s' n \<longleftrightarrow> acceptable s n"
proof -
  assume "touches F s s'"
  then have "map_option kc_Spec (kyuubiClusters s' n) = map_option kc_Spec (kyuubiClusters s n)" by (simp add: touches_def)
  then show ?thesis unfolding acceptable_def
    by (cases "kyuubiClusters s' n"; cases "kyuubiClusters s n") simp_all
qed

lemma Reconcile_acceptable:
  assumes "wf_store (store w)" and "plainName req"
  shows "(\<exists>w'. Reconcile E req w = Some (Returned zeroResult None, w')) \<longleftrightarrow> acceptable (store w) req"
  using Reconcile_succeeds_iff [OF assms owner] by (simp add: acceptable_def)

text \<open>One successful piece of work on the only request leaves at most that request.\<close>

lemma work_alone:
  assumes wf: "wf_store (store w)" and p: "plainName req" and ok: "acceptable (store w) req"
  obtains w' where "Reconcile E req w = Some (Returned zeroResult None, w')"
    "qstep watch E store (w, {req}) (Worked req (Returned zeroResult None))
       (w', if kyuubiClusters (store w') = kyuubiClusters (store w) then {} else {req})"
    "wf_store (store w')" "acceptable (store w') req" "allPresent (store w') req"
proof -
  obtain w' where r: "Reconcile E req w = Some (Returned zeroResult None, w')"
    using Reconcile_acceptable [OF wf p] ok by blast
  note f = Reconcile_frame [OF wf r]
  have "kyuubiClusters (store w') n = kyuubiClusters (store w) n" if "n \<noteq> req" for n
    using f touches_same [of _ "store w" "store w'" KKyuubiCluster n] that kyuubi_footprint by auto
  then have "watch kyuubiBuilder (store w) (store w') = (if kyuubiClusters (store w') = kyuubiClusters (store w) then {} else {req})"
    by (auto simp: set_eq_iff watch_cluster fun_eq_iff) metis
  with qstep.worked [of req "{req}" E w "Returned zeroResult None" w' watch store] r that f
    acceptable_kept [OF conjunct1 [OF f], of req] ok Reconcile_allPresent [OF wf p r]
  show thesis by (simp add: zeroResult_def)
qed

lemma work_settles:
  assumes "wf_store (store w)" and "plainName req"
    and "Reconcile E req w = Some (Returned zeroResult None, w1)" and "Reconcile E req w1 = Some (Returned zeroResult None, w2)"
    and "Reconcile E req w2 = Some (Returned zeroResult None, w3)"
  shows "kyuubiClusters (store w3) = kyuubiClusters (store w2)"
proof -
  have wf2: "wf_store (store w2)" using Reconcile_frame assms(1,3,4) by blast
  obtain k svc where k: "kyuubiClusters (store w2) req = Some k" "services (store w2) (childKey ''-kyuubi'' req) = Some svc"
    "st_ExposedInfos (kc_Status k) = Some (exposedInfosOf k svc)"
    using reconcile_twice_status [OF fresh_api_axioms assms(1-4)] by blast
  obtain v where "kyuubiKey k = req" "store v = store w2" "createOrUpdateClusters E k v = Some (None, w3)"
    using Reconcile_success [OF wf2 assms(2,5)] k(1) by (metis option.inject)
  with run_settled [of v k w3 svc] wf2 k show ?thesis by (simp add: keys_of_request)
qed

lemma drains:
  assumes "wf_store (store w)" and "plainName req" and "acceptable (store w) req"
  shows "\<exists>es w'. length es \<le> 3 \<and> set es \<subseteq> {Worked req (Returned zeroResult None)} \<and>
    qrun watch E store (w, {req}) es (w', {}) \<and> allPresent (store w') req"
proof -
  let ?e = "Worked req (Returned zeroResult None)"
  let ?Q = "\<lambda>s s'. if kyuubiClusters s' = kyuubiClusters s then {} else {req}"
  obtain w1 where w1: "Reconcile E req w = Some (Returned zeroResult None, w1)" "qstep watch E store (w, {req}) ?e (w1, ?Q (store w) (store w1))"
    "wf_store (store w1)" "acceptable (store w1) req" "allPresent (store w1) req" by (rule work_alone [OF assms])
  obtain w2 where w2: "Reconcile E req w1 = Some (Returned zeroResult None, w2)" "qstep watch E store (w1, {req}) ?e (w2, ?Q (store w1) (store w2))"
    "wf_store (store w2)" "acceptable (store w2) req" "allPresent (store w2) req" by (rule work_alone [OF w1(3) assms(2) w1(4)])
  obtain w3 where w3: "Reconcile E req w2 = Some (Returned zeroResult None, w3)" "qstep watch E store (w2, {req}) ?e (w3, ?Q (store w2) (store w3))"
    "wf_store (store w3)" "acceptable (store w3) req" "allPresent (store w3) req" by (rule work_alone [OF w2(3) assms(2) w2(4)])
  have s: "kyuubiClusters (store w3) = kyuubiClusters (store w2)" using work_settles [OF assms(1,2) w1(1) w2(1) w3(1)] .
  note r1 = qrun.qmore [OF qrun.qstart w1(2)]
  show ?thesis
  proof (cases "kyuubiClusters (store w1) = kyuubiClusters (store w)")
    case True
    with r1 w1(5) show ?thesis by (intro exI [of _ "[?e]"] exI [of _ w1]) simp
  next
    case False
    then have r2: "qrun watch E store (w, {req}) [?e, ?e] (w2, ?Q (store w1) (store w2))"
      using qrun.qmore [OF r1, of ?e "(w2, ?Q (store w1) (store w2))"] w2(2) by simp
    show ?thesis
    proof (cases "kyuubiClusters (store w2) = kyuubiClusters (store w1)")
      case True
      with r2 w2(5) show ?thesis by (intro exI [of _ "[?e, ?e]"] exI [of _ w2]) simp
    next
      case False
      then have "qrun watch E store (w, {req}) [?e, ?e, ?e] (w3, {})"
        using qrun.qmore [OF r2, of ?e "(w3, {})"] w3(2) s by simp
      with w3(5) show ?thesis by (intro exI [of _ "[?e, ?e, ?e]"] exI [of _ w3]) simp
    qed
  qed
qed

text \<open>A request that cannot succeed is never given up.\<close>

lemma never_drains:
  assumes "qrun watch E store q0 es q" and "wf_store (store (fst q0))" and "plainName req" and "\<not> acceptable (store (fst q0)) req"
    and "req \<in> snd q0" and "\<forall>e \<in> set es. \<exists>r out. e = Worked r out"
  shows "req \<in> snd q \<and> wf_store (store (fst q)) \<and> \<not> acceptable (store (fst q)) req"
  using assms
proof (induction rule: qrun.induct)
  case (qmore es q e q')
  then have IH: "req \<in> snd q" "wf_store (store (fst q))" "\<not> acceptable (store (fst q)) req" by auto
  from qmore.prems(5) obtain r out where e: "e = Worked r out" by auto
  from qmore.hyps(2) e obtain w Q w' where q: "q = (w, Q)" "Reconcile E r w = Some (out, w')"
    "q' = (w', Q - {r} \<union> (if requeues out then {r} else {}) \<union> watch kyuubiBuilder (store w) (store w'))"
    by (auto elim: qstep_cases)
  note f = Reconcile_frame [OF _ q(2)]
  have "requeues out" if "r = req"
    using Reconcile_no_panic [OF q(2)] Reconcile_acceptable [of w req] IH q that qmore.prems(2) by (auto simp: zeroResult_def)
  with IH q f acceptable_kept [of _ "store w" "store w'" req] show ?case by auto
qed simp

end

interpretation refQueue: reliable_queue refEnv rw_store refAdmission ownerWatch
  by (rule reliable_queue.intro [OF refEnv_reliable_api ownerWatch.watches_axioms])
    (unfold_locales, rule refEnv_owner)

section \<open>Properties\<close>

lemma minio_acceptable: "acceptable (rw_store (worldWith minioCluster)) sampleKey"
  by (simp add: acceptable_def sparkWithoutDefaults_def minioCluster_def minioSpark_def minioHdfs_def minioMetastore_def
      minioDefaults_def sampleRef_def sampleSpark_def const_defs)

text \<open>
  C9. When the queue is empty nothing is missing: start with the stored custom resources queued, let
  workers call \<open>Reconcile\<close> on queued requests in any order, with any outcomes, and users create, edit and
  delete custom resources, without anyone deleting children of stored ones; whenever the queue is
  empty, every stored custom resource has all its objects.
\<close>

theorem empty_queue_complete:
  assumes "fresh_api E store A" and "watches watch" and "wf_store (store w0)"
    and "list_all plainName ns" and "dom (kyuubiClusters (store w0)) = set ns"
    and "calm watch E store (w0, set ns) (w, {})" and "kyuubiClusters (store w) n = Some k"
  shows "allPresent (store w) n"
proof -
  have "attended store (w0, set ns)" using assms(3-5) by (auto simp: attended_def list_all_iff)
  from work_queue.calm_attended [OF work_queue.intro [OF assms(1,2)] assms(6) this] assms(7)
  show ?thesis by (auto simp: attended_def)
qed

text \<open>Work alone disturbs nothing.\<close>

lemma qrun_calm: "qrun watch E store q0 es q \<Longrightarrow> list_all (\<lambda>e. \<exists>r out. e = Worked r out) es \<Longrightarrow> calm watch E store q0 q"
  by (induction rule: qrun.induct) (auto intro: calm.intros)

theorem empty_queue_complete_witness:
  "\<exists>w. calm ownerWatch refEnv rw_store (worldWith minioCluster, set [sampleKey]) (w, {}) \<and> allPresent (rw_store w) sampleKey"
proof -
  have d: "dom (kyuubiClusters (rw_store (worldWith minioCluster))) = set [sampleKey]"
    by (auto simp: worldWith_def emptyStore_def split: if_splits)
  obtain es w where r: "set es \<subseteq> {Worked sampleKey (Returned zeroResult None)}"
    "qrun ownerWatch refEnv rw_store (worldWith minioCluster, {sampleKey}) es (w, {})" "allPresent (rw_store w) sampleKey"
    using refQueue.drains [OF wf_worldWith plain_sampleKey minio_acceptable] by blast
  have c: "calm ownerWatch refEnv rw_store (worldWith minioCluster, set [sampleKey]) (w, {})"
    using qrun_calm [OF r(2)] r(1) by (auto simp: list_all_iff)
  from r(3) obtain k where "kyuubiClusters (rw_store w) sampleKey = Some k"
    by (auto simp: allPresent_def requestFootprint_def)
  with empty_queue_complete [OF refEnv_fresh_api ownerWatch.watches_axioms wf_worldWith _ d c] c plain_sampleKey
  show ?thesis by auto
qed

text \<open>
  C8. The queue drains: when only the request of a stored custom resource is queued and every Spark
  reference in it has \<open>sparkDefaults\<close>, at most three calls of \<open>Reconcile\<close>, all successful, leave the queue
  empty and all objects in existence. (The calls that write the status queue the request again; the
  third finds the status up to date.)
\<close>

theorem queue_drains:
  assumes "reliable_api E store A" and "watches watch" and "\<And>k m. snd (SetControllerReference E k m) = None"
    and "wf_store (store w)" and "plainName req" and "acceptable (store w) req"
  shows "\<exists>es w'. length es \<le> 3 \<and> set es \<subseteq> {Worked req (Returned zeroResult None)} \<and>
    qrun watch E store (w, {req}) es (w', {}) \<and> allPresent (store w') req"
  by (rule reliable_queue.drains) (use assms in \<open>auto intro!: reliable_queue.intro reliable_queue_axioms.intro\<close>)

theorem queue_drains_witness:
  "\<exists>es w'. length es \<le> 3 \<and> qrun ownerWatch refEnv rw_store (worldWith minioCluster, {sampleKey}) es (w', {}) \<and>
     allPresent (rw_store w') sampleKey"
  using queue_drains [OF refEnv_reliable_api ownerWatch.watches_axioms refEnv_owner wf_worldWith plain_sampleKey minio_acceptable]
  by blast

text \<open>
  C22. A request that cannot succeed is retried forever: when the custom resource is gone, or has a Spark
  reference without \<open>sparkDefaults\<close>, no amount of work, on this and on other requests, takes the request
  out of the queue.
\<close>

theorem failing_request_stays:
  assumes "reliable_api E store A" and "watches watch" and "\<And>k m. snd (SetControllerReference E k m) = None"
    and "wf_store (store w)" and "plainName req" and "\<not> acceptable (store w) req" and "req \<in> Q"
    and "qrun watch E store (w, Q) es (w', Q')" and "list_all (\<lambda>e. \<exists>r out. e = Worked r out) es"
  shows "req \<in> Q'"
proof -
  have "reliable_queue E store A watch" using assms(1-3) by (intro reliable_queue.intro reliable_queue_axioms.intro)
  from reliable_queue.never_drains [OF this assms(8)] assms(4-7,9) show ?thesis by (auto simp: list_all_iff)
qed

theorem failing_request_stays_witness:
  "\<exists>out w' Q. qrun ownerWatch refEnv rw_store (worldWith readmeCluster, {sampleKey}) [Worked sampleKey out] (w', Q) \<and> sampleKey \<in> Q"
proof -
  obtain out w' where r: "Reconcile refEnv sampleKey (worldWith readmeCluster) = Some (out, w')"
    using refApi.Reconcile_returns [of sampleKey "worldWith readmeCluster"] by auto
  obtain Q where q: "qrun ownerWatch refEnv rw_store (worldWith readmeCluster, {sampleKey}) ([] @ [Worked sampleKey out]) (w', Q)"
    using qrun.qmore [OF qrun.qstart qstep.worked [of sampleKey "{sampleKey}", OF _ r]] by blast
  have "\<not> acceptable (rw_store (worldWith readmeCluster)) sampleKey"
    by (simp add: acceptable_def sparkWithoutDefaults_def readmeCluster_def sampleRef_def sampleSpark_def const_defs)
  from failing_request_stays [OF refEnv_reliable_api ownerWatch.watches_axioms refEnv_owner wf_worldWith plain_sampleKey this _ q] q
  show ?thesis by auto
qed

text \<open>
  C21. A deleted child goes unnoticed: the builder of \<open>SetupWithManager\<close> has no \<open>Owns\<close>, so from an empty
  queue, after any number of deletions of objects other than custom resources, the queue is still
  empty, no worker has run, and what was deleted is not there; only a change of a custom resource or
  the resynchronisation of the cache brings work.
\<close>

theorem deleted_child_unnoticed:
  assumes "watches watch" and "qrun watch E store (w, {}) es (w', Q)"
    and "list_all (\<lambda>e. (\<exists>r out. e = Worked r out) \<or> (\<exists>kd n. e = Other (Deleted kd n) \<and> kd \<noteq> KKyuubiCluster)) es"
    and "Other (Deleted kd n) \<in> set es"
  shows "Q = {} \<and> \<not> present (store w') kd n \<and> list_all (\<lambda>e. \<forall>r out. e \<noteq> Worked r out) es"
proof -
  have none: "watch kyuubiBuilder s s' = {}" if "kyuubiClusters s' = kyuubiClusters s" for s s'
    using watches.watch_only [OF assms(1), of _ kyuubiBuilder s s'] that by (auto simp: kyuubiBuilder_def)
  have "snd q = {} \<and> (Other (Deleted kd n) \<in> set es \<longrightarrow> \<not> present (store (fst q)) kd n) \<and> list_all (\<lambda>e. \<forall>r out. e \<noteq> Worked r out) es"
    if "qrun watch E store (w, {}) es q"
      "list_all (\<lambda>e. (\<exists>r out. e = Worked r out) \<or> (\<exists>kd n. e = Other (Deleted kd n) \<and> kd \<noteq> KKyuubiCluster)) es" for q es
    using that
  proof (induction rule: qrun.induct)
    case (qmore es q e q')
    obtain v where q: "q = (v, {})" using qmore by (cases q) auto
    from qmore.prems have "(\<exists>r out. e = Worked r out) \<or> (\<exists>kd n. e = Other (Deleted kd n) \<and> kd \<noteq> KKyuubiCluster)" by simp
    with qmore.hyps(2) q obtain kd' n' where e: "e = Other (Deleted kd' n')" "kd' \<noteq> KKyuubiCluster" by (auto elim: qstep_cases)
    with qmore.hyps(2) q obtain v' where v': "store v' = removeObject kd' n' (store v)"
      "q' = (v', watch kyuubiBuilder (store v) (store v'))" by (auto elim!: qstep_cases step_cases)
    have "kyuubiClusters (store v') = kyuubiClusters (store v)" using v'(1) e(2) by (cases kd') auto
    with none v'(2) have "snd q' = {}" by simp
    moreover have "\<not> present (store v') kd n" if "Other (Deleted kd n) \<in> set (es @ [e])"
    proof (cases "(kd, n) = (kd', n')")
      case True
      then show ?thesis using removeObject_gone v'(1) by simp
    next
      case False
      with that e qmore q have "\<not> present (store v) kd n" by auto
      then show ?thesis using removeObject_present v'(1) by metis
    qed
    ultimately show ?case using qmore v'(2) e by simp
  qed simp
  from this [OF assms(2,3)] assms(4) show ?thesis by simp
qed

theorem deleted_child_unnoticed_witness:
  "\<exists>w' Q. qrun ownerWatch refEnv rw_store (worldWith minioCluster, {}) [Other (Deleted KService (childKey ''-kyuubi'' sampleKey))] (w', Q) \<and>
     Q = {} \<and> \<not> present (rw_store w') KService (childKey ''-kyuubi'' sampleKey)"
proof -
  let ?n = "childKey ''-kyuubi'' sampleKey"
  let ?w = "(worldWith minioCluster)\<lparr>rw_store := removeObject KService ?n (rw_store (worldWith minioCluster))\<rparr>"
  have "step refEnv rw_store (worldWith minioCluster) (Deleted KService ?n) ?w" by (rule step.deleted) simp
  from qstep.other [OF this, of ownerWatch "{}"] obtain Q where
    "qstep ownerWatch refEnv rw_store (worldWith minioCluster, {}) (Other (Deleted KService ?n)) (?w, Q)" by auto
  from qrun.qmore [OF qrun.qstart this] obtain Q where q: "qrun ownerWatch refEnv rw_store (worldWith minioCluster, {}) ([] @ [Other (Deleted KService ?n)]) (?w, Q)" by blast
  from deleted_child_unnoticed [OF ownerWatch.watches_axioms q, of KService ?n] q show ?thesis by auto
qed

end
