(* ===== verification/Json_Codec.thy ===== *)
theory Json_Codec
  imports Kyuubi_Prelude "HOL-Library.List_Lexorder" "HOL-Library.Char_ord"
begin

text \<open>
  What the operator's types use of \<open>encoding/json\<close>: values, the encoders and decoders of the Go
  kinds that occur (string, int32, \<open>map[string]string\<close>, slice, struct), and structs as lists of tagged
  fields. A decoder is given the value that the destination holds already, as \<open>json.Unmarshal\<close> is:
  a member that is absent leaves it, null leaves a scalar or struct and sets a map or slice to nil, an
  unknown member is skipped, and a value of the wrong kind is an error. Member names are compared
  exactly, as the decoder of \<open>k8s.io/apimachinery\<close> does.
\<close>

section \<open>Values\<close>

datatype json = JNull | JBool bool | JInt int | JStr string | JArr "json list" | JObj "(string \<times> json) list"

fun json_kind :: "json \<Rightarrow> string" where
  "json_kind JNull = ''null''"
| "json_kind (JBool b) = ''bool''"
| "json_kind (JInt i) = ''number''"
| "json_kind (JStr s) = ''string''"
| "json_kind (JArr js) = ''array''"
| "json_kind (JObj ms) = ''object''"

text \<open>\<open>json.UnmarshalTypeError\<close>, without the path of the field.\<close>

definition unmarshalTypeError :: "json \<Rightarrow> string \<Rightarrow> GoError" where
  "unmarshalTypeError j ty = ErrorString (''json: cannot unmarshal '' @ json_kind j @ '' into Go value of type '' @ ty)"

type_synonym 'a decoder = "json \<Rightarrow> 'a \<Rightarrow> GoError + 'a"

text \<open>
  The codec of a Go type: its zero value, whether a value counts as empty for \<open>omitempty\<close> (false, 0,
  nil, and empty strings, maps and slices; never a struct), and both directions.
\<close>

record 'a codec =
  cd_zero :: 'a
  cd_empty :: "'a \<Rightarrow> bool"
  cd_enc :: "'a \<Rightarrow> json"
  cd_dec :: "'a decoder"

section \<open>Scalars, maps and slices\<close>

fun decode_string :: "string decoder" where
  "decode_string JNull s = Inr s"
| "decode_string (JStr s') s = Inr s'"
| "decode_string j s = Inl (unmarshalTypeError j ''string'')"

definition string_codec :: "string codec" where
  "string_codec = \<lparr>cd_zero = [], cd_empty = (\<lambda>s. s = []), cd_enc = JStr, cd_dec = decode_string\<rparr>"

definition int32_range :: "int \<Rightarrow> bool" where
  "int32_range i \<longleftrightarrow> - (2 ^ 31) \<le> i \<and> i < 2 ^ 31"

fun decode_int32 :: "int32 decoder" where
  "decode_int32 JNull n = Inr n"
| "decode_int32 (JInt i) n = (if int32_range i then Inr (word_of_int i) else Inl (unmarshalTypeError (JInt i) ''int32''))"
| "decode_int32 j n = Inl (unmarshalTypeError j ''int32'')"

definition int32_codec :: "int32 codec" where
  "int32_codec = \<lparr>cd_zero = 0, cd_empty = (\<lambda>n. n = 0), cd_enc = (\<lambda>n. JInt (sint n)), cd_dec = decode_int32\<rparr>"

text \<open>
  A \<open>map[string]string\<close> is written with sorted keys; nil is null. It is read into the map that is
  there, or into a new one, and a null value stands for the empty string.
\<close>

definition sorted_keys :: "smap \<Rightarrow> string list" where
  "sorted_keys f = sorted_list_of_fset (fmdom f)"

definition encode_map :: "gomap \<Rightarrow> json" where
  "encode_map m = (case m of None \<Rightarrow> JNull | Some f \<Rightarrow> JObj (map (\<lambda>k. (k, JStr (fm_get f k))) (sorted_keys f)))"

fun decode_entries :: "(string \<times> json) list \<Rightarrow> smap \<Rightarrow> GoError + smap" where
  "decode_entries [] f = Inr f"
| "decode_entries ((k, j) # ms) f =
     (case decode_string j [] of Inl e \<Rightarrow> Inl e | Inr s \<Rightarrow> decode_entries ms (fmupd k s f))"

fun decode_map :: "gomap decoder" where
  "decode_map JNull m = Inr None"
| "decode_map (JObj ms) m = map_sum id Some (decode_entries ms (gm_map m))"
| "decode_map j m = Inl (unmarshalTypeError j ''map[string]string'')"

definition map_codec :: "gomap codec" where
  "map_codec = \<lparr>cd_zero = None, cd_empty = (\<lambda>m. gm_len m = 0), cd_enc = encode_map, cd_dec = decode_map\<rparr>"

text \<open>
  A slice is read element by element into the elements that are there, then into zero values. (After
  a slice has been shortened and grown again by repeated members of one name, Go would meet the
  dropped elements; no encoder writes such text.)
\<close>

fun decode_elems :: "'a codec \<Rightarrow> json list \<Rightarrow> 'a list \<Rightarrow> GoError + 'a list" where
  "decode_elems c [] olds = Inr []"
| "decode_elems c (j # js) olds =
     (case cd_dec c j (case olds of [] \<Rightarrow> cd_zero c | x # _ \<Rightarrow> x) of
        Inl e \<Rightarrow> Inl e
      | Inr x \<Rightarrow> map_sum id ((#) x) (decode_elems c js (tl olds)))"

fun decode_slice :: "'a codec \<Rightarrow> 'a list option decoder" where
  "decode_slice c JNull xs = Inr None"
| "decode_slice c (JArr js) xs = map_sum id Some (decode_elems c js (case xs of None \<Rightarrow> [] | Some ys \<Rightarrow> ys))"
| "decode_slice c j xs = Inl (unmarshalTypeError j ''slice'')"

definition slice_codec :: "'a codec \<Rightarrow> 'a list option codec" where
  "slice_codec c = \<lparr>cd_zero = None, cd_empty = (\<lambda>xs. xs = None \<or> xs = Some []),
     cd_enc = (\<lambda>xs. case xs of None \<Rightarrow> JNull | Some ys \<Rightarrow> JArr (map (cd_enc c) ys)),
     cd_dec = decode_slice c\<rparr>"

text \<open>
  Where the model has a plain list for a slice, whether an empty one is nil is the argument \<open>nil\<close>.
\<close>

definition list_codec :: "bool \<Rightarrow> 'a codec \<Rightarrow> 'a list codec" where
  "list_codec nil c = \<lparr>cd_zero = [], cd_empty = (\<lambda>xs. xs = []),
     cd_enc = (\<lambda>xs. cd_enc (slice_codec c) (if xs = [] \<and> nil then None else Some xs)),
     cd_dec = (\<lambda>j xs. map_sum id (\<lambda>r. case r of None \<Rightarrow> [] | Some ys \<Rightarrow> ys) (decode_slice c j (Some xs)))\<rparr>"

section \<open>Structs\<close>

text \<open>A field under its tag: its name, when it is omitted, and the codec of its type moved to the struct.\<close>

record 'a jsonField =
  jf_name :: string
  jf_omit :: "'a \<Rightarrow> bool"
  jf_enc :: "'a \<Rightarrow> json"
  jf_dec :: "'a decoder"

definition tag :: "string \<Rightarrow> 'b codec \<Rightarrow> ('a \<Rightarrow> 'b) \<Rightarrow> (('b \<Rightarrow> 'b) \<Rightarrow> 'a \<Rightarrow> 'a) \<Rightarrow> 'a jsonField" where
  "tag n c get upd = \<lparr>jf_name = n, jf_omit = (\<lambda>x. False), jf_enc = (\<lambda>x. cd_enc c (get x)),
     jf_dec = (\<lambda>j x. map_sum id (\<lambda>v. upd (\<lambda>_. v) x) (cd_dec c j (get x)))\<rparr>"

definition tag_omitempty :: "string \<Rightarrow> 'b codec \<Rightarrow> ('a \<Rightarrow> 'b) \<Rightarrow> (('b \<Rightarrow> 'b) \<Rightarrow> 'a \<Rightarrow> 'a) \<Rightarrow> 'a jsonField" where
  "tag_omitempty n c get upd = (tag n c get upd)\<lparr>jf_omit := (\<lambda>x. cd_empty c (get x))\<rparr>"

definition encode_struct :: "'a jsonField list \<Rightarrow> 'a \<Rightarrow> json" where
  "encode_struct fs x = JObj (map (\<lambda>f. (jf_name f, jf_enc f x)) (filter (\<lambda>f. \<not> jf_omit f x) fs))"

fun decode_members :: "'a jsonField list \<Rightarrow> (string \<times> json) list \<Rightarrow> 'a \<Rightarrow> GoError + 'a" where
  "decode_members fs [] x = Inr x"
| "decode_members fs ((n, j) # ms) x =
     (case find (\<lambda>f. jf_name f = n) fs of
        None \<Rightarrow> decode_members fs ms x
      | Some f \<Rightarrow> (case jf_dec f j x of Inl e \<Rightarrow> Inl e | Inr y \<Rightarrow> decode_members fs ms y))"

fun decode_struct :: "'a jsonField list \<Rightarrow> 'a decoder" where
  "decode_struct fs JNull x = Inr x"
| "decode_struct fs (JObj ms) x = decode_members fs ms x"
| "decode_struct fs j x = Inl (unmarshalTypeError j ''struct'')"

definition struct_codec :: "'a \<Rightarrow> 'a jsonField list \<Rightarrow> 'a codec" where
  "struct_codec z fs = \<lparr>cd_zero = z, cd_empty = (\<lambda>x. False), cd_enc = encode_struct fs, cd_dec = decode_struct fs\<rparr>"

text \<open>An embedded struct with the tag \<open>,inline\<close>: its fields are fields of the outer struct.\<close>

definition inline :: "('a \<Rightarrow> 'b) \<Rightarrow> (('b \<Rightarrow> 'b) \<Rightarrow> 'a \<Rightarrow> 'a) \<Rightarrow> 'b jsonField \<Rightarrow> 'a jsonField" where
  "inline get upd f = \<lparr>jf_name = jf_name f, jf_omit = (\<lambda>x. jf_omit f (get x)), jf_enc = (\<lambda>x. jf_enc f (get x)),
     jf_dec = (\<lambda>j x. map_sum id (\<lambda>v. upd (\<lambda>_. v) x) (jf_dec f j (get x)))\<rparr>"

lemmas codec_defs = string_codec_def int32_codec_def map_codec_def slice_codec_def list_codec_def struct_codec_def
lemmas field_defs = tag_def tag_omitempty_def inline_def

section \<open>Round trips\<close>

text \<open>
  The contract of a codec: reading back what was written, into a zero value, gives the value up to
  \<open>norm\<close>. Slices of such values then keep the contract.
\<close>

locale codec_law =
  fixes c :: "'a codec" and norm :: "'a \<Rightarrow> 'a"
  assumes roundtrip: "cd_dec c (cd_enc c x) (cd_zero c) = Inr (norm x)"
begin

lemma decode_elems_encoded: "decode_elems c (map (cd_enc c) xs) [] = Inr (map norm xs)"
  by (induction xs) (simp_all add: roundtrip)

lemma slice_roundtrip:
  "cd_dec (slice_codec c) (cd_enc (slice_codec c) xs) (cd_zero (slice_codec c)) = Inr (map_option (map norm) xs)"
  by (simp add: slice_codec_def decode_elems_encoded split: option.split)

lemma list_roundtrip:
  "cd_dec (list_codec nil c) (cd_enc (list_codec nil c) xs) (cd_zero (list_codec nil c)) = Inr (map norm xs)"
  by (simp add: list_codec_def slice_codec_def decode_elems_encoded)

end

text \<open>What \<open>omitempty\<close> makes of a value.\<close>

definition omitted :: "'a codec \<Rightarrow> ('a \<Rightarrow> 'a) \<Rightarrow> 'a \<Rightarrow> 'a" where
  "omitted c norm x = (if cd_empty c x then cd_zero c else norm x)"

interpretation string_wire: codec_law string_codec id
  by unfold_locales (simp add: string_codec_def)

lemma int32_range_sint: "int32_range (sint (n :: int32))"
  using sint_greater_eq [of n] sint_less [of n] by (simp add: int32_range_def)

interpretation int32_wire: codec_law int32_codec id
  by unfold_locales (simp add: int32_codec_def int32_range_sint)

lemma decode_entries_strings:
  "decode_entries (map (\<lambda>k. (k, JStr (g k))) ks) f = Inr (copy_entries (map (\<lambda>k. (k, g k)) ks) f)"
  by (induction ks arbitrary: f) simp_all

lemma copy_entries_lookup_keys:
  "fmlookup (copy_entries (map (\<lambda>k. (k, g k)) ks) f) k = (if k \<in> set ks then Some (g k) else fmlookup f k)"
  by (induction ks arbitrary: f) auto

lemma set_sorted_keys: "set (sorted_keys f) = fset (fmdom f)"
  by (simp add: sorted_keys_def)

lemma copy_sorted_keys: "copy_entries (map (\<lambda>k. (k, fm_get f k)) (sorted_keys f)) fmempty = f"
proof (rule fmap_ext)
  fix k
  show "fmlookup (copy_entries (map (\<lambda>k. (k, fm_get f k)) (sorted_keys f)) fmempty) k = fmlookup f k"
    by (cases "fmlookup f k")
      (simp_all add: copy_entries_lookup_keys set_sorted_keys fm_get_def fmdom_notI fmdomI)
qed

interpretation map_wire: codec_law map_codec id
  by unfold_locales
    (simp add: map_codec_def encode_map_def decode_entries_strings gm_map_def copy_sorted_keys split: option.split)

section \<open>Errors\<close>

text \<open>A map is read exactly when every value is a string or null.\<close>

fun string_or_null :: "json \<Rightarrow> bool" where
  "string_or_null JNull = True"
| "string_or_null (JStr s) = True"
| "string_or_null j = False"

lemma decode_string_Inr_iff: "(\<exists>s'. decode_string j s = Inr s') \<longleftrightarrow> string_or_null j"
  by (cases j) auto

lemma decode_entries_Inr_iff: "(\<exists>g. decode_entries ms f = Inr g) \<longleftrightarrow> list_all (string_or_null \<circ> snd) ms"
proof (induction ms arbitrary: f)
  case (Cons m ms)
  obtain k j where m: "m = (k, j)" by fastforce
  show ?case
  proof (cases "decode_string j []")
    case (Inl e)
    with decode_string_Inr_iff [of j "[]"] m show ?thesis by auto
  next
    case (Inr s)
    with decode_string_Inr_iff [of j "[]"] Cons.IH m show ?thesis by auto
  qed
qed simp

end
