(* ===== verification/Api_Json.thy ===== *)
theory Api_Json
  imports Json_Codec Api_Types
begin

text \<open>
  The wire format of the custom resource: every struct of \<open>kyuubicluster_types.go\<close> as the list of its
  fields under their json tags. The types of other packages that occur in it (\<open>ObjectMeta\<close>,
  \<open>ListMeta\<close>, \<open>Time\<close>, \<open>ServicePort\<close>) come with codecs of their own, which are an argument. Reading back a
  written resource gives the resource, except that an empty hiveSite, coreSite or hdfsSite is read as
  nil, and up to what the foreign codecs lose.
\<close>

record wire =
  wr_ObjectMeta :: "ObjectMeta codec"
  wr_ListMeta :: "ListMeta codec"
  wr_Time :: "Time codec"
  wr_ServicePort :: "ServicePort codec"

section \<open>Structs and tags\<close>

definition ImageConfig_fields :: "ImageConfig jsonField list" where
  "ImageConfig_fields =
    [tag ''repository'' string_codec ic_Repository ic_Repository_update,
     tag_omitempty ''tag'' string_codec ic_Tag ic_Tag_update,
     tag_omitempty ''pullPolicy'' string_codec ic_PullPolicy ic_PullPolicy_update,
     tag_omitempty ''pullSecret'' string_codec ic_PullSecrets ic_PullSecrets_update]"

definition ImageConfig_codec :: "ImageConfig codec" where
  "ImageConfig_codec = struct_codec zeroImage ImageConfig_fields"

definition ResourceConfig_fields :: "ResourceConfig jsonField list" where
  "ResourceConfig_fields = [tag ''replicas'' int32_codec rc_Replicas rc_Replicas_update]"

definition ResourceConfig_codec :: "ResourceConfig codec" where
  "ResourceConfig_codec = struct_codec \<lparr>rc_Replicas = 0\<rparr> ResourceConfig_fields"

definition SparkCluster_fields :: "SparkCluster jsonField list" where
  "SparkCluster_fields =
    [tag_omitempty ''sparkMaster'' string_codec sc_SparkMaster sc_SparkMaster_update,
     tag ''sparkImage'' ImageConfig_codec sc_SparkImage sc_SparkImage_update,
     tag ''sparkNamespace'' string_codec sc_SparkNamespace sc_SparkNamespace_update,
     tag ''sparkDefaults'' map_codec sc_SparkDefaults sc_SparkDefaults_update]"

definition SparkCluster_codec :: "SparkCluster codec" where
  "SparkCluster_codec = struct_codec zeroSpark SparkCluster_fields"

definition MetastoreCluster_fields :: "MetastoreCluster jsonField list" where
  "MetastoreCluster_fields = [tag_omitempty ''hiveSite'' map_codec mc_HiveSite mc_HiveSite_update]"

definition MetastoreCluster_codec :: "MetastoreCluster codec" where
  "MetastoreCluster_codec = struct_codec zeroMetastore MetastoreCluster_fields"

definition HdfsCluster_fields :: "HdfsCluster jsonField list" where
  "HdfsCluster_fields =
    [tag_omitempty ''coreSite'' map_codec hc_CoreSite hc_CoreSite_update,
     tag_omitempty ''hdfsSite'' map_codec hc_HdfsSite hc_HdfsSite_update]"

definition HdfsCluster_codec :: "HdfsCluster codec" where
  "HdfsCluster_codec = struct_codec zeroHdfs HdfsCluster_fields"

definition ClusterRef_fields :: "ClusterRef jsonField list" where
  "ClusterRef_fields =
    [tag ''name'' string_codec cr_Name cr_Name_update,
     tag ''type'' string_codec cr_Type cr_Type_update,
     tag ''spark'' SparkCluster_codec cr_Spark cr_Spark_update,
     tag ''metastore'' MetastoreCluster_codec cr_Metastore cr_Metastore_update,
     tag ''hdfs'' HdfsCluster_codec cr_Hdfs cr_Hdfs_update]"

definition zeroClusterRef :: ClusterRef where
  "zeroClusterRef = \<lparr>cr_Name = [], cr_Type = [], cr_Spark = zeroSpark, cr_Metastore = zeroMetastore, cr_Hdfs = zeroHdfs\<rparr>"

definition ClusterRef_codec :: "ClusterRef codec" where
  "ClusterRef_codec = struct_codec zeroClusterRef ClusterRef_fields"

text \<open>The argument \<open>nil\<close> says whether an empty \<open>ClusterRefs\<close> (or \<open>Items\<close>) slice is nil.\<close>

definition KyuubiClusterSpec_fields :: "bool \<Rightarrow> KyuubiClusterSpec jsonField list" where
  "KyuubiClusterSpec_fields nil =
    [tag ''kyuubiVersion'' string_codec kcs_KyuubiVersion kcs_KyuubiVersion_update,
     tag ''kyuubiImage'' ImageConfig_codec kcs_KyuubiImage kcs_KyuubiImage_update,
     tag ''kyuubiResource'' ResourceConfig_codec kcs_KyuubiResource kcs_KyuubiResource_update,
     tag ''kyuubiConf'' map_codec kcs_KyuubiConf kcs_KyuubiConf_update,
     tag ''clusterRefs'' (list_codec nil ClusterRef_codec) kcs_ClusterRefs kcs_ClusterRefs_update]"

definition KyuubiClusterSpec_codec :: "bool \<Rightarrow> KyuubiClusterSpec codec" where
  "KyuubiClusterSpec_codec nil = struct_codec (kc_Spec zeroKyuubiCluster) (KyuubiClusterSpec_fields nil)"

definition ExposedInfo_fields :: "wire \<Rightarrow> ExposedInfo jsonField list" where
  "ExposedInfo_fields W =
    [tag ''name'' string_codec ei_Name ei_Name_update,
     tag ''exposedType'' string_codec ei_ExposedType ei_ExposedType_update,
     tag ''serviceName'' string_codec ei_ServiceName ei_ServiceName_update,
     tag ''servicePort'' (wr_ServicePort W) ei_ServicePort ei_ServicePort_update]"

definition ExposedInfo_codec :: "wire \<Rightarrow> ExposedInfo codec" where
  "ExposedInfo_codec W = struct_codec
     \<lparr>ei_Name = [], ei_ExposedType = [], ei_ServiceName = [], ei_ServicePort = cd_zero (wr_ServicePort W)\<rparr> (ExposedInfo_fields W)"

definition KyuubiClusterStatus_fields :: "wire \<Rightarrow> KyuubiClusterStatus jsonField list" where
  "KyuubiClusterStatus_fields W =
    [tag ''exposedInfos'' (slice_codec (ExposedInfo_codec W)) st_ExposedInfos st_ExposedInfos_update,
     tag ''creationTime'' (wr_Time W) st_CreationTime st_CreationTime_update,
     tag ''updateTime'' (wr_Time W) st_UpdateTime st_UpdateTime_update]"

definition KyuubiClusterStatus_codec :: "wire \<Rightarrow> KyuubiClusterStatus codec" where
  "KyuubiClusterStatus_codec W = struct_codec zeroStatus (KyuubiClusterStatus_fields W)"

text \<open>\<open>metav1.TypeMeta\<close> is embedded with \<open>,inline\<close>: kind and apiVersion are members of the resource.\<close>

definition TypeMeta_fields :: "TypeMeta jsonField list" where
  "TypeMeta_fields =
    [tag_omitempty ''kind'' string_codec tm_Kind tm_Kind_update,
     tag_omitempty ''apiVersion'' string_codec tm_APIVersion tm_APIVersion_update]"

definition KyuubiCluster_fields :: "bool \<Rightarrow> wire \<Rightarrow> KyuubiCluster jsonField list" where
  "KyuubiCluster_fields nil W = map (inline kc_TypeMeta kc_TypeMeta_update) TypeMeta_fields @
    [tag_omitempty ''metadata'' (wr_ObjectMeta W) kc_Meta kc_Meta_update,
     tag_omitempty ''spec'' (KyuubiClusterSpec_codec nil) kc_Spec kc_Spec_update,
     tag_omitempty ''status'' (KyuubiClusterStatus_codec W) kc_Status kc_Status_update]"

definition KyuubiCluster_codec :: "bool \<Rightarrow> wire \<Rightarrow> KyuubiCluster codec" where
  "KyuubiCluster_codec nil W = struct_codec zeroKyuubiCluster (KyuubiCluster_fields nil W)"

definition KyuubiClusterList_fields :: "bool \<Rightarrow> wire \<Rightarrow> KyuubiClusterList jsonField list" where
  "KyuubiClusterList_fields nil W = map (inline kl_TypeMeta kl_TypeMeta_update) TypeMeta_fields @
    [tag_omitempty ''metadata'' (wr_ListMeta W) kl_ListMeta kl_ListMeta_update,
     tag ''items'' (list_codec nil (KyuubiCluster_codec nil W)) kl_Items kl_Items_update]"

definition KyuubiClusterList_codec :: "bool \<Rightarrow> wire \<Rightarrow> KyuubiClusterList codec" where
  "KyuubiClusterList_codec nil W = struct_codec
     \<lparr>kl_TypeMeta = \<lparr>tm_Kind = [], tm_APIVersion = []\<rparr>, kl_ListMeta = zeroListMeta, kl_Items = []\<rparr> (KyuubiClusterList_fields nil W)"

text \<open>\<open>json.Marshal\<close> of a resource, and \<open>json.Unmarshal\<close> into a zero one.\<close>

definition marshalKyuubiCluster :: "bool \<Rightarrow> wire \<Rightarrow> KyuubiCluster \<Rightarrow> json" where
  "marshalKyuubiCluster nil W k = cd_enc (KyuubiCluster_codec nil W) k"

definition unmarshalKyuubiCluster :: "wire \<Rightarrow> json \<Rightarrow> GoError + KyuubiCluster" where
  "unmarshalKyuubiCluster W j = cd_dec (KyuubiCluster_codec True W) j zeroKyuubiCluster"

lemmas struct_fields = ImageConfig_fields_def ResourceConfig_fields_def SparkCluster_fields_def
  MetastoreCluster_fields_def HdfsCluster_fields_def ClusterRef_fields_def KyuubiClusterSpec_fields_def
  ExposedInfo_fields_def KyuubiClusterStatus_fields_def TypeMeta_fields_def KyuubiCluster_fields_def
  KyuubiClusterList_fields_def

lemmas struct_codecs = ImageConfig_codec_def ResourceConfig_codec_def SparkCluster_codec_def
  MetastoreCluster_codec_def HdfsCluster_codec_def ClusterRef_codec_def KyuubiClusterSpec_codec_def
  ExposedInfo_codec_def KyuubiClusterStatus_codec_def KyuubiCluster_codec_def KyuubiClusterList_codec_def

section \<open>Round trips of the structs\<close>

text \<open>What \<open>omitempty\<close> makes of a map: an empty one is read back as nil.\<close>

definition omitEmpty :: "gomap \<Rightarrow> gomap" where
  "omitEmpty m = (if gm_len m = 0 then None else m)"

definition normMetastore :: "MetastoreCluster \<Rightarrow> MetastoreCluster" where
  "normMetastore m = m\<lparr>mc_HiveSite := omitEmpty (mc_HiveSite m)\<rparr>"

definition normHdfs :: "HdfsCluster \<Rightarrow> HdfsCluster" where
  "normHdfs h = h\<lparr>hc_CoreSite := omitEmpty (hc_CoreSite h), hc_HdfsSite := omitEmpty (hc_HdfsSite h)\<rparr>"

definition normRef :: "ClusterRef \<Rightarrow> ClusterRef" where
  "normRef r = r\<lparr>cr_Metastore := normMetastore (cr_Metastore r), cr_Hdfs := normHdfs (cr_Hdfs r)\<rparr>"

definition normSpec :: "KyuubiClusterSpec \<Rightarrow> KyuubiClusterSpec" where
  "normSpec s = s\<lparr>kcs_ClusterRefs := map normRef (kcs_ClusterRefs s)\<rparr>"

text \<open>Going through a struct: fold the members that were written, field by field.\<close>

lemma codec_law_structI:
  assumes "\<And>x. decode_struct fs (encode_struct fs x) z = Inr (norm x)"
  shows "codec_law (struct_codec z fs) norm"
  by unfold_locales (simp add: struct_codec_def assms)

lemma scalar_fields [simp]:
  "cd_zero string_codec = []" "cd_empty string_codec s \<longleftrightarrow> s = []" "cd_dec string_codec (cd_enc string_codec s) t = Inr s"
  "cd_dec int32_codec (cd_enc int32_codec n) n0 = Inr n"
  "cd_zero map_codec = None" "cd_empty map_codec m \<longleftrightarrow> gm_len m = 0" "cd_dec map_codec (cd_enc map_codec m) None = Inr m"
  using map_wire.roundtrip [of m]
  by (simp_all add: string_codec_def int32_codec_def int32_range_sint map_codec_def)

lemma struct_empty [simp]: "cd_empty (struct_codec z fs) x = False" "cd_zero (struct_codec z fs) = z"
  by (simp_all add: struct_codec_def)

lemmas through_struct = encode_struct_def field_defs struct_fields

interpretation image_wire: codec_law ImageConfig_codec id
  unfolding ImageConfig_codec_def
  by (rule codec_law_structI) (auto simp: through_struct zeroImage_def)

interpretation resource_wire: codec_law ResourceConfig_codec id
  unfolding ResourceConfig_codec_def
  by (rule codec_law_structI) (auto simp: through_struct)

lemma zero_codecs:
  "cd_zero ImageConfig_codec = zeroImage" "cd_zero ResourceConfig_codec = \<lparr>rc_Replicas = 0\<rparr>"
  "cd_zero SparkCluster_codec = zeroSpark" "cd_zero MetastoreCluster_codec = zeroMetastore"
  "cd_zero HdfsCluster_codec = zeroHdfs" "cd_zero ClusterRef_codec = zeroClusterRef"
  "cd_zero (KyuubiClusterSpec_codec nil) = kc_Spec zeroKyuubiCluster"
  "cd_zero (KyuubiClusterStatus_codec W) = zeroStatus" "cd_zero (KyuubiCluster_codec nil W) = zeroKyuubiCluster"
  by (simp_all add: struct_codecs)

lemmas wire_step = image_wire.roundtrip [unfolded zero_codecs] resource_wire.roundtrip [unfolded zero_codecs]

interpretation spark_wire: codec_law SparkCluster_codec id
  unfolding SparkCluster_codec_def
  by (rule codec_law_structI) (auto simp: through_struct zeroSpark_def wire_step)

interpretation metastore_wire: codec_law MetastoreCluster_codec normMetastore
  unfolding MetastoreCluster_codec_def
  by (rule codec_law_structI) (auto simp: through_struct zeroMetastore_def normMetastore_def omitEmpty_def)

interpretation hdfs_wire: codec_law HdfsCluster_codec normHdfs
  unfolding HdfsCluster_codec_def
  by (rule codec_law_structI) (auto simp: through_struct zeroHdfs_def normHdfs_def omitEmpty_def)

interpretation ref_wire: codec_law ClusterRef_codec normRef
  unfolding ClusterRef_codec_def
  by (rule codec_law_structI)
    (simp add: through_struct zeroClusterRef_def normRef_def
      spark_wire.roundtrip [unfolded zero_codecs] metastore_wire.roundtrip [unfolded zero_codecs]
      hdfs_wire.roundtrip [unfolded zero_codecs])

lemma list_zero [simp]: "cd_zero (list_codec nil c) = []" "cd_zero (slice_codec c) = None"
  by (simp_all add: list_codec_def slice_codec_def)

interpretation spec_wire: codec_law "KyuubiClusterSpec_codec nil" normSpec for nil
  unfolding KyuubiClusterSpec_codec_def
  by (rule codec_law_structI)
    (simp add: through_struct zeroKyuubiCluster_def normSpec_def wire_step ref_wire.list_roundtrip [simplified])

section \<open>Round trip of the resource\<close>

text \<open>
  The foreign codecs: each is a codec, the zero values of the metadata and of times are those of the
  model, and metadata is a struct, so it is never empty.
\<close>

locale wire_law =
  fixes W :: wire and normMeta :: "ObjectMeta \<Rightarrow> ObjectMeta" and normListMeta :: "ListMeta \<Rightarrow> ListMeta"
    and normTime :: "Time \<Rightarrow> Time" and normPort :: "ServicePort \<Rightarrow> ServicePort"
  assumes meta_law: "codec_law (wr_ObjectMeta W) normMeta" "cd_zero (wr_ObjectMeta W) = zeroMeta"
      "cd_empty (wr_ObjectMeta W) m = False"
    and listMeta_law: "codec_law (wr_ListMeta W) normListMeta" "cd_zero (wr_ListMeta W) = zeroListMeta"
      "cd_empty (wr_ListMeta W) l = False"
    and time_law: "codec_law (wr_Time W) normTime" "cd_zero (wr_Time W) = 0"
    and port_law: "codec_law (wr_ServicePort W) normPort"

definition normInfo :: "(ServicePort \<Rightarrow> ServicePort) \<Rightarrow> ExposedInfo \<Rightarrow> ExposedInfo" where
  "normInfo normPort i = i\<lparr>ei_ServicePort := normPort (ei_ServicePort i)\<rparr>"

definition normStatus :: "(Time \<Rightarrow> Time) \<Rightarrow> (ServicePort \<Rightarrow> ServicePort) \<Rightarrow> KyuubiClusterStatus \<Rightarrow> KyuubiClusterStatus" where
  "normStatus normTime normPort s =
     \<lparr>st_ExposedInfos = map_option (map (normInfo normPort)) (st_ExposedInfos s),
      st_CreationTime = normTime (st_CreationTime s), st_UpdateTime = normTime (st_UpdateTime s)\<rparr>"

definition normCluster :: "(ObjectMeta \<Rightarrow> ObjectMeta) \<Rightarrow> (Time \<Rightarrow> Time) \<Rightarrow> (ServicePort \<Rightarrow> ServicePort) \<Rightarrow>
    KyuubiCluster \<Rightarrow> KyuubiCluster" where
  "normCluster normMeta normTime normPort k =
     \<lparr>kc_TypeMeta = kc_TypeMeta k, kc_Meta = normMeta (kc_Meta k), kc_Spec = normSpec (kc_Spec k),
      kc_Status = normStatus normTime normPort (kc_Status k)\<rparr>"

context wire_law
begin

lemmas foreign_step = codec_law.roundtrip [OF meta_law(1), unfolded meta_law(2)]
  codec_law.roundtrip [OF listMeta_law(1), unfolded listMeta_law(2)]
  codec_law.roundtrip [OF time_law(1), unfolded time_law(2)] codec_law.roundtrip [OF port_law]

lemma info_law: "codec_law (ExposedInfo_codec W) (normInfo normPort)"
  unfolding ExposedInfo_codec_def
  by (rule codec_law_structI) (simp add: through_struct normInfo_def foreign_step)

lemma status_law: "codec_law (KyuubiClusterStatus_codec W) (normStatus normTime normPort)"
  unfolding KyuubiClusterStatus_codec_def
  by (rule codec_law_structI)
    (simp add: through_struct zeroStatus_def normStatus_def foreign_step
      codec_law.slice_roundtrip [OF info_law, simplified])

lemma empty_codecs [simp]: "cd_empty (KyuubiClusterSpec_codec nil) s = False" "cd_empty (KyuubiClusterStatus_codec W) t = False"
  by (simp_all add: struct_codecs)

lemma cluster_law: "codec_law (KyuubiCluster_codec nil W) (normCluster normMeta normTime normPort)"
  unfolding KyuubiCluster_codec_def
proof (rule codec_law_structI)
  fix k
  have z: "zeroKyuubiCluster = \<lparr>kc_TypeMeta = \<lparr>tm_Kind = [], tm_APIVersion = []\<rparr>, kc_Meta = zeroMeta,
     kc_Spec = kc_Spec zeroKyuubiCluster, kc_Status = zeroStatus\<rparr>" by (simp add: zeroKyuubiCluster_def)
  show "decode_struct (KyuubiCluster_fields nil W) (encode_struct (KyuubiCluster_fields nil W) k) zeroKyuubiCluster =
      Inr (normCluster normMeta normTime normPort k)"
    by (subst z)
      (cases "kc_TypeMeta k", auto simp: through_struct normCluster_def foreign_step meta_law(3)
        spec_wire.roundtrip [unfolded zero_codecs] codec_law.roundtrip [OF status_law, unfolded zero_codecs])
qed

lemma clusterList_law:
  "codec_law (KyuubiClusterList_codec nil W)
     (\<lambda>l. l\<lparr>kl_ListMeta := normListMeta (kl_ListMeta l), kl_Items := map (normCluster normMeta normTime normPort) (kl_Items l)\<rparr>)"
  unfolding KyuubiClusterList_codec_def
proof (rule codec_law_structI)
  fix l
  show "decode_struct (KyuubiClusterList_fields nil W) (encode_struct (KyuubiClusterList_fields nil W) l)
        \<lparr>kl_TypeMeta = \<lparr>tm_Kind = [], tm_APIVersion = []\<rparr>, kl_ListMeta = zeroListMeta, kl_Items = []\<rparr> =
      Inr (l\<lparr>kl_ListMeta := normListMeta (kl_ListMeta l), kl_Items := map (normCluster normMeta normTime normPort) (kl_Items l)\<rparr>)"
    by (cases "kl_TypeMeta l", auto simp: through_struct foreign_step listMeta_law(3)
        codec_law.list_roundtrip [OF cluster_law, simplified])
qed

end

end
