(* ===== verification/Crd_Schema.thy ===== *)
theory Crd_Schema
  imports Api_Json
begin

text \<open>
  The structural schema of the custom resource definition, \<open>config/crd/bases\<close> (the chart ships the same
  file), and what the API server does with it: nulls that the schema does not allow are dropped,
  defaults are filled in, and the result is validated. The schema is generated from the Go types; that
  it agrees with their json tags is proved: whatever it admits is read by the Go types, and what the
  controller writes into the status is admitted.
\<close>

section \<open>Schemas\<close>

datatype schema =
    SString "string list option" "string option"
  | SDateTime
  | SInteger bool
  | SBoolean
  | SIntOrString
  | SObject "(string \<times> schema) list" "string list"
  | SMap schema
  | SArray schema
  | SMetadata

text \<open>
  \<open>SString enum default\<close>; \<open>SInteger b\<close> is an integer, with the format int32 when \<open>b\<close>;
  \<open>SObject properties required\<close>; \<open>SMap\<close> has \<open>additionalProperties\<close>; \<open>SMetadata\<close> is the bare
  \<open>type: object\<close> of the metadata. No schema of the definition is nullable. What the server checks of a
  date-time and of metadata is a parameter.
\<close>

record checks =
  ck_dateTime :: "string \<Rightarrow> bool"
  ck_metadata :: "(string \<times> json) list \<Rightarrow> bool"

fun schema_valid :: "checks \<Rightarrow> schema \<Rightarrow> json \<Rightarrow> bool" where
  "schema_valid K (SString enum d) (JStr s) = (case enum of None \<Rightarrow> True | Some vs \<Rightarrow> s \<in> set vs)"
| "schema_valid K SDateTime (JStr s) = ck_dateTime K s"
| "schema_valid K (SInteger b) (JInt i) = (b \<longrightarrow> int32_range i)"
| "schema_valid K SBoolean (JBool b) = True"
| "schema_valid K SIntOrString (JInt i) = True"
| "schema_valid K SIntOrString (JStr s) = True"
| "schema_valid K (SObject props req) (JObj ms) =
     (set req \<subseteq> fst ` set ms \<and>
      (\<forall>(n, j) \<in> set ms. \<forall>(n', s) \<in> set props. n' = n \<longrightarrow> schema_valid K s j))"
| "schema_valid K (SMap s) (JObj ms) = (\<forall>(n, j) \<in> set ms. schema_valid K s j)"
| "schema_valid K (SArray s) (JArr js) = (\<forall>j \<in> set js. schema_valid K s j)"
| "schema_valid K SMetadata (JObj ms) = ck_metadata K ms"
| "schema_valid K s j = False"

fun schema_default :: "schema \<Rightarrow> json option" where
  "schema_default (SString e (Some d)) = Some (JStr d)"
| "schema_default s = None"

text \<open>
  Unknown members and nulls without a default are dropped, and defaults are filled in, property by
  property. The names of an object's members are distinct (the server reads it into a Go map).
\<close>

definition nonNull :: "(string \<times> json) list \<Rightarrow> string \<Rightarrow> json option" where
  "nonNull ms n = (if map_of ms n = Some JNull then None else map_of ms n)"

fun fill_defaults :: "schema \<Rightarrow> json \<Rightarrow> json" where
  "fill_defaults (SObject props req) (JObj ms) =
     JObj (concat (map (\<lambda>(n, s). case nonNull ms n of
         None \<Rightarrow> (case schema_default s of None \<Rightarrow> [] | Some d \<Rightarrow> [(n, d)])
       | Some j \<Rightarrow> [(n, fill_defaults s j)]) props))"
| "fill_defaults (SMap s) (JObj ms) = JObj (map (\<lambda>(n, j). (n, fill_defaults s j)) (filter (\<lambda>(n, j). j \<noteq> JNull) ms))"
| "fill_defaults (SArray s) (JArr js) = JArr (map (fill_defaults s) js)"
| "fill_defaults s j = j"

text \<open>
  The status is a subresource: a request for the resource itself has its status removed.
\<close>

fun dropStatus :: "json \<Rightarrow> json" where
  "dropStatus (JObj ms) = JObj (filter (\<lambda>(n, j). n \<noteq> ''status'') ms)"
| "dropStatus j = j"

text \<open>What the server stores for a request body: nothing when the completed object is not valid.\<close>

definition admit :: "checks \<Rightarrow> schema \<Rightarrow> json \<Rightarrow> json option" where
  "admit K s j = (let j' = fill_defaults s j in if schema_valid K s j' then Some j' else None)"

section \<open>The definition of kyuubiclusters\<close>

abbreviation "anyString \<equiv> SString None None"

definition imageSchema :: schema where
  "imageSchema = SObject
     [(''pullPolicy'', SString (Some [''Always'', ''Never'', ''IfNotPresent'']) (Some ''Always'')),
      (''pullSecret'', anyString), (''repository'', anyString), (''tag'', anyString)]
     [''repository'']"

definition hdfsSchema :: schema where
  "hdfsSchema = SObject [(''coreSite'', SMap anyString), (''hdfsSite'', SMap anyString)] []"

definition metastoreSchema :: schema where
  "metastoreSchema = SObject [(''hiveSite'', SMap anyString)] []"

definition sparkSchema :: schema where
  "sparkSchema = SObject
     [(''sparkDefaults'', SMap anyString), (''sparkImage'', imageSchema),
      (''sparkMaster'', anyString), (''sparkNamespace'', anyString)] []"

definition clusterRefSchema :: schema where
  "clusterRefSchema = SObject
     [(''hdfs'', hdfsSchema), (''metastore'', metastoreSchema), (''name'', anyString), (''spark'', sparkSchema),
      (''type'', SString (Some [''spark'', ''metastore'', ''hdfs'', ''flink'']) None)]
     [''name'', ''type'']"

definition resourceSchema :: schema where
  "resourceSchema = SObject [(''replicas'', SInteger True)] [''replicas'']"

definition specSchema :: schema where
  "specSchema = SObject
     [(''clusterRefs'', SArray clusterRefSchema), (''kyuubiConf'', SMap anyString), (''kyuubiImage'', imageSchema),
      (''kyuubiResource'', resourceSchema), (''kyuubiVersion'', anyString)]
     [''clusterRefs'', ''kyuubiConf'', ''kyuubiImage'', ''kyuubiResource'', ''kyuubiVersion'']"

definition servicePortSchema :: schema where
  "servicePortSchema = SObject
     [(''appProtocol'', anyString), (''name'', anyString), (''nodePort'', SInteger True), (''port'', SInteger True),
      (''protocol'', SString None (Some ''TCP'')), (''targetPort'', SIntOrString)]
     [''port'']"

definition exposedInfoSchema :: schema where
  "exposedInfoSchema = SObject
     [(''exposedType'', anyString), (''name'', anyString), (''serviceName'', anyString), (''servicePort'', servicePortSchema)]
     [''exposedType'', ''name'', ''serviceName'', ''servicePort'']"

definition statusSchema :: schema where
  "statusSchema = SObject
     [(''creationTime'', SDateTime), (''exposedInfos'', SArray exposedInfoSchema), (''updateTime'', SDateTime)]
     [''creationTime'', ''exposedInfos'', ''updateTime'']"

definition crdSchema :: schema where
  "crdSchema = SObject
     [(''apiVersion'', anyString), (''kind'', anyString), (''metadata'', SMetadata), (''spec'', specSchema),
      (''status'', statusSchema)] []"

lemmas schema_defs = imageSchema_def hdfsSchema_def metastoreSchema_def sparkSchema_def clusterRefSchema_def
  resourceSchema_def specSchema_def servicePortSchema_def exposedInfoSchema_def statusSchema_def crdSchema_def

section \<open>Schemas and Go types\<close>

named_theorems reads_rules \<open>what codecs and fields read of a schema\<close>

text \<open>
  \<open>reads K s c P\<close>: whatever the schema \<open>s\<close> admits is read by the codec \<open>c\<close>, into any value, and the
  result has the property \<open>P\<close>.
\<close>

definition reads :: "checks \<Rightarrow> schema \<Rightarrow> 'a codec \<Rightarrow> ('a \<Rightarrow> bool) \<Rightarrow> bool" where
  "reads K s c P \<longleftrightarrow> (\<forall>j x. schema_valid K s j \<longrightarrow> (\<exists>y. cd_dec c j x = Inr y \<and> P y))"

lemma readsE:
  assumes "reads K s c P" and "schema_valid K s j"
  obtains y where "cd_dec c j x = Inr y" "P y"
  using assms by (auto simp: reads_def)

lemma reads_mono: "reads K s c P \<Longrightarrow> (\<And>x. P x \<Longrightarrow> Q x) \<Longrightarrow> reads K s c Q"
  by (fastforce simp: reads_def)

lemma reads_string: "reads K (SString e d) string_codec (\<lambda>s. case e of None \<Rightarrow> True | Some vs \<Rightarrow> s \<in> set vs)"
  unfolding reads_def
proof (intro allI impI)
  fix j x
  show "schema_valid K (SString e d) j \<Longrightarrow>
      \<exists>y. cd_dec string_codec j x = Inr y \<and> (case e of None \<Rightarrow> True | Some vs \<Rightarrow> y \<in> set vs)"
    by (cases j) (simp_all add: string_codec_def)
qed

lemma reads_int32: "reads K (SInteger True) int32_codec (\<lambda>_. True)"
  unfolding reads_def
proof (intro allI impI)
  fix j x
  show "schema_valid K (SInteger True) j \<Longrightarrow> \<exists>y. cd_dec int32_codec j x = Inr y \<and> True"
    by (cases j) (simp_all add: int32_codec_def)
qed

lemma reads_map: "reads K (SMap (SString None d)) map_codec (\<lambda>m. m \<noteq> None)"
  unfolding reads_def
proof (intro allI impI)
  fix j x
  assume v: "schema_valid K (SMap (SString None d)) j"
  then obtain ms where j: "j = JObj ms" by (cases j) simp_all
  have "string_or_null v" if "schema_valid K (SString None d) v" for v using that by (cases v) simp_all
  with v j have "list_all (string_or_null \<circ> snd) ms" by (auto simp: list_all_iff simp del: schema_valid.simps(1))
  with decode_entries_Inr_iff obtain g where "decode_entries ms (gm_map x) = Inr g" by blast
  with j show "\<exists>y. cd_dec map_codec j x = Inr y \<and> y \<noteq> None" by (simp add: map_codec_def)
qed

lemma reads_elems:
  assumes "reads K s c P" and "\<forall>j \<in> set js. schema_valid K s j"
  shows "\<exists>xs. decode_elems c js olds = Inr xs \<and> list_all P xs"
  using assms(2)
proof (induction js arbitrary: olds)
  case (Cons j js)
  let ?x = "case olds of [] \<Rightarrow> cd_zero c | x # _ \<Rightarrow> x"
  have "schema_valid K s j" using Cons.prems by simp
  then obtain y where "cd_dec c j ?x = Inr y" "P y" by (rule readsE [OF assms(1)])
  moreover obtain xs where "decode_elems c js (tl olds) = Inr xs" "list_all P xs"
    using Cons.IH [of "tl olds"] Cons.prems by auto
  ultimately show ?case by simp
qed simp

lemma reads_list: "reads K s c P \<Longrightarrow> reads K (SArray s) (list_codec nil c) (list_all P)"
  unfolding reads_def [of K "SArray s"]
proof (intro allI impI)
  fix j x
  assume r: "reads K s c P" and v: "schema_valid K (SArray s) j"
  then obtain js where j: "j = JArr js" "\<forall>j \<in> set js. schema_valid K s j" by (cases j) simp_all
  obtain xs where "decode_elems c js x = Inr xs" "list_all P xs" using reads_elems [OF r j(2), of x] by blast
  with j show "\<exists>y. cd_dec (list_codec nil c) j x = Inr y \<and> list_all P y" by (simp add: list_codec_def)
qed

lemma reads_slice: "reads K s c P \<Longrightarrow> reads K (SArray s) (slice_codec c) (\<lambda>xs. xs \<noteq> None)"
  unfolding reads_def [of K "SArray s"]
proof (intro allI impI)
  fix j x
  assume r: "reads K s c P" and v: "schema_valid K (SArray s) j"
  then obtain js where j: "j = JArr js" "\<forall>j \<in> set js. schema_valid K s j" by (cases j) simp_all
  obtain xs where "decode_elems c js (case x of None \<Rightarrow> [] | Some ys \<Rightarrow> ys) = Inr xs"
    using reads_elems [OF r j(2)] by fast
  with j show "\<exists>y. cd_dec (slice_codec c) j x = Inr y \<and> y \<noteq> None" by (simp add: slice_codec_def)
qed

text \<open>
  A field reads its schema: it establishes its requirement \<open>R n\<close> and keeps those of the other fields.
\<close>

definition field_reads :: "checks \<Rightarrow> (string \<times> schema) list \<Rightarrow> (string \<Rightarrow> 'a \<Rightarrow> bool) \<Rightarrow> 'a jsonField \<Rightarrow> bool" where
  "field_reads K props R f \<longleftrightarrow> (\<exists>s. map_of props (jf_name f) = Some s \<and>
     (\<forall>j x. schema_valid K s j \<longrightarrow> (\<exists>y. jf_dec f j x = Inr y \<and> R (jf_name f) y \<and> (\<forall>n. n \<noteq> jf_name f \<longrightarrow> R n x \<longrightarrow> R n y))))"

lemma reads_members:
  assumes f: "\<forall>f \<in> set fs. jf_name f \<in> fst ` set ms \<longrightarrow> field_reads K props R f"
    and v: "\<forall>(n, j) \<in> set ms. \<forall>(n', s) \<in> set props. n' = n \<longrightarrow> schema_valid K s j"
  shows "\<exists>y. decode_members fs ms x = Inr y \<and> (\<forall>n. n \<in> jf_name ` set fs \<inter> fst ` set ms \<or> R n x \<longrightarrow> R n y)"
  using f v
proof (induction ms arbitrary: x)
  case (Cons m ms)
  obtain n j where m: "m = (n, j)" by fastforce
  have valid: "\<forall>(n, j) \<in> set ms. \<forall>(n', s) \<in> set props. n' = n \<longrightarrow> schema_valid K s j"
    using Cons.prems(2) by simp
  have IH: "\<exists>y. decode_members fs ms x = Inr y \<and> (\<forall>n. n \<in> jf_name ` set fs \<inter> fst ` set ms \<or> R n x \<longrightarrow> R n y)" for x
    by (rule Cons.IH [OF _ valid]) (use Cons.prems(1) in auto)
  show ?case
  proof (cases "find (\<lambda>f. jf_name f = n) fs")
    case None
    then have "n \<notin> jf_name ` set fs" by (auto simp: find_None_iff)
    with None m IH [of x] show ?thesis by auto
  next
    case (Some f)
    then have fn: "f \<in> set fs" "jf_name f = n" by (auto simp: find_Some_iff)
    with Cons.prems(1) m obtain s where s: "map_of props n = Some s"
      "\<And>j x. schema_valid K s j \<Longrightarrow> \<exists>y. jf_dec f j x = Inr y \<and> R n y \<and> (\<forall>m. m \<noteq> n \<longrightarrow> R m x \<longrightarrow> R m y)"
      by (auto simp: field_reads_def)
    have "schema_valid K s j" using map_of_SomeD [OF s(1)] Cons.prems(2) m by auto
    with s(2) obtain y where y: "jf_dec f j x = Inr y" "R n y" "\<And>m. m \<noteq> n \<Longrightarrow> R m x \<Longrightarrow> R m y" by blast
    obtain z where z: "decode_members fs ms y = Inr z" "\<forall>n. n \<in> jf_name ` set fs \<inter> fst ` set ms \<or> R n y \<longrightarrow> R n z"
      using IH [of y] by blast
    have "R m z" if "m \<in> jf_name ` set fs \<inter> fst ` set ((n, j) # ms) \<or> R m x" for m
      using that z(2) y(2,3) by (cases "m = n") auto
    with z(1) y(1) Some m show ?thesis by simp
  qed
qed simp

lemma reads_struct:
  assumes "\<forall>f \<in> set fs. field_reads K props R f" and "set req \<subseteq> jf_name ` set fs"
  shows "reads K (SObject props req) (struct_codec z fs) (\<lambda>x. \<forall>n \<in> set req. R n x)"
  unfolding reads_def
proof (intro allI impI)
  fix j x
  assume v: "schema_valid K (SObject props req) j"
  then obtain ms where j: "j = JObj ms" by (cases j) simp_all
  from v j have r: "set req \<subseteq> fst ` set ms"
    and m: "\<forall>(n, j) \<in> set ms. \<forall>(n', s) \<in> set props. n' = n \<longrightarrow> schema_valid K s j" by simp_all
  obtain y where "decode_members fs ms x = Inr y" "\<forall>n. n \<in> jf_name ` set fs \<inter> fst ` set ms \<or> R n x \<longrightarrow> R n y"
    using reads_members [OF _ m, of fs R x] assms(1) by auto
  with r assms(2) j show "\<exists>y. cd_dec (struct_codec z fs) j x = Inr y \<and> (\<forall>n\<in>set req. R n y)"
    by (auto simp: struct_codec_def)
qed

text \<open>
  A tagged field, from what its codec reads; \<open>get\<close> and \<open>upd\<close> are those of one record field. As a
  conditional rewrite rule, so that a struct is checked by simplification with the collection
  \<open>reads_rules\<close>.
\<close>

lemma field_reads_tag [reads_rules]:
  assumes "map_of props n = Some s" and "reads K s c (\<lambda>v. \<forall>x. R n (upd (\<lambda>_. v) x))"
    and "\<And>v x m. m \<noteq> n \<Longrightarrow> R m x \<Longrightarrow> R m (upd (\<lambda>_. v) x)"
  shows "field_reads K props R (tag n c get upd)" "field_reads K props R (tag_omitempty n c get upd)"
proof -
  show "field_reads K props R (tag n c get upd)"
    unfolding field_reads_def
  proof (intro exI [of _ s] conjI allI impI)
    fix j x
    assume "schema_valid K s j"
    with readsE [OF assms(2)] obtain v where "cd_dec c j (get x) = Inr v" "\<forall>x. R n (upd (\<lambda>_. v) x)" by blast
    with assms(3) show "\<exists>y. jf_dec (tag n c get upd) j x = Inr y \<and> R (jf_name (tag n c get upd)) y \<and>
        (\<forall>m. m \<noteq> jf_name (tag n c get upd) \<longrightarrow> R m x \<longrightarrow> R m y)" by (simp add: tag_def)
  qed (simp add: tag_def assms(1))
  then show "field_reads K props R (tag_omitempty n c get upd)"
    by (simp add: field_reads_def tag_omitempty_def)
qed

lemma jf_name_tag [simp]:
  "jf_name (tag n c get upd) = n" "jf_name (tag_omitempty n c get upd) = n" "jf_name (inline get upd f) = jf_name f"
  by (simp_all add: field_defs)

lemma reads_structI:
  assumes "list_all (field_reads K props R) fs" and "list_all (\<lambda>n. list_ex (\<lambda>f. jf_name f = n) fs) req"
    and "\<And>x. list_all (\<lambda>n. R n x) req \<Longrightarrow> P x"
  shows "reads K (SObject props req) (struct_codec z fs) P"
  by (rule reads_mono [OF reads_struct [of fs K props R req z]]) (use assms in \<open>auto simp: list_all_iff list_ex_iff\<close>)

lemma reads_scalars [reads_rules]:
  "reads K (SString None d) string_codec (\<lambda>_. True)" "reads K (SString (Some vs) d) string_codec (\<lambda>s. s \<in> set vs)"
  "reads K (SInteger True) int32_codec (\<lambda>_. True)" "reads K (SMap (SString None d)) map_codec (\<lambda>m. \<exists>f. m = Some f)"
  "reads K (SMap (SString None d)) map_codec (\<lambda>_. True)"
  using reads_string [of K None d] reads_string [of K "Some vs" d] reads_int32 reads_map [of K d]
  by (simp_all add: reads_def) blast

end
