(* ===== verification/Crd_Correct.thy ===== *)
theory Crd_Correct
  imports Crd_Schema
begin

text \<open>
  The schema of the custom resource definition against the Go types: every object the API server admits
  is read by \<open>json.Unmarshal\<close>, with a configuration map that is not nil, a pull policy of the three that
  the schema lists and references of the four listed types.
\<close>

section \<open>Completed objects\<close>

text \<open>In an object whose defaults are filled in, a property with a default is always present.\<close>

fun completed :: "schema \<Rightarrow> schema" where
  "completed (SObject props req) =
     SObject (map (\<lambda>(n, s). (n, completed s)) props) (req @ map fst (filter (\<lambda>(n, s). schema_default s \<noteq> None) props))"
| "completed (SMap s) = SMap (completed s)"
| "completed (SArray s) = SArray (completed s)"
| "completed s = s"

fun distinct_props :: "schema \<Rightarrow> bool" where
  "distinct_props (SObject props req) = (distinct (map fst props) \<and> (\<forall>(n, s) \<in> set props. distinct_props s))"
| "distinct_props (SMap s) = distinct_props s"
| "distinct_props (SArray s) = distinct_props s"
| "distinct_props s = True"

lemma default_completed: "schema_default s = Some d \<Longrightarrow> completed s = s"
  by (induction s rule: schema_default.induct) simp_all

lemma completed_scalar [simp]:
  "schema_valid K s (JBool b) \<Longrightarrow> completed s = s" "schema_valid K s (JInt i) \<Longrightarrow> completed s = s" "schema_valid K s (JStr t) \<Longrightarrow> completed s = s"
  by (cases s; simp)+

text \<open>The members of a completed object, and which are there.\<close>

lemma fill_object:
  obtains out where "fill_defaults (SObject props req) (JObj ms) = JObj out"
    "\<And>n v. (n, v) \<in> set out \<Longrightarrow>
       \<exists>s. (n, s) \<in> set props \<and> (schema_default s = Some v \<or> (\<exists>j. nonNull ms n = Some j \<and> v = fill_defaults s j))"
    "\<And>n s. (n, s) \<in> set props \<Longrightarrow> schema_default s \<noteq> None \<or> nonNull ms n \<noteq> None \<Longrightarrow> n \<in> fst ` set out"
proof -
  let ?mem = "\<lambda>(n, s). case nonNull ms n of
         None \<Rightarrow> (case schema_default s of None \<Rightarrow> [] | Some d \<Rightarrow> [(n, d)])
       | Some j \<Rightarrow> [(n, fill_defaults s j)]"
  define out where "out = concat (map ?mem props)"
  have "fill_defaults (SObject props req) (JObj ms) = JObj out" by (simp only: out_def fill_defaults.simps)
  moreover have "\<exists>s. (n, s) \<in> set props \<and> (schema_default s = Some v \<or> (\<exists>j. nonNull ms n = Some j \<and> v = fill_defaults s j))"
    if "(n, v) \<in> set out" for n v
    using that by (auto simp: out_def split: option.splits)
  moreover have "n \<in> fst ` set out" if "(n, s) \<in> set props" "schema_default s \<noteq> None \<or> nonNull ms n \<noteq> None" for n s
  proof -
    have "\<exists>v. (n, v) \<in> set (?mem (n, s))" using that(2) by (auto split: option.splits)
    with that(1) show ?thesis unfolding out_def by force
  qed
  ultimately show thesis using that by blast
qed

lemma completed_valid:
  assumes "schema_valid K s (fill_defaults s j)" and "distinct_props s"
  shows "schema_valid K (completed s) (fill_defaults s j)"
  using assms
proof (induction s j rule: fill_defaults.induct)
  case (1 props req ms)
  obtain out where e: "fill_defaults (SObject props req) (JObj ms) = JObj out"
    and mem: "\<And>n v. (n, v) \<in> set out \<Longrightarrow>
       \<exists>s. (n, s) \<in> set props \<and> (schema_default s = Some v \<or> (\<exists>j. nonNull ms n = Some j \<and> v = fill_defaults s j))"
    and p: "\<And>n s. (n, s) \<in> set props \<Longrightarrow> schema_default s \<noteq> None \<or> nonNull ms n \<noteq> None \<Longrightarrow> n \<in> fst ` set out"
    by (rule fill_object [of props req ms]) (rule that)
  have v: "set req \<subseteq> fst ` set out" "\<forall>(n, j) \<in> set out. \<forall>(n', s) \<in> set props. n' = n \<longrightarrow> schema_valid K s j"
    using 1(2) [unfolded e] by simp_all
  have c: "schema_valid K (completed s) v" if m: "(n, v) \<in> set out" "(n, s) \<in> set props" for n v s
  proof -
    obtain s' where s': "(n, s') \<in> set props" "schema_default s' = Some v \<or> (\<exists>j. nonNull ms n = Some j \<and> v = fill_defaults s' j)"
      using mem [OF m(1)] by blast
    have ok: "schema_valid K s v" using v(2) m by blast
    have s: "s' = s" "distinct_props s" using s'(1) m(2) 1(3) by (auto dest: eq_key_imp_eq_value)
    from s'(2) s ok 1(1) [of "(n, s)" n s] m(2) show ?thesis by (auto simp: default_completed)
  qed
  show ?case unfolding e completed.simps schema_valid.simps using v(1) p c by fastforce
next
  case (2 s ms)
  then show ?case by (auto simp: split_beta)
next
  case (3 s js)
  then show ?case by simp
qed (simp_all add: completed_scalar)

section \<open>What the Go types read\<close>

definition pullPolicies :: "string list" where
  "pullPolicies = [''Always'', ''Never'', ''IfNotPresent'']"

definition clusterTypes :: "string list" where
  "clusterTypes = [SparkClusterType, MetaStoreClusterType, HdfsClusterType, FlinkClusterType]"

lemma object_schema_default [simp]:
  "schema_default imageSchema = None" "schema_default hdfsSchema = None" "schema_default metastoreSchema = None"
  "schema_default sparkSchema = None" "schema_default clusterRefSchema = None" "schema_default resourceSchema = None"
  "schema_default specSchema = None" "schema_default servicePortSchema = None" "schema_default exposedInfoSchema = None"
  "schema_default statusSchema = None"
  by (simp_all add: schema_defs)

lemma reads_image [reads_rules]:
  "reads K (completed imageSchema) ImageConfig_codec (\<lambda>x. ic_PullPolicy x \<in> set pullPolicies)"
  by (simp add: ImageConfig_codec_def imageSchema_def del: list.set,
      rule reads_structI [where R = "\<lambda>n x. n = ''pullPolicy'' \<longrightarrow> ic_PullPolicy x \<in> set pullPolicies"])
    (simp_all add: ImageConfig_fields_def pullPolicies_def reads_rules del: list.set)

lemma reads_plain: "reads K s c P \<Longrightarrow> reads K s c (\<lambda>_. True)"
  by (erule reads_mono) simp

lemma reads_resource [reads_rules]: "reads K (completed resourceSchema) ResourceConfig_codec (\<lambda>_. True)"
  by (simp add: ResourceConfig_codec_def resourceSchema_def, rule reads_structI [where R = "\<lambda>_ _. True"])
    (simp_all add: ResourceConfig_fields_def reads_rules)

lemma reads_hdfs [reads_rules]: "reads K (completed hdfsSchema) HdfsCluster_codec (\<lambda>_. True)"
  by (simp add: HdfsCluster_codec_def hdfsSchema_def, rule reads_structI [where R = "\<lambda>_ _. True"])
    (simp_all add: HdfsCluster_fields_def reads_rules)

lemma reads_metastore [reads_rules]: "reads K (completed metastoreSchema) MetastoreCluster_codec (\<lambda>_. True)"
  by (simp add: MetastoreCluster_codec_def metastoreSchema_def, rule reads_structI [where R = "\<lambda>_ _. True"])
    (simp_all add: MetastoreCluster_fields_def reads_rules)

lemma reads_spark [reads_rules]: "reads K (completed sparkSchema) SparkCluster_codec (\<lambda>_. True)"
  by (simp add: SparkCluster_codec_def sparkSchema_def, rule reads_structI [where R = "\<lambda>_ _. True"])
    (simp_all add: SparkCluster_fields_def reads_rules reads_plain [OF reads_image])

lemma reads_ref [reads_rules]: "reads K (completed clusterRefSchema) ClusterRef_codec (\<lambda>r. cr_Type r \<in> set clusterTypes)"
  by (simp add: ClusterRef_codec_def clusterRefSchema_def del: list.set,
      rule reads_structI [where R = "\<lambda>n r. n = ''type'' \<longrightarrow> cr_Type r \<in> set clusterTypes"])
    (simp_all add: ClusterRef_fields_def clusterTypes_def const_defs reads_rules del: list.set)

text \<open>What the schema guarantees of a spec.\<close>

definition admittedSpec :: "KyuubiClusterSpec \<Rightarrow> bool" where
  "admittedSpec s \<longleftrightarrow> kcs_KyuubiConf s \<noteq> None \<and> ic_PullPolicy (kcs_KyuubiImage s) \<in> set pullPolicies \<and>
     list_all (\<lambda>r. cr_Type r \<in> set clusterTypes) (kcs_ClusterRefs s)"

definition specPart :: "string \<Rightarrow> KyuubiClusterSpec \<Rightarrow> bool" where
  "specPart n s =
     (if n = ''kyuubiConf'' then (\<exists>f. kcs_KyuubiConf s = Some f)
      else if n = ''kyuubiImage'' then ic_PullPolicy (kcs_KyuubiImage s) \<in> set pullPolicies
      else if n = ''clusterRefs'' then list_all (\<lambda>r. cr_Type r \<in> set clusterTypes) (kcs_ClusterRefs s)
      else True)"

lemma specPart_simps:
  "specPart ''kyuubiVersion'' s" "specPart ''kyuubiResource'' s"
  "specPart ''kyuubiConf'' s \<longleftrightarrow> (\<exists>f. kcs_KyuubiConf s = Some f)"
  "specPart ''kyuubiImage'' s \<longleftrightarrow> ic_PullPolicy (kcs_KyuubiImage s) \<in> set pullPolicies"
  "specPart ''clusterRefs'' s \<longleftrightarrow> list_all (\<lambda>r. cr_Type r \<in> set clusterTypes) (kcs_ClusterRefs s)"
  "specPart n (s\<lparr>kcs_KyuubiVersion := v\<rparr>) = specPart n s" "specPart n (s\<lparr>kcs_KyuubiResource := r\<rparr>) = specPart n s"
  "n \<noteq> ''kyuubiConf'' \<Longrightarrow> specPart n (s\<lparr>kcs_KyuubiConf := c\<rparr>) = specPart n s"
  "n \<noteq> ''kyuubiImage'' \<Longrightarrow> specPart n (s\<lparr>kcs_KyuubiImage := i\<rparr>) = specPart n s"
  "n \<noteq> ''clusterRefs'' \<Longrightarrow> specPart n (s\<lparr>kcs_ClusterRefs := l\<rparr>) = specPart n s"
  by (simp_all add: specPart_def)

lemma reads_spec [reads_rules]: "reads K (completed specSchema) (KyuubiClusterSpec_codec nil) admittedSpec"
  by (simp add: KyuubiClusterSpec_codec_def specSchema_def, rule reads_structI [where R = specPart])
    (simp_all add: KyuubiClusterSpec_fields_def specPart_simps admittedSpec_def reads_rules reads_list)

section \<open>The whole resource\<close>

lemma field_reads_inline:
  assumes "map_of props (jf_name f) = Some (SString None d)" and "f \<in> set TypeMeta_fields"
    and "\<And>v x m. R m x \<Longrightarrow> R m (upd (\<lambda>_. v) x)" and "\<And>x. R (jf_name f) x"
  shows "field_reads K props R (inline get upd f)"
  unfolding field_reads_def
proof (intro exI [of _ "SString None d"] conjI allI impI)
  fix j x
  assume "schema_valid K (SString None d) j"
  then obtain t where "j = JStr t" by (cases j) simp_all
  with assms(2) have "\<exists>v. jf_dec f j (get x) = Inr v"
    by (auto simp: TypeMeta_fields_def field_defs string_codec_def)
  with assms(3,4) show "\<exists>y. jf_dec (inline get upd f) j x = Inr y \<and> R (jf_name (inline get upd f)) y \<and>
      (\<forall>n. n \<noteq> jf_name (inline get upd f) \<longrightarrow> R n x \<longrightarrow> R n y)" by (auto simp: inline_def)
qed (simp add: assms(1))

text \<open>What can be said of the spec of a resource that was read into a zero value.\<close>

definition clusterPart :: "string \<Rightarrow> KyuubiCluster \<Rightarrow> bool" where
  "clusterPart n k =
     (if n = ''spec'' then admittedSpec (kc_Spec k) \<or> kc_Spec k = kc_Spec zeroKyuubiCluster
      else if n = ''status'' then kc_Status k = zeroStatus
      else True)"

lemma clusterPart_simps:
  "clusterPart ''metadata'' k" "clusterPart ''kind'' k" "clusterPart ''apiVersion'' k"
  "clusterPart n (k\<lparr>kc_Meta := m\<rparr>) = clusterPart n k" "clusterPart n (k\<lparr>kc_TypeMeta := t\<rparr>) = clusterPart n k"
  "n \<noteq> ''spec'' \<Longrightarrow> clusterPart n (k\<lparr>kc_Spec := s\<rparr>) = clusterPart n k"
  "admittedSpec s \<Longrightarrow> clusterPart ''spec'' (k\<lparr>kc_Spec := s\<rparr>)"
  "clusterPart n zeroKyuubiCluster"
  by (simp_all add: clusterPart_def) (simp add: zeroKyuubiCluster_def)

text \<open>Metadata that passes the server's own check is read.\<close>

locale wire_reads = wire_law +
  fixes K :: checks
  assumes reads_meta: "reads K SMetadata (wr_ObjectMeta W) (\<lambda>_. True)"
begin

lemma cluster_fields_read:
  assumes "completed crdSchema = SObject props req"
  shows "list_all (\<lambda>f. jf_name f \<noteq> ''status'' \<longrightarrow> field_reads K props clusterPart f) (KyuubiCluster_fields nil W)"
proof -
  have "reads K (completed specSchema) (KyuubiClusterSpec_codec nil) (\<lambda>s. \<forall>k. clusterPart ''spec'' (k\<lparr>kc_Spec := s\<rparr>))"
    by (rule reads_mono [OF reads_spec]) (simp add: clusterPart_simps)
  moreover have "list_all (\<lambda>f. field_reads K props clusterPart (inline kc_TypeMeta kc_TypeMeta_update f)) TypeMeta_fields"
    unfolding list_all_iff
    by (rule ballI, rule field_reads_inline) (use assms in \<open>auto simp: crdSchema_def TypeMeta_fields_def clusterPart_simps\<close>)
  ultimately show ?thesis
    using assms by (auto simp: KyuubiCluster_fields_def crdSchema_def TypeMeta_fields_def clusterPart_simps reads_meta reads_rules)
qed

lemma request_read:
  assumes "schema_valid K (completed crdSchema) (JObj ms)" and "''status'' \<notin> fst ` set ms"
  shows "\<exists>k. decode_members (KyuubiCluster_fields True W) ms zeroKyuubiCluster = Inr k \<and> (\<forall>n. clusterPart n k)"
proof -
  obtain props where c: "completed crdSchema = SObject props []" by (simp add: crdSchema_def)
  with assms(1) have m: "\<forall>(n, j) \<in> set ms. \<forall>(n', s) \<in> set props. n' = n \<longrightarrow> schema_valid K s j" by simp
  have f: "\<forall>f \<in> set (KyuubiCluster_fields True W). jf_name f \<in> fst ` set ms \<longrightarrow> field_reads K props clusterPart f"
    using cluster_fields_read [OF c, of True] assms(2) by (force simp: list_all_iff)
  from reads_members [OF f m, of zeroKyuubiCluster] show ?thesis by (auto simp: clusterPart_simps)
qed

lemma decode_members_append:
  "decode_members fs (ms @ ms') x = (case decode_members fs ms x of Inl e \<Rightarrow> Inl e | Inr y \<Rightarrow> decode_members fs ms' y)"
  by (induction fs ms x rule: decode_members.induct) (auto split: option.split sum.split)

lemma status_member_read:
  "kc_Status k = zeroStatus \<Longrightarrow>
   decode_members (KyuubiCluster_fields nil W) [(''status'', cd_enc (KyuubiClusterStatus_codec W) st)] k =
     Inr (k\<lparr>kc_Status := normStatus normTime normPort st\<rparr>)"
  by (simp add: KyuubiCluster_fields_def TypeMeta_fields_def tag_omitempty_def
      codec_law.roundtrip [OF status_law, unfolded zero_codecs] tag_def)

lemma dropped_status:
  assumes "admit K crdSchema (dropStatus j) = Some j'"
  obtains ms where "j' = JObj ms" "''status'' \<notin> fst ` set ms"
proof -
  obtain ms where ms: "j = JObj ms" using assms by (cases j) (auto simp: admit_def crdSchema_def split: if_splits)
  have "nonNull (filter (\<lambda>(n, j). n \<noteq> ''status'') ms) ''status'' = None"
    by (auto simp: nonNull_def map_of_eq_None_iff split: if_splits dest: map_of_SomeD)
  with assms ms that show thesis
    by (force simp: admit_def crdSchema_def Let_def split: if_splits option.splits)
qed

end

lemma distinct_crdSchema: "distinct_props crdSchema"
  by (simp add: schema_defs)

section \<open>What the Go types write\<close>

text \<open>A written struct is admitted when its fields are and the required ones are written.\<close>

lemma writes_struct:
  assumes "distinct (map fst props)" and "distinct (map jf_name fs)"
    and fields: "list_all (\<lambda>f. jf_omit f x \<or> jf_enc f x = JNull \<or>
      (\<exists>s. map_of props (jf_name f) = Some s \<and> schema_valid K s (fill_defaults s (jf_enc f x)))) fs"
    and defaults: "list_all (\<lambda>(n, s). case schema_default s of None \<Rightarrow> True | Some d \<Rightarrow> schema_valid K s d) props"
    and required: "list_all (\<lambda>n. list_ex (\<lambda>f. jf_name f = n \<and> \<not> jf_omit f x \<and> jf_enc f x \<noteq> JNull) fs \<and> n \<in> fst ` set props) req"
  shows "schema_valid K (SObject props req) (fill_defaults (SObject props req) (encode_struct fs x))"
proof -
  let ?ms = "map (\<lambda>f. (jf_name f, jf_enc f x)) (filter (\<lambda>f. \<not> jf_omit f x) fs)"
  obtain out where e: "fill_defaults (SObject props req) (JObj ?ms) = JObj out"
    and mem: "\<And>n v. (n, v) \<in> set out \<Longrightarrow>
       \<exists>s. (n, s) \<in> set props \<and> (schema_default s = Some v \<or> (\<exists>j. nonNull ?ms n = Some j \<and> v = fill_defaults s j))"
    and p: "\<And>n s. (n, s) \<in> set props \<Longrightarrow> schema_default s \<noteq> None \<or> nonNull ?ms n \<noteq> None \<Longrightarrow> n \<in> fst ` set out"
    by (rule fill_object [of props req ?ms]) (rule that)
  have d: "distinct (map fst ?ms)" using assms(2) by (simp add: comp_def distinct_map inj_on_def)
  have "n \<in> fst ` set out" if "n \<in> set req" for n
  proof -
    from required that obtain f where f: "f \<in> set fs" "jf_name f = n" "\<not> jf_omit f x" "jf_enc f x \<noteq> JNull" "n \<in> fst ` set props"
      by (auto simp: list_all_iff list_ex_iff)
    then have "map_of ?ms n = Some (jf_enc f x)" using d by (intro map_of_is_SomeI) auto
    with f have "nonNull ?ms n \<noteq> None" by (simp add: nonNull_def)
    with f(5) p show ?thesis by force
  qed
  moreover have "schema_valid K s v" if m: "(n, v) \<in> set out" "(n, s) \<in> set props" for n v s
  proof -
    from mem [OF m(1)] m(2) assms(1) have "schema_default s = Some v \<or> (\<exists>j. nonNull ?ms n = Some j \<and> v = fill_defaults s j)"
      by (auto dest: eq_key_imp_eq_value)
    then show ?thesis
    proof (elim disjE exE conjE)
      assume "schema_default s = Some v"
      with defaults m(2) show ?thesis by (auto simp: list_all_iff)
    next
      fix j
      assume j: "nonNull ?ms n = Some j" "v = fill_defaults s j"
      then have "map_of ?ms n = Some j" "j \<noteq> JNull" by (auto simp: nonNull_def split: if_splits)
      from map_of_SomeD [OF this(1)] this(2) obtain f where f: "f \<in> set fs" "jf_name f = n" "jf_enc f x = j" "\<not> jf_omit f x" "j \<noteq> JNull"
        by auto
      with fields assms(1) have "\<exists>s. (n, s) \<in> set props \<and> schema_valid K s (fill_defaults s j)"
        by (fastforce simp: list_all_iff)
      with assms(1) m(2) j(2) show ?thesis by (auto dest: eq_key_imp_eq_value)
    qed
  qed
  ultimately show ?thesis unfolding encode_struct_def e by auto
qed

text \<open>
  The foreign types write what the server accepts: a time is null when it is zero and a date-time
  otherwise, and a service port is an object that the generated schema admits once completed.
\<close>

locale wire_writes =
  fixes K :: checks and W :: wire
  assumes writes_zero_time: "cd_enc (wr_Time W) 0 = JNull"
    and writes_time: "t \<noteq> 0 \<Longrightarrow> \<exists>s. cd_enc (wr_Time W) t = JStr s \<and> ck_dateTime K s"
    and writes_port: "schema_valid K servicePortSchema (fill_defaults servicePortSchema (cd_enc (wr_ServicePort W) p))"
    and writes_port_object: "cd_enc (wr_ServicePort W) p \<noteq> JNull"
begin

lemma info_admitted:
  "schema_valid K exposedInfoSchema (fill_defaults exposedInfoSchema (cd_enc (ExposedInfo_codec W) i))"
  by (simp add: ExposedInfo_codec_def struct_codec_def encode_struct_def ExposedInfo_fields_def exposedInfoSchema_def
      tag_def string_codec_def nonNull_def writes_port writes_port_object)

lemma fill_dateTime: "fill_defaults SDateTime j = j"
  by (cases j) simp_all

lemma time_admitted:
  "nonNull ms n = (if t = 0 then None else Some (cd_enc (wr_Time W) t))" if "map_of ms n = Some (cd_enc (wr_Time W) t)"
  by (cases "t = 0") (use that writes_zero_time writes_time [of t] in \<open>auto simp: nonNull_def\<close>)

lemma status_admitted_iff:
  "admit K statusSchema (cd_enc (KyuubiClusterStatus_codec W) st) \<noteq> None \<longleftrightarrow>
     st_ExposedInfos st \<noteq> None \<and> st_CreationTime st \<noteq> 0 \<and> st_UpdateTime st \<noteq> 0"
proof -
  let ?ms = "[(''exposedInfos'', cd_enc (slice_codec (ExposedInfo_codec W)) (st_ExposedInfos st)),
    (''creationTime'', cd_enc (wr_Time W) (st_CreationTime st)), (''updateTime'', cd_enc (wr_Time W) (st_UpdateTime st))]"
  have enc: "cd_enc (KyuubiClusterStatus_codec W) st = JObj ?ms"
    by (simp add: KyuubiClusterStatus_codec_def struct_codec_def encode_struct_def KyuubiClusterStatus_fields_def tag_def)
  have p: "nonNull ?ms ''creationTime'' = (if st_CreationTime st = 0 then None else Some (cd_enc (wr_Time W) (st_CreationTime st)))"
    "nonNull ?ms ''updateTime'' = (if st_UpdateTime st = 0 then None else Some (cd_enc (wr_Time W) (st_UpdateTime st)))"
    by (simp_all add: time_admitted)
  have i: "nonNull ?ms ''exposedInfos'' = map_option (\<lambda>xs. JArr (map (cd_enc (ExposedInfo_codec W)) xs)) (st_ExposedInfos st)"
    by (simp add: nonNull_def slice_codec_def split: option.split)
  have "fill_defaults statusSchema (JObj ?ms) = JObj
      ((if st_CreationTime st = 0 then [] else [(''creationTime'', cd_enc (wr_Time W) (st_CreationTime st))]) @
       (case st_ExposedInfos st of None \<Rightarrow> []
        | Some xs \<Rightarrow> [(''exposedInfos'', JArr (map (\<lambda>x. fill_defaults exposedInfoSchema (cd_enc (ExposedInfo_codec W) x)) xs))]) @
       (if st_UpdateTime st = 0 then [] else [(''updateTime'', cd_enc (wr_Time W) (st_UpdateTime st))]))"
    by (simp add: statusSchema_def p i fill_dateTime del: map_of.simps split: option.split)
  note f = this [folded enc]
  note t = writes_time [of "st_CreationTime st"] writes_time [of "st_UpdateTime st"]
  show ?thesis
    unfolding admit_def f
    by (cases "st_CreationTime st = 0"; cases "st_UpdateTime st = 0"; cases "st_ExposedInfos st")
      (use t in \<open>auto simp: statusSchema_def info_admitted\<close>)
qed

end

end
