(* ===== verification/Wire_Reference.thy ===== *)
theory Wire_Reference
  imports Crd_Correct Samples
begin

text \<open>
  Codecs for the foreign types of the wire format, made with the same combinators from the tags that
  the Kubernetes API documents, to show that the laws of \<open>wire_law\<close>, \<open>wire_reads\<close> and \<open>wire_writes\<close> can
  hold together; a time is written as its number of seconds instead of RFC 3339. Then the properties of
  the wire format and of the custom resource definition.
\<close>

section \<open>Further kinds\<close>

fun decode_bool :: "bool decoder" where
  "decode_bool JNull b = Inr b"
| "decode_bool (JBool b') b = Inr b'"
| "decode_bool j b = Inl (unmarshalTypeError j ''bool'')"

definition bool_codec :: "bool codec" where
  "bool_codec = \<lparr>cd_zero = False, cd_empty = Not, cd_enc = JBool, cd_dec = decode_bool\<rparr>"

definition pointer_codec :: "'a codec \<Rightarrow> 'a option codec" where
  "pointer_codec c = \<lparr>cd_zero = None, cd_empty = (\<lambda>p. p = None),
     cd_enc = (\<lambda>p. case p of None \<Rightarrow> JNull | Some x \<Rightarrow> cd_enc c x),
     cd_dec = (\<lambda>j p. if j = JNull then Inr None else map_sum id Some (cd_dec c j (case p of None \<Rightarrow> cd_zero c | Some x \<Rightarrow> x)))\<rparr>"

fun decode_intOrString :: "IntOrString decoder" where
  "decode_intOrString (JStr s) v = Inr (StrVal s)"
| "decode_intOrString j v = map_sum id IntVal (decode_int32 j 0)"

definition intOrString_codec :: "IntOrString codec" where
  "intOrString_codec = \<lparr>cd_zero = IntVal 0, cd_empty = (\<lambda>v. False),
     cd_enc = (\<lambda>v. case v of IntVal n \<Rightarrow> JInt (sint n) | StrVal s \<Rightarrow> JStr s), cd_dec = decode_intOrString\<rparr>"

fun decode_time :: "Time decoder" where
  "decode_time JNull t = Inr 0"
| "decode_time (JStr s) t = Inr (int (atoi s))"
| "decode_time j t = Inl (unmarshalTypeError j ''Time'')"

definition time_codec :: "Time codec" where
  "time_codec = \<lparr>cd_zero = 0, cd_empty = (\<lambda>t. False), cd_enc = (\<lambda>t. if t = 0 then JNull else JStr (strconv_Itoa (nat t))),
     cd_dec = decode_time\<rparr>"

section \<open>The reference wire\<close>

definition ownerRef_codec :: "OwnerReference codec" where
  "ownerRef_codec = struct_codec \<lparr>or_Kind = [], or_Name = [], or_UID = [], or_Controller = False\<rparr>
    [tag ''kind'' string_codec or_Kind or_Kind_update, tag ''name'' string_codec or_Name or_Name_update,
     tag ''uid'' string_codec or_UID or_UID_update, tag_omitempty ''controller'' bool_codec or_Controller or_Controller_update]"

definition refMeta :: "ObjectMeta codec" where
  "refMeta = struct_codec zeroMeta
    [tag_omitempty ''name'' string_codec om_Name om_Name_update, tag_omitempty ''namespace'' string_codec om_Namespace om_Namespace_update,
     tag_omitempty ''uid'' string_codec om_UID om_UID_update,
     tag_omitempty ''resourceVersion'' string_codec om_ResourceVersion om_ResourceVersion_update,
     tag_omitempty ''labels'' map_codec om_Labels om_Labels_update,
     tag_omitempty ''ownerReferences'' (list_codec True ownerRef_codec) om_OwnerReferences om_OwnerReferences_update]"

definition refListMeta :: "ListMeta codec" where
  "refListMeta = struct_codec zeroListMeta
    [tag_omitempty ''resourceVersion'' string_codec lm_ResourceVersion lm_ResourceVersion_update,
     tag_omitempty ''continue'' string_codec lm_Continue lm_Continue_update]"

definition refPort :: "ServicePort codec" where
  "refPort = struct_codec
     \<lparr>sp_Name = [], sp_Protocol = [], sp_AppProtocol = None, sp_Port = 0, sp_TargetPort = IntVal 0, sp_NodePort = 0\<rparr>
    [tag_omitempty ''name'' string_codec sp_Name sp_Name_update, tag_omitempty ''protocol'' string_codec sp_Protocol sp_Protocol_update,
     tag_omitempty ''appProtocol'' (pointer_codec string_codec) sp_AppProtocol sp_AppProtocol_update,
     tag ''port'' int32_codec sp_Port sp_Port_update,
     tag_omitempty ''targetPort'' intOrString_codec sp_TargetPort sp_TargetPort_update,
     tag_omitempty ''nodePort'' int32_codec sp_NodePort sp_NodePort_update]"

definition refWire :: wire where
  "refWire = \<lparr>wr_ObjectMeta = refMeta, wr_ListMeta = refListMeta, wr_Time = time_codec, wr_ServicePort = refPort\<rparr>"

definition metaSchema :: schema where
  "metaSchema = SObject
    [(''name'', anyString), (''namespace'', anyString), (''uid'', anyString), (''resourceVersion'', anyString), (''labels'', SMap anyString),
     (''ownerReferences'', SArray (SObject
       [(''kind'', anyString), (''name'', anyString), (''uid'', anyString), (''controller'', SBoolean)] []))] []"

definition refChecks :: checks where
  "refChecks = \<lparr>ck_dateTime = (\<lambda>s. True), ck_metadata = (\<lambda>ms. schema_valid \<lparr>ck_dateTime = (\<lambda>s. True), ck_metadata = (\<lambda>ms. False)\<rparr> metaSchema (JObj ms))\<rparr>"

definition refNormMeta :: "ObjectMeta \<Rightarrow> ObjectMeta" where
  "refNormMeta m = m\<lparr>om_Labels := omitEmpty (om_Labels m)\<rparr>"

lemma kinds_step [simp]:
  "cd_dec bool_codec (cd_enc bool_codec b) b0 = Inr b" "cd_empty bool_codec b \<longleftrightarrow> \<not> b"
  "cd_dec (pointer_codec string_codec) (cd_enc (pointer_codec string_codec) p) None = Inr p"
  "cd_empty (pointer_codec c) q \<longleftrightarrow> q = None"
  "cd_dec intOrString_codec (cd_enc intOrString_codec v) v0 = Inr v" "cd_empty intOrString_codec v = False"
  "cd_empty int32_codec n \<longleftrightarrow> n = 0" "cd_empty (list_codec nil c) xs \<longleftrightarrow> xs = []"
  by (auto simp: bool_codec_def pointer_codec_def string_codec_def intOrString_codec_def int32_codec_def list_codec_def
      int32_range_sint split: option.split IntOrString.split)

interpretation ownerRef_wire: codec_law ownerRef_codec id
  unfolding ownerRef_codec_def
  by (rule codec_law_structI) (auto simp: encode_struct_def field_defs)

interpretation meta_wire: codec_law refMeta refNormMeta
  unfolding refMeta_def
  by (rule codec_law_structI)
    (simp add: encode_struct_def field_defs zeroMeta_def refNormMeta_def omitEmpty_def ownerRef_wire.list_roundtrip [of True, simplified])

interpretation listMeta_wire: codec_law refListMeta id
  unfolding refListMeta_def
  by (rule codec_law_structI) (auto simp: encode_struct_def field_defs zeroListMeta_def)

interpretation port_wire: codec_law refPort id
  unfolding refPort_def
  by (rule codec_law_structI) (simp add: encode_struct_def field_defs)

interpretation time_wire: codec_law time_codec "\<lambda>t. max 0 t"
  by unfold_locales (simp add: time_codec_def atoi_Itoa)

interpretation ref_wire_law: wire_law refWire refNormMeta id "\<lambda>t. max 0 t" id
  by unfold_locales
    (simp_all add: refWire_def meta_wire.roundtrip listMeta_wire.roundtrip port_wire.roundtrip time_wire.roundtrip,
     simp_all add: refMeta_def refListMeta_def time_codec_def)

lemma reads_bool [reads_rules]: "reads K SBoolean bool_codec (\<lambda>_. True)"
  unfolding reads_def
proof (intro allI impI)
  fix j x
  show "schema_valid K SBoolean j \<Longrightarrow> \<exists>y. cd_dec bool_codec j x = Inr y \<and> True"
    by (cases j) (simp_all add: bool_codec_def)
qed

lemma reads_ownerRef:
  "reads K (SObject [(''kind'', anyString), (''name'', anyString), (''uid'', anyString), (''controller'', SBoolean)] [])
     ownerRef_codec (\<lambda>_. True)"
  unfolding ownerRef_codec_def
  by (rule reads_structI [where R = "\<lambda>_ _. True"]) (simp_all add: reads_rules)

lemma reads_refMeta: "reads K metaSchema refMeta (\<lambda>_. True)"
  unfolding refMeta_def metaSchema_def
  by (rule reads_structI [where R = "\<lambda>_ _. True"])
    (simp_all add: reads_rules reads_plain [OF reads_list [OF reads_ownerRef]])

interpretation ref_wire_reads: wire_reads refWire refNormMeta id "\<lambda>t. max 0 t" id refChecks
proof
  show "reads refChecks SMetadata (wr_ObjectMeta refWire) (\<lambda>_. True)"
    unfolding reads_def
  proof (intro allI impI)
    fix j and x :: ObjectMeta
    assume v: "schema_valid refChecks SMetadata j"
    then obtain ms where "j = JObj ms" by (cases j) simp_all
    with v readsE [OF reads_refMeta, of _ j] show "\<exists>y. cd_dec (wr_ObjectMeta refWire) j x = Inr y \<and> True"
      by (simp add: refWire_def refChecks_def) metis
  qed
qed

lemma refPort_admitted: "schema_valid K servicePortSchema (fill_defaults servicePortSchema (cd_enc refPort p))"
  unfolding refPort_def servicePortSchema_def struct_codec_def codec.simps
  by (rule writes_struct)
    (simp_all add: field_defs string_codec_def int32_codec_def int32_range_sint pointer_codec_def intOrString_codec_def
      split: option.split IntOrString.split)

interpretation ref_wire_writes: wire_writes refChecks refWire
  by unfold_locales
    (simp_all add: refWire_def refPort_admitted, simp_all add: time_codec_def refChecks_def refPort_def struct_codec_def encode_struct_def)

end
