(* ===== verification/Wire_Format.thy ===== *)
theory Wire_Format
  imports Wire_Reference
begin

text \<open>
  The properties of the wire format and of the custom resource definition, over the codecs of
  \<open>Api_Json\<close> and the schema of \<open>Crd_Schema\<close>, with the README's example as the concrete case.
\<close>

section \<open>The README's example as text\<close>

definition confJson :: "(string \<times> string) list \<Rightarrow> json" where
  "confJson es = JObj (map (\<lambda>(k, v). (k, JStr v)) es)"

definition imageJson :: "string \<Rightarrow> string \<Rightarrow> json" where
  "imageJson r t = JObj [(''repository'', JStr r), (''tag'', JStr t)]"

text \<open>\<open>config/samples/kyuubi_v1alpha1_kyuubicluster.yaml\<close>, in JSON (labels left out).\<close>

definition readmeSpecJson :: json where
  "readmeSpecJson = JObj
    [(''kyuubiVersion'', JStr ''1.8.1''), (''kyuubiImage'', imageJson ''nineinfra/kyuubi'' ''v1.8.1''),
     (''kyuubiResource'', JObj [(''replicas'', JInt 1)]),
     (''kyuubiConf'', confJson
       [(''kyuubi.kubernetes.namespace'', ''dwh''), (''kyuubi.frontend.connection.url.use.hostname'', ''false''),
        (''kyuubi.frontend.thrift.binary.bind.port'', ''10009''), (''kyuubi.frontend.thrift.http.bind.port'', ''10010''),
        (''kyuubi.frontend.rest.bind.port'', ''10099''), (''kyuubi.frontend.mysql.bind.port'', ''3309''),
        (''kyuubi.frontend.protocols'', ''REST,THRIFT_BINARY''), (''kyuubi.metrics.enabled'', ''false'')]),
     (''clusterRefs'', JArr
       [JObj [(''name'', JStr ''spark''), (''type'', JStr ''spark''), (''spark'', JObj
          [(''sparkMaster'', JStr ''k8s''), (''sparkImage'', imageJson ''nineinfra/spark'' ''v3.2.4''), (''sparkNamespace'', JStr ''dwh'')])],
        JObj [(''name'', JStr ''hdfs''), (''type'', JStr ''hdfs''), (''hdfs'', JObj
          [(''coreSite'', confJson [(''fs.defaultFS'', ''hdfs://hdfs.dwh.svc:9820'')]),
           (''hdfsSite'', confJson [(''dfs.client.block.write.retries'', ''3'')])])],
        JObj [(''name'', JStr ''metastore''), (''type'', JStr ''metastore''), (''metastore'', JObj
          [(''hiveSite'', confJson
             [(''hive.metastore.uris'', ''thrift://hive-metastore.dwh.svc:9083''),
              (''hive.metastore.warehouse.dir'', ''/user/hive/warehouse'')])])]])]"

definition readmeJson :: json where
  "readmeJson = JObj
    [(''apiVersion'', JStr ''kyuubi.nineinfra.tech/v1alpha1''), (''kind'', JStr ''KyuubiCluster''),
     (''metadata'', JObj [(''name'', JStr ''kyuubicluster-sample''), (''namespace'', JStr ''kyuubi-operator''),
       (''uid'', JStr ''uid-1''), (''resourceVersion'', JStr ''1'')]),
     (''spec'', readmeSpecJson)]"

lemma conf_steps:
  "schema_valid K (SMap anyString) (confJson es)" "fill_defaults (SMap anyString) (confJson es) = confJson es" "confJson es \<noteq> JNull"
  "distinct (map fst es) \<Longrightarrow> decode_map (confJson es) None = Inr (Some (fmap_of_list es))"
proof -
  have "decode_entries (map (\<lambda>(k, v). (k, JStr v)) es) f = Inr (copy_entries es f)" for f
    by (induction es arbitrary: f) auto
  then show "distinct (map fst es) \<Longrightarrow> decode_map (confJson es) None = Inr (Some (fmap_of_list es))"
    using copy_entries_enumerates [of es "Some (fmap_of_list es)" fmempty]
    by (simp add: confJson_def gm_map_def enumerates_def)
  show "fill_defaults (SMap anyString) (confJson es) = confJson es"
    by (simp add: confJson_def split_beta comp_def filter_map)
qed (auto simp: confJson_def)

lemma readme_spec_admitted:
  "schema_valid K specSchema (fill_defaults specSchema readmeSpecJson)"
  by (simp add: readmeSpecJson_def schema_defs conf_steps imageJson_def nonNull_def int32_range_def del: fill_defaults.simps(2))

lemmas zero_values = zeroKyuubiCluster_def zeroClusterRef_def zeroSpark_def zeroImage_def zeroHdfs_def zeroMetastore_def

lemma readme_spec_read:
  "cd_dec (KyuubiClusterSpec_codec nil) (fill_defaults specSchema readmeSpecJson) (kc_Spec zeroKyuubiCluster) =
     Inr (kc_Spec readmeCluster)"
  by (simp add: readmeSpecJson_def schema_defs conf_steps imageJson_def nonNull_def int32_range_def zero_values struct_codecs
      struct_fields field_defs codec_defs)
    (simp add: readmeCluster_def sampleCluster_def sampleRef_def sampleSpark_def sampleKyuubiConf_def zero_values)

section \<open>Properties\<close>

lemma decode_members_cong:
  "list_all2 (\<lambda>f g. jf_name f = jf_name g \<and> jf_dec f = jf_dec g) fs gs \<Longrightarrow> decode_members fs ms x = decode_members gs ms x"
proof (induction fs ms x rule: decode_members.induct)
  case (2 fs n j ms x)
  have "rel_option (\<lambda>f g. jf_dec f = jf_dec g) (find (\<lambda>f. jf_name f = n) fs) (find (\<lambda>f. jf_name f = n) gs)"
    using 2(3) by (induction rule: list_all2_induct) auto
  with 2 show ?case 
    by (cases "find (\<lambda>f. jf_name f = n) fs"; cases "find (\<lambda>f. jf_name f = n) gs") (auto split: sum.split)
qed simp

lemma decode_struct_cong:
  "list_all2 (\<lambda>f g. jf_name f = jf_name g \<and> jf_dec f = jf_dec g) fs gs \<Longrightarrow> decode_struct fs = decode_struct gs"
  by (intro ext, rename_tac j x, case_tac j) (auto simp: decode_members_cong)

text \<open>Reading does not depend on how an empty slice was written.\<close>

lemma decode_nil:
  "cd_dec (KyuubiClusterSpec_codec nil) = cd_dec (KyuubiClusterSpec_codec nil')"
  "cd_dec (KyuubiCluster_codec nil W) = cd_dec (KyuubiCluster_codec nil' W)"
proof -
  show s: "cd_dec (KyuubiClusterSpec_codec nil) = cd_dec (KyuubiClusterSpec_codec nil')"
    unfolding KyuubiClusterSpec_codec_def struct_codec_def codec.simps
    by (rule decode_struct_cong) (simp add: KyuubiClusterSpec_fields_def tag_def list_codec_def)
  show "cd_dec (KyuubiCluster_codec nil W) = cd_dec (KyuubiCluster_codec nil' W)"
    unfolding KyuubiCluster_codec_def struct_codec_def codec.simps
    by (rule decode_struct_cong)
      (simp add: KyuubiCluster_fields_def TypeMeta_fields_def tag_omitempty_def tag_def s)
qed

text \<open>
  C20. Writing a custom resource as JSON and reading it back gives the resource, for every resource, with
  the empty hiveSite, coreSite and hdfsSite maps as nil and the types of other packages as their own
  codecs keep them; a nil and an empty map of the other fields are kept apart.
\<close>

theorem kyuubicluster_json_roundtrip:
  assumes "wire_law W normMeta normListMeta normTime normPort"
  shows "unmarshalKyuubiCluster W (marshalKyuubiCluster nil W k) = Inr (normCluster normMeta normTime normPort k)"
  using codec_law.roundtrip [OF wire_law.cluster_law [OF assms], of nil k]
  unfolding unmarshalKyuubiCluster_def marshalKyuubiCluster_def decode_nil(2) [of True W nil] zero_codecs .

lemma readme_normal: "normCluster refNormMeta (\<lambda>t. max 0 t) id readmeCluster = readmeCluster"
  by (simp add: normCluster_def refNormMeta_def readmeCluster_def sampleCluster_def sampleMeta_def zeroMeta_def normSpec_def
      normRef_def sampleRef_def normMetastore_def normHdfs_def omitEmpty_def gm_len_def gm_map_def zeroMetastore_def zeroHdfs_def
      normStatus_def zeroStatus_def)

theorem kyuubicluster_json_roundtrip_witness:
  "unmarshalKyuubiCluster refWire (marshalKyuubiCluster False refWire readmeCluster) = Inr readmeCluster"
  using kyuubicluster_json_roundtrip [OF ref_wire_law.wire_law_axioms, of False readmeCluster] by (simp only: readme_normal)

text \<open>
  C18. What the API server admits for the custom resource definition is read by the Go types without an
  error: a completed and validated request, whose status the server dropped, gives a resource with an
  empty status, and with a configuration map that is not nil, a known pull policy and known reference
  types unless there is no spec at all; with a status that the operator wrote, the same resource with
  that status.
\<close>

theorem admitted_resource_read:
  assumes "wire_reads W normMeta normListMeta normTime normPort K" and "admit K crdSchema (dropStatus j) = Some j'"
  shows "\<exists>ms k. j' = JObj ms \<and> unmarshalKyuubiCluster W j' = Inr k \<and> kc_Status k = zeroStatus \<and>
     (admittedSpec (kc_Spec k) \<or> kc_Spec k = kc_Spec zeroKyuubiCluster) \<and>
     (\<forall>st. unmarshalKyuubiCluster W (JObj (ms @ [(''status'', cd_enc (KyuubiClusterStatus_codec W) st)])) =
        Inr (k\<lparr>kc_Status := normStatus normTime normPort st\<rparr>))"
proof -
  obtain ms where ms: "j' = JObj ms" "''status'' \<notin> fst ` set ms" using wire_reads.dropped_status [OF assms] .
  have "schema_valid K (completed crdSchema) j'"
    using assms(2) completed_valid [OF _ distinct_crdSchema] by (auto simp: admit_def Let_def split: if_splits)
  with wire_reads.request_read [OF assms(1), of ms] ms obtain k where k:
    "decode_members (KyuubiCluster_fields True W) ms zeroKyuubiCluster = Inr k" "\<And>n. clusterPart n k" by blast
  from k(2) [of "''spec''"] k(2) [of "''status''"] have p: "admittedSpec (kc_Spec k) \<or> kc_Spec k = kc_Spec zeroKyuubiCluster"
    "kc_Status k = zeroStatus" by (simp_all add: clusterPart_def)
  with k(1) ms wire_reads.status_member_read [OF assms(1) p(2)] show ?thesis
    by (simp add: unmarshalKyuubiCluster_def KyuubiCluster_codec_def struct_codec_def wire_reads.decode_members_append [OF assms(1)])
qed

definition readmeStored :: json where
  "readmeStored = JObj
    [(''apiVersion'', JStr ''kyuubi.nineinfra.tech/v1alpha1''), (''kind'', JStr ''KyuubiCluster''),
     (''metadata'', JObj [(''name'', JStr ''kyuubicluster-sample''), (''namespace'', JStr ''kyuubi-operator''),
       (''uid'', JStr ''uid-1''), (''resourceVersion'', JStr ''1'')]),
     (''spec'', fill_defaults specSchema readmeSpecJson)]"

lemma readme_admitted: "admit refChecks crdSchema (dropStatus readmeJson) = Some readmeStored"
proof -
  have "readmeSpecJson \<noteq> JNull" by (simp add: readmeSpecJson_def)
  then show ?thesis
    by (simp add: admit_def readmeJson_def crdSchema_def nonNull_def readme_spec_admitted refChecks_def metaSchema_def readmeStored_def Let_def)
qed

lemma readme_read: "unmarshalKyuubiCluster refWire readmeStored = Inr readmeCluster"
proof -
  have "cd_dec refMeta (JObj [(''name'', JStr ''kyuubicluster-sample''), (''namespace'', JStr ''kyuubi-operator''),
       (''uid'', JStr ''uid-1''), (''resourceVersion'', JStr ''1'')]) zeroMeta = Inr sampleMeta"
    by (simp add: refMeta_def struct_codec_def field_defs string_codec_def sampleMeta_def)
  moreover have "kc_Meta zeroKyuubiCluster = zeroMeta" by (simp add: zeroKyuubiCluster_def)
  ultimately show ?thesis
    by (simp add: unmarshalKyuubiCluster_def readmeStored_def KyuubiCluster_codec_def struct_codec_def KyuubiCluster_fields_def
      TypeMeta_fields_def field_defs string_codec_def refWire_def readme_spec_read)
      (simp add: readmeCluster_def sampleCluster_def zeroKyuubiCluster_def)
qed

theorem admitted_resource_read_witness:
  "admit refChecks crdSchema (dropStatus readmeJson) = Some readmeStored \<and>
   unmarshalKyuubiCluster refWire readmeStored = Inr readmeCluster \<and> admittedSpec (kc_Spec readmeCluster)"
proof -
  have "kc_Spec readmeCluster \<noteq> kc_Spec zeroKyuubiCluster"
    by (simp add: readmeCluster_def sampleCluster_def zeroKyuubiCluster_def)
  with readme_admitted readme_read admitted_resource_read [OF ref_wire_reads.wire_reads_axioms readme_admitted]
  show ?thesis by auto
qed

text \<open>
  The values of the kyuubiConf map must be strings (or null): reading a spec whose configuration is
  \<open>j\<close> fails exactly when \<open>j\<close> is neither null nor an object all of whose values are strings or null, so a
  port number or a boolean without quotes is refused.
\<close>

theorem kyuubiConf_read_iff:
  "(\<exists>s'. cd_dec (KyuubiClusterSpec_codec nil) (JObj [(''kyuubiConf'', j)]) s = Inr s') \<longleftrightarrow>
   (j = JNull \<or> (\<exists>ms. j = JObj ms \<and> list_all (string_or_null \<circ> snd) ms))"
proof -
  have "(\<exists>s'. cd_dec (KyuubiClusterSpec_codec nil) (JObj [(''kyuubiConf'', j)]) s = Inr s') \<longleftrightarrow>
      (\<exists>m. decode_map j (kcs_KyuubiConf s) = Inr m)"
    by (simp add: KyuubiClusterSpec_codec_def struct_codec_def KyuubiClusterSpec_fields_def tag_def map_codec_def
        split: sum.split) (metis map_sum.simps obj_sumE sum.distinct(1))
  also have "\<dots> \<longleftrightarrow> j = JNull \<or> (\<exists>ms. j = JObj ms \<and> list_all (string_or_null \<circ> snd) ms)"
  proof (cases j)
    case (JObj ms)
    with decode_entries_Inr_iff [of ms "gm_map (kcs_KyuubiConf s)"] show ?thesis
      by (cases "decode_entries ms (gm_map (kcs_KyuubiConf s))") auto
  qed simp_all
  finally show ?thesis .
qed

end
