(* ===== verification/Env_Rewire.thy ===== *)
theory Env_Rewire
  imports Reconcile_Run
begin

text \<open>
  Which parts of the environment the reconciliation uses where: the client of the custom resource only
  for the first read, \<open>StatusUpdate\<close> only in the last stage. \<open>rewire\<close> replaces the two; every other
  stage does what it did.
\<close>

definition rewire :: "(KyuubiCluster, 'w) client \<Rightarrow> (KyuubiCluster \<Rightarrow> 'w \<Rightarrow> (KyuubiCluster \<times> GoError option) \<times> 'w) \<Rightarrow>
    'w env \<Rightarrow> 'w env" where
  "rewire c u E = E\<lparr>kyuubiClient := c, StatusUpdate := u\<rparr>"

lemma env_rewire:
  "kyuubiClient (rewire c u E) = c"
  "saClient (rewire c u E) = saClient E"
  "roleClient (rewire c u E) = roleClient E"
  "rbClient (rewire c u E) = rbClient E"
  "cmClient (rewire c u E) = cmClient E"
  "stsClient (rewire c u E) = stsClient E"
  "svcClient (rewire c u E) = svcClient E"
  "StatusUpdate (rewire c u E) = u"
  "SetControllerReference (rewire c u E) = SetControllerReference E"
  "FormatXML (rewire c u E) = FormatXML E"
  "SprintRequest (rewire c u E) = SprintRequest E"
  "Getenv (rewire c u E) = Getenv E"
  "Now (rewire c u E) = Now E"
  "Sleep (rewire c u E) = Sleep E"
  "range_map (rewire c u E) = range_map E"
  by (simp_all add: rewire_def)

lemma poll_rewire: "poll (rewire c u E) n i w = poll E n i w"
  by (induction i arbitrary: w) (simp_all add: env_rewire)

lemma waitForConfigMap_rewire: "waitForConfigMap (rewire c u E) = waitForConfigMap E"
proof (intro ext)
  fix n w
  have "waitForConfigMap (rewire c u E) n w = Some r \<longleftrightarrow> waitForConfigMap E n w = Some r" for r
    unfolding waitForConfigMap_Some_iff by (simp add: poll_rewire pollError_def env_rewire)
  then show "waitForConfigMap (rewire c u E) n w = waitForConfigMap E n w" by (metis not_Some_eq)
qed

lemma texts_rewire:
  "map2String (rewire c u E) = map2String E" "map2Xml (rewire c u E) = map2Xml E"
  "compareConf (rewire c u E) = compareConf E"
  unfolding fun_eq_iff map2String_def map2Xml_def compareConf_def env_rewire by simp_all

lemma refs_rewire: "clusterRefs_loop (rewire c u E) = clusterRefs_loop E"
proof (intro ext)
  fix k h cs refs data w
  have "clusterRef_step (rewire c u E) = clusterRef_step E"
    unfolding fun_eq_iff clusterRef_step_def sparkBaseConf_def env_rewire texts_rewire by simp
  then show "clusterRefs_loop (rewire c u E) k h cs refs data w = clusterRefs_loop E k h cs refs data w"
    by (induction refs arbitrary: data w) (simp_all split: prod.split sum.split)
qed

lemma desired_rewire:
  "desiredClusterRefsConfigMap (rewire c u E) = desiredClusterRefsConfigMap E"
  "constructKyuubiConfigMap (rewire c u E) = constructKyuubiConfigMap E"
  unfolding fun_eq_iff desiredClusterRefsConfigMap_def constructKyuubiConfigMap_def env_rewire
    refs_rewire texts_rewire by simp_all

lemma stages_rewire:
  "createOrUpdateK8sResources (rewire c u E) = createOrUpdateK8sResources E"
  "createOrUpdateKyuubi (rewire c u E) = createOrUpdateKyuubi E"
  "createOrUpdateService (rewire c u E) = createOrUpdateService E"
  unfolding fun_eq_iff createOrUpdateK8sResources_def stage_defs createOrUpdateKyuubi_def createOrUpdateService_def
      construct_defs env_rewire by simp_all

lemma configmaps_rewire:
  "createOrUpdateKyuubiConfigmap (rewire c u E) = createOrUpdateKyuubiConfigmap E"
  "createOrUpdateClusterRefsConfigmap (rewire c u E) = createOrUpdateClusterRefsConfigmap E"
  unfolding fun_eq_iff createOrUpdateKyuubiConfigmap_def createOrUpdateClusterRefsConfigmap_def desired_rewire
    env_rewire texts_rewire waitForConfigMap_rewire by simp_all

lemma status_rewire: "updateKyuubiClusterStatus (rewire c (StatusUpdate E) E) = updateKyuubiClusterStatus E"
  unfolding fun_eq_iff updateKyuubiClusterStatus_def env_rewire by simp

lemma Reconcile_rewire:
  assumes "Get c = Get (kyuubiClient E)"
    and "\<And>k w1 svc v. Get (kyuubiClient E) req zeroKyuubiCluster w = ((k, None), w1) \<Longrightarrow>
      updateKyuubiClusterStatus (rewire c u E) k svc v = updateKyuubiClusterStatus E k svc v"
  shows "Reconcile (rewire c u E) req w = Reconcile E req w"
proof -
  obtain k e w1 where g: "Get (kyuubiClient E) req zeroKyuubiCluster w = ((k, e), w1)" by (metis surj_pair)
  have "createOrUpdateClusters (rewire c u E) k v = createOrUpdateClusters E k v" if "e = None" for v
    unfolding createOrUpdateClusters_def stages_rewire configmaps_rewire assms(2) [OF g [unfolded that]] ..
  then show ?thesis by (cases e) (simp_all add: Reconcile_def env_rewire assms(1) g Let_def)
qed

end
