(* ===== verification/Admission.thy ===== *)
theory Admission
  imports Wire_Format Env_Rewire Reconcile_Correct
begin

text \<open>
  The reconciliation against a server that validates: an update of the status is refused unless the
  status, as the Go types write it, satisfies the schema of the custom resource definition.
\<close>

definition validating :: "checks \<Rightarrow> wire \<Rightarrow> ('w \<Rightarrow> GoError \<times> 'w) \<Rightarrow> 'w env \<Rightarrow> 'w env" where
  "validating K W deny E = rewire (kyuubiClient E)
     (\<lambda>k w. if admit K statusSchema (cd_enc (KyuubiClusterStatus_codec W) (kc_Status k)) = None
        then (case deny w of (e, w') \<Rightarrow> ((k, Some e), w')) else StatusUpdate E k w) E"

text \<open>A status that says when the resource was set up, if it says what is exposed.\<close>

definition datedStatus :: "KyuubiClusterStatus \<Rightarrow> bool" where
  "datedStatus st \<longleftrightarrow> (st_ExposedInfos st = None \<or> st_CreationTime st \<noteq> 0)"

definition datedStore :: "cluster_store \<Rightarrow> bool" where
  "datedStore s \<longleftrightarrow> (\<forall>n k. kyuubiClusters s n = Some k \<longrightarrow> datedStatus (kc_Status k))"

section \<open>One status update\<close>

lemma status_validated:
  assumes "wire_writes K W" and "\<And>v. fst (Now E v) \<noteq> 0" and "datedStatus (kc_Status k)"
  shows "updateKyuubiClusterStatus (validating K W deny E) k svc w = updateKyuubiClusterStatus E k svc w"
proof -
  let ?infos = "exposedInfosOf k svc"
  obtain t1 w1 where t1: "(if st_ExposedInfos (kc_Status k) = None then Now E w else (st_CreationTime (kc_Status k), w)) = (t1, w1)"
    by (metis surj_pair)
  obtain t2 w2 where t2: "Now E w1 = (t2, w2)" by (metis surj_pair)
  have "t1 \<noteq> 0" "t2 \<noteq> 0"
    using t1 t2 assms(2) [of w] assms(2) [of w1] assms(3) by (auto simp: datedStatus_def split: if_splits)
  then have "admit K statusSchema (cd_enc (KyuubiClusterStatus_codec W)
      \<lparr>st_ExposedInfos = Some ?infos, st_CreationTime = t1, st_UpdateTime = t2\<rparr>) \<noteq> None"
    by (subst wire_writes.status_admitted_iff [OF assms(1)]) simp
  then show ?thesis
    unfolding updateKyuubiClusterStatus_def validating_def env_rewire Let_def t1 by (auto simp: t2)
qed

context kube_api
begin

text \<open>A stage that does not touch custom resources keeps what is said of them.\<close>

lemma dated_untouched:
  assumes "touches F s s'" and "\<And>n. (KKyuubiCluster, n) \<notin> F"
  shows "datedStore s' \<longleftrightarrow> datedStore s"
proof -
  have "kyuubiClusters s' = kyuubiClusters s" using assms by (auto simp: touches_def changed_only_def)
  then show ?thesis by (simp add: datedStore_def)
qed

lemma status_dated:
  assumes clock: "\<And>v. fst (Now E v) \<noteq> 0" and k: "datedStatus (kc_Status k)" and wf: "wf_store (store w)"
    and s: "datedStore (store w)" and r: "updateKyuubiClusterStatus E k svc w = (e, w')"
  shows "datedStore (store w')"
  using r
proof (cases rule: updateKyuubiClusterStatus_cases)
  case unchanged
  with s show ?thesis by simp
next
  case (sent st w2 y)
  have st: "datedStatus st" using sent(2,3,6) k clock by (auto simp: datedStatus_def)
  from sent(4) wf have "wf_store (store w2)" by simp
  from this sent(5) show ?thesis
  proof (cases rule: status_effect)
    case failed
    with sent s show ?thesis by auto
  next
    case (applied old)
    with sent(4) have
      "store w' = kyuubiClusters_update (\<lambda>m. m(metaKey (kc_Meta k) \<mapsto> adm_kyuubi A w2 (Some old) (old\<lparr>kc_Status := st\<rparr>))) (store w)"
      by auto
    with s st show ?thesis by (auto simp: datedStore_def admit_status split: if_splits)
  qed
qed

end

section \<open>A whole call\<close>

text \<open>\<open>keepsDated\<close>: a stage keeps the store well-formed and every status dated.\<close>

definition keepsDated :: "('w \<Rightarrow> cluster_store) \<Rightarrow> KyuubiCluster \<Rightarrow>
    (KyuubiCluster \<Rightarrow> 'w \<Rightarrow> (GoError option \<times> 'w) option) \<Rightarrow> bool" where
  "keepsDated store k stage \<longleftrightarrow> (\<forall>w e w'. wf_store (store w) \<longrightarrow> datedStore (store w) \<longrightarrow> stage k w = Some (e, w') \<longrightarrow>
     wf_store (store w') \<and> datedStore (store w'))"

lemma keepsDated_seq:
  assumes "keepsDated store k s1" and "keepsDated store k s2"
  shows "keepsDated store k (seqStage s1 s2)"
  unfolding keepsDated_def
proof (intro allI impI)
  fix w e w'
  assume w: "wf_store (store w)" "datedStore (store w)" and "seqStage s1 s2 k w = Some (e, w')"
  from this(3) show "wf_store (store w') \<and> datedStore (store w')"
    by (cases rule: seqStage_cases) (use w assms in \<open>unfold keepsDated_def, blast+\<close>)
qed

context kube_api
begin

lemma stage_keepsDated:
  assumes "reconcile_stage stage store F" and "\<And>n. (KKyuubiCluster, n) \<notin> F k"
  shows "keepsDated store k stage"
  using reconcile_stage.frame [OF assms(1)] reconcile_stage.keeps_wf [OF assms(1)] dated_untouched assms(2)
  unfolding keepsDated_def by blast

lemma serviceStatus_keepsDated:
  assumes clock: "\<And>v. fst (Now E v) \<noteq> 0" and k: "datedStatus (kc_Status k)"
  shows "keepsDated store k (serviceStatusStage E)"
  unfolding keepsDated_def
proof (intro allI impI conjI)
  fix w e w'
  assume w: "wf_store (store w)" "datedStore (store w)" and r: "serviceStatusStage E k w = Some (e, w')"
  show "wf_store (store w')" using reconcile_stage.keeps_wf [OF serviceStatus_reconcile_stage w(1) r] .
  obtain x w1 where x: "createOrUpdateService E k w = (x, w1)" by (metis surj_pair)
  have d: "datedStore (store w1)" and wf1: "wf_store (store w1)"
    using service_frame [OF w(1) x] dated_untouched w(2) by blast+
  show "datedStore (store w')"
  proof (cases x)
    case (Inl err)
    with r x d show ?thesis by (simp add: serviceStatusStage_def)
  next
    case (Inr svc)
    with r x have "updateKyuubiClusterStatus E k svc w1 = (e, w')" by (simp add: serviceStatusStage_def)
    from status_dated [OF clock k wf1 d this] show ?thesis .
  qed
qed

lemma clusters_keepDated:
  assumes "\<And>v. fst (Now E v) \<noteq> 0" and "datedStatus (kc_Status k)"
  shows "keepsDated store k (createOrUpdateClusters E)"
  unfolding createOrUpdateClusters_eq allStages_def
  by (intro keepsDated_seq serviceStatus_keepsDated [OF assms] stage_keepsDated [OF sa_reconcile_stage]
      stage_keepsDated [OF role_reconcile_stage] stage_keepsDated [OF rb_reconcile_stage]
      stage_keepsDated [OF conf_reconcile_stage] stage_keepsDated [OF refs_reconcile_stage]
      stage_keepsDated [OF workload_reconcile_stage]) simp_all

end

section \<open>Properties\<close>

text \<open>
  C17. The server never refuses a status that the operator writes: against a server that validates the
  status with the schema of the custom resource definition, which requires the list of exposed infos
  and both times, a call of \<open>Reconcile\<close> does what it does against one that does not, provided that the
  stored statuses that list exposed infos have a creation time; and every call, also one that fails,
  keeps that condition.
\<close>

theorem status_always_admitted:
  assumes "fresh_api E store A" and "wire_writes K W" and "\<And>v. fst (Now E v) \<noteq> 0"
    and "wf_store (store w)" and "datedStore (store w)"
  shows "Reconcile (validating K W deny E) req w = Reconcile E req w \<and>
    (\<forall>out w'. Reconcile E req w = Some (out, w') \<longrightarrow> datedStore (store w'))"
proof -
  note api = fresh_api.axioms(1) [OF assms(1)]
  note fresh = fresh_client.get_fresh [OF fresh_api.axioms(2) [OF assms(1)]]
  note stored = typed_client.get_store [OF kube_api.axioms(1) [OF api]]
  have dated: "datedStatus (kc_Status k)" if "Get (kyuubiClient E) req zeroKyuubiCluster w = ((k, None), w1)" for k w1
    using fresh [OF that] assms(5) by (auto simp: datedStore_def)
  have "Reconcile (validating K W deny E) req w = Reconcile E req w"
    unfolding validating_def
    by (rule Reconcile_rewire [OF refl]) (rule status_validated [OF assms(2,3) dated, unfolded validating_def])
  moreover have "datedStore (store w')" if r: "Reconcile E req w = Some (out, w')" for out w'
    using r
  proof (cases rule: Reconcile_cases)
    case (run k w1 err)
    note kept = kube_api.clusters_keepDated [OF api assms(3) dated [OF run(1)], unfolded keepsDated_def, rule_format, OF _ _ run(2)]
    show ?thesis by (rule kept [THEN conjunct2]) (simp_all only: stored [OF run(1)] assms(4,5))
  qed (use stored assms(5) in auto)
  ultimately show ?thesis by blast
qed

theorem status_always_admitted_witness:
  "Reconcile (validating refChecks refWire (\<lambda>w. (ApiError ''Invalid'' [], w)) refEnv) sampleKey (worldWith minioCluster) =
     Reconcile refEnv sampleKey (worldWith minioCluster)"
proof -
  have "fst (Now refEnv v) \<noteq> 0" for v by (simp add: refEnv_def)
  moreover have "datedStore (rw_store (worldWith minioCluster))"
    by (auto simp: datedStore_def datedStatus_def worldWith_def emptyStore_def minioCluster_def sampleCluster_def zeroStatus_def)
  ultimately show ?thesis
    using status_always_admitted [OF refEnv_fresh_api ref_wire_writes.wire_writes_axioms _ wf_worldWith] by blast
qed

end
