(* ===== verification/Go_Heap.thy ===== *)
theory Go_Heap
  imports Kyuubi_Prelude "HOL-Library.Sublist"
begin

text \<open>
  The part of Go's memory that matters for deep copies: the maps and the arrays under slices, which
  assignment of a struct shares. A heap is the list of its cells in the order of allocation, an
  address is a position in it; structs are values. The locale \<open>deep_copy\<close> is the contract of a
  \<open>DeepCopyInto\<close> method; it is closed under the ways in which the generated methods combine.
\<close>

section \<open>Addresses, slices, maps\<close>

type_synonym addr = nat

record slice =
  sl_addr :: addr
  sl_off :: nat
  sl_len :: nat

text \<open>The contents of a cell, seen at one type through a projection.\<close>

definition cellAt :: "('c \<Rightarrow> 'x option) \<Rightarrow> 'x \<Rightarrow> 'c list \<Rightarrow> addr \<Rightarrow> 'x" where
  "cellAt prj dflt h a = (case prj (h ! a) of Some x \<Rightarrow> x | None \<Rightarrow> dflt)"

definition sliceElems :: "('c \<Rightarrow> 'a list option) \<Rightarrow> 'c list \<Rightarrow> slice \<Rightarrow> 'a list" where
  "sliceElems prj h s = take (sl_len s) (drop (sl_off s) (cellAt prj [] h (sl_addr s)))"

section \<open>The contract\<close>

text \<open>
  \<open>view h x\<close> is the value that \<open>x\<close> stands for in heap \<open>h\<close>, \<open>locs h x\<close> the cells it consists of, and
  \<open>ok h x\<close> says that these exist and have the right types. A value depends on its own cells only. A
  copy keeps all existing cells, has the same value, and consists of new cells.
\<close>

locale deep_copy =
  fixes copy :: "'a \<Rightarrow> 'c list \<Rightarrow> 'a \<times> 'c list"
    and view :: "'c list \<Rightarrow> 'a \<Rightarrow> 'v"
    and locs :: "'c list \<Rightarrow> 'a \<Rightarrow> addr set"
    and ok :: "'c list \<Rightarrow> 'a \<Rightarrow> bool"
  assumes locs_ok: "ok h x \<Longrightarrow> locs h x \<subseteq> {..<length h}"
    and footprint: "ok h x \<Longrightarrow> (\<And>a. a \<in> locs h x \<Longrightarrow> a < length h' \<and> h' ! a = h ! a) \<Longrightarrow>
      ok h' x \<and> view h' x = view h x \<and> locs h' x = locs h x"
    and copies: "ok h x \<Longrightarrow> copy x h = (y, h') \<Longrightarrow>
      prefix h h' \<and> ok h' y \<and> view h' y = view h x \<and> locs h' y \<subseteq> {length h..<length h'}"

lemma prefix_nth: "prefix h h' \<Longrightarrow> a < length h \<Longrightarrow> a < length h' \<and> h' ! a = h ! a"
  by (auto simp: prefix_def nth_append)

context deep_copy
begin

lemma extend:
  assumes "ok h x" and "prefix h h'"
  shows "ok h' x \<and> view h' x = view h x \<and> locs h' x = locs h x"
  by (rule footprint [OF assms(1)]) (use locs_ok [OF assms(1)] prefix_nth [OF assms(2)] in blast)

text \<open>A write through the copy is not seen through the original, and the other way round.\<close>

lemma isolated:
  assumes "ok h x" and "copy x h = (y, h')"
  shows "a \<in> locs h' y \<Longrightarrow> view (h'[a := c]) x = view h x"
    and "a \<in> locs h x \<Longrightarrow> view (h'[a := c]) y = view h x"
proof -
  note c = copies [OF assms] and l = locs_ok [OF assms(1)]
  have x: "ok h' x" "view h' x = view h x" "locs h' x = locs h x"
    using extend [OF assms(1) conjunct1 [OF c]] by auto
  show "view (h'[a := c]) x = view h x" if a: "a \<in> locs h' y"
  proof -
    have "b < length (h'[a := c]) \<and> h'[a := c] ! b = h' ! b" if "b \<in> locs h' x" for b
    proof -
      have "b < length h" using that l x(3) by auto
      moreover have "length h \<le> a" using a c by auto
      ultimately show ?thesis using prefix_nth [of h h' b] c by simp
    qed
    from footprint [OF x(1) this] x show ?thesis by simp
  qed
  show "view (h'[a := c]) y = view h x" if a: "a \<in> locs h x"
  proof -
    have y: "ok h' y" "view h' y = view h x" using c by auto
    have "b < length (h'[a := c]) \<and> h'[a := c] ! b = h' ! b" if "b \<in> locs h' y" for b
    proof -
      have "length h \<le> b" "b < length h'" using that c by auto
      moreover have "a < length h" using a l by auto
      ultimately show ?thesis by simp
    qed
    from footprint [OF y(1) this] y show ?thesis by simp
  qed
qed

end

section \<open>Plain values, nil, structs\<close>

lemma deep_copy_plain: "deep_copy (\<lambda>x h. (x, h)) (\<lambda>h x. x) (\<lambda>h x. {}) (\<lambda>h x. True)"
  by unfold_locales auto

definition copyOption :: "('a \<Rightarrow> 'c list \<Rightarrow> 'a \<times> 'c list) \<Rightarrow> 'a option \<Rightarrow> 'c list \<Rightarrow> 'a option \<times> 'c list" where
  "copyOption copy x h =
     (if x \<noteq> None then (case copy (the x) h of (y, h1) \<Rightarrow> (Some y, h1)) else (None, h))"

definition optView :: "('c list \<Rightarrow> 'a \<Rightarrow> 'v) \<Rightarrow> 'c list \<Rightarrow> 'a option \<Rightarrow> 'v option" where
  "optView view h = map_option (view h)"

definition optLocs :: "('c list \<Rightarrow> 'a \<Rightarrow> addr set) \<Rightarrow> 'c list \<Rightarrow> 'a option \<Rightarrow> addr set" where
  "optLocs locs h x = (case x of None \<Rightarrow> {} | Some y \<Rightarrow> locs h y)"

definition optOk :: "('c list \<Rightarrow> 'a \<Rightarrow> bool) \<Rightarrow> 'c list \<Rightarrow> 'a option \<Rightarrow> bool" where
  "optOk ok h x = pred_option (ok h) x"

lemma deep_copy_option:
  assumes "deep_copy copy view locs ok"
  shows "deep_copy (copyOption copy) (optView view) (optLocs locs) (optOk ok)"
proof
  fix h x assume "optOk ok h x"
  then show "optLocs locs h x \<subseteq> {..<length h}"
    using deep_copy.locs_ok [OF assms, of h] by (cases x) (simp_all add: optOk_def optLocs_def)
next
  fix h x h'
  assume "optOk ok h x" and "\<And>a. a \<in> optLocs locs h x \<Longrightarrow> a < length h' \<and> h' ! a = h ! a"
  then show "optOk ok h' x \<and> optView view h' x = optView view h x \<and> optLocs locs h' x = optLocs locs h x"
    using deep_copy.footprint [OF assms, of h "the x" h']
    by (cases x) (auto simp: optOk_def optLocs_def optView_def)
next
  fix h x y h'
  assume o: "optOk ok h x" and c: "copyOption copy x h = (y, h')"
  show "prefix h h' \<and> optOk ok h' y \<and> optView view h' y = optView view h x \<and>
      optLocs locs h' y \<subseteq> {length h..<length h'}"
  proof (cases x)
    case None
    with c show ?thesis by (simp add: copyOption_def optOk_def optLocs_def optView_def)
  next
    case (Some x')
    with c obtain y' where "copy x' h = (y', h')" "y = Some y'"
      by (auto simp: copyOption_def split: prod.splits)
    with o Some show ?thesis
      using deep_copy.copies [OF assms] by (simp add: optOk_def optLocs_def optView_def)
  qed
qed

text \<open>Two fields, copied one after the other.\<close>

definition copyBoth :: "('a \<Rightarrow> 'c list \<Rightarrow> 'a \<times> 'c list) \<Rightarrow> ('b \<Rightarrow> 'c list \<Rightarrow> 'b \<times> 'c list) \<Rightarrow>
    'a \<times> 'b \<Rightarrow> 'c list \<Rightarrow> ('a \<times> 'b) \<times> 'c list" where
  "copyBoth c1 c2 x h = (case c1 (fst x) h of (y1, h1) \<Rightarrow> (case c2 (snd x) h1 of (y2, h2) \<Rightarrow> ((y1, y2), h2)))"

definition bothView :: "('c list \<Rightarrow> 'a \<Rightarrow> 'v) \<Rightarrow> ('c list \<Rightarrow> 'b \<Rightarrow> 'u) \<Rightarrow> 'c list \<Rightarrow> 'a \<times> 'b \<Rightarrow> 'v \<times> 'u" where
  "bothView v1 v2 h x = (v1 h (fst x), v2 h (snd x))"

definition bothLocs :: "('c list \<Rightarrow> 'a \<Rightarrow> addr set) \<Rightarrow> ('c list \<Rightarrow> 'b \<Rightarrow> addr set) \<Rightarrow> 'c list \<Rightarrow> 'a \<times> 'b \<Rightarrow> addr set" where
  "bothLocs l1 l2 h x = l1 h (fst x) \<union> l2 h (snd x)"

definition bothOk :: "('c list \<Rightarrow> 'a \<Rightarrow> bool) \<Rightarrow> ('c list \<Rightarrow> 'b \<Rightarrow> bool) \<Rightarrow> 'c list \<Rightarrow> 'a \<times> 'b \<Rightarrow> bool" where
  "bothOk o1 o2 h x \<longleftrightarrow> o1 h (fst x) \<and> o2 h (snd x)"

lemma deep_copy_both:
  assumes d1: "deep_copy c1 v1 l1 o1" and d2: "deep_copy c2 v2 l2 o2"
  shows "deep_copy (copyBoth c1 c2) (bothView v1 v2) (bothLocs l1 l2) (bothOk o1 o2)"
proof
  fix h x assume "bothOk o1 o2 h x"
  then show "bothLocs l1 l2 h x \<subseteq> {..<length h}"
    using deep_copy.locs_ok [OF d1] deep_copy.locs_ok [OF d2] by (simp add: bothOk_def bothLocs_def)
next
  fix h x h'
  assume "bothOk o1 o2 h x" and "\<And>a. a \<in> bothLocs l1 l2 h x \<Longrightarrow> a < length h' \<and> h' ! a = h ! a"
  then show "bothOk o1 o2 h' x \<and> bothView v1 v2 h' x = bothView v1 v2 h x \<and>
      bothLocs l1 l2 h' x = bothLocs l1 l2 h x"
    using deep_copy.footprint [OF d1, of h "fst x" h'] deep_copy.footprint [OF d2, of h "snd x" h']
    by (simp add: bothOk_def bothLocs_def bothView_def)
next
  fix h x y h'
  assume o: "bothOk o1 o2 h x" and c: "copyBoth c1 c2 x h = (y, h')"
  obtain y1 h1 y2 where c1: "c1 (fst x) h = (y1, h1)" and c2: "c2 (snd x) h1 = (y2, h')" and y: "y = (y1, y2)"
    using c by (auto simp: copyBoth_def split: prod.splits)
  note p1 = deep_copy.copies [OF d1 _ c1]
  have x2: "o2 h1 (snd x)" "v2 h1 (snd x) = v2 h (snd x)"
    using deep_copy.extend [OF d2, of h "snd x" h1] p1 o by (auto simp: bothOk_def)
  note p2 = deep_copy.copies [OF d2 x2(1) c2]
  have y1: "o1 h' y1 \<and> v1 h' y1 = v1 h1 y1 \<and> l1 h' y1 = l1 h1 y1"
    using deep_copy.extend [OF d1, of h1 y1 h'] p1 p2 o by (auto simp: bothOk_def)
  have "length h \<le> length h1" "length h1 \<le> length h'"
    using p1 p2 o by (auto simp: bothOk_def dest!: prefix_length_le)
  then have "l1 h' y1 \<union> l2 h' y2 \<subseteq> {length h..<length h'}"
    using p1 p2 y1 o by (fastforce simp: bothOk_def)
  then show "prefix h h' \<and> bothOk o1 o2 h' y \<and> bothView v1 v2 h' y = bothView v1 v2 h x \<and>
      bothLocs l1 l2 h' y \<subseteq> {length h..<length h'}"
    using p1 p2 y1 x2 o y by (auto simp: bothOk_def bothView_def bothLocs_def intro: prefix_order.trans)
qed

text \<open>A struct through the tuple of its fields.\<close>

lemma deep_copy_struct:
  assumes d: "deep_copy copy view locs ok"
    and c: "\<And>x h. copy' x h = (case copy (parts x) h of (y, h1) \<Rightarrow> (build x y, h1))"
    and b: "\<And>x y. parts (build x y) = y"
    and v: "\<And>h x y. view' h x = join (rest x) (view h (parts x))" "\<And>x y. rest (build x y) = rest x"
  shows "deep_copy copy' view' (\<lambda>h x. locs h (parts x)) (\<lambda>h x. ok h (parts x))"
proof
  fix h x assume "ok h (parts x)"
  then show "locs h (parts x) \<subseteq> {..<length h}" by (rule deep_copy.locs_ok [OF d])
next
  fix h x h'
  assume "ok h (parts x)" and "\<And>a. a \<in> locs h (parts x) \<Longrightarrow> a < length h' \<and> h' ! a = h ! a"
  then show "ok h' (parts x) \<and> view' h' x = view' h x \<and> locs h' (parts x) = locs h (parts x)"
    using deep_copy.footprint [OF d, of h "parts x" h'] by (simp add: v(1))
next
  fix h x y h'
  assume "ok h (parts x)" and "copy' x h = (y, h')"
  then obtain z where z: "copy (parts x) h = (z, h')" "y = build x z" and "ok h (parts x)"
    by (auto simp: c split: prod.splits)
  with deep_copy.copies [OF d _ z(1)]
  show "prefix h h' \<and> ok h' (parts y) \<and> view' h' y = view' h x \<and> locs h' (parts y) \<subseteq> {length h..<length h'}"
    by (simp add: v b)
qed

section \<open>Maps\<close>

text \<open>
  \<open>*out = make(map[string]string, len( *in)); for key, val := range *in { ( *out)[key] = val }\<close> for
  the map at address \<open>a\<close>; \<open>order\<close> is the order in which the runtime visits it.
\<close>

fun copyMap_loop :: "(smap \<Rightarrow> 'c) \<Rightarrow> ('c \<Rightarrow> smap option) \<Rightarrow> addr \<Rightarrow> (string \<times> string) list \<Rightarrow> 'c list \<Rightarrow> 'c list" where
  "copyMap_loop mk prj b [] h = h"
| "copyMap_loop mk prj b ((key, val) # es) h =
     copyMap_loop mk prj b es (h[b := mk (fmupd key val (cellAt prj fmempty h b))])"

definition copyMap :: "(smap \<Rightarrow> 'c) \<Rightarrow> ('c \<Rightarrow> smap option) \<Rightarrow> ('c list \<Rightarrow> addr \<Rightarrow> (string \<times> string) list) \<Rightarrow>
    addr \<Rightarrow> 'c list \<Rightarrow> addr \<times> 'c list" where
  "copyMap mk prj order a h =
     (let b = length h; h1 = h @ [mk fmempty] in (b, copyMap_loop mk prj b (order h1 a) h1))"

definition mapOk :: "('c \<Rightarrow> 'x option) \<Rightarrow> 'c list \<Rightarrow> addr \<Rightarrow> bool" where
  "mapOk prj h a \<longleftrightarrow> a < length h \<and> prj (h ! a) \<noteq> None"

lemma copyMap_loop_eq:
  assumes "\<And>m. prj (mk m) = Some m"
  shows "copyMap_loop mk prj (length h) es (h @ [mk m]) = h @ [mk (copy_entries es m)]"
  using assms by (induction es arbitrary: m) (auto simp: cellAt_def)

lemma deep_copy_map:
  assumes pi: "\<And>m. prj (mk m) = Some m"
    and ord: "\<And>h a m. a < length h \<Longrightarrow> prj (h ! a) = Some m \<Longrightarrow> enumerates (order h a) (Some m)"
  shows "deep_copy (copyMap mk prj order) (cellAt prj fmempty) (\<lambda>h a. {a}) (mapOk prj)"
proof
  fix h a b h'
  assume ok: "mapOk prj h a" and c: "copyMap mk prj order a h = (b, h')"
  then obtain m where m: "a < length h" "prj (h ! a) = Some m" by (auto simp: mapOk_def)
  let ?h1 = "h @ [mk fmempty]"
  have "enumerates (order ?h1 a) (Some m)"
    using m by (intro ord) (simp_all add: nth_append)
  then have "copy_entries (order ?h1 a) fmempty = m"
    by (simp add: copy_entries_enumerates gm_map_def)
  with c have "b = length h" "h' = h @ [mk m]"
    by (simp_all add: copyMap_def Let_def copyMap_loop_eq [of prj mk, OF pi])
  with m show "prefix h h' \<and> mapOk prj h' b \<and> cellAt prj fmempty h' b = cellAt prj fmempty h a \<and>
      {b} \<subseteq> {length h..<length h'}"
    by (simp add: mapOk_def cellAt_def pi)
qed (auto simp: mapOk_def cellAt_def)

section \<open>Slices\<close>

text \<open>
  \<open>*out = make([]T, len( *in)); for i := range *in { ( *in)[i].DeepCopyInto(&( *out)[i]) }\<close>: the new
  array is allocated first and filled element by element.
\<close>

fun copySlice_loop :: "('a list \<Rightarrow> 'c) \<Rightarrow> ('c \<Rightarrow> 'a list option) \<Rightarrow> ('a \<Rightarrow> 'c list \<Rightarrow> 'a \<times> 'c list) \<Rightarrow>
    slice \<Rightarrow> addr \<Rightarrow> nat list \<Rightarrow> 'c list \<Rightarrow> 'c list" where
  "copySlice_loop mk prj copy s b [] h = h"
| "copySlice_loop mk prj copy s b (i # is) h =
     (case copy (sliceElems prj h s ! i) h of
        (y, h1) \<Rightarrow> copySlice_loop mk prj copy s b is (h1[b := mk ((cellAt prj [] h1 b)[i := y])]))"

definition copySlice :: "('a list \<Rightarrow> 'c) \<Rightarrow> ('c \<Rightarrow> 'a list option) \<Rightarrow> 'a \<Rightarrow> ('a \<Rightarrow> 'c list \<Rightarrow> 'a \<times> 'c list) \<Rightarrow>
    slice \<Rightarrow> 'c list \<Rightarrow> slice \<times> 'c list" where
  "copySlice mk prj zero copy s h =
     (let b = length h; h1 = h @ [mk (replicate (sl_len s) zero)]
      in (\<lparr>sl_addr = b, sl_off = 0, sl_len = sl_len s\<rparr>, copySlice_loop mk prj copy s b [0..<sl_len s] h1))"

definition sliceView :: "('c \<Rightarrow> 'a list option) \<Rightarrow> ('c list \<Rightarrow> 'a \<Rightarrow> 'v) \<Rightarrow> 'c list \<Rightarrow> slice \<Rightarrow> 'v list" where
  "sliceView prj view h s = map (view h) (sliceElems prj h s)"

definition sliceLocs :: "('c \<Rightarrow> 'a list option) \<Rightarrow> ('c list \<Rightarrow> 'a \<Rightarrow> addr set) \<Rightarrow> 'c list \<Rightarrow> slice \<Rightarrow> addr set" where
  "sliceLocs prj locs h s = insert (sl_addr s) (\<Union>x \<in> set (sliceElems prj h s). locs h x)"

definition sliceOk :: "('c \<Rightarrow> 'a list option) \<Rightarrow> ('c list \<Rightarrow> 'a \<Rightarrow> bool) \<Rightarrow> 'c list \<Rightarrow> slice \<Rightarrow> bool" where
  "sliceOk prj ok h s \<longleftrightarrow> mapOk prj h (sl_addr s) \<and> sl_off s + sl_len s \<le> length (cellAt prj [] h (sl_addr s)) \<and>
     list_all (ok h) (sliceElems prj h s)"

lemma sliceElems_length: "sliceOk prj ok h s \<Longrightarrow> length (sliceElems prj h s) = sl_len s"
  unfolding sliceOk_def sliceElems_def by auto

lemma sliceElems_cong:
  "h' ! sl_addr s = h ! sl_addr s \<Longrightarrow> sliceElems prj h' s = sliceElems prj h s"
  by (simp add: sliceElems_def cellAt_def)

text \<open>
  The elements copied so far are in the new array, have the values of the originals and live in cells
  after the array.
\<close>

definition copiedTo :: "('a list \<Rightarrow> 'c) \<Rightarrow> ('c list \<Rightarrow> 'a \<Rightarrow> 'v) \<Rightarrow> ('c list \<Rightarrow> 'a \<Rightarrow> addr set) \<Rightarrow>
    ('c list \<Rightarrow> 'a \<Rightarrow> bool) \<Rightarrow> 'c list \<Rightarrow> 'a list \<Rightarrow> nat \<Rightarrow> 'c list \<Rightarrow> bool" where
  "copiedTo mk view locs ok h xs n h' \<longleftrightarrow> prefix h h' \<and>
     (\<exists>ys. length h < length h' \<and> h' ! length h = mk ys \<and> length ys = length xs \<and>
        (\<forall>j<n. ok h' (ys ! j) \<and> view h' (ys ! j) = view h (xs ! j) \<and>
           locs h' (ys ! j) \<subseteq> {length h<..<length h'}))"

lemma prefix_update: "prefix h h' \<Longrightarrow> length h \<le> a \<Longrightarrow> prefix h (h'[a := c])"
  by (auto simp: prefix_def list_update_append)

context deep_copy
begin

lemma copiedTo_step:
  assumes pi: "\<And>xs. prj (mk xs) = Some xs"
    and inv: "copiedTo mk view locs ok h xs n h1" and n: "n < length xs" and ok: "ok h (xs ! n)"
    and c: "copy (xs ! n) h1 = (y, h2)"
  shows "copiedTo mk view locs ok h xs (Suc n) (h2[length h := mk ((cellAt prj [] h2 (length h))[n := y])])"
proof -
  let ?b = "length h"
  obtain ys where p: "prefix h h1" and b: "?b < length h1" "h1 ! ?b = mk ys" "length ys = length xs"
    and ys: "\<And>j. j < n \<Longrightarrow> ok h1 (ys ! j) \<and> view h1 (ys ! j) = view h (xs ! j) \<and>
      locs h1 (ys ! j) \<subseteq> {?b<..<length h1}"
    using inv by (auto simp: copiedTo_def)
  have x: "ok h1 (xs ! n)" "view h1 (xs ! n) = view h (xs ! n)" using extend [OF ok p] by auto
  note cp = copies [OF x(1) c]
  have p2: "prefix h1 h2" using cp by simp
  have len: "length h1 \<le> length h2" using p2 by (rule prefix_length_le)
  have b2: "h2 ! ?b = mk ys" "?b < length h2" using prefix_nth [OF p2 b(1)] b by auto
  let ?zs = "ys[n := y]"
  let ?h3 = "h2[?b := mk ?zs]"
  have zs: "(cellAt prj [] h2 ?b)[n := y] = ?zs" by (simp add: cellAt_def b2 pi)
  have keep: "ok ?h3 z \<and> view ?h3 z = view h2 z \<and> locs ?h3 z = locs h2 z"
    if "ok h2 z" and "?b \<notin> locs h2 z" for z
  proof (rule footprint [OF that(1)])
    fix a assume "a \<in> locs h2 z"
    then have "a \<noteq> ?b" "a < length h2" using that locs_ok [OF that(1)] by auto
    then show "a < length ?h3 \<and> ?h3 ! a = h2 ! a" by simp
  qed
  have "ok ?h3 (?zs ! j) \<and> view ?h3 (?zs ! j) = view h (xs ! j) \<and> locs ?h3 (?zs ! j) \<subseteq> {?b<..<length ?h3}"
    if j: "j < Suc n" for j
  proof (cases "j = n")
    case True
    have "?b \<notin> locs h2 y" using cp b by auto
    with True keep [of y] cp x n b len show ?thesis by auto
  next
    case False
    with j have j: "j < n" by simp
    have e: "ok h2 (ys ! j) \<and> view h2 (ys ! j) = view h1 (ys ! j) \<and> locs h2 (ys ! j) = locs h1 (ys ! j)"
      using extend [OF conjunct1 [OF ys [OF j]] p2] .
    then have "?b \<notin> locs h2 (ys ! j)" using ys [OF j] by auto
    with keep [of "ys ! j"] e ys [OF j] False len show ?thesis by auto
  qed
  moreover have "prefix h ?h3"
    using p p2 by (intro prefix_update) (auto intro: prefix_order.trans)
  ultimately show ?thesis
    unfolding copiedTo_def zs using b2 b by (intro conjI exI [of _ ?zs]) auto
qed

lemma copySlice_loop_inv:
  assumes pi: "\<And>xs. prj (mk xs) = Some xs" and ok: "sliceOk prj ok h s"
  shows "copiedTo mk view locs ok h (sliceElems prj h s) n h1 \<Longrightarrow> n \<le> sl_len s \<Longrightarrow>
    copiedTo mk view locs ok h (sliceElems prj h s) (sl_len s)
      (copySlice_loop mk prj copy s (length h) [n..<sl_len s] h1)"
proof (induction "sl_len s - n" arbitrary: n h1)
  case 0
  then show ?case by simp
next
  case (Suc m)
  let ?xs = "sliceElems prj h s"
  have n: "n < sl_len s" using Suc.hyps(2) by simp
  have "prefix h h1" using Suc.prems(1) by (simp add: copiedTo_def)
  then have "h1 ! sl_addr s = h ! sl_addr s"
    using ok prefix_nth [of h h1 "sl_addr s"] by (simp add: sliceOk_def mapOk_def)
  then have xs: "sliceElems prj h1 s = ?xs" by (rule sliceElems_cong)
  obtain y h2 where c: "copy (?xs ! n) h1 = (y, h2)" by (metis surj_pair)
  have "ok h (?xs ! n)" using ok n sliceElems_length [OF ok] by (simp add: sliceOk_def list_all_length)
  from copiedTo_step [of prj mk, OF pi Suc.prems(1) _ this c]
  have "copiedTo mk view locs ok h ?xs (Suc n)
      (h2[length h := mk ((cellAt prj [] h2 (length h))[n := y])])"
    using n sliceElems_length [OF ok] by simp
  from Suc.hyps(1) [OF _ this] Suc.hyps(2) n show ?case
    by (simp add: upt_conv_Cons xs c)
qed

lemma deep_copy_slice:
  assumes pi: "\<And>xs. prj (mk xs) = Some xs"
  shows "deep_copy (copySlice mk prj zero copy) (sliceView prj view) (sliceLocs prj locs) (sliceOk prj ok)"
proof
  fix h s assume "sliceOk prj ok h s"
  then show "sliceLocs prj locs h s \<subseteq> {..<length h}"
    using locs_ok [of h] by (fastforce simp: sliceOk_def sliceLocs_def mapOk_def list_all_iff)
next
  fix h s h'
  assume o: "sliceOk prj ok h s" and eq: "\<And>a. a \<in> sliceLocs prj locs h s \<Longrightarrow> a < length h' \<and> h' ! a = h ! a"
  have a: "sl_addr s < length h'" "h' ! sl_addr s = h ! sl_addr s"
    using eq [of "sl_addr s"] by (simp_all add: sliceLocs_def)
  note xs = sliceElems_cong [of h' s h prj, OF a(2)]
  have "ok h' x \<and> view h' x = view h x \<and> locs h' x = locs h x" if "x \<in> set (sliceElems prj h s)" for x
    using o that eq by (intro footprint) (auto simp: sliceOk_def sliceLocs_def list_all_iff)
  then show "sliceOk prj ok h' s \<and> sliceView prj view h' s = sliceView prj view h s \<and>
      sliceLocs prj locs h' s = sliceLocs prj locs h s"
    using o a xs by (simp add: sliceOk_def sliceView_def sliceLocs_def mapOk_def cellAt_def list_all_iff)
next
  fix h s t h'
  assume o: "sliceOk prj ok h s" and c: "copySlice mk prj zero copy s h = (t, h')"
  let ?xs = "sliceElems prj h s"
  let ?h1 = "h @ [mk (replicate (sl_len s) zero)]"
  have t: "t = \<lparr>sl_addr = length h, sl_off = 0, sl_len = sl_len s\<rparr>"
    and h': "h' = copySlice_loop mk prj copy s (length h) [0..<sl_len s] ?h1"
    using c by (simp_all add: copySlice_def Let_def)
  have "copiedTo mk view locs ok h ?xs 0 ?h1"
    by (auto simp: copiedTo_def sliceElems_length [OF o])
  from copySlice_loop_inv [of prj mk, OF pi o this]
  have "copiedTo mk view locs ok h ?xs (sl_len s) h'" by (simp add: h')
  then obtain ys where p: "prefix h h'" and b: "length h < length h'" "h' ! length h = mk ys" "length ys = sl_len s"
    and ys: "\<And>j. j < sl_len s \<Longrightarrow> ok h' (ys ! j) \<and> view h' (ys ! j) = view h (?xs ! j) \<and>
      locs h' (ys ! j) \<subseteq> {length h<..<length h'}"
    by (auto simp: copiedTo_def sliceElems_length [OF o])
  have e: "sliceElems prj h' t = ys" by (simp add: t sliceElems_def cellAt_def b pi)
  have "sliceOk prj ok h' t" using ys b e by (simp add: sliceOk_def t mapOk_def pi cellAt_def list_all_length)
  moreover have "sliceView prj view h' t = sliceView prj view h s"
    unfolding sliceView_def e using ys b sliceElems_length [OF o] by (intro nth_equalityI) simp_all
  moreover have "sliceLocs prj locs h' t \<subseteq> {length h..<length h'}"
    unfolding sliceLocs_def e using ys b by (fastforce simp: t in_set_conv_nth)
  ultimately show "prefix h h' \<and> sliceOk prj ok h' t \<and> sliceView prj view h' t = sliceView prj view h s \<and>
      sliceLocs prj locs h' t \<subseteq> {length h..<length h'}" using p by simp
qed

end

end
