(* ===== verification/Deep_Copy.thy ===== *)
theory Deep_Copy
  imports Api_Types Go_Heap
begin

text \<open>
  \<open>zz_generated.deepcopy.go\<close> over an explicit heap. The records here are the structs of
  \<open>kyuubicluster_types.go\<close> as Go lays them out: a map is an address, a slice a header with an address,
  nil is \<open>None\<close>. The structs of the Kubernetes libraries inside them (\<open>ObjectMeta\<close>, \<open>ListMeta\<close>,
  \<open>ServicePort\<close>) are values of a type \<open>'e\<close> whose \<open>DeepCopyInto\<close> methods are parameters; \<open>metav1.Time\<close>
  is a plain value. The views take a struct in a heap to the value that the rest of the development
  uses for it.
\<close>

section \<open>Structs in the heap\<close>

record hSparkCluster =
  hsc_SparkMaster :: string
  hsc_SparkImage :: ImageConfig
  hsc_SparkNamespace :: string
  hsc_SparkDefaults :: "addr option"

record hMetastoreCluster =
  hmc_HiveSite :: "addr option"

record hHdfsCluster =
  hhc_CoreSite :: "addr option"
  hhc_HdfsSite :: "addr option"

record hClusterRef =
  hcr_Name :: string
  hcr_Type :: ClusterType
  hcr_Spark :: hSparkCluster
  hcr_Metastore :: hMetastoreCluster
  hcr_Hdfs :: hHdfsCluster

record hKyuubiClusterSpec =
  hks_KyuubiVersion :: string
  hks_KyuubiImage :: ImageConfig
  hks_KyuubiResource :: ResourceConfig
  hks_KyuubiConf :: "addr option"
  hks_ClusterRefs :: "slice option"

record 'e hExposedInfo =
  hei_Name :: string
  hei_ExposedType :: ExposedType
  hei_ServiceName :: string
  hei_ServicePort :: 'e

record hKyuubiClusterStatus =
  hst_ExposedInfos :: "slice option"
  hst_CreationTime :: Time
  hst_UpdateTime :: Time

record 'e hKyuubiCluster =
  hkc_TypeMeta :: TypeMeta
  hkc_Meta :: 'e
  hkc_Spec :: hKyuubiClusterSpec
  hkc_Status :: hKyuubiClusterStatus

record 'e hKyuubiClusterList =
  hkl_TypeMeta :: TypeMeta
  hkl_ListMeta :: 'e
  hkl_Items :: "slice option"

text \<open>A cell holds a map, an array of one of the element types, or something of the libraries.\<close>

datatype 'e cell =
    CMap smap
  | CRefs "hClusterRef list"
  | CInfos "'e hExposedInfo list"
  | CItems "'e hKyuubiCluster list"
  | COther 'e

fun asMap :: "'e cell \<Rightarrow> smap option" where
  "asMap (CMap m) = Some m" | "asMap _ = None"

fun asRefs :: "'e cell \<Rightarrow> hClusterRef list option" where
  "asRefs (CRefs xs) = Some xs" | "asRefs _ = None"

fun asInfos :: "'e cell \<Rightarrow> 'e hExposedInfo list option" where
  "asInfos (CInfos xs) = Some xs" | "asInfos _ = None"

fun asItems :: "'e cell \<Rightarrow> 'e hKyuubiCluster list option" where
  "asItems (CItems xs) = Some xs" | "asItems _ = None"

text \<open>
  The \<open>DeepCopyInto\<close> methods of the libraries, the order in which the runtime visits a map, and the
  zero value of a library struct.
\<close>

record 'e external =
  OM_DeepCopyInto :: "'e \<Rightarrow> 'e cell list \<Rightarrow> 'e \<times> 'e cell list"
  LM_DeepCopyInto :: "'e \<Rightarrow> 'e cell list \<Rightarrow> 'e \<times> 'e cell list"
  SP_DeepCopyInto :: "'e \<Rightarrow> 'e cell list \<Rightarrow> 'e \<times> 'e cell list"
  map_order :: "'e cell list \<Rightarrow> addr \<Rightarrow> (string \<times> string) list"
  ext_zero :: 'e

definition zero_hRef :: hClusterRef where
  "zero_hRef = \<lparr>hcr_Name = [], hcr_Type = [],
     hcr_Spark = \<lparr>hsc_SparkMaster = [], hsc_SparkImage = zeroImage, hsc_SparkNamespace = [], hsc_SparkDefaults = None\<rparr>,
     hcr_Metastore = \<lparr>hmc_HiveSite = None\<rparr>, hcr_Hdfs = \<lparr>hhc_CoreSite = None, hhc_HdfsSite = None\<rparr>\<rparr>"

definition zero_hInfo :: "'e external \<Rightarrow> 'e hExposedInfo" where
  "zero_hInfo X = \<lparr>hei_Name = [], hei_ExposedType = [], hei_ServiceName = [], hei_ServicePort = ext_zero X\<rparr>"

definition zero_hCluster :: "'e external \<Rightarrow> 'e hKyuubiCluster" where
  "zero_hCluster X = \<lparr>hkc_TypeMeta = \<lparr>tm_Kind = [], tm_APIVersion = []\<rparr>, hkc_Meta = ext_zero X,
     hkc_Spec = \<lparr>hks_KyuubiVersion = [], hks_KyuubiImage = zeroImage, hks_KyuubiResource = \<lparr>rc_Replicas = 0\<rparr>,
       hks_KyuubiConf = None, hks_ClusterRefs = None\<rparr>,
     hkc_Status = \<lparr>hst_ExposedInfos = None, hst_CreationTime = 0, hst_UpdateTime = 0\<rparr>\<rparr>"

section \<open>The generated methods\<close>

text \<open>
  \<open>DeepCopyInto\<close> overwrites the whole of \<open>out\<close> (\<open>*out = *in\<close>) and then the fields that refer to the
  heap; here it returns what \<open>out\<close> holds afterwards. The block for a map field that recurs in it:
\<close>

definition copyMapField :: "'e external \<Rightarrow> addr option \<Rightarrow> 'e cell list \<Rightarrow> addr option \<times> 'e cell list" where
  "copyMapField X = copyOption (copyMap CMap asMap (map_order X))"

definition ImageConfig_DeepCopyInto :: "ImageConfig \<Rightarrow> 'e cell list \<Rightarrow> ImageConfig \<times> 'e cell list" where
  "ImageConfig_DeepCopyInto in' h = (let out = in' in (out, h))"

definition ResourceConfig_DeepCopyInto :: "ResourceConfig \<Rightarrow> 'e cell list \<Rightarrow> ResourceConfig \<times> 'e cell list" where
  "ResourceConfig_DeepCopyInto in' h = (let out = in' in (out, h))"

definition SparkCluster_DeepCopyInto ::
    "'e external \<Rightarrow> hSparkCluster \<Rightarrow> 'e cell list \<Rightarrow> hSparkCluster \<times> 'e cell list" where
  "SparkCluster_DeepCopyInto X in' h =
     (let out = in'; out = out\<lparr>hsc_SparkImage := hsc_SparkImage in'\<rparr>
      in case copyMapField X (hsc_SparkDefaults in') h of
           (m, h1) \<Rightarrow> (out\<lparr>hsc_SparkDefaults := m\<rparr>, h1))"

definition MetastoreCluster_DeepCopyInto ::
    "'e external \<Rightarrow> hMetastoreCluster \<Rightarrow> 'e cell list \<Rightarrow> hMetastoreCluster \<times> 'e cell list" where
  "MetastoreCluster_DeepCopyInto X in' h =
     (let out = in'
      in case copyMapField X (hmc_HiveSite in') h of (m, h1) \<Rightarrow> (out\<lparr>hmc_HiveSite := m\<rparr>, h1))"

definition HdfsCluster_DeepCopyInto ::
    "'e external \<Rightarrow> hHdfsCluster \<Rightarrow> 'e cell list \<Rightarrow> hHdfsCluster \<times> 'e cell list" where
  "HdfsCluster_DeepCopyInto X in' h =
     (let out = in'
      in case copyMapField X (hhc_CoreSite in') h of
           (m, h1) \<Rightarrow>
             (let out = out\<lparr>hhc_CoreSite := m\<rparr>
              in case copyMapField X (hhc_HdfsSite in') h1 of
                   (m, h2) \<Rightarrow> (out\<lparr>hhc_HdfsSite := m\<rparr>, h2)))"

definition ClusterRef_DeepCopyInto ::
    "'e external \<Rightarrow> hClusterRef \<Rightarrow> 'e cell list \<Rightarrow> hClusterRef \<times> 'e cell list" where
  "ClusterRef_DeepCopyInto X in' h =
     (let out = in'
      in case SparkCluster_DeepCopyInto X (hcr_Spark in') h of
           (s, h1) \<Rightarrow>
             (case MetastoreCluster_DeepCopyInto X (hcr_Metastore in') h1 of
                (m, h2) \<Rightarrow>
                  (case HdfsCluster_DeepCopyInto X (hcr_Hdfs in') h2 of
                     (d, h3) \<Rightarrow> (out\<lparr>hcr_Spark := s, hcr_Metastore := m, hcr_Hdfs := d\<rparr>, h3))))"

definition KyuubiClusterSpec_DeepCopyInto ::
    "'e external \<Rightarrow> hKyuubiClusterSpec \<Rightarrow> 'e cell list \<Rightarrow> hKyuubiClusterSpec \<times> 'e cell list" where
  "KyuubiClusterSpec_DeepCopyInto X in' h =
     (let out = in';
          out = out\<lparr>hks_KyuubiImage := hks_KyuubiImage in', hks_KyuubiResource := hks_KyuubiResource in'\<rparr>
      in case copyMapField X (hks_KyuubiConf in') h of
           (m, h1) \<Rightarrow>
             (let out = out\<lparr>hks_KyuubiConf := m\<rparr>
              in case copyOption (copySlice CRefs asRefs zero_hRef (ClusterRef_DeepCopyInto X)) (hks_ClusterRefs in') h1 of
                   (s, h2) \<Rightarrow> (out\<lparr>hks_ClusterRefs := s\<rparr>, h2)))"

definition ExposedInfo_DeepCopyInto ::
    "'e external \<Rightarrow> 'e hExposedInfo \<Rightarrow> 'e cell list \<Rightarrow> 'e hExposedInfo \<times> 'e cell list" where
  "ExposedInfo_DeepCopyInto X in' h =
     (let out = in'
      in case SP_DeepCopyInto X (hei_ServicePort in') h of (p, h1) \<Rightarrow> (out\<lparr>hei_ServicePort := p\<rparr>, h1))"

definition KyuubiClusterStatus_DeepCopyInto ::
    "'e external \<Rightarrow> hKyuubiClusterStatus \<Rightarrow> 'e cell list \<Rightarrow> hKyuubiClusterStatus \<times> 'e cell list" where
  "KyuubiClusterStatus_DeepCopyInto X in' h =
     (let out = in'
      in case copyOption (copySlice CInfos asInfos (zero_hInfo X) (ExposedInfo_DeepCopyInto X)) (hst_ExposedInfos in') h of
           (s, h1) \<Rightarrow>
             (out\<lparr>hst_ExposedInfos := s, hst_CreationTime := hst_CreationTime in',
                  hst_UpdateTime := hst_UpdateTime in'\<rparr>, h1))"

definition KyuubiCluster_DeepCopyInto ::
    "'e external \<Rightarrow> 'e hKyuubiCluster \<Rightarrow> 'e cell list \<Rightarrow> 'e hKyuubiCluster \<times> 'e cell list" where
  "KyuubiCluster_DeepCopyInto X in' h =
     (let out = in'; out = out\<lparr>hkc_TypeMeta := hkc_TypeMeta in'\<rparr>
      in case OM_DeepCopyInto X (hkc_Meta in') h of
           (m, h1) \<Rightarrow>
             (case KyuubiClusterSpec_DeepCopyInto X (hkc_Spec in') h1 of
                (sp, h2) \<Rightarrow>
                  (case KyuubiClusterStatus_DeepCopyInto X (hkc_Status in') h2 of
                     (st, h3) \<Rightarrow> (out\<lparr>hkc_Meta := m, hkc_Spec := sp, hkc_Status := st\<rparr>, h3))))"

definition KyuubiClusterList_DeepCopyInto ::
    "'e external \<Rightarrow> 'e hKyuubiClusterList \<Rightarrow> 'e cell list \<Rightarrow> 'e hKyuubiClusterList \<times> 'e cell list" where
  "KyuubiClusterList_DeepCopyInto X in' h =
     (let out = in'; out = out\<lparr>hkl_TypeMeta := hkl_TypeMeta in'\<rparr>
      in case LM_DeepCopyInto X (hkl_ListMeta in') h of
           (m, h1) \<Rightarrow>
             (let out = out\<lparr>hkl_ListMeta := m\<rparr>
              in case copyOption (copySlice CItems asItems (zero_hCluster X) (KyuubiCluster_DeepCopyInto X)) (hkl_Items in') h1 of
                   (s, h2) \<Rightarrow> (out\<lparr>hkl_Items := s\<rparr>, h2)))"

text \<open>
  \<open>DeepCopy\<close>: nil for a nil receiver, otherwise a new struct filled by \<open>DeepCopyInto\<close>. A pointer to a
  struct is the optional value it points to.
\<close>

definition newCopy :: "('a \<Rightarrow> 'c list \<Rightarrow> 'a \<times> 'c list) \<Rightarrow> 'a option \<Rightarrow> 'c list \<Rightarrow> 'a option \<times> 'c list" where
  "newCopy DeepCopyInto in' h =
     (if in' = None then (None, h)
      else (case DeepCopyInto (the in') h of (out, h1) \<Rightarrow> (Some out, h1)))"

definition ImageConfig_DeepCopy :: "ImageConfig option \<Rightarrow> 'e cell list \<Rightarrow> ImageConfig option \<times> 'e cell list" where
  "ImageConfig_DeepCopy = newCopy ImageConfig_DeepCopyInto"

definition ResourceConfig_DeepCopy :: "ResourceConfig option \<Rightarrow> 'e cell list \<Rightarrow> ResourceConfig option \<times> 'e cell list" where
  "ResourceConfig_DeepCopy = newCopy ResourceConfig_DeepCopyInto"

definition SparkCluster_DeepCopy :: "'e external \<Rightarrow> hSparkCluster option \<Rightarrow> 'e cell list \<Rightarrow> hSparkCluster option \<times> 'e cell list" where
  "SparkCluster_DeepCopy X = newCopy (SparkCluster_DeepCopyInto X)"

definition MetastoreCluster_DeepCopy :: "'e external \<Rightarrow> hMetastoreCluster option \<Rightarrow> 'e cell list \<Rightarrow> hMetastoreCluster option \<times> 'e cell list" where
  "MetastoreCluster_DeepCopy X = newCopy (MetastoreCluster_DeepCopyInto X)"

definition HdfsCluster_DeepCopy :: "'e external \<Rightarrow> hHdfsCluster option \<Rightarrow> 'e cell list \<Rightarrow> hHdfsCluster option \<times> 'e cell list" where
  "HdfsCluster_DeepCopy X = newCopy (HdfsCluster_DeepCopyInto X)"

definition ClusterRef_DeepCopy :: "'e external \<Rightarrow> hClusterRef option \<Rightarrow> 'e cell list \<Rightarrow> hClusterRef option \<times> 'e cell list" where
  "ClusterRef_DeepCopy X = newCopy (ClusterRef_DeepCopyInto X)"

definition KyuubiClusterSpec_DeepCopy :: "'e external \<Rightarrow> hKyuubiClusterSpec option \<Rightarrow> 'e cell list \<Rightarrow> hKyuubiClusterSpec option \<times> 'e cell list" where
  "KyuubiClusterSpec_DeepCopy X = newCopy (KyuubiClusterSpec_DeepCopyInto X)"

definition ExposedInfo_DeepCopy :: "'e external \<Rightarrow> 'e hExposedInfo option \<Rightarrow> 'e cell list \<Rightarrow> 'e hExposedInfo option \<times> 'e cell list" where
  "ExposedInfo_DeepCopy X = newCopy (ExposedInfo_DeepCopyInto X)"

definition KyuubiClusterStatus_DeepCopy :: "'e external \<Rightarrow> hKyuubiClusterStatus option \<Rightarrow> 'e cell list \<Rightarrow> hKyuubiClusterStatus option \<times> 'e cell list" where
  "KyuubiClusterStatus_DeepCopy X = newCopy (KyuubiClusterStatus_DeepCopyInto X)"

definition KyuubiCluster_DeepCopy :: "'e external \<Rightarrow> 'e hKyuubiCluster option \<Rightarrow> 'e cell list \<Rightarrow> 'e hKyuubiCluster option \<times> 'e cell list" where
  "KyuubiCluster_DeepCopy X = newCopy (KyuubiCluster_DeepCopyInto X)"

definition KyuubiClusterList_DeepCopy :: "'e external \<Rightarrow> 'e hKyuubiClusterList option \<Rightarrow> 'e cell list \<Rightarrow> 'e hKyuubiClusterList option \<times> 'e cell list" where
  "KyuubiClusterList_DeepCopy X = newCopy (KyuubiClusterList_DeepCopyInto X)"

text \<open>\<open>runtime.Object\<close> holding one of the two types; nil is \<open>None\<close>.\<close>

datatype 'e object = ClusterObject "'e hKyuubiCluster" | ListObject "'e hKyuubiClusterList"

definition KyuubiCluster_DeepCopyObject ::
    "'e external \<Rightarrow> 'e hKyuubiCluster option \<Rightarrow> 'e cell list \<Rightarrow> 'e object option \<times> 'e cell list" where
  "KyuubiCluster_DeepCopyObject X in' h =
     (case KyuubiCluster_DeepCopy X in' h of
        (c, h1) \<Rightarrow> if c \<noteq> None then (Some (ClusterObject (the c)), h1) else (None, h1))"

definition KyuubiClusterList_DeepCopyObject ::
    "'e external \<Rightarrow> 'e hKyuubiClusterList option \<Rightarrow> 'e cell list \<Rightarrow> 'e object option \<times> 'e cell list" where
  "KyuubiClusterList_DeepCopyObject X in' h =
     (case KyuubiClusterList_DeepCopy X in' h of
        (c, h1) \<Rightarrow> if c \<noteq> None then (Some (ListObject (the c)), h1) else (None, h1))"

end
