(* ===== verification/Deep_Copy_Correct.thy ===== *)
theory Deep_Copy_Correct
  imports Deep_Copy Reference_Server
begin

text \<open>
  Every generated \<open>DeepCopyInto\<close> method meets the contract \<open>deep_copy\<close>, given that the methods of the
  libraries do (the locale \<open>external_copies\<close>). So a copy stands for the same value as its original and
  shares nothing with it, which is what allows the rest of the development to work with immutable
  values.
\<close>

section \<open>Values, cells and well-formedness of the structs\<close>

abbreviation mapView :: "'e cell list \<Rightarrow> addr \<Rightarrow> smap" where
  "mapView \<equiv> cellAt asMap fmempty"

abbreviation mapLocs :: "'e cell list \<Rightarrow> addr \<Rightarrow> addr set" where
  "mapLocs \<equiv> (\<lambda>h a. {a})"

definition sparkView :: "'e cell list \<Rightarrow> hSparkCluster \<Rightarrow> SparkCluster" where
  "sparkView h x = \<lparr>sc_SparkMaster = hsc_SparkMaster x, sc_SparkImage = hsc_SparkImage x,
     sc_SparkNamespace = hsc_SparkNamespace x, sc_SparkDefaults = optView mapView h (hsc_SparkDefaults x)\<rparr>"

definition sparkLocs :: "'e cell list \<Rightarrow> hSparkCluster \<Rightarrow> addr set" where
  "sparkLocs = (\<lambda>h x. optLocs mapLocs h (hsc_SparkDefaults x))"

definition sparkOk :: "'e cell list \<Rightarrow> hSparkCluster \<Rightarrow> bool" where
  "sparkOk = (\<lambda>h x. optOk (mapOk asMap) h (hsc_SparkDefaults x))"

definition metastoreView :: "'e cell list \<Rightarrow> hMetastoreCluster \<Rightarrow> MetastoreCluster" where
  "metastoreView h x = \<lparr>mc_HiveSite = optView mapView h (hmc_HiveSite x)\<rparr>"

definition metastoreLocs :: "'e cell list \<Rightarrow> hMetastoreCluster \<Rightarrow> addr set" where
  "metastoreLocs = (\<lambda>h x. optLocs mapLocs h (hmc_HiveSite x))"

definition metastoreOk :: "'e cell list \<Rightarrow> hMetastoreCluster \<Rightarrow> bool" where
  "metastoreOk = (\<lambda>h x. optOk (mapOk asMap) h (hmc_HiveSite x))"

definition hdfsView :: "'e cell list \<Rightarrow> hHdfsCluster \<Rightarrow> HdfsCluster" where
  "hdfsView h x = \<lparr>hc_CoreSite = optView mapView h (hhc_CoreSite x), hc_HdfsSite = optView mapView h (hhc_HdfsSite x)\<rparr>"

abbreviation hdfsFields :: "hHdfsCluster \<Rightarrow> addr option \<times> addr option" where
  "hdfsFields x \<equiv> (hhc_CoreSite x, hhc_HdfsSite x)"

definition hdfsLocs :: "'e cell list \<Rightarrow> hHdfsCluster \<Rightarrow> addr set" where
  "hdfsLocs = (\<lambda>h x. bothLocs (optLocs mapLocs) (optLocs mapLocs) h (hdfsFields x))"

definition hdfsOk :: "'e cell list \<Rightarrow> hHdfsCluster \<Rightarrow> bool" where
  "hdfsOk = (\<lambda>h x. bothOk (optOk (mapOk asMap)) (optOk (mapOk asMap)) h (hdfsFields x))"

definition refView :: "'e cell list \<Rightarrow> hClusterRef \<Rightarrow> ClusterRef" where
  "refView h x = \<lparr>cr_Name = hcr_Name x, cr_Type = hcr_Type x, cr_Spark = sparkView h (hcr_Spark x),
     cr_Metastore = metastoreView h (hcr_Metastore x), cr_Hdfs = hdfsView h (hcr_Hdfs x)\<rparr>"

abbreviation refFields :: "hClusterRef \<Rightarrow> hSparkCluster \<times> hMetastoreCluster \<times> hHdfsCluster" where
  "refFields x \<equiv> (hcr_Spark x, hcr_Metastore x, hcr_Hdfs x)"

definition refLocs :: "'e cell list \<Rightarrow> hClusterRef \<Rightarrow> addr set" where
  "refLocs = (\<lambda>h x. bothLocs sparkLocs (bothLocs metastoreLocs hdfsLocs) h (refFields x))"

definition refOk :: "'e cell list \<Rightarrow> hClusterRef \<Rightarrow> bool" where
  "refOk = (\<lambda>h x. bothOk sparkOk (bothOk metastoreOk hdfsOk) h (refFields x))"

text \<open>
  The value of a spec does not tell a nil list of references from an empty one, which the controller
  does not either.
\<close>

definition specView :: "'e cell list \<Rightarrow> hKyuubiClusterSpec \<Rightarrow> KyuubiClusterSpec" where
  "specView h x = \<lparr>kcs_KyuubiVersion = hks_KyuubiVersion x, kcs_KyuubiImage = hks_KyuubiImage x,
     kcs_KyuubiResource = hks_KyuubiResource x, kcs_KyuubiConf = optView mapView h (hks_KyuubiConf x),
     kcs_ClusterRefs = (case optView (sliceView asRefs refView) h (hks_ClusterRefs x) of None \<Rightarrow> [] | Some rs \<Rightarrow> rs)\<rparr>"

abbreviation specFields :: "hKyuubiClusterSpec \<Rightarrow> addr option \<times> slice option" where
  "specFields x \<equiv> (hks_KyuubiConf x, hks_ClusterRefs x)"

definition specLocs :: "'e cell list \<Rightarrow> hKyuubiClusterSpec \<Rightarrow> addr set" where
  "specLocs = (\<lambda>h x. bothLocs (optLocs mapLocs) (optLocs (sliceLocs asRefs refLocs)) h (specFields x))"

definition specOk :: "'e cell list \<Rightarrow> hKyuubiClusterSpec \<Rightarrow> bool" where
  "specOk = (\<lambda>h x. bothOk (optOk (mapOk asMap)) (optOk (sliceOk asRefs refOk)) h (specFields x))"

text \<open>The structs with parts of the libraries take the library's views as arguments.\<close>

definition infoView :: "('e cell list \<Rightarrow> 'e \<Rightarrow> ServicePort) \<Rightarrow> 'e cell list \<Rightarrow> 'e hExposedInfo \<Rightarrow> ExposedInfo" where
  "infoView spView h x = \<lparr>ei_Name = hei_Name x, ei_ExposedType = hei_ExposedType x,
     ei_ServiceName = hei_ServiceName x, ei_ServicePort = spView h (hei_ServicePort x)\<rparr>"

definition infoLocs :: "('e cell list \<Rightarrow> 'e \<Rightarrow> addr set) \<Rightarrow> 'e cell list \<Rightarrow> 'e hExposedInfo \<Rightarrow> addr set" where
  "infoLocs extLocs = (\<lambda>h x. extLocs h (hei_ServicePort x))"

definition infoOk :: "('e cell list \<Rightarrow> 'e \<Rightarrow> bool) \<Rightarrow> 'e cell list \<Rightarrow> 'e hExposedInfo \<Rightarrow> bool" where
  "infoOk extOk = (\<lambda>h x. extOk h (hei_ServicePort x))"

definition statusView :: "('e cell list \<Rightarrow> 'e \<Rightarrow> ServicePort) \<Rightarrow> 'e cell list \<Rightarrow> hKyuubiClusterStatus \<Rightarrow> KyuubiClusterStatus" where
  "statusView spView h x = \<lparr>st_ExposedInfos = optView (sliceView asInfos (infoView spView)) h (hst_ExposedInfos x),
     st_CreationTime = hst_CreationTime x, st_UpdateTime = hst_UpdateTime x\<rparr>"

definition statusLocs :: "('e cell list \<Rightarrow> 'e \<Rightarrow> addr set) \<Rightarrow> 'e cell list \<Rightarrow> hKyuubiClusterStatus \<Rightarrow> addr set" where
  "statusLocs extLocs = (\<lambda>h x. optLocs (sliceLocs asInfos (infoLocs extLocs)) h (hst_ExposedInfos x))"

definition statusOk :: "('e cell list \<Rightarrow> 'e \<Rightarrow> bool) \<Rightarrow> 'e cell list \<Rightarrow> hKyuubiClusterStatus \<Rightarrow> bool" where
  "statusOk extOk = (\<lambda>h x. optOk (sliceOk asInfos (infoOk extOk)) h (hst_ExposedInfos x))"

definition clusterView :: "('e cell list \<Rightarrow> 'e \<Rightarrow> ObjectMeta) \<Rightarrow> ('e cell list \<Rightarrow> 'e \<Rightarrow> ServicePort) \<Rightarrow>
    'e cell list \<Rightarrow> 'e hKyuubiCluster \<Rightarrow> KyuubiCluster" where
  "clusterView omView spView h x = \<lparr>kc_TypeMeta = hkc_TypeMeta x, kc_Meta = omView h (hkc_Meta x),
     kc_Spec = specView h (hkc_Spec x), kc_Status = statusView spView h (hkc_Status x)\<rparr>"

abbreviation clusterFields :: "'e hKyuubiCluster \<Rightarrow> 'e \<times> hKyuubiClusterSpec \<times> hKyuubiClusterStatus" where
  "clusterFields x \<equiv> (hkc_Meta x, hkc_Spec x, hkc_Status x)"

definition clusterLocs :: "('e cell list \<Rightarrow> 'e \<Rightarrow> addr set) \<Rightarrow> 'e cell list \<Rightarrow> 'e hKyuubiCluster \<Rightarrow> addr set" where
  "clusterLocs extLocs = (\<lambda>h x. bothLocs extLocs (bothLocs specLocs (statusLocs extLocs)) h (clusterFields x))"

definition clusterOk :: "('e cell list \<Rightarrow> 'e \<Rightarrow> bool) \<Rightarrow> 'e cell list \<Rightarrow> 'e hKyuubiCluster \<Rightarrow> bool" where
  "clusterOk extOk = (\<lambda>h x. bothOk extOk (bothOk specOk (statusOk extOk)) h (clusterFields x))"

definition listView :: "('e cell list \<Rightarrow> 'e \<Rightarrow> ListMeta) \<Rightarrow> ('e cell list \<Rightarrow> 'e \<Rightarrow> ObjectMeta) \<Rightarrow>
    ('e cell list \<Rightarrow> 'e \<Rightarrow> ServicePort) \<Rightarrow> 'e cell list \<Rightarrow> 'e hKyuubiClusterList \<Rightarrow> KyuubiClusterList" where
  "listView lmView omView spView h x = \<lparr>kl_TypeMeta = hkl_TypeMeta x, kl_ListMeta = lmView h (hkl_ListMeta x),
     kl_Items = (case optView (sliceView asItems (clusterView omView spView)) h (hkl_Items x) of None \<Rightarrow> [] | Some ks \<Rightarrow> ks)\<rparr>"

abbreviation listFields :: "'e hKyuubiClusterList \<Rightarrow> 'e \<times> slice option" where
  "listFields x \<equiv> (hkl_ListMeta x, hkl_Items x)"

definition listLocs :: "('e cell list \<Rightarrow> 'e \<Rightarrow> addr set) \<Rightarrow> 'e cell list \<Rightarrow> 'e hKyuubiClusterList \<Rightarrow> addr set" where
  "listLocs extLocs = (\<lambda>h x. bothLocs extLocs (optLocs (sliceLocs asItems (clusterLocs extLocs))) h (listFields x))"

definition listOk :: "('e cell list \<Rightarrow> 'e \<Rightarrow> bool) \<Rightarrow> 'e cell list \<Rightarrow> 'e hKyuubiClusterList \<Rightarrow> bool" where
  "listOk extOk = (\<lambda>h x. bothOk extOk (optOk (sliceOk asItems (clusterOk extOk))) h (listFields x))"

section \<open>The contracts\<close>

text \<open>What the libraries promise: their copies are deep, and a map is visited entry by entry.\<close>

locale external_copies =
  om: deep_copy "OM_DeepCopyInto X" omView extLocs extOk +
  lm: deep_copy "LM_DeepCopyInto X" lmView extLocs extOk +
  sp: deep_copy "SP_DeepCopyInto X" spView extLocs extOk
  for X :: "'e external" and omView :: "'e cell list \<Rightarrow> 'e \<Rightarrow> ObjectMeta"
    and lmView :: "'e cell list \<Rightarrow> 'e \<Rightarrow> ListMeta" and spView :: "'e cell list \<Rightarrow> 'e \<Rightarrow> ServicePort"
    and extLocs :: "'e cell list \<Rightarrow> 'e \<Rightarrow> addr set" and extOk :: "'e cell list \<Rightarrow> 'e \<Rightarrow> bool" +
  assumes order: "a < length h \<Longrightarrow> asMap (h ! a) = Some m \<Longrightarrow> enumerates (map_order X h a) (Some m)"
begin

lemma mapField_copy: "deep_copy (copyMapField X) (optView mapView) (optLocs mapLocs) (optOk (mapOk asMap))"
  unfolding copyMapField_def
  by (intro deep_copy_option deep_copy_map) (use order in auto)

lemma spark_copy: "deep_copy (SparkCluster_DeepCopyInto X) sparkView sparkLocs sparkOk"
  unfolding sparkLocs_def sparkOk_def
  by (rule deep_copy_struct [OF mapField_copy, where parts = "hsc_SparkDefaults" and build = "\<lambda>x y. x\<lparr>hsc_SparkDefaults := y\<rparr>"
        and rest = "\<lambda>x. (hsc_SparkMaster x, hsc_SparkImage x, hsc_SparkNamespace x)"
        and join = "\<lambda>(a, i, n) v. \<lparr>sc_SparkMaster = a, sc_SparkImage = i, sc_SparkNamespace = n, sc_SparkDefaults = v\<rparr>"])
     (simp_all add: SparkCluster_DeepCopyInto_def sparkView_def Let_def)

lemma metastore_copy: "deep_copy (MetastoreCluster_DeepCopyInto X) metastoreView metastoreLocs metastoreOk"
  unfolding metastoreLocs_def metastoreOk_def
  by (rule deep_copy_struct [OF mapField_copy, where parts = "hmc_HiveSite" and build = "\<lambda>x y. x\<lparr>hmc_HiveSite := y\<rparr>"
        and rest = "\<lambda>x. ()" and join = "\<lambda>u v. \<lparr>mc_HiveSite = v\<rparr>"])
     (simp_all add: MetastoreCluster_DeepCopyInto_def metastoreView_def Let_def)

lemma hdfs_copy: "deep_copy (HdfsCluster_DeepCopyInto X) hdfsView hdfsLocs hdfsOk"
  unfolding hdfsLocs_def hdfsOk_def
  by (rule deep_copy_struct [OF deep_copy_both [OF mapField_copy mapField_copy],
        where parts = "\<lambda>x. hdfsFields x" and build = "\<lambda>x (c, d). x\<lparr>hhc_CoreSite := c, hhc_HdfsSite := d\<rparr>"
        and rest = "\<lambda>x. ()" and join = "\<lambda>u (c, d). \<lparr>hc_CoreSite = c, hc_HdfsSite = d\<rparr>"])
     (simp_all add: HdfsCluster_DeepCopyInto_def hdfsView_def copyBoth_def bothView_def Let_def split: prod.split)

lemma ref_copy: "deep_copy (ClusterRef_DeepCopyInto X) refView refLocs refOk"
  unfolding refLocs_def refOk_def
  by (rule deep_copy_struct [OF deep_copy_both [OF spark_copy deep_copy_both [OF metastore_copy hdfs_copy]],
        where parts = "\<lambda>x. refFields x" and build = "\<lambda>x (s, m, d). x\<lparr>hcr_Spark := s, hcr_Metastore := m, hcr_Hdfs := d\<rparr>"
        and rest = "\<lambda>x. (hcr_Name x, hcr_Type x)"
        and join = "\<lambda>(n, t) (s, m, d). \<lparr>cr_Name = n, cr_Type = t, cr_Spark = s, cr_Metastore = m, cr_Hdfs = d\<rparr>"])
     (simp_all add: ClusterRef_DeepCopyInto_def refView_def copyBoth_def bothView_def Let_def split: prod.split)

lemma refs_copy: "deep_copy (copySlice CRefs asRefs zero_hRef (ClusterRef_DeepCopyInto X))
    (sliceView asRefs refView) (sliceLocs asRefs refLocs) (sliceOk asRefs refOk)"
  by (rule deep_copy.deep_copy_slice [OF ref_copy]) simp

lemma spec_copy: "deep_copy (KyuubiClusterSpec_DeepCopyInto X) specView specLocs specOk"
  unfolding specLocs_def specOk_def
  by (rule deep_copy_struct [OF deep_copy_both [OF mapField_copy deep_copy_option [OF refs_copy]],
        where parts = "\<lambda>x. specFields x" and build = "\<lambda>x (m, s). x\<lparr>hks_KyuubiConf := m, hks_ClusterRefs := s\<rparr>"
        and rest = "\<lambda>x. (hks_KyuubiVersion x, hks_KyuubiImage x, hks_KyuubiResource x)"
        and join = "\<lambda>(v, i, r) (m, s). \<lparr>kcs_KyuubiVersion = v, kcs_KyuubiImage = i, kcs_KyuubiResource = r,
          kcs_KyuubiConf = m, kcs_ClusterRefs = (case s of None \<Rightarrow> [] | Some rs \<Rightarrow> rs)\<rparr>"])
     (simp_all add: KyuubiClusterSpec_DeepCopyInto_def specView_def copyBoth_def bothView_def Let_def split: prod.split)

lemma info_copy: "deep_copy (ExposedInfo_DeepCopyInto X) (infoView spView) (infoLocs extLocs) (infoOk extOk)"
  unfolding infoLocs_def infoOk_def
  by (rule deep_copy_struct [OF sp.deep_copy_axioms, where parts = "hei_ServicePort" and build = "\<lambda>x y. x\<lparr>hei_ServicePort := y\<rparr>"
        and rest = "\<lambda>x. (hei_Name x, hei_ExposedType x, hei_ServiceName x)"
        and join = "\<lambda>(n, t, s) p. \<lparr>ei_Name = n, ei_ExposedType = t, ei_ServiceName = s, ei_ServicePort = p\<rparr>"])
     (simp_all add: ExposedInfo_DeepCopyInto_def infoView_def Let_def)

lemma infos_copy: "deep_copy (copySlice CInfos asInfos (zero_hInfo X) (ExposedInfo_DeepCopyInto X))
    (sliceView asInfos (infoView spView)) (sliceLocs asInfos (infoLocs extLocs)) (sliceOk asInfos (infoOk extOk))"
  by (rule deep_copy.deep_copy_slice [OF info_copy]) simp

lemma status_copy: "deep_copy (KyuubiClusterStatus_DeepCopyInto X) (statusView spView) (statusLocs extLocs) (statusOk extOk)"
  unfolding statusLocs_def statusOk_def
  by (rule deep_copy_struct [OF deep_copy_option [OF infos_copy], where parts = "hst_ExposedInfos" and build = "\<lambda>x y. x\<lparr>hst_ExposedInfos := y\<rparr>"
        and rest = "\<lambda>x. (hst_CreationTime x, hst_UpdateTime x)"
        and join = "\<lambda>(c, u) s. \<lparr>st_ExposedInfos = s, st_CreationTime = c, st_UpdateTime = u\<rparr>"])
     (simp_all add: KyuubiClusterStatus_DeepCopyInto_def statusView_def Let_def)

lemma cluster_copy:
  "deep_copy (KyuubiCluster_DeepCopyInto X) (clusterView omView spView) (clusterLocs extLocs) (clusterOk extOk)"
  unfolding clusterLocs_def clusterOk_def
  by (rule deep_copy_struct [OF deep_copy_both [OF om.deep_copy_axioms deep_copy_both [OF spec_copy status_copy]],
        where parts = "\<lambda>x. clusterFields x" and build = "\<lambda>x (m, sp, st). x\<lparr>hkc_Meta := m, hkc_Spec := sp, hkc_Status := st\<rparr>"
        and rest = "\<lambda>x. hkc_TypeMeta x"
        and join = "\<lambda>t (m, sp, st). \<lparr>kc_TypeMeta = t, kc_Meta = m, kc_Spec = sp, kc_Status = st\<rparr>"])
     (simp_all add: KyuubiCluster_DeepCopyInto_def clusterView_def copyBoth_def bothView_def Let_def split: prod.split)

lemma items_copy: "deep_copy (copySlice CItems asItems (zero_hCluster X) (KyuubiCluster_DeepCopyInto X))
    (sliceView asItems (clusterView omView spView)) (sliceLocs asItems (clusterLocs extLocs)) (sliceOk asItems (clusterOk extOk))"
  by (rule deep_copy.deep_copy_slice [OF cluster_copy]) simp

lemma list_copy:
  "deep_copy (KyuubiClusterList_DeepCopyInto X) (listView lmView omView spView) (listLocs extLocs) (listOk extOk)"
  unfolding listLocs_def listOk_def
  by (rule deep_copy_struct [OF deep_copy_both [OF lm.deep_copy_axioms deep_copy_option [OF items_copy]],
        where parts = "\<lambda>x. listFields x" and build = "\<lambda>x (m, s). x\<lparr>hkl_ListMeta := m, hkl_Items := s\<rparr>"
        and rest = "\<lambda>x. hkl_TypeMeta x"
        and join = "\<lambda>t (m, s). \<lparr>kl_TypeMeta = t, kl_ListMeta = m, kl_Items = (case s of None \<Rightarrow> [] | Some ks \<Rightarrow> ks)\<rparr>"])
     (simp_all add: KyuubiClusterList_DeepCopyInto_def listView_def copyBoth_def bothView_def Let_def split: prod.split)

end

sublocale external_copies \<subseteq> cluster: deep_copy "KyuubiCluster_DeepCopyInto X" "clusterView omView spView"
    "clusterLocs extLocs" "clusterOk extOk"
  by (rule cluster_copy)

sublocale external_copies \<subseteq> clusters: deep_copy "KyuubiClusterList_DeepCopyInto X" "listView lmView omView spView"
    "listLocs extLocs" "listOk extOk"
  by (rule list_copy)

section \<open>An instance\<close>

text \<open>Library structs with a map inside: metadata with its labels.\<close>

datatype refStruct = RMeta ObjectMeta "addr option" | RPort ServicePort | RList ListMeta

fun refStruct_copy :: "refStruct \<Rightarrow> refStruct cell list \<Rightarrow> refStruct \<times> refStruct cell list" where
  "refStruct_copy (RMeta m l) h =
     (case copyOption (copyMap CMap asMap (\<lambda>h a. sorted_list_of_fmap (mapView h a))) l h of
        (l', h1) \<Rightarrow> (RMeta m l', h1))"
| "refStruct_copy x h = (x, h)"

definition refExternal :: "refStruct external" where
  "refExternal = \<lparr>OM_DeepCopyInto = refStruct_copy, LM_DeepCopyInto = refStruct_copy,
     SP_DeepCopyInto = refStruct_copy, map_order = \<lambda>h a. sorted_list_of_fmap (mapView h a),
     ext_zero = RList zeroListMeta\<rparr>"

fun refStruct_meta :: "refStruct cell list \<Rightarrow> refStruct \<Rightarrow> ObjectMeta" where
  "refStruct_meta h (RMeta m l) = m\<lparr>om_Labels := optView mapView h l\<rparr>" | "refStruct_meta h x = zeroMeta"

fun refStruct_port :: "refStruct cell list \<Rightarrow> refStruct \<Rightarrow> ServicePort" where
  "refStruct_port h (RPort p) = p"
| "refStruct_port h x = \<lparr>sp_Name = [], sp_Protocol = [], sp_AppProtocol = None, sp_Port = 0,
     sp_TargetPort = IntVal 0, sp_NodePort = 0\<rparr>"

fun refStruct_list :: "refStruct cell list \<Rightarrow> refStruct \<Rightarrow> ListMeta" where
  "refStruct_list h (RList m) = m" | "refStruct_list h x = zeroListMeta"

fun refStruct_locs :: "refStruct cell list \<Rightarrow> refStruct \<Rightarrow> addr set" where
  "refStruct_locs h (RMeta m l) = optLocs mapLocs h l" | "refStruct_locs h x = {}"

fun refStruct_ok :: "refStruct cell list \<Rightarrow> refStruct \<Rightarrow> bool" where
  "refStruct_ok h (RMeta m l) = optOk (mapOk asMap) h l" | "refStruct_ok h x = True"

lemma sorted_order:
  "asMap (h ! a) = Some m \<Longrightarrow> enumerates (sorted_list_of_fmap (mapView h a)) (Some m)"
  using enumerates_sorted [of "Some m"] by (simp add: cellAt_def gm_map_def)

lemma refStruct_labels:
  "deep_copy (copyOption (copyMap CMap asMap (\<lambda>h a. sorted_list_of_fmap (mapView h a))))
     (optView mapView) (optLocs mapLocs) (optOk (mapOk asMap))"
  by (intro deep_copy_option deep_copy_map sorted_order) simp_all

lemma refStruct_deep_copy:
  assumes "\<And>h h' m l l'. optView mapView h' l' = optView mapView h l \<Longrightarrow> view h' (RMeta m l') = view h (RMeta m l)"
    and "\<And>h h' p. view h' (RPort p) = view h (RPort p)" and "\<And>h h' m. view h' (RList m) = view h (RList m)"
  shows "deep_copy refStruct_copy view refStruct_locs refStruct_ok"
proof
  fix h x assume "refStruct_ok h x"
  then show "refStruct_locs h x \<subseteq> {..<length h}"
    using deep_copy.locs_ok [OF refStruct_labels, of h] by (cases x) auto
next
  fix h x h'
  assume "refStruct_ok h x" and "\<And>a. a \<in> refStruct_locs h x \<Longrightarrow> a < length h' \<and> h' ! a = h ! a"
  then show "refStruct_ok h' x \<and> view h' x = view h x \<and> refStruct_locs h' x = refStruct_locs h x"
  proof (cases x)
    case (RMeta m l)
    assume "refStruct_ok h x" and "\<And>a. a \<in> refStruct_locs h x \<Longrightarrow> a < length h' \<and> h' ! a = h ! a"
    with RMeta have "optOk (mapOk asMap) h' l \<and> optView mapView h' l = optView mapView h l \<and>
        optLocs mapLocs h' l = optLocs mapLocs h l"
      by (intro deep_copy.footprint [OF refStruct_labels]) simp_all
    with RMeta assms(1) [of h' l h l m] show ?thesis by simp
  next
    case (RPort p)
    with assms(2) [of h' p h] show ?thesis by simp
  next
    case (RList m)
    with assms(3) [of h' m h] show ?thesis by simp
  qed
next
  fix h x y h'
  assume o: "refStruct_ok h x" and c: "refStruct_copy x h = (y, h')"
  show "prefix h h' \<and> refStruct_ok h' y \<and> view h' y = view h x \<and> refStruct_locs h' y \<subseteq> {length h..<length h'}"
  proof (cases x)
    case (RMeta m l)
    with o c deep_copy.copies [OF refStruct_labels, of h l] show ?thesis
      by (auto split: prod.splits intro: assms)
  qed (use c assms in auto)
qed

interpretation refCopies: external_copies refExternal refStruct_meta refStruct_list refStruct_port
    refStruct_locs refStruct_ok
  by (intro external_copies.intro external_copies_axioms.intro)
     (simp_all add: refExternal_def sorted_order refStruct_deep_copy)

section \<open>Properties\<close>

lemma newCopy_Some:
  obtains y h' where "newCopy copy (Some x) h = (Some y, h')" "copy x h = (y, h')"
  by (cases "copy x h") (simp add: newCopy_def)

lemma copyOption_None: "fst (copyOption copy x h) = None \<longleftrightarrow> x = None"
  by (simp add: copyOption_def split: prod.split)

lemma KyuubiCluster_DeepCopyInto_nil:
  "hks_ClusterRefs (hkc_Spec (fst (KyuubiCluster_DeepCopyInto X k h))) = None \<longleftrightarrow> hks_ClusterRefs (hkc_Spec k) = None"
  "hst_ExposedInfos (hkc_Status (fst (KyuubiCluster_DeepCopyInto X k h))) = None \<longleftrightarrow>
     hst_ExposedInfos (hkc_Status k) = None"
  by (simp_all add: KyuubiCluster_DeepCopyInto_def KyuubiClusterSpec_DeepCopyInto_def
      KyuubiClusterStatus_DeepCopyInto_def Let_def split_beta copyOption_None)

lemma KyuubiCluster_DeepCopyObject_Some:
  assumes "KyuubiCluster_DeepCopyObject X (Some k) h = (r, h')"
  obtains k' where "r = Some (ClusterObject k')" "KyuubiCluster_DeepCopyInto X k h = (k', h')"
  using assms
  by (auto simp: KyuubiCluster_DeepCopyObject_def KyuubiCluster_DeepCopy_def newCopy_def split: prod.splits)

text \<open>
  C30. The deep copy of a custom resource is the same value in new memory: it has the value of the
  original, before and after the copy, the two share no map and no array, and a nil list of references
  or of exposed infos stays nil. The value is the one that the rest of the development computes with.
\<close>

theorem deepcopy_refines:
  assumes "external_copies X omView lmView spView extLocs extOk" and "clusterOk extOk h k"
    and "KyuubiCluster_DeepCopyObject X (Some k) h = (r, h')"
  shows "\<exists>k'. r = Some (ClusterObject k') \<and>
    clusterView omView spView h' k' = clusterView omView spView h k \<and>
    clusterView omView spView h' k = clusterView omView spView h k \<and>
    clusterLocs extLocs h' k' \<inter> clusterLocs extLocs h' k = {} \<and>
    (hks_ClusterRefs (hkc_Spec k') = None \<longleftrightarrow> hks_ClusterRefs (hkc_Spec k) = None) \<and>
    (hst_ExposedInfos (hkc_Status k') = None \<longleftrightarrow> hst_ExposedInfos (hkc_Status k) = None)"
proof -
  note d = external_copies.cluster_copy [OF assms(1)]
  obtain k' where k': "r = Some (ClusterObject k')" "KyuubiCluster_DeepCopyInto X k h = (k', h')"
    using assms(3) by (rule KyuubiCluster_DeepCopyObject_Some)
  note c = deep_copy.copies [OF d assms(2) k'(2)] and l = deep_copy.locs_ok [OF d assms(2)]
  have e: "clusterView omView spView h' k = clusterView omView spView h k" "clusterLocs extLocs h' k = clusterLocs extLocs h k"
    using deep_copy.extend [OF d assms(2) conjunct1 [OF c]] by auto
  have "clusterLocs extLocs h' k' \<inter> clusterLocs extLocs h' k = {}"
    unfolding e(2) using c l by fastforce
  moreover have "hks_ClusterRefs (hkc_Spec k') = None \<longleftrightarrow> hks_ClusterRefs (hkc_Spec k) = None"
    "hst_ExposedInfos (hkc_Status k') = None \<longleftrightarrow> hst_ExposedInfos (hkc_Status k) = None"
    using KyuubiCluster_DeepCopyInto_nil [of X k h] k'(2) by simp_all
  ultimately show ?thesis using k'(1) c e(1) by (intro exI [of _ k']) simp
qed

text \<open>A heap with labels, a Kyuubi configuration and one Spark reference with defaults.\<close>

definition sampleHeap :: "refStruct cell list" where
  "sampleHeap = [CMap (fmap_of_list [(''app'', ''kyuubi'')]), CMap (fmap_of_list [(''a'', ''1'')]),
     CMap (fmap_of_list [(''b'', ''2'')]),
     CRefs [zero_hRef\<lparr>hcr_Spark := (hcr_Spark zero_hRef)\<lparr>hsc_SparkDefaults := Some 2\<rparr>\<rparr>]]"

definition sampleStruct :: "refStruct hKyuubiCluster" where
  "sampleStruct = (zero_hCluster refExternal)\<lparr>hkc_Meta := RMeta zeroMeta (Some 0),
     hkc_Spec := (hkc_Spec (zero_hCluster refExternal))\<lparr>hks_KyuubiConf := Some 1,
       hks_ClusterRefs := Some \<lparr>sl_addr = 3, sl_off = 0, sl_len = 1\<rparr>\<rparr>\<rparr>"

lemmas ok_defs = clusterOk_def bothOk_def optOk_def specOk_def statusOk_def sliceOk_def mapOk_def
  refOk_def sparkOk_def metastoreOk_def hdfsOk_def sliceElems_def cellAt_def

lemma sampleStruct_ok: "clusterOk refStruct_ok sampleHeap sampleStruct"
  by (simp add: ok_defs sampleHeap_def sampleStruct_def zero_hRef_def zero_hCluster_def)

theorem deepcopy_refines_witness:
  "\<exists>k' h'. KyuubiCluster_DeepCopyObject refExternal (Some sampleStruct) sampleHeap = (Some (ClusterObject k'), h') \<and>
     clusterView refStruct_meta refStruct_port h' k' = clusterView refStruct_meta refStruct_port sampleHeap sampleStruct \<and>
     clusterLocs refStruct_locs h' k' \<inter> clusterLocs refStruct_locs h' sampleStruct = {} \<and>
     hks_ClusterRefs (hkc_Spec k') \<noteq> None"
proof -
  obtain r h' where r: "KyuubiCluster_DeepCopyObject refExternal (Some sampleStruct) sampleHeap = (r, h')"
    by (metis surj_pair)
  from deepcopy_refines [OF refCopies.external_copies_axioms sampleStruct_ok r] r show ?thesis
    by (auto simp: sampleStruct_def)
qed

text \<open>
  C31. After a list of custom resources was copied, a write to any cell of the copy leaves the value of
  the original list as it was, and a write to any cell of the original leaves the value of the copy.
\<close>

theorem deepcopy_isolated:
  assumes "external_copies X omView lmView spView extLocs extOk" and "listOk extOk h l"
    and "KyuubiClusterList_DeepCopy X (Some l) h = (Some l', h')"
  shows "(a \<in> listLocs extLocs h' l' \<longrightarrow>
      listView lmView omView spView (h'[a := c]) l = listView lmView omView spView h l) \<and>
    (a \<in> listLocs extLocs h l \<longrightarrow>
      listView lmView omView spView (h'[a := c]) l' = listView lmView omView spView h l)"
proof -
  have "KyuubiClusterList_DeepCopyInto X l h = (l', h')"
    using assms(3) by (auto simp: KyuubiClusterList_DeepCopy_def newCopy_def split: prod.splits)
  from deep_copy.isolated [OF external_copies.list_copy [OF assms(1)] assms(2) this] show ?thesis by blast
qed

theorem deepcopy_isolated_witness:
  "\<exists>l l' h h' a. KyuubiClusterList_DeepCopy refExternal (Some l) h = (Some l', h') \<and>
     a \<in> listLocs refStruct_locs h l \<and>
     listView refStruct_list refStruct_meta refStruct_port (h'[a := CItems []]) l' =
       listView refStruct_list refStruct_meta refStruct_port h l"
proof -
  let ?l = "\<lparr>hkl_TypeMeta = \<lparr>tm_Kind = [], tm_APIVersion = []\<rparr>, hkl_ListMeta = RList zeroListMeta,
    hkl_Items = Some \<lparr>sl_addr = 4, sl_off = 0, sl_len = 1\<rparr>\<rparr>"
  let ?h = "sampleHeap @ [CItems [sampleStruct]]"
  have ok: "listOk refStruct_ok ?h ?l"
    by (simp add: ok_defs listOk_def sampleHeap_def sampleStruct_def zero_hRef_def zero_hCluster_def)
  obtain l' h' where c: "KyuubiClusterList_DeepCopy refExternal (Some ?l) ?h = (Some l', h')"
    unfolding KyuubiClusterList_DeepCopy_def by (rule newCopy_Some)
  have "4 \<in> listLocs refStruct_locs ?h ?l"
    by (simp add: listLocs_def bothLocs_def optLocs_def sliceLocs_def)
  with deepcopy_isolated [OF refCopies.external_copies_axioms ok c, of 4 "CItems []"] c show ?thesis by blast
qed

end
