(* ===== verification/Client_Setup.thy ===== *)
theory Client_Setup
  imports Clientset
begin

text \<open>
  The construction of the clientset (\<open>clientset.go\<close>, \<open>kyuubi-operator_client.go\<close>) and the timeout
  arithmetic of \<open>kyuubicluster.go\<close>: when construction succeeds, what the two clients it builds share,
  how \<open>NewForConfig\<close> relates to \<open>NewForConfigAndClient\<close>, and for which timeouts the conversion from
  seconds to nanoseconds is exact.
\<close>

section \<open>Timeouts\<close>

lemma sint_seconds:
  "sint ((w :: int64) * 1000000000) = signed_take_bit 63 (sint w * 1000000000)"
  by (simp add: sint_word_ariths(3))

lemma signed_take_bit_fix: "signed_take_bit n (k :: int) = k \<longleftrightarrow> - (2 ^ n) \<le> k \<and> k < 2 ^ n"
  using signed_take_bit_int_eq_self_iff by blast

text \<open>
  C38. The timeout of a list, watch or delete-collection request is the given number of seconds in
  nanoseconds exactly when that number is at most 9223372036 in absolute value; outside the range the
  64-bit product wraps. Without a given timeout it is zero.
\<close>

theorem listTimeout_exact_iff:
  "sint (listTimeout opts) = (case lo_TimeoutSeconds opts of None \<Rightarrow> 0 | Some t \<Rightarrow> sint t * 10 ^ 9) \<longleftrightarrow>
     (case lo_TimeoutSeconds opts of None \<Rightarrow> True | Some t \<Rightarrow> \<bar>sint t\<bar> \<le> 9223372036)"
proof (cases "lo_TimeoutSeconds opts")
  case None
  then show ?thesis by (simp add: listTimeout_def)
next
  case (Some t)
  then have "sint (listTimeout opts) = signed_take_bit 63 (sint t * 1000000000)"
    by (simp add: listTimeout_def sint_seconds)
  with Some show ?thesis by (auto simp: signed_take_bit_fix)
qed

text \<open>A timeout of ten billion seconds becomes a different, positive duration of about 49 years.\<close>

lemma listTimeout_wraps:
  "sint (listTimeout \<lparr>lo_LabelSelector = [], lo_Watch = False, lo_TimeoutSeconds = Some 10000000000, lo_Other = []\<rparr>) =
     10000000000 * 10 ^ 9 - 2 ^ 64"
  by (simp add: listTimeout_def)

section \<open>Construction\<close>

text \<open>The configuration with the user agent filled in, and with the rate limiter that both clients share.\<close>

definition agentConfig :: "('x, 'r) client_go \<Rightarrow> 'x rest_config \<Rightarrow> 'x rest_config" where
  "agentConfig L c = (if cfg_UserAgent c = [] then c\<lparr>cfg_UserAgent := DefaultKubernetesUserAgent L\<rparr> else c)"

definition limitedConfig :: "('x, 'r) client_go \<Rightarrow> 'x rest_config \<Rightarrow> 'x rest_config" where
  "limitedConfig L c = (if cfg_RateLimiter c = None \<and> cfg_QPS c > 0
     then c\<lparr>cfg_RateLimiter := Some (NewTokenBucketRateLimiter L (cfg_QPS c) (cfg_Burst c))\<rparr> else c)"

definition badBurst :: "'x rest_config \<Rightarrow> bool" where
  "badBurst c \<longleftrightarrow> cfg_RateLimiter c = None \<and> cfg_QPS c > 0 \<and> cfg_Burst c \<le> 0"

lemma setConfigDefaults_config:
  "setConfigDefaults L c = (None, (agentConfig L c)\<lparr>cfg_GroupVersion := Some SchemeGroupVersion,
     cfg_APIPath := ''/apis'', cfg_NegotiatedSerializer := Some (CodecsWithoutConversion L)\<rparr>)"
  by (simp add: setConfigDefaults_def agentConfig_def Let_def)

lemma agentConfig_idem [simp]: "agentConfig L (agentConfig L c) = agentConfig L c"
  by (simp add: agentConfig_def)

lemma agentConfig_fields [simp]:
  "cfg_RateLimiter (agentConfig L c) = cfg_RateLimiter c" "cfg_QPS (agentConfig L c) = cfg_QPS c"
  "cfg_Burst (agentConfig L c) = cfg_Burst c" "badBurst (agentConfig L c) = badBurst c"
  by (simp_all add: agentConfig_def badBurst_def)

lemma setConfigDefaults_idem:
  "setConfigDefaults L (snd (setConfigDefaults L c)) = setConfigDefaults L c"
  by (simp add: setConfigDefaults_def Let_def)

lemma setConfigDefaults_agent [simp]: "setConfigDefaults L (agentConfig L c) = setConfigDefaults L c"
  by (simp add: setConfigDefaults_config)

lemma v1alpha1_client_cases:
  "v1alpha1_NewForConfigAndClient L c h =
     map_sum id (\<lambda>r. \<lparr>restClient = Some r\<rparr>) (RESTClientForConfigAndClient L (snd (setConfigDefaults L c)) h)"
  by (simp add: v1alpha1_NewForConfigAndClient_def setConfigDefaults_config split: sum.split)

lemma clientset_client_cases:
  "clientset_NewForConfigAndClient L c h =
     (if badBurst c then Inl burstError
      else case v1alpha1_NewForConfigAndClient L (limitedConfig L c) h of
          Inl e \<Rightarrow> Inl e
        | Inr r \<Rightarrow> map_sum id (\<lambda>d. \<lparr>cs_DiscoveryClient = Some d, cs_kyuubiV1alpha1 = Some r\<rparr>)
            (NewDiscoveryClientForConfigAndClient L (limitedConfig L c) h))"
  by (auto simp: clientset_NewForConfigAndClient_def badBurst_def limitedConfig_def Let_def split: sum.split)

lemma clientset_cases:
  "clientset_NewForConfig L c = (case HTTPClientFor L (agentConfig L c) of Inl e \<Rightarrow> Inl e
     | Inr h \<Rightarrow> clientset_NewForConfigAndClient L (agentConfig L c) h)"
  unfolding clientset_NewForConfig_def agentConfig_def Let_def ..

text \<open>
  A clientset that \<open>NewForConfig\<close> returns has its two clients over one HTTP client, with the same
  rate limiter and user agent; there is a limiter whenever a positive rate is configured, and the
  client of the API group asks for the group and version of the custom resource under \<open>/apis\<close>.
\<close>

theorem clientset_shares_transport:
  assumes "clientset_NewForConfig L c = Inr cs"
  shows "\<exists>h rcfg dcfg r d. HTTPClientFor L (agentConfig L c) = Inr h \<and>
    RESTClientForConfigAndClient L rcfg h = Inr r \<and> RESTClient (Clientset_KyuubiV1alpha1 cs) = Some r \<and>
    NewDiscoveryClientForConfigAndClient L dcfg h = Inr d \<and> Clientset_Discovery (Some cs) = Some d \<and>
    cfg_RateLimiter rcfg = cfg_RateLimiter dcfg \<and> cfg_UserAgent rcfg = cfg_UserAgent dcfg \<and>
    (cfg_QPS c > 0 \<longrightarrow> cfg_RateLimiter dcfg \<noteq> None) \<and>
    (cfg_RateLimiter c \<noteq> None \<longrightarrow> cfg_RateLimiter dcfg = cfg_RateLimiter c) \<and>
    cfg_GroupVersion rcfg = Some \<lparr>gv_Group = ''kyuubi.nineinfra.tech'', gv_Version = ''v1alpha1''\<rparr> \<and>
    cfg_APIPath rcfg = ''/apis''"
proof -
  let ?d = "limitedConfig L (agentConfig L c)"
  let ?r = "snd (setConfigDefaults L ?d)"
  obtain h where h: "HTTPClientFor L (agentConfig L c) = Inr h"
    "clientset_NewForConfigAndClient L (agentConfig L c) h = Inr cs"
    using assms by (auto simp: clientset_cases split: sum.splits)
  obtain r d where rd: "RESTClientForConfigAndClient L ?r h = Inr r"
    "NewDiscoveryClientForConfigAndClient L ?d h = Inr d"
    "cs = \<lparr>cs_DiscoveryClient = Some d, cs_kyuubiV1alpha1 = Some \<lparr>restClient = Some r\<rparr>\<rparr>"
    using h(2)
    by (cases "RESTClientForConfigAndClient L ?r h"; cases "NewDiscoveryClientForConfigAndClient L ?d h")
      (auto simp: clientset_client_cases v1alpha1_client_cases split: if_splits)
  show ?thesis
    using h(1) rd
    by (intro exI [of _ h] exI [of _ ?r] exI [of _ ?d] exI [of _ r] exI [of _ d])
      (simp add: RESTClient_def Clientset_KyuubiV1alpha1_def Clientset_Discovery_def setConfigDefaults_config
        limitedConfig_def agentConfig_def SchemeGroupVersion_def v1alpha1_GroupVersion_def)
qed

text \<open>
  A library in which an HTTP client, a limiter, a REST client and a discovery client are descriptions of
  what they were made from, and a configuration with a rate but no limiter and no user agent.
\<close>

definition refClientGo :: "(string, string \<times> string option) client_go" where
  "refClientGo = \<lparr>DefaultKubernetesUserAgent = ''operator'', HTTPClientFor = (\<lambda>c. Inr (cfg_UserAgent c)),
     NewTokenBucketRateLimiter = (\<lambda>q b. ''bucket''),
     RESTClientForConfigAndClient = (\<lambda>c h. Inr (h, cfg_RateLimiter c)),
     NewDiscoveryClientForConfigAndClient = (\<lambda>c h. Inr h),
     NewDiscoveryClient = (\<lambda>r. ''discovery''), CodecsWithoutConversion = ''codecs''\<rparr>"

definition sampleConfig :: "string rest_config" where
  "sampleConfig = \<lparr>cfg_UserAgent = [], cfg_RateLimiter = None, cfg_QPS = 5, cfg_Burst = 10, cfg_GroupVersion = None,
     cfg_APIPath = [], cfg_NegotiatedSerializer = None, cfg_Other = []\<rparr>"

lemmas ref_setup = refClientGo_def sampleConfig_def clientset_cases clientset_client_cases v1alpha1_client_cases
  agentConfig_def limitedConfig_def badBurst_def setConfigDefaults_config

theorem clientset_shares_transport_witness:
  "\<exists>cs r h. clientset_NewForConfig refClientGo sampleConfig = Inr cs \<and>
     RESTClient (Clientset_KyuubiV1alpha1 cs) = Some (h, Some r) \<and> Clientset_Discovery (Some cs) = Some h"
proof -
  obtain cs where cs: "clientset_NewForConfig refClientGo sampleConfig = Inr cs"
    by (simp add: ref_setup)
  from clientset_shares_transport [OF cs] cs show ?thesis
    by (auto simp: refClientGo_def sampleConfig_def)
qed

text \<open>
  \<open>NewForConfig\<close> fails exactly when the HTTP client cannot be made, a rate is set without a limiter and
  with a burst of at most zero, or one of the two clients cannot be made; \<open>NewForConfigOrDie\<close> panics then.
\<close>

lemma clientset_OrDie_panics_iff:
  "clientset_NewForConfigOrDie L c = None \<longleftrightarrow>
     (\<forall>h. HTTPClientFor L (agentConfig L c) = Inr h \<longrightarrow> badBurst c \<or>
        \<not> (\<exists>r d. RESTClientForConfigAndClient L (snd (setConfigDefaults L (limitedConfig L (agentConfig L c)))) h = Inr r \<and>
            NewDiscoveryClientForConfigAndClient L (limitedConfig L (agentConfig L c)) h = Inr d))"
proof (cases "HTTPClientFor L (agentConfig L c)")
  case (Inr h)
  then show ?thesis
    by (cases "RESTClientForConfigAndClient L (snd (setConfigDefaults L (limitedConfig L (agentConfig L c)))) h";
        cases "NewDiscoveryClientForConfigAndClient L (limitedConfig L (agentConfig L c)) h")
      (auto simp: clientset_NewForConfigOrDie_def clientset_cases clientset_client_cases v1alpha1_client_cases)
qed (simp add: clientset_NewForConfigOrDie_def clientset_cases)

text \<open>
  The comment on \<open>NewForConfig\<close> calls it equivalent to \<open>NewForConfigAndClient\<close> with the HTTP client of
  the given configuration. That holds when the configuration names a user agent; otherwise the HTTP
  client is made from the configuration with the default user agent, and the two differ.
\<close>

lemma clientset_equivalent:
  "cfg_UserAgent c \<noteq> [] \<Longrightarrow> HTTPClientFor L c = Inr h \<Longrightarrow>
     clientset_NewForConfig L c = clientset_NewForConfigAndClient L c h"
  by (simp add: clientset_cases agentConfig_def)

lemma clientset_not_equivalent:
  "HTTPClientFor refClientGo sampleConfig = Inr [] \<and>
     clientset_NewForConfig refClientGo sampleConfig \<noteq> clientset_NewForConfigAndClient refClientGo sampleConfig []"
  by (simp add: ref_setup)

lemma v1alpha1_equivalent:
  "v1alpha1_NewForConfig L c =
     (case HTTPClientFor L (snd (setConfigDefaults L c)) of Inl e \<Rightarrow> Inl e
      | Inr h \<Rightarrow> v1alpha1_NewForConfigAndClient L c h)"
  by (simp add: v1alpha1_NewForConfig_def v1alpha1_client_cases setConfigDefaults_config agentConfig_def split: sum.split)

end
