(* ===== verification/Cluster_Interface.thy ===== *)
theory Cluster_Interface
  imports Clientset
begin

text \<open>
  What \<open>KyuubiClusterInterface\<close> promises its callers, for one namespace: an abstract store of custom
  resources by name, the answers a call may give and the store it leaves (\<open>spec_step\<close>), and runs of
  several calls. The locale \<open>cluster_interface\<close> asks an implementation to follow \<open>spec_step\<close>; the
  lemmas proved in it hold of every implementation. The typed client and the fake client are both
  shown to be implementations in \<open>Client_Contracts\<close>.
\<close>

section \<open>Calls and answers\<close>

datatype clusterCall = CallGet string | CallList string | CallCreate KyuubiCluster | CallUpdate KyuubiCluster
  | CallUpdateStatus KyuubiCluster | CallDelete string

datatype answer = ClusterAnswer KyuubiCluster | ListAnswer KyuubiClusterList | DoneAnswer | ErrorAnswer GoError

type_synonym clusters = "string \<rightharpoonup> KyuubiCluster"

text \<open>The list options of a list call with a label selector only.\<close>

definition labelOptions :: "string \<Rightarrow> ListOptions" where
  "labelOptions l = \<lparr>lo_LabelSelector = l, lo_Watch = False, lo_TimeoutSeconds = None, lo_Other = []\<rparr>"

section \<open>The abstract store\<close>

text \<open>
  A create, an update and a status update answer with the object that is stored afterwards; a create
  and an update store the submitted spec, a status update the submitted status. An error leaves the
  store as it was, and a read reports NotFound only for a name that is absent.
\<close>

inductive spec_step :: "(string \<Rightarrow> gomap \<Rightarrow> bool) \<Rightarrow> clusters \<Rightarrow> clusterCall \<Rightarrow> answer \<Rightarrow> clusters \<Rightarrow> bool"
  for selects :: "string \<Rightarrow> gomap \<Rightarrow> bool" where
  get: "m n = Some k \<Longrightarrow> spec_step selects m (CallGet n) (ClusterAnswer k) m"
| get_absent: "m n = None \<Longrightarrow> spec_step selects m (CallGet n) (ErrorAnswer (NotFound s)) m"
| lists: "distinct (map kc_Name (kl_Items l)) \<Longrightarrow>
    set (kl_Items l) = {k. m (kc_Name k) = Some k \<and> selects s (om_Labels (kc_Meta k))} \<Longrightarrow>
    spec_step selects m (CallList s) (ListAnswer l) m"
| create: "m (kc_Name k) = None \<Longrightarrow> kc_Name k' = kc_Name k \<Longrightarrow> kc_Spec k' = kc_Spec k \<Longrightarrow>
    spec_step selects m (CallCreate k) (ClusterAnswer k') (m(kc_Name k \<mapsto> k'))"
| update: "m (kc_Name k) \<noteq> None \<Longrightarrow> kc_Name k' = kc_Name k \<Longrightarrow> kc_Spec k' = kc_Spec k \<Longrightarrow>
    spec_step selects m (CallUpdate k) (ClusterAnswer k') (m(kc_Name k \<mapsto> k'))"
| update_status: "m (kc_Name k) \<noteq> None \<Longrightarrow> kc_Name k' = kc_Name k \<Longrightarrow> kc_Status k' = kc_Status k \<Longrightarrow>
    spec_step selects m (CallUpdateStatus k) (ClusterAnswer k') (m(kc_Name k \<mapsto> k'))"
| delete: "m n \<noteq> None \<Longrightarrow> spec_step selects m (CallDelete n) DoneAnswer (m(n := None))"
| fails: "(\<forall>n. c = CallGet n \<longrightarrow> \<not> IsNotFound (Some e)) \<Longrightarrow> spec_step selects m c (ErrorAnswer e) m"

inductive_cases spec_getE: "spec_step selects m (CallGet n) a m'"
inductive_cases spec_listE: "spec_step selects m (CallList s) a m'"
inductive_cases spec_createE: "spec_step selects m (CallCreate k) a m'"
inductive_cases spec_updateE: "spec_step selects m (CallUpdate k) a m'"
inductive_cases spec_statusE: "spec_step selects m (CallUpdateStatus k) a m'"
inductive_cases spec_deleteE: "spec_step selects m (CallDelete n) a m'"
inductive_cases spec_errorE: "spec_step selects m c (ErrorAnswer e) m'"

lemma spec_get_error: "(IsNotFound (Some e) \<Longrightarrow> m n = None) \<Longrightarrow> spec_step selects m (CallGet n) (ErrorAnswer e) m"
  by (cases e) (auto intro: spec_step.get_absent spec_step.fails)

lemma spec_write_error: "(\<And>n. c \<noteq> CallGet n) \<Longrightarrow> spec_step selects m c (ErrorAnswer e) m"
  by (rule spec_step.fails) simp

lemmas spec_elims = spec_getE spec_listE spec_createE spec_updateE spec_statusE spec_deleteE

inductive spec_run :: "(string \<Rightarrow> gomap \<Rightarrow> bool) \<Rightarrow> clusters \<Rightarrow> clusterCall list \<Rightarrow> answer list \<Rightarrow> clusters \<Rightarrow> bool"
  for selects :: "string \<Rightarrow> gomap \<Rightarrow> bool" where
  finished: "spec_run selects m [] [] m"
| perform: "spec_step selects m c a m1 \<Longrightarrow> spec_run selects m1 cs as m' \<Longrightarrow> spec_run selects m (c # cs) (a # as) m'"

text \<open>The store is determined by the calls that succeeded and their answers.\<close>

fun effect :: "clusterCall \<times> answer \<Rightarrow> clusters \<Rightarrow> clusters" where
  "effect (CallCreate k, ClusterAnswer k') m = m(kc_Name k \<mapsto> k')"
| "effect (CallUpdate k, ClusterAnswer k') m = m(kc_Name k \<mapsto> k')"
| "effect (CallUpdateStatus k, ClusterAnswer k') m = m(kc_Name k \<mapsto> k')"
| "effect (CallDelete n, DoneAnswer) m = m(n := None)"
| "effect (c, a) m = m"

lemma effect_error [simp]: "effect (c, ErrorAnswer e) m = m"
  by (cases c) simp_all

lemma spec_step_effect: "spec_step selects m c a m' \<Longrightarrow> m' = effect (c, a) m"
  by (induction rule: spec_step.induct) simp_all

lemma spec_run_effect: "spec_run selects m cs as m' \<Longrightarrow> m' = fold effect (zip cs as) m"
  by (induction rule: spec_run.induct) (auto dest: spec_step_effect)

lemma spec_run_length: "spec_run selects m cs as m' \<Longrightarrow> length as = length cs"
  by (induction rule: spec_run.induct) auto

text \<open>Every stored object is under its own name.\<close>

definition named :: "clusters \<Rightarrow> bool" where
  "named m \<longleftrightarrow> (\<forall>n k. m n = Some k \<longrightarrow> kc_Name k = n)"

lemma spec_step_named: "spec_step selects m c a m' \<Longrightarrow> named m \<Longrightarrow> named m'"
  by (induction rule: spec_step.induct) (auto simp: named_def)

lemma spec_run_named: "spec_run selects m cs as m' \<Longrightarrow> named m \<Longrightarrow> named m'"
  by (induction rule: spec_run.induct) (auto dest: spec_step_named)

section \<open>Implementations\<close>

text \<open>
  An implementation performs a call in a world and panics with \<open>None\<close>; \<open>clusters\<close> is what the world
  stores in the namespace of the client. A call with an object is only made with an object of that namespace.
\<close>

definition callOk :: "string \<Rightarrow> clusterCall \<Rightarrow> bool" where
  "callOk ns c = (case c of CallCreate k \<Rightarrow> kc_Namespace k = ns | CallUpdate k \<Rightarrow> kc_Namespace k = ns
     | CallUpdateStatus k \<Rightarrow> kc_Namespace k = ns | _ \<Rightarrow> True)"

fun runCalls :: "(clusterCall \<Rightarrow> 'w \<Rightarrow> (answer \<times> 'w) option) \<Rightarrow> clusterCall list \<Rightarrow> 'w \<Rightarrow> (answer list \<times> 'w) option" where
  "runCalls perform [] w = Some ([], w)"
| "runCalls perform (c # cs) w = do {
     (a, w) \<leftarrow> perform c w;
     (as, w) \<leftarrow> runCalls perform cs w;
     Some (a # as, w) }"

locale cluster_interface =
  fixes perform :: "clusterCall \<Rightarrow> 'w \<Rightarrow> (answer \<times> 'w) option"
    and clusters :: "'w \<Rightarrow> clusters"
    and ns :: string
    and selects :: "string \<Rightarrow> gomap \<Rightarrow> bool"
  assumes no_panic: "callOk ns c \<Longrightarrow> named (clusters w) \<Longrightarrow> perform c w \<noteq> None"
    and follows: "callOk ns c \<Longrightarrow> named (clusters w) \<Longrightarrow> perform c w = Some (a, w') \<Longrightarrow>
      spec_step selects (clusters w) c a (clusters w')"
begin

lemma performs:
  assumes "callOk ns c" and "named (clusters w)"
  obtains a w' where "perform c w = Some (a, w')" "spec_step selects (clusters w) c a (clusters w')" "named (clusters w')"
  using no_panic [OF assms] follows [OF assms] spec_step_named assms(2) by fastforce

lemma run_refines:
  assumes "list_all (callOk ns) cs" and "named (clusters w)"
  shows "\<exists>as w'. runCalls perform cs w = Some (as, w') \<and> spec_run selects (clusters w) cs as (clusters w') \<and>
    clusters w' = fold effect (zip cs as) (clusters w)"
  using assms
proof (induction cs arbitrary: w)
  case (Cons c cs)
  obtain a w1 where a: "perform c w = Some (a, w1)" "spec_step selects (clusters w) c a (clusters w1)" "named (clusters w1)"
    using Cons.prems by (auto intro: performs)
  obtain as w' where "runCalls perform cs w1 = Some (as, w')" "spec_run selects (clusters w1) cs as (clusters w')"
    using Cons.IH [OF _ a(3)] Cons.prems(1) by auto
  with a have "runCalls perform (c # cs) w = Some (a # as, w') \<and> spec_run selects (clusters w) (c # cs) (a # as) (clusters w')"
    by (simp add: spec_run.perform)
  then show ?case using spec_run_effect by blast
qed (simp add: spec_run.finished)

text \<open>After a create that succeeded, a read of that name answers with the created object or fails for another reason than NotFound.\<close>

lemma create_then_get:
  assumes "kc_Namespace k = ns" and "named (clusters w)"
    and "runCalls perform [CallCreate k, CallGet (kc_Name k)] w = Some ([ClusterAnswer k', a], w')"
  shows "kc_Spec k' = kc_Spec k \<and> (a = ClusterAnswer k' \<or> (\<exists>e. a = ErrorAnswer e \<and> \<not> IsNotFound (Some e)))"
proof -
  have ok: "list_all (callOk ns) [CallCreate k, CallGet (kc_Name k)]" by (simp add: callOk_def assms(1))
  have "spec_run selects (clusters w) [CallCreate k, CallGet (kc_Name k)] [ClusterAnswer k', a] (clusters w')"
    using run_refines [OF ok assms(2)] assms(3) by auto
  then show ?thesis
    by (auto elim!: spec_run.cases [of _ _ "_ # _"] spec_createE spec_getE)
qed

text \<open>After a delete that succeeded, a read of that name does not succeed, and a create of it may.\<close>

lemma delete_then_get:
  assumes "named (clusters w)"
    and "runCalls perform [CallDelete n, CallGet n] w = Some ([DoneAnswer, a], w')"
  shows "\<exists>e. a = ErrorAnswer e"
proof -
  have ok: "list_all (callOk ns) [CallDelete n, CallGet n]" by (simp add: callOk_def)
  have "spec_run selects (clusters w) [CallDelete n, CallGet n] [DoneAnswer, a] (clusters w')"
    using run_refines [OF ok assms(1)] assms(2) by auto
  then show ?thesis
    by (auto elim!: spec_run.cases [of _ _ "_ # _"] spec_deleteE spec_getE)
qed

end

end
