(* ===== verification/Fake_Clientset.thy ===== *)
theory Fake_Clientset
  imports Clientset
begin

text \<open>
  The fake clientset: \<open>typed/.../fake/fake_kyuubicluster.go\<close>,
  \<open>typed/.../fake/fake_kyuubi-operator_client.go\<close> and \<open>fake/clientset_generated.go\<close>. The package
  \<open>k8s.io/client-go/testing\<close>, with its reaction chains and its object tracker, and label selectors are
  parameters. An action is the constructor call that makes it. A value of type \<open>testing.Fake\<close> holds the
  reaction chains; the record of past actions and the tracked objects are part of the world. A failed
  type assertion panics; the result is then \<open>None\<close>. Pointer results are optional, nil is \<open>None\<close>.
\<close>

section \<open>Actions and objects\<close>

type_synonym GroupVersionResource = "GroupVersion \<times> string"
type_synonym GroupVersionKind = "GroupVersion \<times> string"

definition kyuubiclustersResource :: GroupVersionResource where
  "kyuubiclustersResource = (SchemeGroupVersion, ''kyuubiclusters'')"

definition kyuubiclustersKind :: GroupVersionKind where
  "kyuubiclustersKind = (SchemeGroupVersion, ''KyuubiCluster'')"

text \<open>A \<open>runtime.Object\<close>: a custom resource, a list of them, or an object of another type.\<close>

datatype object = ClusterObj KyuubiCluster | ListObj KyuubiClusterList | OtherObj string

datatype action =
    NewGetAction GroupVersionResource string string
  | NewListAction GroupVersionResource GroupVersionKind string ListOptions
  | NewWatchAction GroupVersionResource string ListOptions
  | NewCreateAction GroupVersionResource string object
  | NewUpdateAction GroupVersionResource string object
  | NewUpdateSubresourceAction GroupVersionResource string string object
  | NewDeleteActionWithOptions GroupVersionResource string string DeleteOptions
  | NewDeleteCollectionAction GroupVersionResource string ListOptions
  | NewPatchSubresourceAction GroupVersionResource string string PatchType string "string list"

text \<open>\<open>action.GetResource()\<close> and \<open>action.GetNamespace()\<close>.\<close>

primrec GetResource :: "action \<Rightarrow> GroupVersionResource" where
  "GetResource (NewGetAction gvr ns n) = gvr"
| "GetResource (NewListAction gvr gvk ns opts) = gvr"
| "GetResource (NewWatchAction gvr ns opts) = gvr"
| "GetResource (NewCreateAction gvr ns obj) = gvr"
| "GetResource (NewUpdateAction gvr ns obj) = gvr"
| "GetResource (NewUpdateSubresourceAction gvr sub ns obj) = gvr"
| "GetResource (NewDeleteActionWithOptions gvr ns n opts) = gvr"
| "GetResource (NewDeleteCollectionAction gvr ns opts) = gvr"
| "GetResource (NewPatchSubresourceAction gvr ns n pt data subs) = gvr"

primrec GetNamespace :: "action \<Rightarrow> string" where
  "GetNamespace (NewGetAction gvr ns n) = ns"
| "GetNamespace (NewListAction gvr gvk ns opts) = ns"
| "GetNamespace (NewWatchAction gvr ns opts) = ns"
| "GetNamespace (NewCreateAction gvr ns obj) = ns"
| "GetNamespace (NewUpdateAction gvr ns obj) = ns"
| "GetNamespace (NewUpdateSubresourceAction gvr sub ns obj) = ns"
| "GetNamespace (NewDeleteActionWithOptions gvr ns n opts) = ns"
| "GetNamespace (NewDeleteCollectionAction gvr ns opts) = ns"
| "GetNamespace (NewPatchSubresourceAction gvr ns n pt data subs) = ns"

type_synonym 'w reaction = "action \<Rightarrow> 'w \<Rightarrow> (bool \<times> object option \<times> GoError option) \<times> 'w"
type_synonym ('wt, 'w) watch_reaction = "action \<Rightarrow> 'w \<Rightarrow> (bool \<times> 'wt option \<times> GoError option) \<times> 'w"

text \<open>The parts of \<open>k8s.io/client-go/testing\<close> and \<open>k8s.io/apimachinery/pkg/labels\<close> that the code calls.\<close>

record ('f, 't, 'sel, 'wt, 'w) testing =
  zeroFake :: 'f
  AddReactor :: "string \<Rightarrow> string \<Rightarrow> 'w reaction \<Rightarrow> 'f \<Rightarrow> 'f"
  AddWatchReactor :: "string \<Rightarrow> ('wt, 'w) watch_reaction \<Rightarrow> 'f \<Rightarrow> 'f"
  Invokes :: "'f \<Rightarrow> action \<Rightarrow> object \<Rightarrow> 'w \<Rightarrow> (object option \<times> GoError option) \<times> 'w"
  InvokesWatch :: "'f \<Rightarrow> action \<Rightarrow> 'w \<Rightarrow> ('wt option \<times> GoError option) \<times> 'w"
  NewObjectTracker :: "'w \<Rightarrow> 't \<times> 'w"
  TrackerAdd :: "'t \<Rightarrow> object \<Rightarrow> 'w \<Rightarrow> GoError option \<times> 'w"
  TrackerWatch :: "'t \<Rightarrow> GroupVersionResource \<Rightarrow> string \<Rightarrow> 'w \<Rightarrow> ('wt option \<times> GoError option) \<times> 'w"
  ObjectReaction :: "'t \<Rightarrow> 'w reaction"
  ExtractLabel :: "ListOptions \<Rightarrow> 'sel option"
  Everything :: 'sel
  Matches :: "'sel \<Rightarrow> gomap \<Rightarrow> bool"

section \<open>fake\_kyuubicluster.go\<close>

record 'f FakeKyuubiV1alpha1 =
  fkv_Fake :: 'f

record 'f FakeKyuubiClusters =
  fkc_Fake :: "'f FakeKyuubiV1alpha1"
  fkc_ns :: string

text \<open>\<open>obj.( *v1alpha1.KyuubiCluster)\<close> and \<open>obj.( *v1alpha1.KyuubiClusterList)\<close>.\<close>

fun assertCluster :: "object \<Rightarrow> KyuubiCluster option" where
  "assertCluster (ClusterObj k) = Some k"
| "assertCluster (ListObj l) = None"
| "assertCluster (OtherObj x) = None"

fun assertList :: "object \<Rightarrow> KyuubiClusterList option" where
  "assertList (ListObj l) = Some l"
| "assertList (ClusterObj k) = None"
| "assertList (OtherObj x) = None"

text \<open>The common end of the methods: a nil object is returned as nil, any other is asserted to be a custom resource.\<close>

definition resultCluster :: "(object option \<times> GoError option) \<times> 'w \<Rightarrow>
    ((KyuubiCluster option \<times> GoError option) \<times> 'w) option" where
  "resultCluster r =
     (case r of ((obj, err), w) \<Rightarrow>
        (case obj of None \<Rightarrow> Some ((None, err), w)
         | Some obj \<Rightarrow> do { k \<leftarrow> assertCluster obj; Some ((Some k, err), w) }))"

abbreviation invoke :: "('f, 't, 'sel, 'wt, 'w) testing \<Rightarrow> 'f FakeKyuubiClusters \<Rightarrow> action \<Rightarrow> object \<Rightarrow> 'w \<Rightarrow>
    (object option \<times> GoError option) \<times> 'w" where
  "invoke T c \<equiv> Invokes T (fkv_Fake (fkc_Fake c))"

definition FakeKyuubiClusters_Get :: "('f, 't, 'sel, 'wt, 'w) testing \<Rightarrow> 'f FakeKyuubiClusters \<Rightarrow> string \<Rightarrow> GetOptions \<Rightarrow> 'w \<Rightarrow>
    ((KyuubiCluster option \<times> GoError option) \<times> 'w) option" where
  "FakeKyuubiClusters_Get T c name options w =
     resultCluster (invoke T c (NewGetAction kyuubiclustersResource (fkc_ns c) name) (ClusterObj zeroKyuubiCluster) w)"

text \<open>\<open>for _, item := range obj.Items { if label.Matches(labels.Set(item.Labels)) { list.Items = append(list.Items, item) } }\<close>\<close>

fun filterItems :: "('f, 't, 'sel, 'wt, 'w) testing \<Rightarrow> 'sel \<Rightarrow> KyuubiCluster list \<Rightarrow> KyuubiClusterList \<Rightarrow> KyuubiClusterList" where
  "filterItems T label [] list = list"
| "filterItems T label (item # items) list =
     filterItems T label items
       (if Matches T label (om_Labels (kc_Meta item)) then list\<lparr>kl_Items := kl_Items list @ [item]\<rparr> else list)"

definition FakeKyuubiClusters_List :: "('f, 't, 'sel, 'wt, 'w) testing \<Rightarrow> 'f FakeKyuubiClusters \<Rightarrow> ListOptions \<Rightarrow> 'w \<Rightarrow>
    ((KyuubiClusterList option \<times> GoError option) \<times> 'w) option" where
  "FakeKyuubiClusters_List T c opts w =
     (case invoke T c (NewListAction kyuubiclustersResource kyuubiclustersKind (fkc_ns c) opts) (ListObj zeroKyuubiClusterList) w of
        ((obj, err), w) \<Rightarrow>
          (case obj of None \<Rightarrow> Some ((None, err), w)
           | Some obj \<Rightarrow>
               (let label = ExtractLabel T opts;
                    label = (case label of None \<Rightarrow> Everything T | Some label \<Rightarrow> label)
                in do {
                  objList \<leftarrow> assertList obj;
                  let list = zeroKyuubiClusterList\<lparr>kl_ListMeta := kl_ListMeta objList\<rparr>;
                  Some ((Some (filterItems T label (kl_Items objList) list), err), w) })))"

definition FakeKyuubiClusters_Watch :: "('f, 't, 'sel, 'wt, 'w) testing \<Rightarrow> 'f FakeKyuubiClusters \<Rightarrow> ListOptions \<Rightarrow> 'w \<Rightarrow>
    ('wt option \<times> GoError option) \<times> 'w" where
  "FakeKyuubiClusters_Watch T c opts w =
     InvokesWatch T (fkv_Fake (fkc_Fake c)) (NewWatchAction kyuubiclustersResource (fkc_ns c) opts) w"

definition FakeKyuubiClusters_Create :: "('f, 't, 'sel, 'wt, 'w) testing \<Rightarrow> 'f FakeKyuubiClusters \<Rightarrow> KyuubiCluster \<Rightarrow>
    CreateOptions \<Rightarrow> 'w \<Rightarrow> ((KyuubiCluster option \<times> GoError option) \<times> 'w) option" where
  "FakeKyuubiClusters_Create T c kyuubiCluster opts w =
     resultCluster (invoke T c (NewCreateAction kyuubiclustersResource (fkc_ns c) (ClusterObj kyuubiCluster))
       (ClusterObj zeroKyuubiCluster) w)"

definition FakeKyuubiClusters_Update :: "('f, 't, 'sel, 'wt, 'w) testing \<Rightarrow> 'f FakeKyuubiClusters \<Rightarrow> KyuubiCluster \<Rightarrow>
    UpdateOptions \<Rightarrow> 'w \<Rightarrow> ((KyuubiCluster option \<times> GoError option) \<times> 'w) option" where
  "FakeKyuubiClusters_Update T c kyuubiCluster opts w =
     resultCluster (invoke T c (NewUpdateAction kyuubiclustersResource (fkc_ns c) (ClusterObj kyuubiCluster))
       (ClusterObj zeroKyuubiCluster) w)"

definition FakeKyuubiClusters_UpdateStatus :: "('f, 't, 'sel, 'wt, 'w) testing \<Rightarrow> 'f FakeKyuubiClusters \<Rightarrow> KyuubiCluster \<Rightarrow>
    UpdateOptions \<Rightarrow> 'w \<Rightarrow> ((KyuubiCluster option \<times> GoError option) \<times> 'w) option" where
  "FakeKyuubiClusters_UpdateStatus T c kyuubiCluster opts w =
     resultCluster (invoke T c (NewUpdateSubresourceAction kyuubiclustersResource ''status'' (fkc_ns c) (ClusterObj kyuubiCluster))
       (ClusterObj zeroKyuubiCluster) w)"

definition FakeKyuubiClusters_Delete :: "('f, 't, 'sel, 'wt, 'w) testing \<Rightarrow> 'f FakeKyuubiClusters \<Rightarrow> string \<Rightarrow>
    DeleteOptions \<Rightarrow> 'w \<Rightarrow> GoError option \<times> 'w" where
  "FakeKyuubiClusters_Delete T c name opts w =
     (case invoke T c (NewDeleteActionWithOptions kyuubiclustersResource (fkc_ns c) name opts)
         (ClusterObj zeroKyuubiCluster) w of ((obj, err), w) \<Rightarrow> (err, w))"

definition FakeKyuubiClusters_DeleteCollection :: "('f, 't, 'sel, 'wt, 'w) testing \<Rightarrow> 'f FakeKyuubiClusters \<Rightarrow>
    DeleteOptions \<Rightarrow> ListOptions \<Rightarrow> 'w \<Rightarrow> GoError option \<times> 'w" where
  "FakeKyuubiClusters_DeleteCollection T c opts listOpts w =
     (let action = NewDeleteCollectionAction kyuubiclustersResource (fkc_ns c) listOpts
      in case invoke T c action (ListObj zeroKyuubiClusterList) w of ((obj, err), w) \<Rightarrow> (err, w))"

definition FakeKyuubiClusters_Patch :: "('f, 't, 'sel, 'wt, 'w) testing \<Rightarrow> 'f FakeKyuubiClusters \<Rightarrow> string \<Rightarrow> PatchType \<Rightarrow>
    string \<Rightarrow> PatchOptions \<Rightarrow> string list \<Rightarrow> 'w \<Rightarrow> ((KyuubiCluster option \<times> GoError option) \<times> 'w) option" where
  "FakeKyuubiClusters_Patch T c name pt data opts subresources w =
     resultCluster (invoke T c (NewPatchSubresourceAction kyuubiclustersResource (fkc_ns c) name pt data subresources)
       (ClusterObj zeroKyuubiCluster) w)"

section \<open>fake\_kyuubi-operator\_client.go\<close>

definition FakeKyuubiV1alpha1_KyuubiClusters :: "'f FakeKyuubiV1alpha1 \<Rightarrow> string \<Rightarrow> 'f FakeKyuubiClusters" where
  "FakeKyuubiV1alpha1_KyuubiClusters c namespace = \<lparr>fkc_Fake = c, fkc_ns = namespace\<rparr>"

text \<open>\<open>var ret *rest.RESTClient; return ret\<close>: a nil pointer, so that every method called on it panics.\<close>

definition FakeKyuubiV1alpha1_RESTClient :: "'f FakeKyuubiV1alpha1 \<Rightarrow> ('wt, 'w) rest_interface option" where
  "FakeKyuubiV1alpha1_RESTClient c = None"

section \<open>clientset\_generated.go\<close>

text \<open>
  The struct embeds its \<open>Fake\<close>, and the fake discovery client points to it: what is recorded for the
  discovery client is the value that its pointer reaches.
\<close>

record ('f, 't) FakeClientset =
  fcs_Fake :: 'f
  fcs_discovery :: 'f
  fcs_tracker :: 't

text \<open>The loop that adds the given objects to the tracker; an error of \<open>Add\<close> panics.\<close>

fun addObjects :: "('f, 't, 'sel, 'wt, 'w) testing \<Rightarrow> 't \<Rightarrow> object list \<Rightarrow> 'w \<Rightarrow> 'w option" where
  "addObjects T o' [] w = Some w"
| "addObjects T o' (obj # objs) w =
     (case TrackerAdd T o' obj w of (Some err, w) \<Rightarrow> None | (None, w) \<Rightarrow> addObjects T o' objs w)"

text \<open>The watch reactor.\<close>

definition watchReactor :: "('f, 't, 'sel, 'wt, 'w) testing \<Rightarrow> 't \<Rightarrow> ('wt, 'w) watch_reaction" where
  "watchReactor T o' action w =
     (let gvr = GetResource action; ns = GetNamespace action
      in case TrackerWatch T o' gvr ns w of
           ((watch, Some err), w) \<Rightarrow> ((False, None, Some err), w)
         | ((watch, None), w) \<Rightarrow> ((True, watch, None), w))"

definition NewSimpleClientset :: "('f, 't, 'sel, 'wt, 'w) testing \<Rightarrow> object list \<Rightarrow> 'w \<Rightarrow> (('f, 't) FakeClientset \<times> 'w) option" where
  "NewSimpleClientset T objects w =
     (case NewObjectTracker T w of (o', w) \<Rightarrow> do {
        w \<leftarrow> addObjects T o' objects w;
        let fake = zeroFake T;
        let fake = AddReactor T ''*'' ''*'' (ObjectReaction T o') fake;
        let fake = AddWatchReactor T ''*'' (watchReactor T o') fake;
        Some (\<lparr>fcs_Fake = fake, fcs_discovery = fake, fcs_tracker = o'\<rparr>, w) })"

definition FakeClientset_Discovery :: "('f, 't) FakeClientset \<Rightarrow> 'f" where
  "FakeClientset_Discovery c = fcs_discovery c"

definition FakeClientset_Tracker :: "('f, 't) FakeClientset \<Rightarrow> 't" where
  "FakeClientset_Tracker c = fcs_tracker c"

definition FakeClientset_KyuubiV1alpha1 :: "('f, 't) FakeClientset \<Rightarrow> 'f FakeKyuubiV1alpha1" where
  "FakeClientset_KyuubiV1alpha1 c = \<lparr>fkv_Fake = fcs_Fake c\<rparr>"

end
