(* ===== verification/Client_Contracts.thy ===== *)
theory Client_Contracts
  imports Cluster_Interface Fake_Clientset
begin

text \<open>
  The typed client and the fake client implement \<open>KyuubiClusterInterface\<close>: over an API server
  (\<open>rest_server\<close>) and over the package \<open>testing\<close> (\<open>testing_package\<close>) respectively, every sequence of
  calls returns, and follows the abstract store of \<open>Cluster_Interface\<close>. Both contracts have an instance
  that keeps custom resources in a list.
\<close>

section \<open>Performing a call\<close>

definition clusterAnswer :: "KyuubiCluster option \<Rightarrow> GoError option \<Rightarrow> answer" where
  "clusterAnswer k e = (case e of Some err \<Rightarrow> ErrorAnswer err
     | None \<Rightarrow> (case k of Some k \<Rightarrow> ClusterAnswer k | None \<Rightarrow> DoneAnswer))"

definition listAnswer :: "KyuubiClusterList option \<Rightarrow> GoError option \<Rightarrow> answer" where
  "listAnswer l e = (case e of Some err \<Rightarrow> ErrorAnswer err
     | None \<Rightarrow> (case l of Some l \<Rightarrow> ListAnswer l | None \<Rightarrow> DoneAnswer))"

definition typedAnswer :: "((KyuubiCluster \<times> GoError option) \<times> 'w) option \<Rightarrow> (answer \<times> 'w) option" where
  "typedAnswer = map_option (\<lambda>((k, e), w). (clusterAnswer (Some k) e, w))"

definition fakeAnswer :: "((KyuubiCluster option \<times> GoError option) \<times> 'w) option \<Rightarrow> (answer \<times> 'w) option" where
  "fakeAnswer = map_option (\<lambda>((k, e), w). (clusterAnswer k e, w))"

text \<open>The calls of \<open>Cluster_Interface\<close> on the methods of the typed client and of the fake client, with empty options.\<close>

definition typedPerform :: "('wt, 'w) rest_interface kyuubiClusters \<Rightarrow> clusterCall \<Rightarrow> 'w \<Rightarrow> (answer \<times> 'w) option" where
  "typedPerform c cl w = (case cl of
       CallGet n \<Rightarrow> typedAnswer (kyuubiClusters_Get c n [] w)
     | CallList l \<Rightarrow> map_option (\<lambda>((l, e), w). (listAnswer (Some l) e, w)) (kyuubiClusters_List c (labelOptions l) w)
     | CallCreate k \<Rightarrow> typedAnswer (kyuubiClusters_Create c k [] w)
     | CallUpdate k \<Rightarrow> typedAnswer (kyuubiClusters_Update c k [] w)
     | CallUpdateStatus k \<Rightarrow> typedAnswer (kyuubiClusters_UpdateStatus c k [] w)
     | CallDelete n \<Rightarrow> map_option (\<lambda>(e, w). (clusterAnswer None e, w)) (kyuubiClusters_Delete c n [] w))"

definition fakePerform :: "('f, 't, 'sel, 'wt, 'w) testing \<Rightarrow> 'f FakeKyuubiClusters \<Rightarrow> clusterCall \<Rightarrow> 'w \<Rightarrow> (answer \<times> 'w) option" where
  "fakePerform T c cl w = (case cl of
       CallGet n \<Rightarrow> fakeAnswer (FakeKyuubiClusters_Get T c n [] w)
     | CallList l \<Rightarrow> map_option (\<lambda>((l, e), w). (listAnswer l e, w)) (FakeKyuubiClusters_List T c (labelOptions l) w)
     | CallCreate k \<Rightarrow> fakeAnswer (FakeKyuubiClusters_Create T c k [] w)
     | CallUpdate k \<Rightarrow> fakeAnswer (FakeKyuubiClusters_Update T c k [] w)
     | CallUpdateStatus k \<Rightarrow> fakeAnswer (FakeKyuubiClusters_UpdateStatus T c k [] w)
     | CallDelete n \<Rightarrow> (case FakeKyuubiClusters_Delete T c n [] w of (e, w) \<Rightarrow> Some (clusterAnswer None e, w)))"

section \<open>The store by namespace and name\<close>

abbreviation nsKey :: "string \<Rightarrow> string \<Rightarrow> NamespacedName" where
  "nsKey ns n \<equiv> \<lparr>nn_Namespace = ns, nn_Name = n\<rparr>"

definition nsView :: "(NamespacedName \<rightharpoonup> KyuubiCluster) \<Rightarrow> string \<Rightarrow> clusters" where
  "nsView s ns n = s (nsKey ns n)"

lemma nsView_upd [simp]: "nsView (s(nsKey ns n \<mapsto> k)) ns = (nsView s ns)(n \<mapsto> k)"
  by (auto simp: nsView_def fun_eq_iff)

lemma nsView_del [simp]: "nsView (s(nsKey ns n := None)) ns = (nsView s ns)(n := None)"
  by (auto simp: nsView_def fun_eq_iff)

lemma nsView_other: "ns' \<noteq> ns \<Longrightarrow> nsView (s(nsKey ns n := x)) ns' = nsView s ns'"
  by (auto simp: nsView_def fun_eq_iff)

section \<open>The API server behind the typed client\<close>

text \<open>What a request addresses: its namespaces, resources, names and subresources, as the builder calls set them; its bodies and parameters.\<close>

fun target :: "build list \<Rightarrow> string list \<times> string list \<times> string list \<times> string list" where
  "target [] = ([], [], [], [])"
| "target (Namespace s # bs) = (case target bs of (n, r, m, u) \<Rightarrow> (s # n, r, m, u))"
| "target (ResourceName s # bs) = (case target bs of (n, r, m, u) \<Rightarrow> (n, s # r, m, u))"
| "target (Name s # bs) = (case target bs of (n, r, m, u) \<Rightarrow> (n, r, s # m, u))"
| "target (SubResource ss # bs) = (case target bs of (n, r, m, u) \<Rightarrow> (n, r, m, ss @ u))"
| "target (VersionedParams p # bs) = target bs"
| "target (Timeout t # bs) = target bs"
| "target (Body b # bs) = target bs"

fun bodies :: "build list \<Rightarrow> body list" where
  "bodies [] = []"
| "bodies (Body b # bs) = b # bodies bs"
| "bodies (_ # bs) = bodies bs"

fun parameters :: "build list \<Rightarrow> params list" where
  "parameters [] = []"
| "parameters (VersionedParams p # bs) = p # parameters bs"
| "parameters (_ # bs) = parameters bs"

text \<open>
  The API conventions, for a custom resource with a status subresource and without finalizers: a
  response that is no error carries what is stored, a write that reports an error changes nothing. Calls
  may fail at any time. The second is an idealisation: it leaves out a write that is done while its answer is lost
  to a timeout.
\<close>

locale rest_server =
  fixes R :: "('wt, 'w) rest_interface"
    and stored :: "'w \<Rightarrow> NamespacedName \<rightharpoonup> KyuubiCluster"
    and selects :: "string \<Rightarrow> gomap \<Rightarrow> bool"
  assumes do_get: "target bs = ([ns], [''kyuubiclusters''], [n], []) \<Longrightarrow> DoInto R (GET, bs) z w = ((k, e), w') \<Longrightarrow>
      stored w' = stored w \<and> (e = None \<longrightarrow> stored w (nsKey ns n) = Some k) \<and> (IsNotFound e \<longrightarrow> stored w (nsKey ns n) = None)"
    and do_list: "target bs = ([ns], [''kyuubiclusters''], [], []) \<Longrightarrow> ns \<noteq> [] \<Longrightarrow>
      parameters bs = [ListParams (labelOptions s)] \<Longrightarrow> DoIntoList R (GET, bs) zl w = ((l, e), w') \<Longrightarrow>
      stored w' = stored w \<and> (e = None \<longrightarrow> distinct (map kc_Name (kl_Items l)) \<and>
        set (kl_Items l) = {k. stored w (nsKey ns (kc_Name k)) = Some k \<and> selects s (om_Labels (kc_Meta k))})"
    and do_post: "target bs = ([ns], [''kyuubiclusters''], [], []) \<Longrightarrow> bodies bs = [ClusterBody x] \<Longrightarrow>
      DoInto R (POST, bs) z w = ((k, e), w') \<Longrightarrow>
      (e = None \<longrightarrow> stored w (nsKey ns (kc_Name x)) = None \<and> kc_Name k = kc_Name x \<and> kc_Spec k = kc_Spec x \<and>
        stored w' = (stored w)(nsKey ns (kc_Name x) \<mapsto> k)) \<and> (e \<noteq> None \<longrightarrow> stored w' = stored w)"
    and do_put: "target bs = ([ns], [''kyuubiclusters''], [n], []) \<Longrightarrow> bodies bs = [ClusterBody x] \<Longrightarrow>
      DoInto R (PUT, bs) z w = ((k, e), w') \<Longrightarrow>
      (e = None \<longrightarrow> stored w (nsKey ns n) \<noteq> None \<and> kc_Name k = n \<and> kc_Spec k = kc_Spec x \<and>
        kc_Status k = kc_Status (the (stored w (nsKey ns n))) \<and>
        stored w' = (stored w)(nsKey ns n \<mapsto> k)) \<and> (e \<noteq> None \<longrightarrow> stored w' = stored w)"
    and do_put_status: "target bs = ([ns], [''kyuubiclusters''], [n], [''status'']) \<Longrightarrow> bodies bs = [ClusterBody x] \<Longrightarrow>
      DoInto R (PUT, bs) z w = ((k, e), w') \<Longrightarrow>
      (e = None \<longrightarrow> stored w (nsKey ns n) \<noteq> None \<and> kc_Name k = n \<and> kc_Status k = kc_Status x \<and>
        kc_Spec k = kc_Spec (the (stored w (nsKey ns n))) \<and>
        stored w' = (stored w)(nsKey ns n \<mapsto> k)) \<and> (e \<noteq> None \<longrightarrow> stored w' = stored w)"
    and do_delete: "target bs = ([ns], [''kyuubiclusters''], [n], []) \<Longrightarrow> DoError R (DELETE, bs) w = (e, w') \<Longrightarrow>
      (e = None \<longrightarrow> stored w (nsKey ns n) \<noteq> None \<and> stored w' = (stored w)(nsKey ns n := None)) \<and>
      (e \<noteq> None \<longrightarrow> stored w' = stored w)"

text \<open>The client that a clientset over \<open>R\<close> hands out for a namespace.\<close>

definition clientFor :: "('wt, 'w) rest_interface \<Rightarrow> string \<Rightarrow> ('wt, 'w) rest_interface kyuubiClusters" where
  "clientFor R ns = KyuubiClusters (Some (v1alpha1_New (Some R))) ns"

lemma clientFor_simps [simp]: "kcl_client (clientFor R ns) = Some R" "kcl_ns (clientFor R ns) = ns"
  by (simp_all add: clientFor_def KyuubiClusters_def newKyuubiClusters_def RESTClient_def v1alpha1_New_def)

lemmas typed_methods = typedPerform_def typedAnswer_def kyuubiClusters_Get_def kyuubiClusters_List_def
  kyuubiClusters_Create_def kyuubiClusters_Update_def kyuubiClusters_UpdateStatus_def kyuubiClusters_Delete_def

lemma typedPerform_no_panic: "typedPerform (clientFor R ns) c w \<noteq> None"
  by (cases c) (simp_all add: typed_methods)

context rest_server
begin

lemma typed_get:
  assumes "typedPerform (clientFor R ns) (CallGet n) w = Some (a, w')"
  shows "spec_step selects (nsView (stored w) ns) (CallGet n) a (nsView (stored w') ns)"
proof -
  obtain k e where r: "DoInto R (GET, [Namespace ns, ResourceName ''kyuubiclusters'', Name n,
      VersionedParams (GetParams [])]) zeroKyuubiCluster w = ((k, e), w')" "a = clusterAnswer (Some k) e"
    using assms by (auto simp: typed_methods split: prod.splits)
  show ?thesis
    using do_get [OF _ r(1)] r(2)
    by (cases e) (auto simp: clusterAnswer_def nsView_def intro: spec_step.get spec_get_error)
qed

lemma typed_list:
  assumes "typedPerform (clientFor R ns) (CallList s) w = Some (a, w')" and "ns \<noteq> []"
  shows "spec_step selects (nsView (stored w) ns) (CallList s) a (nsView (stored w') ns)"
proof -
  obtain l e where r: "DoIntoList R (GET, [Namespace ns, ResourceName ''kyuubiclusters'',
      VersionedParams (ListParams (labelOptions s)), Timeout (listTimeout (labelOptions s))]) zeroKyuubiClusterList w = ((l, e), w')"
      "a = listAnswer (Some l) e"
    using assms by (auto simp: typed_methods split: prod.splits)
  show ?thesis
    using do_list [OF _ assms(2) _ r(1)] r(2)
    by (cases e) (auto simp: listAnswer_def nsView_def intro: spec_step.lists spec_write_error)
qed

lemma typed_create:
  assumes "typedPerform (clientFor R ns) (CallCreate x) w = Some (a, w')"
  shows "spec_step selects (nsView (stored w) ns) (CallCreate x) a (nsView (stored w') ns)"
proof -
  obtain k e where r: "DoInto R (POST, [Namespace ns, ResourceName ''kyuubiclusters'',
      VersionedParams (CreateParams []), Body (ClusterBody x)]) zeroKyuubiCluster w = ((k, e), w')" "a = clusterAnswer (Some k) e"
    using assms by (auto simp: typed_methods split: prod.splits)
  show ?thesis
    using do_post [OF _ _ r(1), of ns x] r(2)
    by (cases e) (auto simp: clusterAnswer_def intro!: spec_step.create spec_write_error, simp add: nsView_def)
qed

lemma typed_update:
  assumes "typedPerform (clientFor R ns) (CallUpdate x) w = Some (a, w')"
  shows "spec_step selects (nsView (stored w) ns) (CallUpdate x) a (nsView (stored w') ns)"
proof -
  obtain k e where r: "DoInto R (PUT, [Namespace ns, ResourceName ''kyuubiclusters'', Name (kc_Name x),
      VersionedParams (UpdateParams []), Body (ClusterBody x)]) zeroKyuubiCluster w = ((k, e), w')" "a = clusterAnswer (Some k) e"
    using assms by (auto simp: typed_methods split: prod.splits)
  show ?thesis
    using do_put [OF _ _ r(1), of ns "kc_Name x" x] r(2)
    by (cases e) (auto simp: clusterAnswer_def intro!: spec_step.update spec_write_error, simp add: nsView_def)
qed

lemma typed_update_status:
  assumes "typedPerform (clientFor R ns) (CallUpdateStatus x) w = Some (a, w')"
  shows "spec_step selects (nsView (stored w) ns) (CallUpdateStatus x) a (nsView (stored w') ns)"
    and "a = ClusterAnswer k \<Longrightarrow> kc_Spec k = kc_Spec (the (nsView (stored w) ns (kc_Name x)))"
proof -
  obtain k' e where r: "DoInto R (PUT, [Namespace ns, ResourceName ''kyuubiclusters'', Name (kc_Name x),
      SubResource [''status''], VersionedParams (UpdateParams []), Body (ClusterBody x)]) zeroKyuubiCluster w = ((k', e), w')"
      "a = clusterAnswer (Some k') e"
    using assms by (auto simp: typed_methods split: prod.splits)
  note p = do_put_status [OF _ _ r(1), of ns "kc_Name x" x]
  show "spec_step selects (nsView (stored w) ns) (CallUpdateStatus x) a (nsView (stored w') ns)"
    using p r(2) by (cases e) (auto simp: clusterAnswer_def intro!: spec_step.update_status spec_write_error, simp add: nsView_def)
  show "a = ClusterAnswer k \<Longrightarrow> kc_Spec k = kc_Spec (the (nsView (stored w) ns (kc_Name x)))"
    using p r(2) by (cases e) (auto simp: clusterAnswer_def nsView_def)
qed

lemma typed_delete:
  assumes "typedPerform (clientFor R ns) (CallDelete n) w = Some (a, w')"
  shows "spec_step selects (nsView (stored w) ns) (CallDelete n) a (nsView (stored w') ns)"
proof -
  obtain e where r: "DoError R (DELETE, [Namespace ns, ResourceName ''kyuubiclusters'', Name n,
      Body (OptionsBody [])]) w = (e, w')" "a = clusterAnswer None e"
    using assms by (auto simp: typed_methods split: prod.splits)
  show ?thesis
    using do_delete [OF _ r(1), of ns n] r(2)
    by (cases e) (auto simp: clusterAnswer_def intro!: spec_step.delete spec_write_error, simp add: nsView_def)
qed

lemmas typed_steps = typed_get typed_list typed_create typed_update typed_update_status(1) typed_delete

end

locale namespaced_server = rest_server +
  fixes ns :: string
  assumes one_namespace: "ns \<noteq> []"

sublocale namespaced_server \<subseteq> typed: cluster_interface "typedPerform (clientFor R ns)" "\<lambda>w. nsView (stored w) ns" ns selects
proof
  fix c w
  show "typedPerform (clientFor R ns) c w \<noteq> None" by (rule typedPerform_no_panic)
next
  fix c w a w'
  assume "typedPerform (clientFor R ns) c w = Some (a, w')"
  then show "spec_step selects (nsView (stored w) ns) c a (nsView (stored w') ns)"
    by (cases c) (auto intro: typed_steps typed_list [OF _ one_namespace])
qed

context namespaced_server
begin

lemmas typed_run = typed.run_refines

end

section \<open>The testing package behind the fake client\<close>

text \<open>
  What the package documents: a tracker starts empty, \<open>Add\<close> refuses an object whose key is taken, the
  chain runs the reactor registered for everything (an unhandled action yields the default object),
  and \<open>ObjectReaction\<close> answers from the tracker, which stores objects as they are. Selectors are matched
  as in the listed options; a selector that is absent matches everything.
\<close>

locale testing_package =
  fixes T :: "('f, 't, 'sel, 'wt, 'w) testing"
    and tracked :: "'t \<Rightarrow> 'w \<Rightarrow> NamespacedName \<rightharpoonup> KyuubiCluster"
    and selects :: "string \<Rightarrow> gomap \<Rightarrow> bool"
  assumes new_tracker: "NewObjectTracker T w = (t, w') \<Longrightarrow> tracked t w' = Map.empty"
    and add_object: "TrackerAdd T t (ClusterObj k) w = (e, w') \<Longrightarrow>
      (e = None \<longleftrightarrow> tracked t w (metaKey (kc_Meta k)) = None) \<and>
      (e = None \<longrightarrow> tracked t w' = (tracked t w)(metaKey (kc_Meta k) \<mapsto> k))"
    and reaction_chain: "Invokes T (AddWatchReactor T s g (AddReactor T ''*'' ''*'' r (zeroFake T))) a d w = (oe, w') \<Longrightarrow>
      \<exists>w0 h oe'. (\<forall>t. tracked t w0 = tracked t w) \<and> r a w0 = ((h, oe'), w') \<and> oe = (if h then oe' else (Some d, None))"
    and react_get: "ObjectReaction T t (NewGetAction kyuubiclustersResource ns n) w = ((h, obj, e), w') \<Longrightarrow>
      h \<and> tracked t w' = tracked t w \<and> (case tracked t w (nsKey ns n) of
        Some k \<Rightarrow> obj = Some (ClusterObj k) \<and> e = None | None \<Rightarrow> obj = None \<and> IsNotFound e)"
    and react_list: "ObjectReaction T t (NewListAction kyuubiclustersResource kyuubiclustersKind ns opts) w = ((h, obj, e), w') \<Longrightarrow>
      ns \<noteq> [] \<Longrightarrow> h \<and> tracked t w' = tracked t w \<and> e = None \<and> (\<exists>l. obj = Some (ListObj l) \<and>
        distinct (map kc_Name (kl_Items l)) \<and> set (kl_Items l) = {k. tracked t w (nsKey ns (kc_Name k)) = Some k})"
    and react_create: "ObjectReaction T t (NewCreateAction kyuubiclustersResource ns (ClusterObj x)) w = ((h, obj, e), w') \<Longrightarrow>
      kc_Namespace x = ns \<Longrightarrow> h \<and> (if tracked t w (nsKey ns (kc_Name x)) = None
        then e = None \<and> obj = Some (ClusterObj x) \<and> tracked t w' = (tracked t w)(nsKey ns (kc_Name x) \<mapsto> x)
        else e \<noteq> None \<and> obj = None \<and> tracked t w' = tracked t w)"
    and react_update: "ObjectReaction T t (NewUpdateAction kyuubiclustersResource ns (ClusterObj x)) w = ((h, obj, e), w') \<Longrightarrow>
      kc_Namespace x = ns \<Longrightarrow> h \<and> (if tracked t w (nsKey ns (kc_Name x)) \<noteq> None
        then e = None \<and> obj = Some (ClusterObj x) \<and> tracked t w' = (tracked t w)(nsKey ns (kc_Name x) \<mapsto> x)
        else e \<noteq> None \<and> obj = None \<and> tracked t w' = tracked t w)"
    and react_update_status: "ObjectReaction T t (NewUpdateSubresourceAction kyuubiclustersResource ''status'' ns (ClusterObj x)) w =
        ((h, obj, e), w') \<Longrightarrow>
      kc_Namespace x = ns \<Longrightarrow> h \<and> (if tracked t w (nsKey ns (kc_Name x)) \<noteq> None
        then e = None \<and> (\<exists>k. obj = Some (ClusterObj k) \<and> kc_Name k = kc_Name x \<and> kc_Status k = kc_Status x \<and>
          tracked t w' = (tracked t w)(nsKey ns (kc_Name x) \<mapsto> k))
        else e \<noteq> None \<and> obj = None \<and> tracked t w' = tracked t w)"
    and react_delete: "ObjectReaction T t (NewDeleteActionWithOptions kyuubiclustersResource ns n opts') w = ((h, obj, e), w') \<Longrightarrow>
      h \<and> (if tracked t w (nsKey ns n) \<noteq> None then e = None \<and> tracked t w' = (tracked t w)(nsKey ns n := None)
        else e \<noteq> None \<and> tracked t w' = tracked t w)"
    and extract_some: "ExtractLabel T opts = Some sl \<Longrightarrow> Matches T sl ls = selects (lo_LabelSelector opts) ls"
    and extract_none: "ExtractLabel T opts = None \<Longrightarrow> selects (lo_LabelSelector opts) ls"
    and everything: "Matches T (Everything T) ls"

text \<open>The client of a namespace over the fake that \<open>NewSimpleClientset\<close> sets up on a tracker.\<close>

definition fakeClientFor :: "('f, 't, 'sel, 'wt, 'w) testing \<Rightarrow> 't \<Rightarrow> string \<Rightarrow> 'f FakeKyuubiClusters" where
  "fakeClientFor T t ns = FakeKyuubiV1alpha1_KyuubiClusters
     \<lparr>fkv_Fake = AddWatchReactor T ''*'' (watchReactor T t) (AddReactor T ''*'' ''*'' (ObjectReaction T t) (zeroFake T))\<rparr> ns"

lemma fakeClientFor_simps [simp]:
  "fkv_Fake (fkc_Fake (fakeClientFor T t ns)) =
     AddWatchReactor T ''*'' (watchReactor T t) (AddReactor T ''*'' ''*'' (ObjectReaction T t) (zeroFake T))"
  "fkc_ns (fakeClientFor T t ns) = ns"
  by (simp_all add: fakeClientFor_def FakeKyuubiV1alpha1_KyuubiClusters_def)

lemma filterItems_filter:
  "filterItems T label items list =
     list\<lparr>kl_Items := kl_Items list @ filter (\<lambda>k. Matches T label (om_Labels (kc_Meta k))) items\<rparr>"
  by (induction items arbitrary: list) simp_all

context testing_package
begin

text \<open>One call of \<open>Invokes\<close> on the fake of a tracker is one reaction of the tracker.\<close>

lemma invoke_reaction:
  obtains w0 h obj e w' where "tracked t w0 = tracked t w" "ObjectReaction T t a w0 = ((h, obj, e), w')"
    "invoke T (fakeClientFor T t ns) a d w = (if h then (obj, e) else (Some d, None), w')"
proof -
  obtain oe w' where i: "invoke T (fakeClientFor T t ns) a d w = (oe, w')"
    by (meson surj_pair)
  obtain w0 h oe' where r: "tracked t w0 = tracked t w" "ObjectReaction T t a w0 = ((h, oe'), w')"
      "oe = (if h then oe' else (Some d, None))"
    using reaction_chain [OF i [unfolded fakeClientFor_simps]] by blast
  show thesis
    using r i that [of w0 h "fst oe'" "snd oe'" w'] by simp
qed

definition follows_spec :: "'t \<Rightarrow> string \<Rightarrow> clusterCall \<Rightarrow> 'w \<Rightarrow> bool" where
  "follows_spec t ns c w \<longleftrightarrow> (\<exists>a w'. fakePerform T (fakeClientFor T t ns) c w = Some (a, w') \<and>
     spec_step selects (nsView (tracked t w) ns) c a (nsView (tracked t w') ns))"

lemma fake_get: "follows_spec t ns (CallGet n) w"
proof -
  let ?a = "NewGetAction kyuubiclustersResource ns n"
  obtain w0 h obj e w' where r: "tracked t w0 = tracked t w" "ObjectReaction T t ?a w0 = ((h, obj, e), w')"
      "invoke T (fakeClientFor T t ns) ?a (ClusterObj zeroKyuubiCluster) w =
        (if h then (obj, e) else (Some (ClusterObj zeroKyuubiCluster), None), w')"
    by (rule invoke_reaction)
  have n: "tracked t w0 (nsKey ns n) = nsView (tracked t w) ns n" by (simp add: nsView_def r(1))
  show ?thesis
    using react_get [OF r(2), unfolded n] r(1,3) unfolding follows_spec_def
    by (cases "nsView (tracked t w) ns n")
      (auto simp: fakePerform_def fakeAnswer_def FakeKyuubiClusters_Get_def resultCluster_def clusterAnswer_def
        IsNotFound_iff intro: spec_step.get spec_step.get_absent)
qed

lemma fake_list:
  assumes "ns \<noteq> []"
  shows "follows_spec t ns (CallList s) w"
proof -
  let ?a = "NewListAction kyuubiclustersResource kyuubiclustersKind ns (labelOptions s)"
  let ?l = "case ExtractLabel T (labelOptions s) of None \<Rightarrow> Everything T | Some label \<Rightarrow> label"
  obtain w0 h obj e w' where r: "tracked t w0 = tracked t w" "ObjectReaction T t ?a w0 = ((h, obj, e), w')"
      "invoke T (fakeClientFor T t ns) ?a (ListObj zeroKyuubiClusterList) w =
        (if h then (obj, e) else (Some (ListObj zeroKyuubiClusterList), None), w')"
    by (rule invoke_reaction)
  from react_list [OF r(2) assms] obtain l where l: "h" "e = None" "obj = Some (ListObj l)" "tracked t w' = tracked t w0"
      "distinct (map kc_Name (kl_Items l))" "set (kl_Items l) = {k. tracked t w0 (nsKey ns (kc_Name k)) = Some k}"
    by blast
  have m: "Matches T ?l ls = selects s ls" for ls
    using extract_some [of "labelOptions s" _ ls] extract_none [of "labelOptions s" ls] everything [of ls]
    by (auto simp: labelOptions_def split: option.splits)
  let ?r = "filterItems T ?l (kl_Items l) (zeroKyuubiClusterList\<lparr>kl_ListMeta := kl_ListMeta l\<rparr>)"
  have "fakePerform T (fakeClientFor T t ns) (CallList s) w = Some (ListAnswer ?r, w')"
    using l(1-3) r(3) by (simp add: fakePerform_def FakeKyuubiClusters_List_def listAnswer_def)
  moreover have "spec_step selects (nsView (tracked t w) ns) (CallList s) (ListAnswer ?r) (nsView (tracked t w') ns)"
    unfolding l(4) r(1)
    by (rule spec_step.lists)
      (auto simp: filterItems_filter m l(6) r(1) nsView_def zeroKyuubiClusterList_def intro: distinct_map_filter [OF l(5)])
  ultimately show ?thesis unfolding follows_spec_def by blast
qed

lemma fake_create:
  assumes "kc_Namespace x = ns"
  shows "follows_spec t ns (CallCreate x) w"
proof -
  let ?a = "NewCreateAction kyuubiclustersResource ns (ClusterObj x)"
  obtain w0 h obj e w' where r: "tracked t w0 = tracked t w" "ObjectReaction T t ?a w0 = ((h, obj, e), w')"
      "invoke T (fakeClientFor T t ns) ?a (ClusterObj zeroKyuubiCluster) w =
        (if h then (obj, e) else (Some (ClusterObj zeroKyuubiCluster), None), w')"
    by (rule invoke_reaction)
  have n: "tracked t w0 (nsKey ns (kc_Name x)) = nsView (tracked t w) ns (kc_Name x)" by (simp add: nsView_def r(1))
  show ?thesis
    using react_create [OF r(2) assms, unfolded n] r(1,3) unfolding follows_spec_def
    by (cases e) (auto simp: fakePerform_def fakeAnswer_def FakeKyuubiClusters_Create_def resultCluster_def clusterAnswer_def
        intro: spec_step.create spec_write_error split: if_splits)
qed

lemma fake_update:
  assumes "kc_Namespace x = ns"
  shows "follows_spec t ns (CallUpdate x) w"
proof -
  let ?a = "NewUpdateAction kyuubiclustersResource ns (ClusterObj x)"
  obtain w0 h obj e w' where r: "tracked t w0 = tracked t w" "ObjectReaction T t ?a w0 = ((h, obj, e), w')"
      "invoke T (fakeClientFor T t ns) ?a (ClusterObj zeroKyuubiCluster) w =
        (if h then (obj, e) else (Some (ClusterObj zeroKyuubiCluster), None), w')"
    by (rule invoke_reaction)
  have n: "tracked t w0 (nsKey ns (kc_Name x)) = nsView (tracked t w) ns (kc_Name x)" by (simp add: nsView_def r(1))
  show ?thesis
    using react_update [OF r(2) assms, unfolded n] r(1,3) unfolding follows_spec_def
    by (cases e) (auto simp: fakePerform_def fakeAnswer_def FakeKyuubiClusters_Update_def resultCluster_def clusterAnswer_def
        intro: spec_step.update spec_write_error split: if_splits)
qed

lemma fake_update_status:
  assumes "kc_Namespace x = ns"
  shows "follows_spec t ns (CallUpdateStatus x) w"
proof -
  let ?a = "NewUpdateSubresourceAction kyuubiclustersResource ''status'' ns (ClusterObj x)"
  obtain w0 h obj e w' where r: "tracked t w0 = tracked t w" "ObjectReaction T t ?a w0 = ((h, obj, e), w')"
      "invoke T (fakeClientFor T t ns) ?a (ClusterObj zeroKyuubiCluster) w =
        (if h then (obj, e) else (Some (ClusterObj zeroKyuubiCluster), None), w')"
    by (rule invoke_reaction)
  have n: "tracked t w0 (nsKey ns (kc_Name x)) = nsView (tracked t w) ns (kc_Name x)" by (simp add: nsView_def r(1))
  show ?thesis
    using react_update_status [OF r(2) assms, unfolded n] r(1,3) unfolding follows_spec_def
    by (cases e) (auto simp: fakePerform_def fakeAnswer_def FakeKyuubiClusters_UpdateStatus_def resultCluster_def clusterAnswer_def
        intro!: spec_step.update_status spec_write_error split: if_splits)
qed

lemma fake_delete: "follows_spec t ns (CallDelete n) w"
proof -
  let ?a = "NewDeleteActionWithOptions kyuubiclustersResource ns n []"
  obtain w0 h obj e w' where r: "tracked t w0 = tracked t w" "ObjectReaction T t ?a w0 = ((h, obj, e), w')"
      "invoke T (fakeClientFor T t ns) ?a (ClusterObj zeroKyuubiCluster) w =
        (if h then (obj, e) else (Some (ClusterObj zeroKyuubiCluster), None), w')"
    by (rule invoke_reaction)
  have n: "tracked t w0 (nsKey ns n) = nsView (tracked t w) ns n" by (simp add: nsView_def r(1))
  show ?thesis
    using react_delete [OF r(2), unfolded n] r(1,3) unfolding follows_spec_def
    by (cases e) (auto simp: fakePerform_def FakeKyuubiClusters_Delete_def clusterAnswer_def
        intro: spec_step.delete spec_write_error split: if_splits)
qed

lemma fake_follows: "ns \<noteq> [] \<Longrightarrow> callOk ns c \<Longrightarrow> follows_spec t ns c w"
  by (cases c) (auto simp: callOk_def intro: fake_get fake_list fake_create fake_update fake_update_status fake_delete)

end

locale namespaced_fake = testing_package +
  fixes t :: 'b and ns :: string
  assumes one_namespace: "ns \<noteq> []"

sublocale namespaced_fake \<subseteq> fake: cluster_interface "fakePerform T (fakeClientFor T t ns)" "\<lambda>w. nsView (tracked t w) ns" ns selects
proof
  fix c w
  assume "callOk ns c"
  then show "fakePerform T (fakeClientFor T t ns) c w \<noteq> None"
    using fake_follows [OF one_namespace, of c t w] by (auto simp: follows_spec_def)
next
  fix c w a w'
  assume "callOk ns c" "fakePerform T (fakeClientFor T t ns) c w = Some (a, w')"
  then show "spec_step selects (nsView (tracked t w) ns) c a (nsView (tracked t w') ns)"
    using fake_follows [OF one_namespace, of c t w] by (auto simp: follows_spec_def)
qed

context namespaced_fake
begin

lemmas fake_run = fake.run_refines

end

end
