(* ===== verification/Client_Interfaces.thy ===== *)
theory Client_Interfaces
  imports Client_Contracts
begin

text \<open>
  The Go interfaces of the clientset, as records of methods: \<open>KyuubiClusterInterface\<close>,
  \<open>KyuubiClustersGetter\<close> within \<open>KyuubiV1alpha1Interface\<close>, and the clientset's \<open>Interface\<close>. The typed
  clients and the fakes are values of them; a caller that holds an \<open>Interface\<close> performs its calls through
  the record. A method that returns a pointer returns an option; \<open>None\<close> around a result is a panic. The
  interface \<open>KyuubiClusterExpansion\<close> is empty.
\<close>

record ('wt, 'w) KyuubiClusterInterface =
  kci_Create :: "KyuubiCluster \<Rightarrow> CreateOptions \<Rightarrow> 'w \<Rightarrow> ((KyuubiCluster option \<times> GoError option) \<times> 'w) option"
  kci_Update :: "KyuubiCluster \<Rightarrow> UpdateOptions \<Rightarrow> 'w \<Rightarrow> ((KyuubiCluster option \<times> GoError option) \<times> 'w) option"
  kci_UpdateStatus :: "KyuubiCluster \<Rightarrow> UpdateOptions \<Rightarrow> 'w \<Rightarrow> ((KyuubiCluster option \<times> GoError option) \<times> 'w) option"
  kci_Delete :: "string \<Rightarrow> DeleteOptions \<Rightarrow> 'w \<Rightarrow> (GoError option \<times> 'w) option"
  kci_DeleteCollection :: "DeleteOptions \<Rightarrow> ListOptions \<Rightarrow> 'w \<Rightarrow> (GoError option \<times> 'w) option"
  kci_Get :: "string \<Rightarrow> GetOptions \<Rightarrow> 'w \<Rightarrow> ((KyuubiCluster option \<times> GoError option) \<times> 'w) option"
  kci_List :: "ListOptions \<Rightarrow> 'w \<Rightarrow> ((KyuubiClusterList option \<times> GoError option) \<times> 'w) option"
  kci_Watch :: "ListOptions \<Rightarrow> 'w \<Rightarrow> (('wt option \<times> GoError option) \<times> 'w) option"
  kci_Patch :: "string \<Rightarrow> PatchType \<Rightarrow> string \<Rightarrow> PatchOptions \<Rightarrow> string list \<Rightarrow> 'w \<Rightarrow>
    ((KyuubiCluster option \<times> GoError option) \<times> 'w) option"

type_synonym ('wt, 'w) KyuubiClustersGetter = "string \<Rightarrow> ('wt, 'w) KyuubiClusterInterface"

record ('wt, 'w) KyuubiV1alpha1Interface =
  kvi_RESTClient :: "('wt, 'w) rest_interface option"
  kvi_KyuubiClusters :: "('wt, 'w) KyuubiClustersGetter"

record ('d, 'wt, 'w) Interface =
  ci_Discovery :: 'd
  ci_KyuubiV1alpha1 :: "('wt, 'w) KyuubiV1alpha1Interface"

section \<open>The typed clients\<close>

text \<open>The typed methods return the address of their result variable, which is never nil.\<close>

definition pointer :: "(('a \<times> GoError option) \<times> 'w) option \<Rightarrow> (('a option \<times> GoError option) \<times> 'w) option" where
  "pointer = map_option (\<lambda>((x, e), w). ((Some x, e), w))"

definition watched :: "((GoError + 'wt) \<times> 'w) option \<Rightarrow> (('wt option \<times> GoError option) \<times> 'w) option" where
  "watched = map_option (\<lambda>(r, w). ((case r of Inl e \<Rightarrow> (None, Some e) | Inr x \<Rightarrow> (Some x, None)), w))"

definition typedClusters :: "('wt, 'w) rest_interface kyuubiClusters \<Rightarrow> ('wt, 'w) KyuubiClusterInterface" where
  "typedClusters c =
     \<lparr>kci_Create = (\<lambda>k opts w. pointer (kyuubiClusters_Create c k opts w)),
      kci_Update = (\<lambda>k opts w. pointer (kyuubiClusters_Update c k opts w)),
      kci_UpdateStatus = (\<lambda>k opts w. pointer (kyuubiClusters_UpdateStatus c k opts w)),
      kci_Delete = kyuubiClusters_Delete c,
      kci_DeleteCollection = kyuubiClusters_DeleteCollection c,
      kci_Get = (\<lambda>n opts w. pointer (kyuubiClusters_Get c n opts w)),
      kci_List = (\<lambda>opts w. pointer (kyuubiClusters_List c opts w)),
      kci_Watch = (\<lambda>opts w. watched (kyuubiClusters_Watch c opts w)),
      kci_Patch = (\<lambda>n pt d opts subs w. pointer (kyuubiClusters_Patch c n pt d opts subs w))\<rparr>"

definition typedV1alpha1 :: "('wt, 'w) rest_interface KyuubiV1alpha1Client option \<Rightarrow> ('wt, 'w) KyuubiV1alpha1Interface" where
  "typedV1alpha1 c = \<lparr>kvi_RESTClient = RESTClient c, kvi_KyuubiClusters = (\<lambda>ns. typedClusters (KyuubiClusters c ns))\<rparr>"

definition clientsetInterface :: "('x, ('wt, 'w) rest_interface) Clientset \<Rightarrow> ('x option, 'wt, 'w) Interface" where
  "clientsetInterface cs = \<lparr>ci_Discovery = Clientset_Discovery (Some cs), ci_KyuubiV1alpha1 = typedV1alpha1 (Clientset_KyuubiV1alpha1 cs)\<rparr>"

section \<open>The fakes\<close>

definition fakeClusters :: "('f, 't, 'sel, 'wt, 'w) testing \<Rightarrow> 'f FakeKyuubiClusters \<Rightarrow> ('wt, 'w) KyuubiClusterInterface" where
  "fakeClusters T c =
     \<lparr>kci_Create = FakeKyuubiClusters_Create T c,
      kci_Update = FakeKyuubiClusters_Update T c,
      kci_UpdateStatus = FakeKyuubiClusters_UpdateStatus T c,
      kci_Delete = (\<lambda>n opts w. Some (FakeKyuubiClusters_Delete T c n opts w)),
      kci_DeleteCollection = (\<lambda>opts listOpts w. Some (FakeKyuubiClusters_DeleteCollection T c opts listOpts w)),
      kci_Get = FakeKyuubiClusters_Get T c,
      kci_List = FakeKyuubiClusters_List T c,
      kci_Watch = (\<lambda>opts w. Some (FakeKyuubiClusters_Watch T c opts w)),
      kci_Patch = FakeKyuubiClusters_Patch T c\<rparr>"

definition fakeV1alpha1 :: "('f, 't, 'sel, 'wt, 'w) testing \<Rightarrow> 'f FakeKyuubiV1alpha1 \<Rightarrow> ('wt, 'w) KyuubiV1alpha1Interface" where
  "fakeV1alpha1 T c = \<lparr>kvi_RESTClient = FakeKyuubiV1alpha1_RESTClient c,
     kvi_KyuubiClusters = (\<lambda>ns. fakeClusters T (FakeKyuubiV1alpha1_KyuubiClusters c ns))\<rparr>"

definition fakeInterface :: "('f, 't, 'sel, 'wt, 'w) testing \<Rightarrow> ('f, 't) FakeClientset \<Rightarrow> ('f, 'wt, 'w) Interface" where
  "fakeInterface T cs = \<lparr>ci_Discovery = FakeClientset_Discovery cs, ci_KyuubiV1alpha1 = fakeV1alpha1 T (FakeClientset_KyuubiV1alpha1 cs)\<rparr>"

section \<open>A caller of the interface\<close>

definition perform :: "('wt, 'w) KyuubiClusterInterface \<Rightarrow> clusterCall \<Rightarrow> 'w \<Rightarrow> (answer \<times> 'w) option" where
  "perform I cl w = (case cl of
       CallGet n \<Rightarrow> fakeAnswer (kci_Get I n [] w)
     | CallList l \<Rightarrow> map_option (\<lambda>((l, e), w). (listAnswer l e, w)) (kci_List I (labelOptions l) w)
     | CallCreate k \<Rightarrow> fakeAnswer (kci_Create I k [] w)
     | CallUpdate k \<Rightarrow> fakeAnswer (kci_Update I k [] w)
     | CallUpdateStatus k \<Rightarrow> fakeAnswer (kci_UpdateStatus I k [] w)
     | CallDelete n \<Rightarrow> map_option (\<lambda>(e, w). (clusterAnswer None e, w)) (kci_Delete I n [] w))"

text \<open>The calls of a program that is given a clientset, in one namespace.\<close>

definition performIn :: "('d, 'wt, 'w) Interface \<Rightarrow> string \<Rightarrow> clusterCall \<Rightarrow> 'w \<Rightarrow> (answer \<times> 'w) option" where
  "performIn I ns = perform (kvi_KyuubiClusters (ci_KyuubiV1alpha1 I) ns)"

lemma fakeAnswer_pointer: "fakeAnswer (pointer r) = typedAnswer r"
  by (cases r) (auto simp: fakeAnswer_def pointer_def typedAnswer_def)

lemma listAnswer_pointer:
  "map_option (\<lambda>((l, e), w). (listAnswer l e, w)) (pointer r) = map_option (\<lambda>((l, e), w). (listAnswer (Some l) e, w)) r"
  by (cases r) (auto simp: pointer_def)

lemma perform_typed: "perform (typedClusters c) = typedPerform c"
  by (auto simp: fun_eq_iff perform_def typedPerform_def typedClusters_def fakeAnswer_pointer listAnswer_pointer
      split: clusterCall.split)

lemma perform_fake: "perform (fakeClusters T c) = fakePerform T c"
  by (auto simp: fun_eq_iff perform_def fakePerform_def fakeClusters_def split: clusterCall.split prod.split)

lemma perform_v1alpha1: "perform (kvi_KyuubiClusters (typedV1alpha1 c) ns) = typedPerform (KyuubiClusters c ns)"
  by (simp add: typedV1alpha1_def perform_typed)

text \<open>A clientset hands out the same client for every way of making it from a REST client.\<close>

lemma performIn_clientset:
  "performIn (clientsetInterface (clientset_New L (Some R))) ns = typedPerform (KyuubiClusters (Some (v1alpha1_New (Some R))) ns)"
  by (simp add: performIn_def clientsetInterface_def typedV1alpha1_def Clientset_KyuubiV1alpha1_def clientset_New_def perform_typed)

lemma performIn_fake:
  "performIn (fakeInterface T fcs) ns = fakePerform T (FakeKyuubiV1alpha1_KyuubiClusters (FakeClientset_KyuubiV1alpha1 fcs) ns)"
  by (simp add: performIn_def fakeInterface_def fakeV1alpha1_def perform_fake)

end
