(* ===== verification/Client_Refinement.thy ===== *)
theory Client_Refinement
  imports Client_Interfaces
begin

text \<open>
  An API server and a testing package that keep custom resources in a list, as instances of the
  contracts of \<open>Client_Contracts\<close>, and the properties of the two clients: both refine the abstract store
  of \<open>KyuubiClusterInterface\<close>, and the fake clientset starts from exactly the objects it was given.
\<close>

section \<open>A list of custom resources as a store\<close>

abbreviation clusterKey :: "KyuubiCluster \<Rightarrow> NamespacedName" where
  "clusterKey k \<equiv> metaKey (kc_Meta k)"

definition lookup :: "KyuubiCluster list \<Rightarrow> NamespacedName \<rightharpoonup> KyuubiCluster" where
  "lookup s k = find (\<lambda>x. clusterKey x = k) s"

definition remove :: "NamespacedName \<Rightarrow> KyuubiCluster list \<Rightarrow> KyuubiCluster list" where
  "remove k s = filter (\<lambda>x. clusterKey x \<noteq> k) s"

definition inNamespace :: "string \<Rightarrow> KyuubiCluster list \<Rightarrow> KyuubiCluster list" where
  "inNamespace ns s = remdups (filter (\<lambda>x. kc_Namespace x = ns \<and> lookup s (clusterKey x) = Some x) s)"

lemma lookup_Nil [simp]: "lookup [] = Map.empty"
  by (simp add: lookup_def fun_eq_iff)

lemma lookup_Cons [simp]: "lookup (x # s) = (lookup s)(clusterKey x \<mapsto> x)"
  by (simp add: lookup_def fun_eq_iff)

lemma lookup_remove [simp]: "lookup (remove k s) = (lookup s)(k := None)"
  by (induction s) (auto simp: remove_def)

lemma lookup_key: "lookup s k = Some x \<Longrightarrow> clusterKey x = k \<and> x \<in> set s"
  by (induction s) (auto split: if_splits)

lemma key_eq: "clusterKey x = nsKey ns n \<longleftrightarrow> kc_Namespace x = ns \<and> kc_Name x = n"
  by (auto simp: metaKey_def)

lemma key_self: "kc_Namespace x = ns \<Longrightarrow> nsKey ns (kc_Name x) = clusterKey x"
  by (simp add: metaKey_def)

lemma set_inNamespace: "set (inNamespace ns s) = {k. lookup s (nsKey ns (kc_Name k)) = Some k}"
proof -
  have "x \<in> set (inNamespace ns s) \<longleftrightarrow> lookup s (nsKey ns (kc_Name x)) = Some x" for x
    using lookup_key [of s "nsKey ns (kc_Name x)" x] by (auto simp: inNamespace_def metaKey_def)
  then show ?thesis by blast
qed

lemma distinct_inNamespace: "distinct (map kc_Name (filter P (inNamespace ns s)))"
proof -
  have "inj_on kc_Name (set (inNamespace ns s))"
    unfolding set_inNamespace by (rule inj_onI) auto
  then show ?thesis
    by (simp add: distinct_map inNamespace_def inj_on_def)
qed

lemma named_lookup [simp]: "named (nsView (lookup s) ns)"
  by (auto simp: named_def nsView_def key_eq dest: lookup_key)

section \<open>The instance of the API server\<close>

text \<open>The selector of the instances: the empty selector, or a label that has to be present.\<close>

definition hasLabel :: "string \<Rightarrow> gomap \<Rightarrow> bool" where
  "hasLabel s ls \<longleftrightarrow> s = [] \<or> gm_lookup ls s \<noteq> None"

fun bodyOf :: "body list \<Rightarrow> KyuubiCluster" where
  "bodyOf [ClusterBody x] = x"
| "bodyOf bs = zeroKyuubiCluster"

fun selectorOf :: "params list \<Rightarrow> string" where
  "selectorOf [ListParams opts] = lo_LabelSelector opts"
| "selectorOf ps = []"

definition refPost :: "string \<Rightarrow> KyuubiCluster \<Rightarrow> KyuubiCluster list \<Rightarrow> (KyuubiCluster \<times> GoError option) \<times> KyuubiCluster list" where
  "refPost ns x s = (if kc_Namespace x \<noteq> ns then ((x, Some (ApiError ''BadRequest'' (kc_Name x))), s)
     else if lookup s (clusterKey x) \<noteq> None then ((x, Some (ApiError ''AlreadyExists'' (kc_Name x))), s)
     else ((x, None), x # s))"

definition refPut :: "(KyuubiCluster \<Rightarrow> KyuubiCluster \<Rightarrow> KyuubiCluster) \<Rightarrow> NamespacedName \<Rightarrow> KyuubiCluster \<Rightarrow>
    KyuubiCluster list \<Rightarrow> (KyuubiCluster \<times> GoError option) \<times> KyuubiCluster list" where
  "refPut merge k x s = (case lookup s k of
       None \<Rightarrow> ((x, Some (NotFound (nn_Name k))), s)
     | Some old \<Rightarrow> if clusterKey x \<noteq> k then ((x, Some (ApiError ''BadRequest'' (kc_Name x))), s)
         else ((merge old x, None), merge old x # remove k s))"

definition refDo :: "request \<Rightarrow> KyuubiCluster \<Rightarrow> KyuubiCluster list \<Rightarrow> (KyuubiCluster \<times> GoError option) \<times> KyuubiCluster list" where
  "refDo r z s = (case (fst r, target (snd r)) of
       (GET, [ns], [res], [n], []) \<Rightarrow> (case lookup s (nsKey ns n) of None \<Rightarrow> ((z, Some (NotFound n)), s) | Some k \<Rightarrow> ((k, None), s))
     | (POST, [ns], [res], [], []) \<Rightarrow> refPost ns (bodyOf (bodies (snd r))) s
     | (PUT, [ns], [res], [n], []) \<Rightarrow> refPut (\<lambda>old x. x\<lparr>kc_Status := kc_Status old\<rparr>) (nsKey ns n) (bodyOf (bodies (snd r))) s
     | (PUT, [ns], [res], [n], [sub]) \<Rightarrow> refPut (\<lambda>old x. old\<lparr>kc_Status := kc_Status x\<rparr>) (nsKey ns n) (bodyOf (bodies (snd r))) s
     | _ \<Rightarrow> ((z, Some (ErrorString ''unsupported'')), s))"

definition refRest :: "(unit, KyuubiCluster list) rest_interface" where
  "refRest = \<lparr>DoInto = refDo,
     DoIntoList = (\<lambda>r z s. ((z\<lparr>kl_Items := filter (\<lambda>k. hasLabel (selectorOf (parameters (snd r))) (om_Labels (kc_Meta k)))
        (inNamespace (hd (fst (target (snd r)))) s)\<rparr>, None), s)),
     DoError = (\<lambda>r s. case target (snd r) of
         ([ns], [res], [n], []) \<Rightarrow> if lookup s (nsKey ns n) = None then (Some (NotFound n), s) else (None, remove (nsKey ns n) s)
       | _ \<Rightarrow> (Some (ErrorString ''unsupported''), s)),
     DoWatch = (\<lambda>r s. (Inr (), s))\<rparr>"

lemma refPut_ok:
  assumes "refPut merge k x s = ((y, e), s')" and "\<And>old. clusterKey old = k \<Longrightarrow> clusterKey x = k \<Longrightarrow> clusterKey (merge old x) = k"
  shows "(e = None \<longrightarrow> (\<exists>old. lookup s k = Some old \<and> clusterKey x = k \<and> y = merge old x \<and>
      lookup s' = (lookup s)(k \<mapsto> y) \<and> clusterKey y = k)) \<and> (e \<noteq> None \<longrightarrow> s' = s)"
proof (cases "lookup s k")
  case None
  with assms(1) show ?thesis by (auto simp: refPut_def)
next
  case (Some old)
  with assms lookup_key [OF Some] show ?thesis by (auto simp: refPut_def split: if_splits)
qed

interpretation refRest: rest_server refRest lookup hasLabel
proof
  show "lookup s' = lookup s \<and> (e = None \<longrightarrow> lookup s (nsKey ns n) = Some k) \<and> (IsNotFound e \<longrightarrow> lookup s (nsKey ns n) = None)"
    if "target bs = ([ns], [''kyuubiclusters''], [n], [])" "DoInto refRest (GET, bs) z s = ((k, e), s')"
    for bs ns n z s k e s'
    using that by (auto simp: refRest_def refDo_def split: option.splits)
  show "lookup s' = lookup s \<and> (e = None \<longrightarrow> distinct (map kc_Name (kl_Items l)) \<and>
      set (kl_Items l) = {k. lookup s (nsKey ns (kc_Name k)) = Some k \<and> hasLabel sel (om_Labels (kc_Meta k))})"
    if "target bs = ([ns], [''kyuubiclusters''], [], [])" "parameters bs = [ListParams (labelOptions sel)]"
      "DoIntoList refRest (GET, bs) z s = ((l, e), s')"
    for bs ns sel z s l e s'
    using that by (auto simp: refRest_def labelOptions_def set_inNamespace distinct_inNamespace)
  show "(e = None \<longrightarrow> lookup s (nsKey ns (kc_Name x)) = None \<and> kc_Name k = kc_Name x \<and> kc_Spec k = kc_Spec x \<and>
      lookup s' = (lookup s)(nsKey ns (kc_Name x) \<mapsto> k)) \<and> (e \<noteq> None \<longrightarrow> lookup s' = lookup s)"
    if "target bs = ([ns], [''kyuubiclusters''], [], [])" "bodies bs = [ClusterBody x]"
      "DoInto refRest (POST, bs) z s = ((k, e), s')"
    for bs ns x z s k e s'
    using that by (auto simp: refRest_def refDo_def refPost_def key_self split: if_splits)
  show "(e = None \<longrightarrow> lookup s (nsKey ns n) \<noteq> None \<and> kc_Name k = n \<and> kc_Spec k = kc_Spec x \<and>
      kc_Status k = kc_Status (the (lookup s (nsKey ns n))) \<and>
      lookup s' = (lookup s)(nsKey ns n \<mapsto> k)) \<and> (e \<noteq> None \<longrightarrow> lookup s' = lookup s)"
    if "target bs = ([ns], [''kyuubiclusters''], [n], [])" "bodies bs = [ClusterBody x]"
      "DoInto refRest (PUT, bs) z s = ((k, e), s')"
    for bs ns n x z s k e s'
    using that refPut_ok [of _ "nsKey ns n" x s k e s']
    by (fastforce simp: refRest_def refDo_def key_eq metaKey_def)
  show "(e = None \<longrightarrow> lookup s (nsKey ns n) \<noteq> None \<and> kc_Name k = n \<and> kc_Status k = kc_Status x \<and>
      kc_Spec k = kc_Spec (the (lookup s (nsKey ns n))) \<and>
      lookup s' = (lookup s)(nsKey ns n \<mapsto> k)) \<and> (e \<noteq> None \<longrightarrow> lookup s' = lookup s)"
    if "target bs = ([ns], [''kyuubiclusters''], [n], [''status''])" "bodies bs = [ClusterBody x]"
      "DoInto refRest (PUT, bs) z s = ((k, e), s')"
    for bs ns n x z s k e s'
    using that refPut_ok [of _ "nsKey ns n" x s k e s']
    by (fastforce simp: refRest_def refDo_def key_eq metaKey_def)
  show "(e = None \<longrightarrow> lookup s (nsKey ns n) \<noteq> None \<and> lookup s' = (lookup s)(nsKey ns n := None)) \<and>
      (e \<noteq> None \<longrightarrow> lookup s' = lookup s)"
    if "target bs = ([ns], [''kyuubiclusters''], [n], [])" "DoError refRest (DELETE, bs) s = (e, s')"
    for bs ns n s e s'
    using that by (auto simp: refRest_def split: if_splits)
qed

section \<open>The instance of the testing package\<close>

text \<open>Trackers are numbered; the world holds the next number and the objects of each tracker.\<close>

type_synonym trackers = "nat \<times> (nat \<Rightarrow> KyuubiCluster list)"

definition refTracked :: "nat \<Rightarrow> trackers \<Rightarrow> NamespacedName \<rightharpoonup> KyuubiCluster" where
  "refTracked t w = lookup (snd w t)"

definition setTracker :: "nat \<Rightarrow> KyuubiCluster list \<Rightarrow> trackers \<Rightarrow> trackers" where
  "setTracker t s w = (fst w, (snd w)(t := s))"

lemma refTracked_set [simp]: "refTracked t (setTracker t s w) = lookup s"
  by (simp add: refTracked_def setTracker_def)

text \<open>The answer of \<open>refPost\<close> and \<open>refPut\<close> as a reaction: nil with an error, the stored object otherwise.\<close>

definition reaction :: "nat \<Rightarrow> trackers \<Rightarrow> (KyuubiCluster \<times> GoError option) \<times> KyuubiCluster list \<Rightarrow>
    (bool \<times> object option \<times> GoError option) \<times> trackers" where
  "reaction t w r = (case r of ((k, None), s) \<Rightarrow> ((True, Some (ClusterObj k), None), setTracker t s w)
     | ((k, Some e), s) \<Rightarrow> ((True, None, Some e), w))"

fun refReaction :: "nat \<Rightarrow> trackers reaction" where
  "refReaction t (NewGetAction gvr ns n) w = reaction t w (refDo (GET, [Namespace ns, ResourceName [], Name n]) zeroKyuubiCluster (snd w t))"
| "refReaction t (NewListAction gvr gvk ns opts) w =
     ((True, Some (ListObj (zeroKyuubiClusterList\<lparr>kl_Items := inNamespace ns (snd w t)\<rparr>)), None), w)"
| "refReaction t (NewCreateAction gvr ns (ClusterObj x)) w = reaction t w (refPost ns x (snd w t))"
| "refReaction t (NewUpdateAction gvr ns (ClusterObj x)) w = reaction t w (refPut (\<lambda>old x. x) (nsKey ns (kc_Name x)) x (snd w t))"
| "refReaction t (NewUpdateSubresourceAction gvr sub ns (ClusterObj x)) w =
     reaction t w (refPut (\<lambda>old x. x) (nsKey ns (kc_Name x)) x (snd w t))"
| "refReaction t (NewDeleteActionWithOptions gvr ns n opts) w =
     (if lookup (snd w t) (nsKey ns n) = None then ((True, None, Some (NotFound n)), w)
      else ((True, None, None), setTracker t (remove (nsKey ns n) (snd w t)) w))"
| "refReaction t a w = ((False, None, Some (ErrorString ''no reaction implemented'')), w)"

fun refChain :: "trackers reaction list \<Rightarrow> action \<Rightarrow> object \<Rightarrow> trackers \<Rightarrow> (object option \<times> GoError option) \<times> trackers" where
  "refChain [] a d w = ((Some d, None), w)"
| "refChain (r # rs) a d w = (case r a w of ((True, oe), w) \<Rightarrow> (oe, w) | ((False, oe), w) \<Rightarrow> refChain rs a d w)"

definition refAdd :: "nat \<Rightarrow> object \<Rightarrow> trackers \<Rightarrow> GoError option \<times> trackers" where
  "refAdd t obj w = (case obj of
       ClusterObj k \<Rightarrow> if lookup (snd w t) (clusterKey k) = None then (None, setTracker t (k # snd w t) w)
         else (Some (ApiError ''AlreadyExists'' (kc_Name k)), w)
     | _ \<Rightarrow> (Some (ErrorString ''no kind is registered''), w))"

definition refTesting :: "(trackers reaction list, nat, string, unit, trackers) testing" where
  "refTesting = \<lparr>zeroFake = [], AddReactor = (\<lambda>v r react f. f @ [react]), AddWatchReactor = (\<lambda>r react f. f),
     Invokes = refChain, InvokesWatch = (\<lambda>f a w. ((Some (), None), w)),
     NewObjectTracker = (\<lambda>w. (fst w, setTracker (fst w) [] (Suc (fst w), snd w))),
     TrackerAdd = refAdd, TrackerWatch = (\<lambda>t gvr ns w. ((Some (), None), w)),
     ObjectReaction = refReaction,
     ExtractLabel = (\<lambda>opts. if lo_LabelSelector opts = [] then None else Some (lo_LabelSelector opts)),
     Everything = [], Matches = hasLabel\<rparr>"

lemma refPut_self:
  assumes "refPut (\<lambda>old x. x) (nsKey ns (kc_Name x)) x s = ((y, e), s')" and "kc_Namespace x = ns"
  shows "if lookup s (nsKey ns (kc_Name x)) \<noteq> None
    then e = None \<and> y = x \<and> lookup s' = (lookup s)(nsKey ns (kc_Name x) \<mapsto> x) else e \<noteq> None"
  using assms by (auto simp: refPut_def key_eq key_self split: option.splits)

lemma refUpdateReaction:
  assumes "reaction t w (refPut (\<lambda>old x. x) (nsKey ns (kc_Name x)) x (snd w t)) = ((h, obj, e), w')" and "kc_Namespace x = ns"
  shows "h \<and> (if refTracked t w (nsKey ns (kc_Name x)) \<noteq> None
    then e = None \<and> obj = Some (ClusterObj x) \<and> refTracked t w' = (refTracked t w)(nsKey ns (kc_Name x) \<mapsto> x)
    else e \<noteq> None \<and> obj = None \<and> refTracked t w' = refTracked t w)"
proof -
  obtain y e' s' where p: "refPut (\<lambda>old x. x) (nsKey ns (kc_Name x)) x (snd w t) = ((y, e'), s')" by (metis surj_pair)
  from refPut_self [OF p assms(2)] assms(1) p show ?thesis
    by (cases e') (auto simp: reaction_def refTracked_def setTracker_def split: if_splits)
qed

interpretation refTesting: testing_package refTesting refTracked hasLabel
proof
  show "refTracked t w' = Map.empty" if "NewObjectTracker refTesting w = (t, w')" for t w w'
    using that by (auto simp: refTesting_def)
  show "(e = None \<longleftrightarrow> refTracked t w (clusterKey k) = None) \<and>
      (e = None \<longrightarrow> refTracked t w' = (refTracked t w)(clusterKey k \<mapsto> k))"
    if "TrackerAdd refTesting t (ClusterObj k) w = (e, w')" for t k w e w'
    using that by (auto simp: refTesting_def refAdd_def refTracked_def setTracker_def split: if_splits)
  show "\<exists>w0 h oe'. (\<forall>t. refTracked t w0 = refTracked t w) \<and> r a w0 = ((h, oe'), w') \<and> oe = (if h then oe' else (Some d, None))"
    if "Invokes refTesting (AddWatchReactor refTesting s g (AddReactor refTesting ''*'' ''*'' r (zeroFake refTesting))) a d w = (oe, w')"
    for s g r a d w oe w'
    using that by (intro exI [of _ w]) (auto simp: refTesting_def split: prod.splits bool.splits)
  show "h \<and> refTracked t w' = refTracked t w \<and> (case refTracked t w (nsKey ns n) of
      Some k \<Rightarrow> obj = Some (ClusterObj k) \<and> e = None | None \<Rightarrow> obj = None \<and> IsNotFound e)"
    if "ObjectReaction refTesting t (NewGetAction kyuubiclustersResource ns n) w = ((h, obj, e), w')" for t ns n w h obj e w'
    using that by (auto simp: refTesting_def refDo_def reaction_def refTracked_def setTracker_def split: option.splits)
  show "h \<and> refTracked t w' = refTracked t w \<and> e = None \<and> (\<exists>l. obj = Some (ListObj l) \<and>
      distinct (map kc_Name (kl_Items l)) \<and> set (kl_Items l) = {k. refTracked t w (nsKey ns (kc_Name k)) = Some k})"
    if "ObjectReaction refTesting t (NewListAction kyuubiclustersResource kyuubiclustersKind ns opts) w = ((h, obj, e), w')"
    for t ns opts w h obj e w'
    using that distinct_inNamespace [of "\<lambda>_. True"] by (auto simp: refTesting_def refTracked_def set_inNamespace)
  show "h \<and> (if refTracked t w (nsKey ns (kc_Name x)) = None
      then e = None \<and> obj = Some (ClusterObj x) \<and> refTracked t w' = (refTracked t w)(nsKey ns (kc_Name x) \<mapsto> x)
      else e \<noteq> None \<and> obj = None \<and> refTracked t w' = refTracked t w)"
    if "ObjectReaction refTesting t (NewCreateAction kyuubiclustersResource ns (ClusterObj x)) w = ((h, obj, e), w')"
      "kc_Namespace x = ns" for t ns x w h obj e w'
    using that by (auto simp: refTesting_def refPost_def reaction_def refTracked_def setTracker_def key_self split: if_splits)
  show "h \<and> (if refTracked t w (nsKey ns (kc_Name x)) \<noteq> None
      then e = None \<and> obj = Some (ClusterObj x) \<and> refTracked t w' = (refTracked t w)(nsKey ns (kc_Name x) \<mapsto> x)
      else e \<noteq> None \<and> obj = None \<and> refTracked t w' = refTracked t w)"
    if "ObjectReaction refTesting t (NewUpdateAction kyuubiclustersResource ns (ClusterObj x)) w = ((h, obj, e), w')"
      "kc_Namespace x = ns" for t ns x w h obj e w'
    using that refUpdateReaction [of t w ns x h obj e w'] by (simp add: refTesting_def)
  show "h \<and> (if refTracked t w (nsKey ns (kc_Name x)) \<noteq> None
      then e = None \<and> (\<exists>k. obj = Some (ClusterObj k) \<and> kc_Name k = kc_Name x \<and> kc_Status k = kc_Status x \<and>
        refTracked t w' = (refTracked t w)(nsKey ns (kc_Name x) \<mapsto> k))
      else e \<noteq> None \<and> obj = None \<and> refTracked t w' = refTracked t w)"
    if "ObjectReaction refTesting t (NewUpdateSubresourceAction kyuubiclustersResource ''status'' ns (ClusterObj x)) w = ((h, obj, e), w')"
      "kc_Namespace x = ns" for t ns x w h obj e w'
    using that refUpdateReaction [of t w ns x h obj e w'] by (auto simp: refTesting_def split: if_splits)
  show "h \<and> (if refTracked t w (nsKey ns n) \<noteq> None then e = None \<and> refTracked t w' = (refTracked t w)(nsKey ns n := None)
      else e \<noteq> None \<and> refTracked t w' = refTracked t w)"
    if "ObjectReaction refTesting t (NewDeleteActionWithOptions kyuubiclustersResource ns n opts) w = ((h, obj, e), w')"
    for t ns n opts w h obj e w'
    using that by (auto simp: refTesting_def refTracked_def setTracker_def split: if_splits)
qed (auto simp: refTesting_def hasLabel_def split: if_splits)

section \<open>Properties\<close>

text \<open>
  C32. The typed client of a clientset, used through \<open>KyuubiClusterInterface\<close> in one namespace, never panics, and any sequence of its calls
  is a run of the abstract store: reads return what was last written under the name, a failed call
  changes nothing, and the server ends up with exactly the effects of the calls that succeeded.
\<close>

theorem typed_client_refines:
  assumes "rest_server R stored selects" and "ns \<noteq> []"
    and "list_all (callOk ns) cs" and "named (nsView (stored w) ns)"
  shows "\<exists>as w'. runCalls (perform (kvi_KyuubiClusters (typedV1alpha1 (Some (v1alpha1_New (Some R)))) ns)) cs w =
      Some (as, w') \<and>
    spec_run selects (nsView (stored w) ns) cs as (nsView (stored w') ns) \<and>
    nsView (stored w') ns = fold effect (zip cs as) (nsView (stored w) ns)"
proof -
  have "namespaced_server R stored selects ns"
    using assms(1,2) by (simp add: namespaced_server_def namespaced_server_axioms_def)
  from namespaced_server.typed_run [OF this assms(3,4)] show ?thesis unfolding clientFor_def perform_v1alpha1 .
qed

text \<open>Two custom resources, for the concrete runs.\<close>

definition namedCluster :: "string \<Rightarrow> gomap \<Rightarrow> KyuubiCluster" where
  "namedCluster n ls = zeroKyuubiCluster\<lparr>kc_Meta := zeroMeta\<lparr>om_Name := n, om_Namespace := ''dev'', om_Labels := ls\<rparr>\<rparr>"

lemma namedCluster_simps [simp]:
  "kc_Name (namedCluster n ls) = n" "kc_Namespace (namedCluster n ls) = ''dev''" "om_Labels (kc_Meta (namedCluster n ls)) = ls"
  "clusterKey (namedCluster n ls) = nsKey ''dev'' n"
  by (simp_all add: namedCluster_def metaKey_def)

abbreviation sampleCalls :: "clusterCall list" where
  "sampleCalls \<equiv> [CallCreate (namedCluster ''a'' None), CallGet ''a'', CallDelete ''a'', CallGet ''a'']"

theorem typed_client_refines_witness:
  "\<exists>as s'. runCalls (perform (kvi_KyuubiClusters (typedV1alpha1 (Some (v1alpha1_New (Some refRest)))) ''dev'')) sampleCalls [] = Some (as, s') \<and>
     spec_run hasLabel (nsView (lookup []) ''dev'') sampleCalls as (nsView (lookup s') ''dev'')"
proof -
  have "list_all (callOk ''dev'') sampleCalls" by (simp add: callOk_def)
  from typed_client_refines [OF refRest.rest_server_axioms _ this named_lookup, of "[]"] show ?thesis by blast
qed

section \<open>The fake clientset\<close>

lemma dom_lookup: "dom (lookup ks) = clusterKey ` set ks"
  by (induction ks) (simp_all del: fun_upd_apply)

lemma disjoint_dom_upd: "K \<inter> dom (m(k \<mapsto> x)) = {} \<longleftrightarrow> k \<notin> K \<and> K \<inter> dom m = {}"
  by auto

context testing_package
begin

lemma addObjects_outcome:
  "case addObjects T t (map ClusterObj ks) w of
     None \<Rightarrow> \<not> (distinct (map clusterKey ks) \<and> clusterKey ` set ks \<inter> dom (tracked t w) = {})
   | Some w' \<Rightarrow> distinct (map clusterKey ks) \<and> clusterKey ` set ks \<inter> dom (tracked t w) = {} \<and>
       tracked t w' = tracked t w ++ lookup ks"
proof (induction ks arbitrary: w)
  case (Cons k ks)
  obtain e w1 where a: "TrackerAdd T t (ClusterObj k) w = (e, w1)" by (meson surj_pair)
  show ?case
  proof (cases e)
    case None
    with add_object [OF a] have "tracked t w (clusterKey k) = None" "tracked t w1 = (tracked t w)(clusterKey k \<mapsto> k)"
      by simp_all
    with None a Cons.IH [of w1] show ?thesis
      by (auto simp del: fun_upd_apply dom_fun_upd simp: disjoint_dom_upd domIff dom_lookup map_add_upd_left
          split: option.splits)
  next
    case (Some err)
    with add_object [OF a] a show ?thesis by auto
  qed
qed simp

lemma fake_clientset_run:
  assumes "ns \<noteq> []" and "list_all (callOk ns) cs" and "NewSimpleClientset T (map ClusterObj ks) w = Some (fcs, w1)"
  shows "distinct (map clusterKey ks) \<and> (\<exists>as w'.
      runCalls (fakePerform T (FakeKyuubiV1alpha1_KyuubiClusters (FakeClientset_KyuubiV1alpha1 fcs) ns)) cs w1 = Some (as, w') \<and>
      spec_run selects (nsView (lookup ks) ns) cs as (nsView (tracked (FakeClientset_Tracker fcs) w') ns))"
proof -
  obtain t w0 where t: "NewObjectTracker T w = (t, w0)" by (meson surj_pair)
  have a: "addObjects T t (map ClusterObj ks) w0 = Some w1" "FakeClientset_Tracker fcs = t"
    and f: "FakeKyuubiV1alpha1_KyuubiClusters (FakeClientset_KyuubiV1alpha1 fcs) ns = fakeClientFor T t ns"
    using assms(3) t
    by (auto simp: NewSimpleClientset_def FakeClientset_Tracker_def FakeClientset_KyuubiV1alpha1_def
        fakeClientFor_def Let_def split: bind_splits)
  have d: "distinct (map clusterKey ks)" "tracked t w1 = lookup ks"
    using addObjects_outcome [of ks t w0] a(1) new_tracker [OF t] by auto
  have "namespaced_fake T tracked selects ns"
    using assms(1) by unfold_locales
  from namespaced_fake.fake_run [OF this assms(2), of t w1] d show ?thesis
    unfolding f a(2) by auto
qed

lemma fake_clientset_panics_iff:
  "NewSimpleClientset T (map ClusterObj ks) w = None \<longleftrightarrow> \<not> distinct (map clusterKey ks)"
proof -
  obtain t w0 where t: "NewObjectTracker T w = (t, w0)" by (meson surj_pair)
  show ?thesis
    using addObjects_outcome [of ks t w0] t new_tracker [OF t]
    by (auto simp: NewSimpleClientset_def Let_def split: option.splits bind_splits)
qed

end

text \<open>
  C33. \<open>NewSimpleClientset\<close> panics exactly when two of the given objects have the same namespace and name.
  Otherwise the clientset responds with the given objects: any sequence of calls on its client of a
  namespace returns, and is a run of the abstract store that starts from the objects of that namespace.
\<close>

theorem fake_clientset_refines:
  assumes "testing_package T tracked selects" and "ns \<noteq> []" and "list_all (callOk ns) cs"
  shows "if distinct (map clusterKey ks)
    then \<exists>fcs w1 as w'. NewSimpleClientset T (map ClusterObj ks) w = Some (fcs, w1) \<and>
      runCalls (performIn (fakeInterface T fcs) ns) cs w1 = Some (as, w') \<and>
      spec_run selects (nsView (lookup ks) ns) cs as (nsView (tracked (FakeClientset_Tracker fcs) w') ns)
    else NewSimpleClientset T (map ClusterObj ks) w = None"
proof (cases "NewSimpleClientset T (map ClusterObj ks) w")
  case None
  with testing_package.fake_clientset_panics_iff [OF assms(1), of ks w] show ?thesis by simp
next
  case (Some r)
  obtain fcs w1 where r: "NewSimpleClientset T (map ClusterObj ks) w = Some (fcs, w1)" using Some by (cases r) simp
  from testing_package.fake_clientset_run [OF assms this] r show ?thesis by (auto simp: performIn_fake)
qed

theorem fake_clientset_refines_witness:
  "\<exists>fcs w1 as w'. NewSimpleClientset refTesting (map ClusterObj [namedCluster ''a'' None, namedCluster ''b'' None]) (0, \<lambda>_. []) =
       Some (fcs, w1) \<and>
     runCalls (performIn (fakeInterface refTesting fcs) ''dev'')
       [CallGet ''b''] w1 = Some (as, w') \<and>
     spec_run hasLabel (nsView (lookup [namedCluster ''a'' None, namedCluster ''b'' None]) ''dev'') [CallGet ''b''] as
       (nsView (refTracked (FakeClientset_Tracker fcs) w') ''dev'')"
proof -
  have "list_all (callOk ''dev'') [CallGet ''b'']" "distinct (map clusterKey [namedCluster ''a'' None, namedCluster ''b'' None])"
    by (simp_all add: callOk_def)
  with fake_clientset_refines [OF refTesting.testing_package_axioms, of "''dev''" "[CallGet ''b'']"
      "[namedCluster ''a'' None, namedCluster ''b'' None]" "(0, \<lambda>_. [])"]
  show ?thesis by (simp only: if_True) blast
qed

text \<open>
  The REST client of the fake is nil: a typed client built on it panics at every call. And a failed call
  yields a nil object from the fake, but never from the typed client.
\<close>

lemma fake_RESTClient_panics:
  "typedPerform (KyuubiClusters (Some (v1alpha1_New (FakeKyuubiV1alpha1_RESTClient c))) ns) cl w = None"
  by (cases cl) (simp_all add: typed_methods KyuubiClusters_def newKyuubiClusters_def RESTClient_def v1alpha1_New_def
      FakeKyuubiV1alpha1_RESTClient_def)

end
