(* ===== verification/Client_Writes.thy ===== *)
theory Client_Writes
  imports Wire_Format
begin

text \<open>
  The way of a custom resource from a Go client to the controller: the client writes the spec with the
  json tags, the API server drops nulls, fills in defaults and validates, and the controller reads what
  was stored. \<open>writableSpec\<close> says which specs arrive, and \<open>defaultSpec\<close> what arrives.
\<close>

section \<open>Images\<close>

definition defaultImage :: "ImageConfig \<Rightarrow> ImageConfig" where
  "defaultImage x = x\<lparr>ic_PullPolicy := (if ic_PullPolicy x = [] then ''Always'' else ic_PullPolicy x)\<rparr>"

definition writableImage :: "ImageConfig \<Rightarrow> bool" where
  "writableImage x \<longleftrightarrow> ic_PullPolicy x = [] \<or> ic_PullPolicy x \<in> set pullPolicies"

text \<open>The members of an encoded struct after the server filled in defaults, property by property.\<close>

definition optMember :: "string \<Rightarrow> json option \<Rightarrow> (string \<times> json) list" where
  "optMember n v = (case v of None \<Rightarrow> [] | Some j \<Rightarrow> [(n, j)])"

lemma optMember_simps [simp]: "optMember n None = []" "optMember n (Some j) = [(n, j)]"
  by (simp_all add: optMember_def)

abbreviation unlessEmpty :: "string \<Rightarrow> json option" where
  "unlessEmpty s \<equiv> if s = [] then None else Some (JStr s)"

lemma image_filled:
  "fill_defaults imageSchema (cd_enc ImageConfig_codec x) = JObj
     ((''pullPolicy'', JStr (ic_PullPolicy (defaultImage x))) # optMember ''pullSecret'' (unlessEmpty (ic_PullSecrets x)) @
      (''repository'', JStr (ic_Repository x)) # optMember ''tag'' (unlessEmpty (ic_Tag x)))"
  by (simp add: imageSchema_def ImageConfig_codec_def struct_codec_def encode_struct_def ImageConfig_fields_def field_defs
      string_codec_def nonNull_def defaultImage_def)

lemma image_valid: "schema_valid K imageSchema (fill_defaults imageSchema (cd_enc ImageConfig_codec x)) \<longleftrightarrow> writableImage x"
  unfolding image_filled by (auto simp: imageSchema_def writableImage_def defaultImage_def pullPolicies_def)

lemma image_read:
  "cd_dec ImageConfig_codec (fill_defaults imageSchema (cd_enc ImageConfig_codec x)) zeroImage = Inr (defaultImage x)"
  unfolding image_filled
  by (simp add: ImageConfig_codec_def struct_codec_def ImageConfig_fields_def field_defs string_codec_def zeroImage_def defaultImage_def)

lemma struct_object: "cd_enc (struct_codec z fs) x \<noteq> JNull" "JNull \<noteq> cd_enc (struct_codec z fs) x"
  by (simp_all add: struct_codec_def encode_struct_def)

lemmas image_object = struct_object [of zeroImage ImageConfig_fields, folded ImageConfig_codec_def]

section \<open>Referenced clusters\<close>

lemma conf_filled: "fill_defaults (SMap anyString) (encode_map m) = encode_map m"
  by (simp add: encode_map_def split_beta comp_def filter_map split: option.split)

lemma conf_valid: "schema_valid K (SMap anyString) (encode_map (Some f))"
  by (auto simp: encode_map_def)

lemma conf_read: "decode_map (encode_map m) None = Inr m"
  using map_wire.roundtrip [of m] by (simp add: map_codec_def)

lemma encode_map_null [simp]: "encode_map None = JNull" "encode_map (Some f) \<noteq> JNull" "JNull \<noteq> encode_map (Some f)"
  by (simp_all add: encode_map_def)

lemma hdfs_filled:
  "fill_defaults hdfsSchema (cd_enc HdfsCluster_codec h) = JObj
     (optMember ''coreSite'' (map_option (\<lambda>f. encode_map (Some f)) (omitEmpty (hc_CoreSite h))) @
      optMember ''hdfsSite'' (map_option (\<lambda>f. encode_map (Some f)) (omitEmpty (hc_HdfsSite h))))"
  by (auto simp: hdfsSchema_def HdfsCluster_codec_def struct_codec_def encode_struct_def HdfsCluster_fields_def field_defs
      map_codec_def nonNull_def omitEmpty_def conf_filled gm_len_def gm_map_def split: option.split)

lemma hdfs_valid: "schema_valid K hdfsSchema (fill_defaults hdfsSchema (cd_enc HdfsCluster_codec h))"
  unfolding hdfs_filled by (auto simp: hdfsSchema_def optMember_def conf_valid eq_commute [of "Some _"] split: option.splits)

lemma hdfs_read: "cd_dec HdfsCluster_codec (fill_defaults hdfsSchema (cd_enc HdfsCluster_codec h)) zeroHdfs = Inr (normHdfs h)"
  unfolding hdfs_filled
  by (auto simp: HdfsCluster_codec_def struct_codec_def HdfsCluster_fields_def field_defs map_codec_def zeroHdfs_def normHdfs_def
      conf_read optMember_def split: option.splits)

lemma metastore_filled:
  "fill_defaults metastoreSchema (cd_enc MetastoreCluster_codec m) = JObj
     (optMember ''hiveSite'' (map_option (\<lambda>f. encode_map (Some f)) (omitEmpty (mc_HiveSite m))))"
  by (auto simp: metastoreSchema_def MetastoreCluster_codec_def struct_codec_def encode_struct_def MetastoreCluster_fields_def field_defs
      map_codec_def nonNull_def omitEmpty_def conf_filled gm_len_def gm_map_def split: option.split)

lemma metastore_valid: "schema_valid K metastoreSchema (fill_defaults metastoreSchema (cd_enc MetastoreCluster_codec m))"
  unfolding metastore_filled by (auto simp: metastoreSchema_def optMember_def conf_valid eq_commute [of "Some _"] split: option.splits)

lemma metastore_read:
  "cd_dec MetastoreCluster_codec (fill_defaults metastoreSchema (cd_enc MetastoreCluster_codec m)) zeroMetastore = Inr (normMetastore m)"
  unfolding metastore_filled
  by (auto simp: MetastoreCluster_codec_def struct_codec_def MetastoreCluster_fields_def field_defs map_codec_def zeroMetastore_def
      normMetastore_def conf_read optMember_def split: option.splits)

definition defaultSpark :: "SparkCluster \<Rightarrow> SparkCluster" where
  "defaultSpark s = s\<lparr>sc_SparkImage := defaultImage (sc_SparkImage s)\<rparr>"

lemma spark_filled:
  "fill_defaults sparkSchema (cd_enc SparkCluster_codec s) = JObj
     (optMember ''sparkDefaults'' (map_option (\<lambda>f. encode_map (Some f)) (sc_SparkDefaults s)) @
      (''sparkImage'', fill_defaults imageSchema (cd_enc ImageConfig_codec (sc_SparkImage s))) #
      optMember ''sparkMaster'' (unlessEmpty (sc_SparkMaster s)) @ [(''sparkNamespace'', JStr (sc_SparkNamespace s))])"
  by (cases "sc_SparkDefaults s") (auto simp: sparkSchema_def SparkCluster_codec_def struct_codec_def encode_struct_def
      SparkCluster_fields_def field_defs string_codec_def map_codec_def nonNull_def conf_filled image_object)

lemma spark_valid: "schema_valid K sparkSchema (fill_defaults sparkSchema (cd_enc SparkCluster_codec s)) \<longleftrightarrow> writableImage (sc_SparkImage s)"
  unfolding spark_filled
  by (cases "sc_SparkDefaults s"; cases "sc_SparkMaster s = []") (simp_all add: sparkSchema_def conf_valid image_valid)

lemma spark_read: "cd_dec SparkCluster_codec (fill_defaults sparkSchema (cd_enc SparkCluster_codec s)) zeroSpark = Inr (defaultSpark s)"
  unfolding spark_filled
  by (auto simp: SparkCluster_codec_def struct_codec_def SparkCluster_fields_def field_defs string_codec_def map_codec_def zeroSpark_def
      defaultSpark_def conf_read image_read optMember_def split: option.splits)

section \<open>The spec\<close>

definition defaultRef :: "ClusterRef \<Rightarrow> ClusterRef" where
  "defaultRef r = (normRef r)\<lparr>cr_Spark := defaultSpark (cr_Spark r)\<rparr>"

definition writableRef :: "ClusterRef \<Rightarrow> bool" where
  "writableRef r \<longleftrightarrow> cr_Type r \<in> set clusterTypes \<and> writableImage (sc_SparkImage (cr_Spark r))"

lemmas ref_objects = struct_object [of zeroHdfs HdfsCluster_fields, folded HdfsCluster_codec_def]
  struct_object [of zeroMetastore MetastoreCluster_fields, folded MetastoreCluster_codec_def]
  struct_object [of zeroSpark SparkCluster_fields, folded SparkCluster_codec_def]

lemma ref_filled:
  "fill_defaults clusterRefSchema (cd_enc ClusterRef_codec r) = JObj
     [(''hdfs'', fill_defaults hdfsSchema (cd_enc HdfsCluster_codec (cr_Hdfs r))),
      (''metastore'', fill_defaults metastoreSchema (cd_enc MetastoreCluster_codec (cr_Metastore r))),
      (''name'', JStr (cr_Name r)), (''spark'', fill_defaults sparkSchema (cd_enc SparkCluster_codec (cr_Spark r))),
      (''type'', JStr (cr_Type r))]"
  unfolding clusterRefSchema_def ClusterRef_codec_def struct_codec_def codec.simps encode_struct_def ClusterRef_fields_def
  by (simp add: field_defs string_codec_def nonNull_def ref_objects)

lemma ref_valid: "schema_valid K clusterRefSchema (fill_defaults clusterRefSchema (cd_enc ClusterRef_codec r)) \<longleftrightarrow> writableRef r"
  unfolding ref_filled
  by (simp add: clusterRefSchema_def writableRef_def hdfs_valid metastore_valid spark_valid clusterTypes_def const_defs) blast

lemma ref_read: "cd_dec ClusterRef_codec (fill_defaults clusterRefSchema (cd_enc ClusterRef_codec r)) zeroClusterRef = Inr (defaultRef r)"
  unfolding ref_filled
  by (simp add: ClusterRef_codec_def struct_codec_def ClusterRef_fields_def field_defs string_codec_def zeroClusterRef_def
      hdfs_read metastore_read spark_read defaultRef_def normRef_def)

definition defaultSpec :: "KyuubiClusterSpec \<Rightarrow> KyuubiClusterSpec" where
  "defaultSpec s = s\<lparr>kcs_KyuubiImage := defaultImage (kcs_KyuubiImage s), kcs_ClusterRefs := map defaultRef (kcs_ClusterRefs s)\<rparr>"

text \<open>\<open>nil\<close>: an empty slice of references is a nil one.\<close>

definition writableSpec :: "bool \<Rightarrow> KyuubiClusterSpec \<Rightarrow> bool" where
  "writableSpec nil s \<longleftrightarrow> kcs_KyuubiConf s \<noteq> None \<and> \<not> (nil \<and> kcs_ClusterRefs s = []) \<and>
     writableImage (kcs_KyuubiImage s) \<and> list_all writableRef (kcs_ClusterRefs s)"

lemma refs_filled:
  "fill_defaults (SArray clusterRefSchema) (cd_enc (list_codec nil ClusterRef_codec) rs) =
     (if rs = [] \<and> nil then JNull else JArr (map (\<lambda>r. fill_defaults clusterRefSchema (cd_enc ClusterRef_codec r)) rs))"
  by (simp add: list_codec_def slice_codec_def comp_def)

lemma refs_read:
  "decode_elems ClusterRef_codec (map (\<lambda>r. fill_defaults clusterRefSchema (cd_enc ClusterRef_codec r)) rs) [] = Inr (map defaultRef rs)"
  by (induction rs) (simp_all add: ref_read [folded zero_codecs])

lemma resource_filled:
  "fill_defaults resourceSchema (cd_enc ResourceConfig_codec r) = JObj [(''replicas'', JInt (sint (rc_Replicas r)))]"
  by (simp add: resourceSchema_def ResourceConfig_codec_def struct_codec_def encode_struct_def ResourceConfig_fields_def field_defs
      int32_codec_def nonNull_def)

lemma resource_read:
  "cd_dec ResourceConfig_codec (JObj [(''replicas'', JInt (sint (rc_Replicas r)))]) r0 = Inr r"
  by (simp add: ResourceConfig_codec_def struct_codec_def ResourceConfig_fields_def field_defs int32_codec_def int32_range_sint)

lemmas spec_objects = struct_object [of "\<lparr>rc_Replicas = 0\<rparr>" ResourceConfig_fields, folded ResourceConfig_codec_def] image_object

lemma refs_null: "cd_enc (list_codec nil c) rs = JNull \<longleftrightarrow> rs = [] \<and> nil"
  by (simp add: list_codec_def slice_codec_def)

lemma spec_filled:
  "fill_defaults specSchema (cd_enc (KyuubiClusterSpec_codec nil) s) = JObj
     (optMember ''clusterRefs'' (if kcs_ClusterRefs s = [] \<and> nil then None
        else Some (JArr (map (\<lambda>r. fill_defaults clusterRefSchema (cd_enc ClusterRef_codec r)) (kcs_ClusterRefs s)))) @
      optMember ''kyuubiConf'' (map_option (\<lambda>f. encode_map (Some f)) (kcs_KyuubiConf s)) @
      [(''kyuubiImage'', fill_defaults imageSchema (cd_enc ImageConfig_codec (kcs_KyuubiImage s))),
       (''kyuubiResource'', JObj [(''replicas'', JInt (sint (rc_Replicas (kcs_KyuubiResource s))))]),
       (''kyuubiVersion'', JStr (kcs_KyuubiVersion s))])"
proof -
  have "cd_enc (KyuubiClusterSpec_codec nil) s = JObj
     [(''kyuubiVersion'', JStr (kcs_KyuubiVersion s)), (''kyuubiImage'', cd_enc ImageConfig_codec (kcs_KyuubiImage s)),
      (''kyuubiResource'', cd_enc ResourceConfig_codec (kcs_KyuubiResource s)), (''kyuubiConf'', encode_map (kcs_KyuubiConf s)),
      (''clusterRefs'', cd_enc (list_codec nil ClusterRef_codec) (kcs_ClusterRefs s))]"
    by (simp add: KyuubiClusterSpec_codec_def struct_codec_def encode_struct_def KyuubiClusterSpec_fields_def tag_def
        string_codec_def map_codec_def)
  then show ?thesis
    by (cases "kcs_KyuubiConf s")
      (simp_all add: specSchema_def nonNull_def refs_null refs_filled resource_filled spec_objects conf_filled del: fill_defaults.simps(3))
qed

lemma spec_valid:
  "schema_valid K specSchema (fill_defaults specSchema (cd_enc (KyuubiClusterSpec_codec nil) s)) \<longleftrightarrow> writableSpec nil s"
  unfolding spec_filled
  by (cases "kcs_KyuubiConf s"; cases "kcs_ClusterRefs s = [] \<and> nil")
    (auto simp: specSchema_def writableSpec_def conf_valid image_valid ref_valid resourceSchema_def int32_range_sint list_all_iff)

lemma spec_read:
  assumes "writableSpec nil s"
  shows "cd_dec (KyuubiClusterSpec_codec nil') (fill_defaults specSchema (cd_enc (KyuubiClusterSpec_codec nil) s)) (kc_Spec zeroKyuubiCluster) =
    Inr (defaultSpec s)"
proof -
  from assms obtain f where f: "kcs_KyuubiConf s = Some f" and refs: "\<not> (kcs_ClusterRefs s = [] \<and> nil)"
    by (auto simp: writableSpec_def)
  show ?thesis
    unfolding spec_filled if_not_P [OF refs] f
    by (simp add: KyuubiClusterSpec_codec_def struct_codec_def KyuubiClusterSpec_fields_def field_defs string_codec_def map_codec_def
        list_codec_def zeroKyuubiCluster_def conf_read image_read resource_read refs_read)
      (cases s, simp add: defaultSpec_def f [symmetric])
qed

section \<open>The resource\<close>

lemma metadata_filled: "fill_defaults SMetadata j = j"
  by (cases j) simp_all

text \<open>Metadata that a client writes is an object which the server's own check of metadata accepts.\<close>

locale client_wire = wire_law +
  fixes K :: checks
  assumes meta_accepted: "schema_valid K SMetadata (cd_enc (wr_ObjectMeta W) m)"
begin

lemma meta_object: "cd_enc (wr_ObjectMeta W) m \<noteq> JNull"
  using meta_accepted [of m] by auto

lemma cluster_filled:
  "fill_defaults crdSchema (dropStatus (marshalKyuubiCluster nil W k)) = JObj
     (optMember ''apiVersion'' (unlessEmpty (tm_APIVersion (kc_TypeMeta k))) @ optMember ''kind'' (unlessEmpty (tm_Kind (kc_TypeMeta k))) @
      [(''metadata'', cd_enc (wr_ObjectMeta W) (kc_Meta k)),
       (''spec'', fill_defaults specSchema (cd_enc (KyuubiClusterSpec_codec nil) (kc_Spec k)))])"
proof -
  let ?kind = "tm_Kind (kc_TypeMeta k)" and ?api = "tm_APIVersion (kc_TypeMeta k)"
  have spec: "cd_enc (KyuubiClusterSpec_codec nil) s \<noteq> JNull" for s by (simp add: KyuubiClusterSpec_codec_def struct_object)
  have "dropStatus (marshalKyuubiCluster nil W k) = JObj
     (optMember ''kind'' (unlessEmpty ?kind) @ optMember ''apiVersion'' (unlessEmpty ?api) @
      [(''metadata'', cd_enc (wr_ObjectMeta W) (kc_Meta k)), (''spec'', cd_enc (KyuubiClusterSpec_codec nil) (kc_Spec k))])"
    unfolding marshalKyuubiCluster_def KyuubiCluster_codec_def struct_codec_def codec.simps encode_struct_def
    by (cases "?kind = []"; cases "?api = []")
      (simp_all add: KyuubiCluster_fields_def TypeMeta_fields_def field_defs string_codec_def meta_law(3))
  then show ?thesis
    by (cases "?kind = []"; cases "?api = []") (simp_all add: crdSchema_def nonNull_def metadata_filled meta_object spec)
qed

lemma cluster_admitted:
  "admit K crdSchema (dropStatus (marshalKyuubiCluster nil W k)) \<noteq> None \<longleftrightarrow> writableSpec nil (kc_Spec k)"
  unfolding admit_def Let_def cluster_filled
  by (cases "tm_APIVersion (kc_TypeMeta k) = []"; cases "tm_Kind (kc_TypeMeta k) = []")
    (simp_all add: crdSchema_def meta_accepted spec_valid)

lemma cluster_read:
  assumes "admit K crdSchema (dropStatus (marshalKyuubiCluster nil W k)) = Some j"
  shows "unmarshalKyuubiCluster W j = Inr (k\<lparr>kc_Meta := normMeta (kc_Meta k), kc_Spec := defaultSpec (kc_Spec k), kc_Status := zeroStatus\<rparr>)"
proof -
  have w: "writableSpec nil (kc_Spec k)" using assms cluster_admitted [of nil k] by simp
  have j: "j = fill_defaults crdSchema (dropStatus (marshalKyuubiCluster nil W k))"
    using assms by (simp add: admit_def Let_def split: if_splits)
  have z: "zeroKyuubiCluster = \<lparr>kc_TypeMeta = \<lparr>tm_Kind = [], tm_APIVersion = []\<rparr>, kc_Meta = zeroMeta,
     kc_Spec = kc_Spec zeroKyuubiCluster, kc_Status = zeroStatus\<rparr>" by (simp add: zeroKyuubiCluster_def)
  show ?thesis
    unfolding j cluster_filled unmarshalKyuubiCluster_def KyuubiCluster_codec_def struct_codec_def codec.simps
    using w by (subst z) (cases k; cases "kc_TypeMeta k", auto simp: KyuubiCluster_fields_def TypeMeta_fields_def field_defs
      string_codec_def spec_read foreign_step)
qed

end

lemma refMeta_accepted: "schema_valid K metaSchema (cd_enc refMeta m)"
proof -
  have "schema_valid K (SObject [(''kind'', anyString), (''name'', anyString), (''uid'', anyString), (''controller'', SBoolean)] [])
      (cd_enc ownerRef_codec r)" for r
    by (auto simp: ownerRef_codec_def struct_codec_def encode_struct_def field_defs string_codec_def bool_codec_def)
  moreover have "schema_valid K (SMap anyString) (encode_map (om_Labels m))" if "gm_len (om_Labels m) \<noteq> 0"
    using that conf_valid [of K] by (cases "om_Labels m") (simp_all add: gm_len_def gm_map_def)
  ultimately show ?thesis
    by (auto simp: metaSchema_def refMeta_def struct_codec_def encode_struct_def field_defs string_codec_def map_codec_def
        list_codec_def slice_codec_def)
qed

interpretation ref_client_wire: client_wire refWire refNormMeta id "\<lambda>t. max 0 t" id refChecks
proof
  show "schema_valid refChecks SMetadata (cd_enc (wr_ObjectMeta refWire) m)" for m
    using refMeta_accepted by (simp add: refWire_def refChecks_def refMeta_def struct_codec_def encode_struct_def)
qed

section \<open>Properties\<close>

text \<open>
  C19. What a Go client writes is what the controller reads: the API server admits the resource a client writes exactly
  when its kyuubiConf is not nil, its slice of references is not nil, every type is known, and every pull policy (of
  the Kyuubi image and of the Spark image of every reference, whatever its type) is unset or known; what is stored is
  then read as the same resource, with unset pull policies set to Always, empty Hive and HDFS maps nil, and no status.
\<close>

theorem client_write_arrives:
  assumes "client_wire W normMeta normListMeta normTime normPort K"
  shows "(admit K crdSchema (dropStatus (marshalKyuubiCluster nil W k)) \<noteq> None \<longleftrightarrow> writableSpec nil (kc_Spec k)) \<and>
    (\<forall>j. admit K crdSchema (dropStatus (marshalKyuubiCluster nil W k)) = Some j \<longrightarrow> unmarshalKyuubiCluster W j =
       Inr (k\<lparr>kc_Meta := normMeta (kc_Meta k), kc_Spec := defaultSpec (kc_Spec k), kc_Status := zeroStatus\<rparr>))"
  using client_wire.cluster_admitted [OF assms] client_wire.cluster_read [OF assms] by blast

theorem client_write_arrives_witness:
  "\<exists>j k. admit refChecks crdSchema (dropStatus (marshalKyuubiCluster False refWire readmeCluster)) = Some j \<and>
     unmarshalKyuubiCluster refWire j = Inr k \<and> ic_PullPolicy (kcs_KyuubiImage (kc_Spec k)) = ''Always''"
proof -
  have "writableSpec False (kc_Spec readmeCluster)"
    by (simp add: writableSpec_def writableRef_def writableImage_def clusterTypes_def readmeCluster_def sampleCluster_def sampleRef_def
        sampleSpark_def zeroSpark_def zeroImage_def const_defs pullPolicies_def sampleKyuubiConf_def)
  with client_write_arrives [OF ref_client_wire.client_wire_axioms, of False readmeCluster] show ?thesis
    by (auto simp: defaultSpec_def defaultImage_def readmeCluster_def sampleCluster_def)
qed

end
