(* ===== verification/Call_Protocol.thy ===== *)
theory Call_Protocol
  imports World_Simulation "HOL-Library.Sublist"
begin

text \<open>
  The sequence of API calls that one call of \<open>Reconcile\<close> makes. \<open>traced E\<close> is the environment \<open>E\<close> with a
  world that also records every call: its verb, the object it is about, the resource version it carried or
  read, and the error it answered. The locale \<open>call_invariant\<close> collects what a predicate of worlds must
  survive to survive a whole run; its lemmas give, at the same time, the order and the discipline of
  the calls. Nothing is assumed of what happens between two calls.
\<close>

section \<open>Recorded calls\<close>

datatype verb = GetVerb | CreateVerb | UpdateVerb | StatusVerb

record apiCall =
  ac_Verb :: verb
  ac_Kind :: Kind
  ac_Key :: NamespacedName
  ac_Version :: string
  ac_Error :: "GoError option"

type_synonym 'w traced = "'w \<times> apiCall list"

definition logCall :: "verb \<Rightarrow> Kind \<Rightarrow> NamespacedName \<Rightarrow> string \<Rightarrow> ('o \<times> GoError option) \<times> 'w \<Rightarrow> apiCall list \<Rightarrow>
    ('o \<times> GoError option) \<times> 'w traced" where
  "logCall vb kind n version r cs = (fst r, (snd r,
     cs @ [\<lparr>ac_Verb = vb, ac_Kind = kind, ac_Key = n, ac_Version = version, ac_Error = snd (fst r)\<rparr>]))"

definition tracedClient :: "Kind \<Rightarrow> ('o \<Rightarrow> ObjectMeta) \<Rightarrow> ('o, 'w) client \<Rightarrow> ('o, 'w traced) client" where
  "tracedClient kind meta cl =
     \<lparr>Get = (\<lambda>n z (w, cs). let r = Get cl n z w in logCall GetVerb kind n (om_ResourceVersion (meta (fst (fst r)))) r cs),
      Create = (\<lambda>x (w, cs). logCall CreateVerb kind (metaKey (meta x)) (om_ResourceVersion (meta x)) (Create cl x w) cs),
      Update = (\<lambda>x (w, cs). logCall UpdateVerb kind (metaKey (meta x)) (om_ResourceVersion (meta x)) (Update cl x w) cs)\<rparr>"

definition traced :: "'w env \<Rightarrow> 'w traced env" where
  "traced E =
     \<lparr>kyuubiClient = tracedClient KKyuubiCluster kc_Meta (kyuubiClient E),
      saClient = tracedClient KServiceAccount sa_Meta (saClient E),
      roleClient = tracedClient KRole ro_Meta (roleClient E),
      rbClient = tracedClient KRoleBinding rb_Meta (rbClient E),
      cmClient = tracedClient KConfigMap cm_Meta (cmClient E),
      stsClient = tracedClient KStatefulSet sts_Meta (stsClient E),
      svcClient = tracedClient KService svc_Meta (svcClient E),
      StatusUpdate = (\<lambda>k (w, cs). logCall StatusVerb KKyuubiCluster (kyuubiKey k) (om_ResourceVersion (kc_Meta k))
        (StatusUpdate E k w) cs),
      SetControllerReference = SetControllerReference E,
      FormatXML = FormatXML E,
      SprintRequest = SprintRequest E,
      Getenv = (\<lambda>s (w, cs). Getenv E s w),
      Now = (\<lambda>(w, cs). apsnd (\<lambda>w'. (w', cs)) (Now E w)),
      Sleep = (\<lambda>n (w, cs). (Sleep E n w, cs)),
      range_map = (\<lambda>m (w, cs). apsnd (\<lambda>w'. (w', cs)) (range_map E m w))\<rparr>"

lemma tracedClient_sim:
  "simGet fst (tracedClient kind meta cl) cl" "simCreate fst (tracedClient kind meta cl) cl" "simClient fst (tracedClient kind meta cl) cl"
  by (simp_all add: simGet_def simCreate_def simClient_def tracedClient_def logCall_def split_beta Let_def apsnd_def map_prod_def)

text \<open>Recording the calls does not change what is done.\<close>

interpretation recorded: world_simulation "traced E" E fst for E
  by unfold_locales (simp_all add: traced_def tracedClient_sim logCall_def split_beta apsnd_def map_prod_def)

section \<open>The discipline of a sequence of calls\<close>

definition isWrite :: "apiCall \<Rightarrow> bool" where
  "isWrite c \<longleftrightarrow> ac_Verb c \<noteq> GetVerb"

definition target :: "apiCall \<Rightarrow> Kind \<times> NamespacedName" where
  "target c = (ac_Kind c, ac_Key c)"

text \<open>A call after which the run goes on: it succeeded, or it read that an object is absent.\<close>

definition harmless :: "apiCall \<Rightarrow> bool" where
  "harmless c \<longleftrightarrow> ac_Error c = None \<or> ac_Verb c = GetVerb \<and> IsNotFound (ac_Error c)"

text \<open>
  Which call may come directly after which: a create after a read that found the object absent, an update
  after a read that found it. The update of a ConfigMap carries the version that was read, the
  update of the StatefulSet none. The status update comes after the call that found or created the service, and carries
  the version \<open>v\<close> with which the custom resource was read at the start.
\<close>

definition mayFollow :: "string \<Rightarrow> apiCall \<Rightarrow> apiCall \<Rightarrow> bool" where
  "mayFollow v p c = (case ac_Verb c of
     GetVerb \<Rightarrow> True
   | CreateVerb \<Rightarrow> ac_Verb p = GetVerb \<and> target p = target c \<and> IsNotFound (ac_Error p) \<and> ac_Version c = []
   | UpdateVerb \<Rightarrow> ac_Verb p = GetVerb \<and> target p = target c \<and> ac_Error p = None \<and>
       ac_Version c = (if ac_Kind c = KConfigMap then ac_Version p else [])
   | StatusVerb \<Rightarrow> target p = (KService, childKey ''-kyuubi'' (ac_Key c)) \<and> ac_Error p = None \<and> ac_Version c = v)"

lemma read_follows: "ac_Verb c = GetVerb \<Longrightarrow> mayFollow v p c"
  by (simp add: mayFollow_def)

text \<open>The calls of a stage that ends with the error \<open>e\<close> and may write the objects \<open>T\<close>, in this order.\<close>

definition stageCalls :: "string \<Rightarrow> (Kind \<times> NamespacedName) list \<Rightarrow> GoError option \<Rightarrow> apiCall list \<Rightarrow> bool" where
  "stageCalls v T e cs \<longleftrightarrow> successively (mayFollow v) cs \<and>
     (cs \<noteq> [] \<longrightarrow> ac_Verb (hd cs) = GetVerb \<and> (harmless (last cs) \<or> e \<noteq> None \<and> ac_Error (last cs) = e)) \<and>
     list_all harmless (butlast cs) \<and> subseq (map target (filter isWrite cs)) T"

lemma stageCalls_Nil [simp]: "stageCalls v T e []"
  by (simp add: stageCalls_def)

lemma stageCalls_more: "stageCalls v T e cs \<Longrightarrow> stageCalls v (T @ U) e cs"
  by (auto simp: stageCalls_def intro: subseq_order.order_trans)

lemma stageCalls_done: "stageCalls v T None cs \<Longrightarrow> list_all harmless cs"
  by (cases cs rule: rev_cases) (auto simp: stageCalls_def)

lemma stageCalls_append:
  assumes "stageCalls v T None cs" and "stageCalls v U e ds"
  shows "stageCalls v (T @ U) e (cs @ ds)"
proof (cases "cs = [] \<or> ds = []")
  case True
  have "subseq U (T @ U)" "subseq T (T @ U)" by auto
  with True assms show ?thesis
    using stageCalls_done [OF assms(1)]
    by (auto simp: stageCalls_def list_all_iff dest: in_set_butlastD intro: subseq_order.order_trans)
next
  case False
  then have "successively (mayFollow v) (cs @ ds)"
    using assms by (auto simp: stageCalls_def successively_append_iff read_follows)
  moreover have "list_all harmless (butlast (cs @ ds))"
    using False assms(2) stageCalls_done [OF assms(1)] by (simp add: stageCalls_def butlast_append)
  ultimately show ?thesis
    using False assms by (auto simp: stageCalls_def intro: list_emb_append_mono)
qed

definition runsCalls :: "('w \<Rightarrow> bool) \<Rightarrow> string \<Rightarrow> (Kind \<times> NamespacedName) list \<Rightarrow>
    ('w traced \<Rightarrow> (GoError option \<times> 'w traced) option) \<Rightarrow> bool" where
  "runsCalls J v T s \<longleftrightarrow> (\<forall>w cs e w' cs'. J w \<longrightarrow> s (w, cs) = Some (e, (w', cs')) \<longrightarrow>
     J w' \<and> (\<exists>ds. cs' = cs @ ds \<and> stageCalls v T e ds))"

lemma runsCallsD:
  assumes "runsCalls J v T s" and "J w" and "s (w, cs) = Some (e, (w', cs'))"
  obtains ds where "J w'" "cs' = cs @ ds" "stageCalls v T e ds"
  using assms unfolding runsCalls_def by blast

lemma seqStage_runs:
  assumes "runsCalls J v T (s1 k)" and "runsCalls J v U (s2 k)"
  shows "runsCalls J v (T @ U) (seqStage s1 s2 k)"
  unfolding runsCalls_def
proof (intro allI impI)
  fix w cs e w' cs'
  assume J: "J w" and "seqStage s1 s2 k (w, cs) = Some (e, (w', cs'))"
  from this(2) show "J w' \<and> (\<exists>ds. cs' = cs @ ds \<and> stageCalls v (T @ U) e ds)"
  proof (cases rule: seqStage_cases)
    case (stopped err)
    then show ?thesis by (blast intro: stageCalls_more elim: runsCallsD [OF assms(1) J])
  next
    case (both v1)
    obtain w1 cs1 where v1: "v1 = (w1, cs1)" by fastforce
    obtain ds where ds: "J w1" "cs1 = cs @ ds" "stageCalls v T None ds"
      using both(1) v1 by (blast elim: runsCallsD [OF assms(1) J])
    obtain es where "J w'" "cs' = cs1 @ es" "stageCalls v U e es"
      using both(2) v1 by (blast elim: runsCallsD [OF assms(2) ds(1)])
    with ds show ?thesis by (auto intro: stageCalls_append)
  qed
qed

text \<open>The objects that a request may write, in the order in which it writes them.\<close>

definition requestTargets :: "NamespacedName \<Rightarrow> (Kind \<times> NamespacedName) list" where
  "requestTargets req =
     (let n = childKey ''-kyuubi'' req
      in [(KServiceAccount, n), (KRole, n), (KRoleBinding, n), (KConfigMap, n), (KConfigMap, childKey ''-clusterrefs'' req),
          (KStatefulSet, n), (KService, n), (KKyuubiCluster, req)])"

lemma requestTargets_footprint: "set (requestTargets req) = requestFootprint req" "distinct (requestTargets req)"
  by (auto simp: requestTargets_def requestFootprint_def Let_def)

text \<open>
  The calls of a whole run: first the custom resource is read, then the stages follow in their order. A
  call that fails is the last one, and its error is what the run returns.
\<close>

definition callProtocol :: "NamespacedName \<Rightarrow> outcome \<Rightarrow> apiCall list \<Rightarrow> bool" where
  "callProtocol req out cs \<longleftrightarrow> cs \<noteq> [] \<and> ac_Verb (hd cs) = GetVerb \<and> target (hd cs) = (KKyuubiCluster, req) \<and>
     successively (mayFollow (ac_Version (hd cs))) cs \<and> list_all harmless (butlast cs) \<and>
     (harmless (last cs) \<or> out = Returned zeroResult (ac_Error (last cs))) \<and>
     subseq (map target (filter isWrite cs)) (requestTargets req)"

section \<open>Predicates that survive every call\<close>

definition keepsClient :: "('w \<Rightarrow> bool) \<Rightarrow> (Kind \<times> NamespacedName) set \<Rightarrow> Kind \<Rightarrow> ('o \<Rightarrow> ObjectMeta) \<Rightarrow> ('o, 'w) client \<Rightarrow> bool" where
  "keepsClient J F kind meta cl \<longleftrightarrow>
     (\<forall>n z w x e w'. J w \<longrightarrow> Get cl n z w = ((x, e), w') \<longrightarrow> J w' \<and> (e = None \<longrightarrow> metaKey (meta x) = n)) \<and>
     (\<forall>x w y e w'. J w \<longrightarrow> (kind, metaKey (meta x)) \<in> F \<longrightarrow> Create cl x w = ((y, e), w') \<longrightarrow>
        J w' \<and> (e = None \<longrightarrow> metaKey (meta y) = metaKey (meta x))) \<and>
     (\<forall>x w r w'. J w \<longrightarrow> (kind, metaKey (meta x)) \<in> F \<longrightarrow> Update cl x w = (r, w') \<longrightarrow> J w')"

lemma keepsClientD:
  assumes "keepsClient J F kind meta cl" and "J w"
  shows "Get cl n z w = ((x, e), w') \<Longrightarrow> J w'" and "Get cl n z w = ((x, None), w') \<Longrightarrow> metaKey (meta x) = n"
    and "(kind, metaKey (meta x)) \<in> F \<Longrightarrow> Create cl x w = ((y, e), w') \<Longrightarrow> J w'"
    and "(kind, metaKey (meta x)) \<in> F \<Longrightarrow> Update cl x w = (r, w') \<Longrightarrow> J w'"
    and "(kind, metaKey (meta x)) \<in> F \<Longrightarrow> Create cl x w = ((y, None), w') \<Longrightarrow> metaKey (meta y) = metaKey (meta x)"
  using assms unfolding keepsClient_def by blast+

lemma traced_get:
  "Get cl n z w = ((x, e), w') \<Longrightarrow> Get (tracedClient kind meta cl) n z (w, cs) =
     ((x, e), (w', cs @ [\<lparr>ac_Verb = GetVerb, ac_Kind = kind, ac_Key = n, ac_Version = om_ResourceVersion (meta x), ac_Error = e\<rparr>]))"
  by (simp add: tracedClient_def logCall_def)

lemma traced_create:
  "Create cl d w = ((x, e), w') \<Longrightarrow> Create (tracedClient kind meta cl) d (w, cs) =
     ((x, e), (w', cs @ [\<lparr>ac_Verb = CreateVerb, ac_Kind = kind, ac_Key = metaKey (meta d),
        ac_Version = om_ResourceVersion (meta d), ac_Error = e\<rparr>]))"
  by (simp add: tracedClient_def logCall_def)

lemma traced_update:
  "Update cl d w = ((x, e), w') \<Longrightarrow> Update (tracedClient kind meta cl) d (w, cs) =
     ((x, e), (w', cs @ [\<lparr>ac_Verb = UpdateVerb, ac_Kind = kind, ac_Key = metaKey (meta d),
        ac_Version = om_ResourceVersion (meta d), ac_Error = e\<rparr>]))"
  by (simp add: tracedClient_def logCall_def)

lemma traced_status:
  "StatusUpdate E k w = ((x, e), w') \<Longrightarrow> StatusUpdate (traced E) k (w, cs) =
     ((x, e), (w', cs @ [\<lparr>ac_Verb = StatusVerb, ac_Kind = KKyuubiCluster, ac_Key = kyuubiKey k,
        ac_Version = om_ResourceVersion (kc_Meta k), ac_Error = e\<rparr>]))"
  by (simp add: traced_def logCall_def)

lemmas call_defs = stageCalls_def mayFollow_def harmless_def isWrite_def target_def

lemma ensureCreated_calls:
  assumes "keepsClient J F kind meta cl" and "(kind, metaKey (meta d)) \<in> F" and "om_ResourceVersion (meta d) = []"
    and J: "J w" and r: "ensureCreated (tracedClient kind meta cl) meta z d (w, cs) = (e, (w', cs'))"
  obtains ds where "J w'" "cs' = cs @ ds" "stageCalls v [(kind, metaKey (meta d))] e ds"
    "e = None \<Longrightarrow> ds \<noteq> [] \<and> target (last ds) = (kind, metaKey (meta d)) \<and> ac_Error (last ds) = None"
proof -
  obtain x err w1 where g: "Get cl (metaKey (meta d)) z w = ((x, err), w1)" by (metis surj_pair)
  obtain y err2 w2 where c: "Create cl d w1 = ((y, err2), w2)" by (metis surj_pair)
  have "J w1" using keepsClientD(1) [OF assms(1) J g] .
  moreover have "J w2" using keepsClientD(3) [OF assms(1) \<open>J w1\<close> assms(2) c] .
  ultimately have "J w' \<and> (\<exists>ds. cs' = cs @ ds \<and> stageCalls v [(kind, metaKey (meta d))] e ds \<and>
      (e = None \<longrightarrow> ds \<noteq> [] \<and> target (last ds) = (kind, metaKey (meta d)) \<and> ac_Error (last ds) = None))"
    using r assms(3)
    by (auto simp: ensureCreated_def traced_get [OF g] traced_create [OF c] call_defs split: if_splits)
  with that show thesis by blast
qed

lemma ensureCreated_runs:
  assumes "keepsClient J F kind meta cl" and "(kind, metaKey (meta d)) \<in> F" and "om_ResourceVersion (meta d) = []"
  shows "runsCalls J v [(kind, metaKey (meta d))] (\<lambda>v. Some (ensureCreated (tracedClient kind meta cl) meta z d v))"
  unfolding runsCalls_def using ensureCreated_calls [OF assms] by (metis option.inject)

locale call_invariant =
  fixes E :: "'w env" and J :: "'w \<Rightarrow> bool" and F :: "(Kind \<times> NamespacedName) set"
  assumes kept: "keepsClient J F KKyuubiCluster kc_Meta (kyuubiClient E)" "keepsClient J F KServiceAccount sa_Meta (saClient E)"
      "keepsClient J F KRole ro_Meta (roleClient E)" "keepsClient J F KRoleBinding rb_Meta (rbClient E)"
      "keepsClient J F KConfigMap cm_Meta (cmClient E)" "keepsClient J F KStatefulSet sts_Meta (stsClient E)"
      "keepsClient J F KService svc_Meta (svcClient E)"
    and kept_status: "J w \<Longrightarrow> (KKyuubiCluster, kyuubiKey k) \<in> F \<Longrightarrow> StatusUpdate E k w = (r, w') \<Longrightarrow> J w'"
    and kept_clock: "J w \<Longrightarrow> J (snd (Now E w))" "J w \<Longrightarrow> J (Sleep E n w)"
    and kept_range: "J w \<Longrightarrow> J (snd (range_map E g w))"
    and owner: "metaKey (fst (SetControllerReference E k m)) = metaKey m"
      "om_ResourceVersion (fst (SetControllerReference E k m)) = om_ResourceVersion m"
begin

lemma desired_meta:
  "metaKey (sa_Meta (fst (constructServiceAccount E k))) = resourceKey k" "om_ResourceVersion (sa_Meta (fst (constructServiceAccount E k))) = []"
  "metaKey (ro_Meta (fst (constructRole E k))) = resourceKey k" "om_ResourceVersion (ro_Meta (fst (constructRole E k))) = []"
  "metaKey (rb_Meta (fst (constructRoleBinding E k))) = resourceKey k" "om_ResourceVersion (rb_Meta (fst (constructRoleBinding E k))) = []"
  "metaKey (sts_Meta (fst (constructDesiredKyuubiWorkload E k))) = resourceKey k"
  "om_ResourceVersion (sts_Meta (fst (constructDesiredKyuubiWorkload E k))) = []"
  "metaKey (svc_Meta (fst (contructDesiredService E k))) = resourceKey k" "om_ResourceVersion (svc_Meta (fst (contructDesiredService E k))) = []"
  by (simp_all add: construct_defs Let_def split_beta owner, simp_all add: childMeta_def zeroMeta_def)

lemma traced_parts:
  "saClient (traced E) = tracedClient KServiceAccount sa_Meta (saClient E)"
  "roleClient (traced E) = tracedClient KRole ro_Meta (roleClient E)"
  "rbClient (traced E) = tracedClient KRoleBinding rb_Meta (rbClient E)"
  "cmClient (traced E) = tracedClient KConfigMap cm_Meta (cmClient E)"
  "stsClient (traced E) = tracedClient KStatefulSet sts_Meta (stsClient E)"
  "svcClient (traced E) = tracedClient KService svc_Meta (svcClient E)"
  "kyuubiClient (traced E) = tracedClient KKyuubiCluster kc_Meta (kyuubiClient E)"
  by (simp_all add: traced_def)

lemma rbac_runs:
  assumes "{KServiceAccount, KRole, KRoleBinding} \<times> {resourceKey k} \<subseteq> F"
  shows "runsCalls J v [(KServiceAccount, resourceKey k)] (saStage (traced E) k)"
    "runsCalls J v [(KRole, resourceKey k)] (roleStage (traced E) k)"
    "runsCalls J v [(KRoleBinding, resourceKey k)] (rbStage (traced E) k)"
  using ensureCreated_runs [OF kept(2), of "fst (constructServiceAccount E k)" v zeroServiceAccount]
    ensureCreated_runs [OF kept(3), of "fst (constructRole E k)" v zeroRole]
    ensureCreated_runs [OF kept(4), of "fst (constructRoleBinding E k)" v zeroRoleBinding] assms
  by (simp_all add: saStage_def [abs_def] roleStage_def [abs_def] rbStage_def [abs_def] createOrUpdateServiceAccount_eq
      createOrUpdateRole_eq createOrUpdateRoleBinding_eq recorded.desired_sim [symmetric] traced_parts desired_meta)

text \<open>The pure parts of a run make no calls.\<close>

definition quiet :: "apiCall list \<Rightarrow> 'w traced \<Rightarrow> bool" where
  "quiet cs u \<longleftrightarrow> J (fst u) \<and> snd u = cs"

lemma range_quiet: "quiet cs u \<Longrightarrow> quiet cs (snd (range_map (traced E) m u))"
  using kept_range by (simp add: quiet_def traced_def split_beta)

lemma texts_quiet:
  "quiet cs u \<Longrightarrow> quiet cs (snd (map2String (traced E) m u))" "quiet cs u \<Longrightarrow> quiet cs (snd (map2Xml (traced E) m u))"
  "quiet cs u \<Longrightarrow> quiet cs (snd (compareConf (traced E) a b u))"
  by (simp_all add: map2String_def map2Xml_def compareConf_def range_quiet split_beta Let_def)

lemma refs_quiet: "quiet cs u \<Longrightarrow> quiet cs (snd (clusterRefs_loop (traced E) k a c refs data u))"
proof (induction refs arbitrary: data u)
  case (Cons ref refs)
  have "quiet cs (snd (clusterRef_step (traced E) k a c ref data u))"
    using Cons.prems by (simp add: clusterRef_step_def texts_quiet range_quiet split_beta Let_def)
  with Cons.IH show ?case by (simp add: split_beta split: sum.split)
qed simp

lemma configMap_quiet:
  assumes "quiet cs u"
  shows "quiet cs (snd (constructKyuubiConfigMap (traced E) k u))"
    "metaKey (cm_Meta (fst (fst (constructKyuubiConfigMap (traced E) k u)))) = resourceKey k"
    "om_ResourceVersion (cm_Meta (fst (fst (constructKyuubiConfigMap (traced E) k u)))) = []"
    "quiet cs (snd (desiredClusterRefsConfigMap (traced E) k u))"
  using assms
  by (simp_all add: constructKyuubiConfigMap_def desiredClusterRefsConfigMap_def texts_quiet refs_quiet recorded.pure [symmetric]
      owner split_beta Let_def split: sum.split option.split)
     (simp add: childMeta_def zeroMeta_def)

lemma desiredRefs_meta:
  "fst (desiredClusterRefsConfigMap (traced E) k u) = Inr d \<Longrightarrow>
     metaKey (cm_Meta d) = clusterRefsKey k \<and> om_ResourceVersion (cm_Meta d) = []"
  by (auto simp: desiredClusterRefsConfigMap_def recorded.pure [symmetric] owner split_beta Let_def split: sum.splits option.splits)
     (simp add: childMeta_def zeroMeta_def)

lemma poll_runs:
  assumes "\<And>i. i < n \<Longrightarrow> IsNotFound (pollError (traced E) key (poll (traced E) key i (w, cs)))" and "J w"
  shows "\<exists>w1 ds. poll (traced E) key n (w, cs) = (w1, cs @ ds) \<and> J w1 \<and> stageCalls v [] None ds"
  using assms
proof (induction n arbitrary: w cs)
  case (Suc n)
  obtain x err w1 where g: "Get (cmClient E) key zeroConfigMap w = ((x, err), w1)" by (metis surj_pair)
  let ?c = "\<lparr>ac_Verb = GetVerb, ac_Kind = KConfigMap, ac_Key = key, ac_Version = om_ResourceVersion (cm_Meta x), ac_Error = err\<rparr>"
  have one: "poll (traced E) key (Suc i) (w, cs) = poll (traced E) key i (Sleep E 100 w1, cs @ [?c])" for i
    by (simp add: traced_parts traced_get [OF g]) (simp add: traced_def)
  have "IsNotFound err"
    using Suc.prems(1) [of 0] by (simp add: pollError_def traced_parts traced_get [OF g])
  then have c: "stageCalls v [] None [?c]" by (simp add: call_defs)
  have "J (Sleep E 100 w1)" using keepsClientD(1) [OF kept(5) Suc.prems(2) g] by (rule kept_clock)
  moreover have "IsNotFound (pollError (traced E) key (poll (traced E) key i (Sleep E 100 w1, cs @ [?c])))" if "i < n" for i
    using Suc.prems(1) [of "Suc i"] that unfolding one by simp
  ultimately obtain w2 ds where "poll (traced E) key n (Sleep E 100 w1, cs @ [?c]) = (w2, (cs @ [?c]) @ ds)" "J w2"
    "stageCalls v [] None ds"
    using Suc.IH by blast
  with stageCalls_append [OF c, of "[]" None ds] show ?case unfolding one by auto
qed simp

lemma wait_runs: "runsCalls J v [] (waitForConfigMap (traced E) key)"
  unfolding runsCalls_def
proof (intro allI impI)
  fix w cs e w' cs'
  assume J: "J w" and "waitForConfigMap (traced E) key (w, cs) = Some (e, (w', cs'))"
  then obtain n where n: "\<not> IsNotFound (pollError (traced E) key (poll (traced E) key n (w, cs)))"
    "\<And>i. i < n \<Longrightarrow> IsNotFound (pollError (traced E) key (poll (traced E) key i (w, cs)))"
    "(e, (w', cs')) = (pollError (traced E) key (poll (traced E) key n (w, cs)),
      snd (Get (cmClient (traced E)) key zeroConfigMap (poll (traced E) key n (w, cs))))"
    unfolding waitForConfigMap_Some_iff by blast
  obtain w1 ds where p: "poll (traced E) key n (w, cs) = (w1, cs @ ds)" "J w1" "stageCalls v [] None ds"
    using poll_runs [OF n(2) J] by blast
  obtain x err w2 where g: "Get (cmClient E) key zeroConfigMap w1 = ((x, err), w2)" by (metis surj_pair)
  let ?c = "\<lparr>ac_Verb = GetVerb, ac_Kind = KConfigMap, ac_Key = key, ac_Version = om_ResourceVersion (cm_Meta x), ac_Error = err\<rparr>"
  have r: "e = err" "w' = w2" "cs' = (cs @ ds) @ [?c]"
    using n(3) by (simp_all add: p(1) pollError_def traced_parts traced_get [OF g])
  have "stageCalls v [] err [?c]" by (auto simp: call_defs)
  from stageCalls_append [OF p(3) this] r keepsClientD(1) [OF kept(5) p(2) g]
  show "J w' \<and> (\<exists>ds. cs' = cs @ ds \<and> stageCalls v [] e ds)" by auto
qed

lemma ensureConfigMap_runs:
  assumes "(KConfigMap, metaKey (cm_Meta d)) \<in> F" and "om_ResourceVersion (cm_Meta d) = []"
  shows "runsCalls J v [(KConfigMap, metaKey (cm_Meta d))] (ensureConfigMap (traced E) d)"
  unfolding runsCalls_def
proof (intro allI impI)
  let ?T = "[(KConfigMap, metaKey (cm_Meta d))]"
  fix w cs e w' cs'
  assume J: "J w" and ret: "ensureConfigMap (traced E) d (w, cs) = Some (e, (w', cs'))"
  obtain x err w1 where g: "Get (cmClient E) (metaKey (cm_Meta d)) zeroConfigMap w = ((x, err), w1)" by (metis surj_pair)
  let ?c = "\<lparr>ac_Verb = GetVerb, ac_Kind = KConfigMap, ac_Key = metaKey (cm_Meta d),
    ac_Version = om_ResourceVersion (cm_Meta x), ac_Error = err\<rparr>"
  have J1: "J w1" using keepsClientD(1) [OF kept(5) J g] .
  consider (fail) "err \<noteq> None" "\<not> IsNotFound err" | (absent) "IsNotFound err" | (found) "err = None" by auto
  then show "J w' \<and> (\<exists>ds. cs' = cs @ ds \<and> stageCalls v ?T e ds)"
  proof cases
    case fail
    with ret J1 show ?thesis by (auto simp: ensureConfigMap_def traced_parts traced_get [OF g] call_defs)
  next
    case absent
    obtain y err2 w2 where c: "Create (cmClient E) d w1 = ((y, err2), w2)" by (metis surj_pair)
    let ?d = "\<lparr>ac_Verb = CreateVerb, ac_Kind = KConfigMap, ac_Key = metaKey (cm_Meta d), ac_Version = [], ac_Error = err2\<rparr>"
    have J2: "J w2" using keepsClientD(3) [OF kept(5) J1 assms(1) c] .
    have s: "stageCalls v ?T err2 [?c, ?d]" using absent by (auto simp: call_defs)
    show ?thesis
    proof (cases err2)
      case None
      with ret absent have "waitForConfigMap (traced E) (metaKey (cm_Meta y)) (w2, cs @ [?c, ?d]) = Some (e, (w', cs'))"
        by (auto simp: ensureConfigMap_def traced_parts traced_get [OF g] traced_create [OF c] assms(2))
      then obtain ds where "J w'" "cs' = (cs @ [?c, ?d]) @ ds" "stageCalls v [] e ds"
        by (blast elim: runsCallsD [OF wait_runs J2])
      with stageCalls_append [OF s [unfolded None]] None show ?thesis by fastforce
    next
      case (Some err3)
      with ret absent have "(e, (w', cs')) = (err2, (w2, cs @ [?c, ?d]))"
        by (auto simp: ensureConfigMap_def traced_parts traced_get [OF g] traced_create [OF c] assms(2))
      with J2 s show ?thesis by auto
    qed
  next
    case found
    obtain same w2 cs2 where cc: "compareConf (traced E) (cm_Data d) (cm_Data x) (w1, cs @ [?c]) = (same, (w2, cs2))"
      by (metis surj_pair)
    have J2: "J w2" and cs2: "cs2 = cs @ [?c]" using texts_quiet(3) [of "cs @ [?c]" "(w1, cs @ [?c])" "cm_Data d" "cm_Data x"] cc J1 by (auto simp: quiet_def)
    have key: "metaKey (cm_Meta x) = metaKey (cm_Meta d)" using keepsClientD(2) [OF kept(5) J] g found by simp
    obtain y err2 w3 where u: "Update (cmClient E) (x\<lparr>cm_Data := cm_Data d\<rparr>) w2 = ((y, err2), w3)" by (metis surj_pair)
    have J3: "J w3" using keepsClientD(4) [OF kept(5) J2 _ u] assms(1) key by simp
    show ?thesis
      using ret found cc J2 J3 cs2
      by (auto simp: ensureConfigMap_def traced_parts traced_get [OF g] traced_update [OF u] call_defs key split: if_splits)
  qed
qed

lemma workload_runs:
  assumes "(KStatefulSet, resourceKey k) \<in> F"
  shows "runsCalls J v [(KStatefulSet, resourceKey k)] (workloadStage (traced E) k)"
  unfolding runsCalls_def
proof (intro allI impI)
  let ?d = "fst (constructDesiredKyuubiWorkload E k)"
  fix w cs e w' cs'
  assume J: "J w" and ret: "workloadStage (traced E) k (w, cs) = Some (e, (w', cs'))"
  obtain x err w1 where g: "Get (stsClient E) (resourceKey k) zeroStatefulSet w = ((x, err), w1)" by (metis surj_pair)
  obtain y err2 w2 where c: "Create (stsClient E) ?d w1 = ((y, err2), w2)" by (metis surj_pair)
  obtain z err3 w3 where u: "Update (stsClient E) ?d w1 = ((z, err3), w3)" by (metis surj_pair)
  have J1: "J w1" using keepsClientD(1) [OF kept(6) J g] .
  have "J w2" "J w3" using keepsClientD(3) [OF kept(6) J1 _ c] keepsClientD(4) [OF kept(6) J1 _ u] assms by (simp_all add: desired_meta)
  with J1 ret show "J w' \<and> (\<exists>ds. cs' = cs @ ds \<and> stageCalls v [(KStatefulSet, resourceKey k)] e ds)"
    by (auto simp: workloadStage_def createOrUpdateKyuubi_def recorded.desired_sim [symmetric] desired_meta traced_parts
        traced_get [OF g] traced_create [OF c] traced_update [OF u] call_defs Let_def split: if_splits)
qed

lemma service_calls:
  assumes "(KService, resourceKey k) \<in> F" and "J w" and "createOrUpdateService (traced E) k (w, cs) = (r, (w', cs'))"
  obtains ds where "J w'" "cs' = cs @ ds" "stageCalls v [(KService, resourceKey k)] (case_sum Some (\<lambda>_. None) r) ds"
    "\<And>svc. r = Inr svc \<Longrightarrow> ds \<noteq> [] \<and> target (last ds) = (KService, resourceKey k) \<and> ac_Error (last ds) = None"
proof -
  let ?d = "fst (contructDesiredService E k)"
  have m: "metaKey (svc_Meta ?d) = resourceKey k" "om_ResourceVersion (svc_Meta ?d) = []" by (simp_all add: desired_meta)
  have "ensureCreated (tracedClient KService svc_Meta (svcClient E)) svc_Meta zeroService ?d (w, cs) =
      (case_sum Some (\<lambda>_. None) r, (w', cs'))"
    using assms(3) createOrUpdateService_eq [of "traced E" k "(w, cs)"]
    by (simp add: recorded.desired_sim [symmetric] traced_parts)
  from ensureCreated_calls [OF kept(7) _ m(2) assms(2) this, of v, unfolded m(1), OF assms(1)]
  obtain ds where "J w'" "cs' = cs @ ds" "stageCalls v [(KService, resourceKey k)] (case_sum Some (\<lambda>_. None) r) ds"
    "case_sum Some (\<lambda>_. None) r = None \<longrightarrow> ds \<noteq> [] \<and> target (last ds) = (KService, resourceKey k) \<and> ac_Error (last ds) = None"
    by blast
  then show thesis by (intro that) auto
qed

lemma status_calls:
  assumes "(KKyuubiCluster, kyuubiKey k) \<in> F" and J: "J w"
    and ret: "updateKyuubiClusterStatus (traced E) k svc (w, cs) = (e, (w', cs'))"
  shows "J w' \<and> (cs' = cs \<and> e = None \<or> cs' = cs @ [\<lparr>ac_Verb = StatusVerb, ac_Kind = KKyuubiCluster, ac_Key = kyuubiKey k,
        ac_Version = om_ResourceVersion (kc_Meta k), ac_Error = e\<rparr>])"
proof -
  have now: "quiet cs (snd (Now (traced E) u))" if "quiet cs u" for u
    using that kept_clock(1) by (simp add: quiet_def traced_def split_beta)
  have q: "quiet cs (w, cs)" using J by (simp add: quiet_def)
  show ?thesis
  proof (cases "st_ExposedInfos (kc_Status k) = Some (exposedInfosOf k svc)")
    case True
    with ret J show ?thesis by (auto simp: updateKyuubiClusterStatus_def Let_def)
  next
    case False
    obtain t1 u1 where c: "(if st_ExposedInfos (kc_Status k) = None then Now (traced E) (w, cs)
        else (st_CreationTime (kc_Status k), (w, cs))) = (t1, u1)" by (metis surj_pair)
    obtain t2 u2 where n: "Now (traced E) u1 = (t2, u2)" by (metis surj_pair)
    have "quiet cs u1" using c q now [OF q] by (metis snd_conv)
    with now [of u1] n obtain w2 where u2: "u2 = (w2, cs)" "J w2" by (cases u2) (auto simp: quiet_def)
    let ?k = "k\<lparr>kc_Status := \<lparr>st_ExposedInfos = Some (exposedInfosOf k svc), st_CreationTime = t1, st_UpdateTime = t2\<rparr>\<rparr>"
    obtain y err w3 where s: "StatusUpdate E ?k w2 = ((y, err), w3)" by (metis surj_pair)
    have "e = err \<and> w' = w3 \<and> cs' = cs @ [\<lparr>ac_Verb = StatusVerb, ac_Kind = KKyuubiCluster, ac_Key = kyuubiKey k,
        ac_Version = om_ResourceVersion (kc_Meta k), ac_Error = err\<rparr>]"
      using False ret c n s u2
      by (auto simp: updateKyuubiClusterStatus_def Let_def kyuubiKey_def traced_status split: if_splits)
    with kept_status [OF u2(2) _ s] assms(1) show ?thesis by (auto simp: kyuubiKey_def)
  qed
qed

lemma serviceStatus_runs:
  assumes "{(KService, resourceKey k), (KKyuubiCluster, kyuubiKey k)} \<subseteq> F"
  shows "runsCalls J (om_ResourceVersion (kc_Meta k)) [(KService, resourceKey k), (KKyuubiCluster, kyuubiKey k)]
    (serviceStatusStage (traced E) k)"
  unfolding runsCalls_def
proof (intro allI impI)
  let ?v = "om_ResourceVersion (kc_Meta k)" and ?T = "[(KService, resourceKey k), (KKyuubiCluster, kyuubiKey k)]"
  fix w cs e w' cs'
  assume J: "J w" and ret: "serviceStatusStage (traced E) k (w, cs) = Some (e, (w', cs'))"
  obtain r w1 cs1 where r: "createOrUpdateService (traced E) k (w, cs) = (r, (w1, cs1))" by (metis surj_pair)
  have F: "(KService, resourceKey k) \<in> F" "(KKyuubiCluster, kyuubiKey k) \<in> F" using assms by simp_all
  obtain ds where ds: "J w1" "cs1 = cs @ ds" "stageCalls ?v [(KService, resourceKey k)] (case_sum Some (\<lambda>_. None) r) ds"
    and found: "\<And>svc. r = Inr svc \<Longrightarrow> ds \<noteq> [] \<and> target (last ds) = (KService, resourceKey k) \<and> ac_Error (last ds) = None"
    using service_calls [OF F(1) J r, of ?v] by blast
  show "J w' \<and> (\<exists>ds. cs' = cs @ ds \<and> stageCalls ?v ?T e ds)"
  proof (cases r)
    case (Inl err)
    with ret r ds show ?thesis using stageCalls_more [OF ds(3), of "[(KKyuubiCluster, kyuubiKey k)]"]
      by (auto simp: serviceStatusStage_def)
  next
    case (Inr svc)
    with ret r have u: "updateKyuubiClusterStatus (traced E) k svc (w1, cs1) = (e, (w', cs'))"
      by (simp add: serviceStatusStage_def)
    let ?c = "\<lparr>ac_Verb = StatusVerb, ac_Kind = KKyuubiCluster, ac_Key = kyuubiKey k, ac_Version = ?v, ac_Error = e\<rparr>"
    have s: "stageCalls ?v [(KService, resourceKey k)] None ds" using ds(3) Inr by simp
    have "mayFollow ?v (last ds) ?c" using found [OF Inr] by (simp add: mayFollow_def keys_of_request)
    moreover have "subseq (map target (filter isWrite ds) @ [target ?c]) ([(KService, resourceKey k)] @ [target ?c])"
      using s by (intro list_emb_append_mono) (simp_all add: stageCalls_def)
    ultimately have "stageCalls ?v ?T e (ds @ [?c])"
      using s stageCalls_done [OF s] found [OF Inr]
      by (auto simp: stageCalls_def successively_append_iff harmless_def target_def isWrite_def)
    with status_calls [OF F(2) ds(1) u] stageCalls_more [OF s, of "[(KKyuubiCluster, kyuubiKey k)]"] ds(2)
    show ?thesis by auto
  qed
qed

lemma conf_runs:
  assumes "(KConfigMap, resourceKey k) \<in> F"
  shows "runsCalls J v [(KConfigMap, resourceKey k)] (createOrUpdateKyuubiConfigmap (traced E) k)"
  unfolding runsCalls_def
proof (intro allI impI)
  fix w cs e w' cs'
  assume J: "J w" and ret: "createOrUpdateKyuubiConfigmap (traced E) k (w, cs) = Some (e, (w', cs'))"
  have q: "quiet cs (w, cs)" using J by (simp add: quiet_def)
  obtain d err w1 cs1 where d: "constructKyuubiConfigMap (traced E) k (w, cs) = ((d, err), (w1, cs1))" by (metis surj_pair)
  note facts = configMap_quiet [OF q, of k, unfolded d, simplified]
  from facts(1) have "J w1" "cs1 = cs" by (simp_all add: quiet_def)
  with ret d show "J w' \<and> (\<exists>ds. cs' = cs @ ds \<and> stageCalls v [(KConfigMap, resourceKey k)] e ds)"
    using runsCallsD [OF ensureConfigMap_runs, of d w1 cs1 e w' cs' v] facts assms
    by (auto simp: createOrUpdateKyuubiConfigmap_eq)
qed

lemma refs_runs:
  assumes "(KConfigMap, clusterRefsKey k) \<in> F"
  shows "runsCalls J v [(KConfigMap, clusterRefsKey k)] (createOrUpdateClusterRefsConfigmap (traced E) k)"
  unfolding runsCalls_def
proof (intro allI impI)
  fix w cs e w' cs'
  assume J: "J w" and ret: "createOrUpdateClusterRefsConfigmap (traced E) k (w, cs) = Some (e, (w', cs'))"
  have q: "quiet cs (w, cs)" using J by (simp add: quiet_def)
  obtain r w1 cs1 where r: "desiredClusterRefsConfigMap (traced E) k (w, cs) = (r, (w1, cs1))" by (metis surj_pair)
  have q1: "J w1" "cs1 = cs" using configMap_quiet(4) [OF q, of k] r by (simp_all add: quiet_def)
  show "J w' \<and> (\<exists>ds. cs' = cs @ ds \<and> stageCalls v [(KConfigMap, clusterRefsKey k)] e ds)"
  proof (cases r)
    case (Inl err)
    with ret r q1 show ?thesis by (auto simp: createOrUpdateClusterRefsConfigmap_eq)
  next
    case (Inr d)
    with desiredRefs_meta [of k "(w, cs)" d] r have "metaKey (cm_Meta d) = clusterRefsKey k" "om_ResourceVersion (cm_Meta d) = []"
      by simp_all
    with Inr ret r q1 show ?thesis
      using runsCallsD [OF ensureConfigMap_runs, of d w1 cs1 e w' cs' v] assms
      by (auto simp: createOrUpdateClusterRefsConfigmap_eq)
  qed
qed

lemma clusters_runs:
  assumes "clusterFootprint k \<subseteq> F"
  shows "runsCalls J (om_ResourceVersion (kc_Meta k)) (requestTargets (kyuubiKey k)) (createOrUpdateClusters (traced E) k)"
proof -
  let ?n = "resourceKey k"
  have "runsCalls J (om_ResourceVersion (kc_Meta k))
     (([(KServiceAccount, ?n)] @ [(KRole, ?n)] @ [(KRoleBinding, ?n)]) @ [(KConfigMap, ?n)] @ [(KConfigMap, clusterRefsKey k)] @
      [(KStatefulSet, ?n)] @ [(KService, ?n), (KKyuubiCluster, kyuubiKey k)]) (allStages (traced E) k)"
    unfolding allStages_def
    by (intro seqStage_runs rbac_runs conf_runs refs_runs workload_runs serviceStatus_runs)
       (use assms in \<open>auto simp: clusterFootprint_def\<close>)
  then show ?thesis by (simp add: createOrUpdateClusters_eq requestTargets_def keys_of_request Let_def)
qed

lemma Reconcile_runs:
  assumes "requestFootprint req \<subseteq> F" and J: "J w" and ret: "Reconcile (traced E) req (w, []) = Some (out, (w', cs))"
  shows "J w' \<and> callProtocol req out cs"
proof -
  obtain k e w1 where g: "Get (kyuubiClient E) req zeroKyuubiCluster w = ((k, e), w1)" by (metis surj_pair)
  let ?c = "\<lparr>ac_Verb = GetVerb, ac_Kind = KKyuubiCluster, ac_Key = req, ac_Version = om_ResourceVersion (kc_Meta k), ac_Error = e\<rparr>"
  have t: "Get (kyuubiClient (traced E)) req zeroKyuubiCluster (w, []) = ((k, e), (w1, [?c]))"
    by (simp add: traced_parts traced_get [OF g])
  have J1: "J w1" using keepsClientD(1) [OF kept(1) J g] .
  from ret show ?thesis
  proof (cases rule: Reconcile_cases)
    case (run k' u err)
    then have k: "k' = k" "e = None" "u = (w1, [?c])" and out: "out = Returned zeroResult err"
      using t by auto
    then have "kyuubiKey k = req" using keepsClientD(2) [OF kept(1) J] g by (simp add: metaKey_kyuubi)
    then obtain ds where ds: "J w'" "cs = [?c] @ ds" "stageCalls (om_ResourceVersion (kc_Meta k)) (requestTargets req) err ds"
      using runsCallsD [OF clusters_runs, of k w1 "[?c]" err w' cs] run(2) k J1 assms(1)
      by (auto simp: clusterFootprint_request)
    have "stageCalls (om_ResourceVersion (kc_Meta k)) [] None [?c]" using k(2) by (simp add: call_defs)
    from stageCalls_append [OF this ds(3)] have "stageCalls (om_ResourceVersion (kc_Meta k)) (requestTargets req) err cs"
      using ds(2) by simp
    moreover have "cs \<noteq> [] \<and> hd cs = ?c" using ds(2) by simp
    ultimately show ?thesis
      unfolding callProtocol_def stageCalls_def using ds(1) out by (simp add: target_def) metis
  qed (use t J1 in \<open>auto simp: callProtocol_def call_defs\<close>)
qed

lemma Reconcile_kept:
  assumes "requestFootprint req \<subseteq> F" and "J w" and "Reconcile E req w = Some (out, w')"
  shows "J w'"
proof -
  have "map_option (apsnd fst) (Reconcile (traced E) req (w, [])) = Some (out, w')"
    using recorded.Reconcile_sim [of E req "(w, [])"] assms(3) by simp
  then obtain cs where "Reconcile (traced E) req (w, []) = Some (out, (w', cs))"
    by (auto simp: map_option_case split: option.splits)
  then show ?thesis using Reconcile_runs [OF assms(1,2)] by blast
qed

end

end
