(* ===== verification/Interleaving.thy ===== *)
theory Interleaving
  imports Call_Protocol Reconcile_Correct
begin

text \<open>
  Other actors at work while \<open>Reconcile\<close> runs: users, other controllers, other workers of this
  operator. \<open>interleaved I E\<close> is the environment in which the others take their steps \<open>I\<close> before every single API
  call; a world that carries a schedule makes \<open>I\<close> any sequence of steps.
\<close>

section \<open>Steps of others between the calls\<close>

definition interleavedClient :: "('w \<Rightarrow> 'w) \<Rightarrow> ('o, 'w) client \<Rightarrow> ('o, 'w) client" where
  "interleavedClient I cl = \<lparr>Get = (\<lambda>n z w. Get cl n z (I w)), Create = (\<lambda>x w. Create cl x (I w)),
     Update = (\<lambda>x w. Update cl x (I w))\<rparr>"

definition interleaved :: "('w \<Rightarrow> 'w) \<Rightarrow> 'w env \<Rightarrow> 'w env" where
  "interleaved I E = E\<lparr>kyuubiClient := interleavedClient I (kyuubiClient E), saClient := interleavedClient I (saClient E),
     roleClient := interleavedClient I (roleClient E), rbClient := interleavedClient I (rbClient E),
     cmClient := interleavedClient I (cmClient E), stsClient := interleavedClient I (stsClient E),
     svcClient := interleavedClient I (svcClient E), StatusUpdate := (\<lambda>k w. StatusUpdate E k (I w))\<rparr>"

text \<open>
  What the others may do, as a predicate of stores that their steps and the permitted calls keep. A store
  predicate is kept by the permitted calls when it survives every change of a permitted object.
\<close>

definition keepsStore :: "(cluster_store \<Rightarrow> bool) \<Rightarrow> (Kind \<times> NamespacedName) set \<Rightarrow> bool" where
  "keepsStore P F \<longleftrightarrow> (\<forall>s s' c. P s \<longrightarrow> c \<in> F \<longrightarrow> wf_store s' \<longrightarrow> (\<forall>d. d \<noteq> c \<longrightarrow> sameObject s s' (fst d) (snd d)) \<longrightarrow> P s')"

lemma keepsStoreD:
  "keepsStore P F \<Longrightarrow> P s \<Longrightarrow> c \<in> F \<Longrightarrow> wf_store s' \<Longrightarrow> (\<And>d. d \<noteq> c \<Longrightarrow> sameObject s s' (fst d) (snd d)) \<Longrightarrow> P s'"
  unfolding keepsStore_def by blast

lemma write_others:
  "d \<noteq> (KKyuubiCluster, n) \<Longrightarrow> sameObject s (kyuubiClusters_update (\<lambda>m. m(n \<mapsto> k)) s) (fst d) (snd d)"
  "d \<noteq> (KServiceAccount, n) \<Longrightarrow> sameObject s (serviceAccounts_update (\<lambda>m. m(n \<mapsto> a)) s) (fst d) (snd d)"
  "d \<noteq> (KRole, n) \<Longrightarrow> sameObject s (roles_update (\<lambda>m. m(n \<mapsto> r)) s) (fst d) (snd d)"
  "d \<noteq> (KRoleBinding, n) \<Longrightarrow> sameObject s (roleBindings_update (\<lambda>m. m(n \<mapsto> b)) s) (fst d) (snd d)"
  "d \<noteq> (KConfigMap, n) \<Longrightarrow> sameObject s (configMaps_update (\<lambda>m. m(n \<mapsto> c)) s) (fst d) (snd d)"
  "d \<noteq> (KStatefulSet, n) \<Longrightarrow> sameObject s (statefulSets_update (\<lambda>m. m(n \<mapsto> t)) s) (fst d) (snd d)"
  "d \<noteq> (KService, n) \<Longrightarrow> sameObject s (services_update (\<lambda>m. m(n \<mapsto> v)) s) (fst d) (snd d)"
  by (cases d; cases "fst d"; simp; fail)+

context typed_client
begin

lemma interleaved_keeps:
  assumes wf_sel: "\<And>s. wf_store s \<Longrightarrow> wf_map meta (sel s)"
    and wf_upd: "\<And>s n x. wf_store s \<Longrightarrow> metaKey (meta x) = n \<Longrightarrow> wf_store (upd (\<lambda>m. m(n \<mapsto> x)) s)"
    and others: "\<And>s n x d. d \<noteq> (kind, n) \<Longrightarrow> sameObject s (upd (\<lambda>m. m(n \<mapsto> x)) s) (fst d) (snd d)"
    and P: "keepsStore P F"
    and I: "\<And>w. wf_store (store w) \<and> P (store w) \<Longrightarrow> wf_store (store (I w)) \<and> P (store (I w))"
  shows "keepsClient (\<lambda>w. wf_store (store w) \<and> P (store w)) F kind meta (interleavedClient I cl)"
proof -
  define J where "J w \<longleftrightarrow> wf_store (store w) \<and> P (store w)" for w
  have JI: "J (I w)" if "J w" for w using that I by (simp add: J_def)
  have written: "J w'" if "J w" "(kind, metaKey (meta x)) \<in> F" "store w' = store w \<or>
      (\<exists>v old. store w' = upd (\<lambda>m. m(metaKey (meta x) \<mapsto> admit v old x)) (store w))" for w w' x
    using that keepsStoreD [OF P, of "store w" "(kind, metaKey (meta x))" "store w'"] wf_upd others
    unfolding J_def by (metis admit_key)
  have effect: "store w' = store w \<or> (\<exists>v old. store w' = upd (\<lambda>m. m(metaKey (meta x) \<mapsto> admit v old x)) (store w))"
    if "Create cl x w = (r, w') \<or> Update cl x w = (r, w')" for x w r w'
    using that by (cases r) (blast elim: create_effect update_effect)
  have writes: "J w'" if "J w" "(kind, metaKey (meta x)) \<in> F" "Create cl x (I w) = (r, w') \<or> Update cl x (I w) = (r, w')"
    for x w r w'
    using written [OF JI [OF that(1)] that(2) effect [OF that(3)]] .
  have reads: "J w' \<and> (e = None \<longrightarrow> metaKey (meta x) = n)" if "J w" "Get cl n z (I w) = ((x, e), w')" for n z w x e w'
    using JI [OF that(1)] get_store [OF that(2)] get_key [of "I w" n z x w'] that(2) wf_sel by (auto simp: J_def)
  show ?thesis
    unfolding J_def [symmetric] keepsClient_def interleavedClient_def client.simps
  proof (intro conjI allI impI)
    show "metaKey (meta x) = n" if "J w" "Get cl n z (I w) = ((x, e), w')" "e = None" for n z w x e w'
      using reads [OF that(1,2)] that(3) by simp
    show "J w'" if "J w" "Get cl n z (I w) = ((x, e), w')" for n z w x e w'
      using reads [OF that] by simp
    show "J w'" if "J w" "(kind, metaKey (meta x)) \<in> F" "Create cl x (I w) = ((y, e), w')" for x w y e w'
      using writes [OF that(1,2)] that(3) by blast
    show "metaKey (meta y) = metaKey (meta x)" if "Create cl x (I w) = ((y, e), w')" "e = None" for x w y e w'
      using create_answer that by simp
    show "J w'" if "J w" "(kind, metaKey (meta x)) \<in> F" "Update cl x (I w) = (r, w')" for x w r w'
      using writes [OF that(1,2)] that(3) by blast
  qed
qed

end

context kube_api
begin

lemma interleaved_invariant:
  assumes P: "keepsStore P F"
    and I: "\<And>w. wf_store (store w) \<and> P (store w) \<Longrightarrow> wf_store (store (I w)) \<and> P (store (I w))"
    and version: "\<And>k m. om_ResourceVersion (fst (SetControllerReference E k m)) = om_ResourceVersion m"
  shows "call_invariant (interleaved I E) (\<lambda>w. wf_store (store w) \<and> P (store w)) F"
proof -
  have wf: "wf_store s \<Longrightarrow> wf_map kc_Meta (kyuubiClusters s)" "wf_store s \<Longrightarrow> wf_map sa_Meta (serviceAccounts s)"
    "wf_store s \<Longrightarrow> wf_map ro_Meta (roles s)" "wf_store s \<Longrightarrow> wf_map rb_Meta (roleBindings s)"
    "wf_store s \<Longrightarrow> wf_map cm_Meta (configMaps s)" "wf_store s \<Longrightarrow> wf_map sts_Meta (statefulSets s)"
    "wf_store s \<Longrightarrow> wf_map svc_Meta (services s)" for s by (simp_all add: wf_store_def)
  have status: "wf_store (store w') \<and> P (store w')"
    if J: "wf_store (store w) \<and> P (store w)" and F: "(KKyuubiCluster, kyuubiKey k) \<in> F"
      and s: "StatusUpdate E k (I w) = ((y, e), w')" for w k y e w'
    using conjunct1 [OF I [OF J]] s
  proof (cases rule: status_effect)
    case (applied old)
    then have old: "metaKey (kc_Meta old) = kyuubiKey k" and s': "store w' = kyuubiClusters_update (\<lambda>m. m(kyuubiKey k \<mapsto>
        adm_kyuubi A (I w) (Some old) (old\<lparr>kc_Status := kc_Status k\<rparr>))) (store (I w))"
      by (simp_all add: metaKey_kyuubi)
    then have "wf_store (store w')" using I [OF J] unfolding s' by (intro wf_store_upd) (simp_all add: kc.admit_key)
    with I [OF J] F s' show ?thesis
      using keepsStoreD [OF P, of "store (I w)" "(KKyuubiCluster, kyuubiKey k)" "store w'"] write_others(1) by metis
  next
    case failed
    with I [OF J] show ?thesis by simp
  qed
  have quiet: "store (snd (Now E w)) = store w" "store (snd (range_map E g w)) = store w" for w g
    using now_store [of w] range_store [of g w] by (metis prod.collapse)+
  show ?thesis
    by (unfold_locales; (unfold interleaved_def env.simps)?)
       (simp_all add: quiet kc.interleaved_keeps sa.interleaved_keeps ro.interleaved_keeps rb.interleaved_keeps
          cm.interleaved_keeps sts.interleaved_keeps svc.interleaved_keeps wf wf_store_upd write_others P I
          owner_key version sleep_store, metis status prod.collapse)
qed

end

end
