(* ===== verification/Footprint_Simulation.thy ===== *)
theory Footprint_Simulation
  imports Call_Protocol
begin

text \<open>
  A call of \<open>Reconcile\<close> depends only on the objects of its footprint: when another environment answers the
  calls about these objects alike, the run is the same, whatever either says of all other objects. The
  locale \<open>footprint_simulation\<close> combines \<open>call_invariant\<close>, which keeps the run on its footprint, with a map of worlds.
\<close>

definition agreeOn :: "(Kind \<times> NamespacedName) set \<Rightarrow> Kind \<Rightarrow> ('o \<Rightarrow> ObjectMeta) \<Rightarrow> ('w \<Rightarrow> 'v) \<Rightarrow> ('o, 'w) client \<Rightarrow>
    ('o, 'v) client \<Rightarrow> bool" where
  "agreeOn F kind meta h c d \<longleftrightarrow> (\<forall>n z w. (kind, n) \<in> F \<longrightarrow> Get d n z (h w) = apsnd h (Get c n z w)) \<and>
     (\<forall>x w. (kind, metaKey (meta x)) \<in> F \<longrightarrow> Create d x (h w) = apsnd h (Create c x w)) \<and>
     (\<forall>x w. (kind, metaKey (meta x)) \<in> F \<longrightarrow> Update d x (h w) = apsnd h (Update c x w))"

lemma agreeOnD:
  assumes "agreeOn F kind meta h c d"
  shows "(kind, n) \<in> F \<Longrightarrow> Get d n z (h w) = apsnd h (Get c n z w)"
    and "(kind, metaKey (meta x)) \<in> F \<Longrightarrow> Create d x (h w) = apsnd h (Create c x w)"
    and "(kind, metaKey (meta x)) \<in> F \<Longrightarrow> Update d x (h w) = apsnd h (Update c x w)"
  using assms by (simp_all add: agreeOn_def)

lemma ensureCreated_agree:
  "agreeOn F kind meta h c d \<Longrightarrow> (kind, metaKey (meta x)) \<in> F \<Longrightarrow>
     ensureCreated d meta z x (h w) = apsnd h (ensureCreated c meta z x w)"
  by (simp add: ensureCreated_def agreeOnD split_beta)

text \<open>A stage that keeps \<open>J\<close> and does the same in both environments.\<close>

definition sameStage :: "('w \<Rightarrow> bool) \<Rightarrow> ('w \<Rightarrow> 'v) \<Rightarrow> (KyuubiCluster \<Rightarrow> 'w \<Rightarrow> (GoError option \<times> 'w) option) \<Rightarrow>
    (KyuubiCluster \<Rightarrow> 'v \<Rightarrow> (GoError option \<times> 'v) option) \<Rightarrow> KyuubiCluster \<Rightarrow> bool" where
  "sameStage J h s t k \<longleftrightarrow> (\<forall>w. J w \<longrightarrow> t k (h w) = map_option (apsnd h) (s k w) \<and>
     (\<forall>e w'. s k w = Some (e, w') \<longrightarrow> J w'))"

lemma sameStageI:
  assumes "runsCalls J v T (s' k)" and "simStage fst s' s"
    and "\<And>w. J w \<Longrightarrow> t k (h w) = map_option (apsnd h) (s k w)"
  shows "sameStage J h s t k"
  unfolding sameStage_def
proof (intro allI impI conjI assms(3))
  fix w e w'
  assume J: "J w" and "s k w = Some (e, w')"
  then have "map_option (apsnd fst) (s' k (w, [])) = Some (e, w')"
    using simStageD [OF assms(2), of k "(w, [])"] by simp
  then obtain cs where "s' k (w, []) = Some (e, (w', cs))"
    by (auto simp: map_option_case split: option.splits)
  then show "J w'" by (blast elim: runsCallsD [OF assms(1) J])
qed

lemma sameStageD:
  assumes "sameStage J h s t k" and "J w"
  shows "t k (h w) = map_option (apsnd h) (s k w)" and "s k w = Some (e, w') \<Longrightarrow> J w'"
  using assms unfolding sameStage_def by simp_all

lemma seqStage_same:
  assumes "sameStage J h s1 t1 k" and "sameStage J h s2 t2 k"
  shows "sameStage J h (seqStage s1 s2) (seqStage t1 t2) k"
  unfolding sameStage_def
proof (intro allI impI conjI)
  fix w
  assume J: "J w"
  note one = sameStageD [OF assms(1) J]
  show "seqStage t1 t2 k (h w) = map_option (apsnd h) (seqStage s1 s2 k w)"
  proof (cases "s1 k w")
    case None
    then show ?thesis by (simp add: seqStage_def one(1))
  next
    case (Some r)
    obtain e w1 where r: "r = (e, w1)" by fastforce
    with Some one(2) have "J w1" by simp
    with Some r show ?thesis by (cases e) (simp_all add: seqStage_def one(1) sameStageD [OF assms(2)])
  qed
  fix e w'
  assume "seqStage s1 s2 k w = Some (e, w')"
  then show "J w'"
    by (cases rule: seqStage_cases) (use one(2) sameStageD(2) [OF assms(2)] in blast)+
qed

locale footprint_simulation = call_invariant E J F + world_map E G h
  for E :: "'w env" and J F and G :: "'v env" and h :: "'w \<Rightarrow> 'v" +
  assumes agree: "agreeOn F KKyuubiCluster kc_Meta h (kyuubiClient E) (kyuubiClient G)"
      "agreeOn F KServiceAccount sa_Meta h (saClient E) (saClient G)" "agreeOn F KRole ro_Meta h (roleClient E) (roleClient G)"
      "agreeOn F KRoleBinding rb_Meta h (rbClient E) (rbClient G)" "agreeOn F KConfigMap cm_Meta h (cmClient E) (cmClient G)"
      "agreeOn F KStatefulSet sts_Meta h (stsClient E) (stsClient G)" "agreeOn F KService svc_Meta h (svcClient E) (svcClient G)"
    and agree_status: "(KKyuubiCluster, kyuubiKey k) \<in> F \<Longrightarrow> StatusUpdate G k (h w) = apsnd h (StatusUpdate E k w)"
begin

lemma poll_agree: "(KConfigMap, key) \<in> F \<Longrightarrow> poll G key n (h w) = h (poll E key n w)"
  by (induction n arbitrary: w) (simp_all add: agreeOnD(1) [OF agree(5)] sleep)

lemma wait_agree:
  assumes "(KConfigMap, key) \<in> F"
  shows "waitForConfigMap G key (h w) = map_option (apsnd h) (waitForConfigMap E key w)"
proof -
  have e: "pollError G key (poll G key i (h w)) = pollError E key (poll E key i w)" for i
    by (simp add: poll_agree pollError_def agreeOnD(1) [OF agree(5)] assms)
  show ?thesis
  proof (cases "waitForConfigMap E key w")
    case None
    then have "waitForConfigMap G key (h w) = None" by (simp add: waitForConfigMap_None_iff e)
    with None show ?thesis by simp
  next
    case (Some r)
    then have "waitForConfigMap G key (h w) = Some (apsnd h r)"
      unfolding waitForConfigMap_Some_iff e by (auto simp: poll_agree agreeOnD(1) [OF agree(5)] assms)
    with Some show ?thesis by simp
  qed
qed

lemma ensureConfigMap_agree:
  assumes F: "(KConfigMap, metaKey (cm_Meta d)) \<in> F" and J: "J w"
  shows "ensureConfigMap G d (h w) = map_option (apsnd h) (ensureConfigMap E d w)"
proof -
  obtain x err w1 where g: "Get (cmClient E) (metaKey (cm_Meta d)) zeroConfigMap w = ((x, err), w1)" by (metis surj_pair)
  have g': "Get (cmClient G) (metaKey (cm_Meta d)) zeroConfigMap (h w) = ((x, err), h w1)"
    by (simp add: agreeOnD(1) [OF agree(5)] F g)
  have J1: "J w1" using keepsClientD(1) [OF kept(5) J g] .
  obtain y err2 w2 where c: "Create (cmClient E) d w1 = ((y, err2), w2)" by (metis surj_pair)
  have c': "Create (cmClient G) d (h w1) = ((y, err2), h w2)" by (simp add: agreeOnD(2) [OF agree(5)] F c)
  have "err2 = None \<Longrightarrow> metaKey (cm_Meta y) = metaKey (cm_Meta d)" using keepsClientD(5) [OF kept(5) J1 F] c by simp
  moreover have "err = None \<Longrightarrow> metaKey (cm_Meta x) = metaKey (cm_Meta d)" using keepsClientD(2) [OF kept(5) J] g by simp
  ultimately show ?thesis
    using F by (auto simp: ensureConfigMap_def g g' c c' texts_sim wait_agree agreeOnD(3) [OF agree(5)] split_beta)
qed

lemma simple_same:
  assumes "clusterFootprint k \<subseteq> F"
  shows "sameStage J h (saStage E) (saStage G) k" "sameStage J h (roleStage E) (roleStage G) k"
    "sameStage J h (rbStage E) (rbStage G) k" "sameStage J h (workloadStage E) (workloadStage G) k"
  using assms ensureCreated_agree [OF agree(2)] ensureCreated_agree [OF agree(3)] ensureCreated_agree [OF agree(4)]
    agreeOnD [OF agree(6)]
  by (auto intro!: sameStageI [OF rbac_runs(1) recorded.stages_sim(1)] sameStageI [OF rbac_runs(2) recorded.stages_sim(2)]
      sameStageI [OF rbac_runs(3) recorded.stages_sim(3)] sameStageI [OF workload_runs recorded.stages_sim(4)]
      simp: clusterFootprint_def saStage_def roleStage_def rbStage_def workloadStage_def createOrUpdateServiceAccount_eq
        createOrUpdateRole_eq createOrUpdateRoleBinding_eq createOrUpdateKyuubi_def desired_sim desired_meta split_beta Let_def)

lemma quiet_kept:
  assumes "J w"
  shows "J (snd (constructKyuubiConfigMap E k w))" "J (snd (desiredClusterRefsConfigMap E k w))"
    "metaKey (cm_Meta (fst (fst (constructKyuubiConfigMap E k w)))) = resourceKey k"
    "fst (desiredClusterRefsConfigMap E k w) = Inr d \<Longrightarrow> metaKey (cm_Meta d) = clusterRefsKey k"
proof -
  have q: "quiet [] (w, [])" using assms by (simp add: quiet_def)
  have sim: "constructKyuubiConfigMap E k w = apsnd fst (constructKyuubiConfigMap (traced E) k (w, []))"
    "desiredClusterRefsConfigMap E k w = apsnd fst (desiredClusterRefsConfigMap (traced E) k (w, []))"
    using recorded.configMap_sim [of E k "(w, [])"] by simp_all
  show "J (snd (constructKyuubiConfigMap E k w))" "J (snd (desiredClusterRefsConfigMap E k w))"
    "metaKey (cm_Meta (fst (fst (constructKyuubiConfigMap E k w)))) = resourceKey k"
    using configMap_quiet [OF q, of k] by (simp_all add: sim quiet_def)
  show "fst (desiredClusterRefsConfigMap E k w) = Inr d \<Longrightarrow> metaKey (cm_Meta d) = clusterRefsKey k"
    using desiredRefs_meta [of k "(w, [])" d] by (simp add: sim)
qed

lemma configMap_same:
  assumes "clusterFootprint k \<subseteq> F"
  shows "sameStage J h (createOrUpdateKyuubiConfigmap E) (createOrUpdateKyuubiConfigmap G) k"
    "sameStage J h (createOrUpdateClusterRefsConfigmap E) (createOrUpdateClusterRefsConfigmap G) k"
proof -
  have F: "(KConfigMap, resourceKey k) \<in> F" "(KConfigMap, clusterRefsKey k) \<in> F"
    using assms by (auto simp: clusterFootprint_def)
  show "sameStage J h (createOrUpdateKyuubiConfigmap E) (createOrUpdateKyuubiConfigmap G) k"
    by (rule sameStageI [OF conf_runs [OF F(1)] recorded.stages_sim(6)])
       (simp add: createOrUpdateKyuubiConfigmap_eq configMap_sim split_beta ensureConfigMap_agree quiet_kept F)
  show "sameStage J h (createOrUpdateClusterRefsConfigmap E) (createOrUpdateClusterRefsConfigmap G) k"
    by (rule sameStageI [OF refs_runs [OF F(2)] recorded.stages_sim(7)])
       (auto simp: createOrUpdateClusterRefsConfigmap_eq configMap_sim split_beta ensureConfigMap_agree quiet_kept F
          split: sum.split)
qed

lemma serviceStatus_same:
  assumes "clusterFootprint k \<subseteq> F"
  shows "sameStage J h (serviceStatusStage E) (serviceStatusStage G) k"
proof -
  have F: "(KService, resourceKey k) \<in> F" "(KKyuubiCluster, kyuubiKey k) \<in> F"
    using assms by (auto simp: clusterFootprint_def)
  have svc: "createOrUpdateService G k (h w) = apsnd h (createOrUpdateService E k w)" for w
    by (simp add: createOrUpdateService_def desired_sim desired_meta agreeOnD [OF agree(7)] F split_beta Let_def)
  have status: "updateKyuubiClusterStatus G k v (h w) = apsnd h (updateKyuubiClusterStatus E k v w)" for v w
    using agree_status [of "k\<lparr>kc_Status := _\<rparr>"] F(2)
    by (simp add: updateKyuubiClusterStatus_def parts kyuubiKey_def split_beta Let_def)
  show ?thesis
    by (rule sameStageI [OF serviceStatus_runs recorded.stages_sim(5)])
       (simp_all add: F serviceStatusStage_def svc status split_beta split: sum.split)
qed

lemma clusters_same: "clusterFootprint k \<subseteq> F \<Longrightarrow> sameStage J h (createOrUpdateClusters E) (createOrUpdateClusters G) k"
  unfolding createOrUpdateClusters_eq allStages_def
  by (intro seqStage_same simple_same configMap_same serviceStatus_same)

lemma Reconcile_same:
  assumes "requestFootprint req \<subseteq> F" and "J w"
  shows "Reconcile G req (h w) = map_option (apsnd h) (Reconcile E req w)"
proof -
  obtain k e w1 where g: "Get (kyuubiClient E) req zeroKyuubiCluster w = ((k, e), w1)" by (metis surj_pair)
  have "(KKyuubiCluster, req) \<in> F" using assms(1) by (auto simp: requestFootprint_def)
  then have g': "Get (kyuubiClient G) req zeroKyuubiCluster (h w) = ((k, e), h w1)" by (simp add: agreeOnD(1) [OF agree(1)] g)
  have "createOrUpdateClusters G k (h w1) = map_option (apsnd h) (createOrUpdateClusters E k w1)" if "e = None"
  proof -
    have "kyuubiKey k = req" using keepsClientD(2) [OF kept(1) assms(2)] g that by (simp add: metaKey_kyuubi)
    then show ?thesis
      using sameStageD(1) [OF clusters_same keepsClientD(1) [OF kept(1) assms(2) g]] assms(1)
      by (simp add: clusterFootprint_request)
  qed
  then show ?thesis
    by (cases "createOrUpdateClusters E k w1") (auto simp: Reconcile_def g g' pure Let_def)
qed

end

end
