(* ===== verification/Undisturbed.thy ===== *)
theory Undisturbed
  imports Interleaving Footprint_Simulation Cluster_System
begin

text \<open>
  Actors that leave the objects of a request alone do not disturb its reconciliation. To an observer of the
  footprint alone the API server with such actors looks like a server nobody else uses: put together with a
  private reference server for all other objects (\<open>splitEnv\<close>) it satisfies \<open>reliable_api\<close>, so whatever is
  proved of undisturbed runs carries over.
\<close>

section \<open>Two servers behind one client\<close>

definition splitClient :: "(Kind \<times> NamespacedName) set \<Rightarrow> Kind \<Rightarrow> ('o \<Rightarrow> ObjectMeta) \<Rightarrow> ('o, 'w) client \<Rightarrow> ('o, refworld) client \<Rightarrow>
    ('o, 'w \<times> refworld) client" where
  "splitClient F kind meta c d =
     \<lparr>Get = (\<lambda>n z (w, r). if (kind, n) \<in> F then apsnd (\<lambda>w'. (w', r)) (Get c n z w) else apsnd (Pair w) (Get d n z r)),
      Create = (\<lambda>x (w, r). if (kind, metaKey (meta x)) \<in> F then apsnd (\<lambda>w'. (w', r)) (Create c x w)
        else apsnd (Pair w) (Create d x r)),
      Update = (\<lambda>x (w, r). if (kind, metaKey (meta x)) \<in> F then apsnd (\<lambda>w'. (w', r)) (Update c x w)
        else apsnd (Pair w) (Update d x r))\<rparr>"

definition splitEnv :: "(Kind \<times> NamespacedName) set \<Rightarrow> 'w env \<Rightarrow> ('w \<times> refworld) env" where
  "splitEnv F E =
     \<lparr>kyuubiClient = splitClient F KKyuubiCluster kc_Meta (kyuubiClient E) (kyuubiClient refEnv),
      saClient = splitClient F KServiceAccount sa_Meta (saClient E) (saClient refEnv),
      roleClient = splitClient F KRole ro_Meta (roleClient E) (roleClient refEnv),
      rbClient = splitClient F KRoleBinding rb_Meta (rbClient E) (rbClient refEnv),
      cmClient = splitClient F KConfigMap cm_Meta (cmClient E) (cmClient refEnv),
      stsClient = splitClient F KStatefulSet sts_Meta (stsClient E) (stsClient refEnv),
      svcClient = splitClient F KService svc_Meta (svcClient E) (svcClient refEnv),
      StatusUpdate = (\<lambda>k (w, r). if (KKyuubiCluster, kyuubiKey k) \<in> F then apsnd (\<lambda>w'. (w', r)) (StatusUpdate E k w)
        else apsnd (Pair w) (StatusUpdate refEnv k r)),
      SetControllerReference = SetControllerReference E,
      FormatXML = FormatXML E,
      SprintRequest = SprintRequest E,
      Getenv = (\<lambda>s (w, r). Getenv E s w),
      Now = (\<lambda>(w, r). apsnd (\<lambda>w'. (w', r)) (Now E w)),
      Sleep = (\<lambda>n (w, r). (Sleep E n w, r)),
      range_map = (\<lambda>m (w, r). apsnd (\<lambda>w'. (w', r)) (range_map E m w))\<rparr>"

definition mergeMap :: "(Kind \<times> NamespacedName) set \<Rightarrow> Kind \<Rightarrow> (NamespacedName \<rightharpoonup> 'o) \<Rightarrow> (NamespacedName \<rightharpoonup> 'o) \<Rightarrow>
    NamespacedName \<rightharpoonup> 'o" where
  "mergeMap F kind m m' n = (if (kind, n) \<in> F then m n else m' n)"

definition mergeStore :: "(Kind \<times> NamespacedName) set \<Rightarrow> cluster_store \<Rightarrow> cluster_store \<Rightarrow> cluster_store" where
  "mergeStore F s t =
     \<lparr>kyuubiClusters = mergeMap F KKyuubiCluster (kyuubiClusters s) (kyuubiClusters t),
      serviceAccounts = mergeMap F KServiceAccount (serviceAccounts s) (serviceAccounts t),
      roles = mergeMap F KRole (roles s) (roles t),
      roleBindings = mergeMap F KRoleBinding (roleBindings s) (roleBindings t),
      configMaps = mergeMap F KConfigMap (configMaps s) (configMaps t),
      statefulSets = mergeMap F KStatefulSet (statefulSets s) (statefulSets t),
      services = mergeMap F KService (services s) (services t)\<rparr>"

lemma mergeMap_upd:
  "(kind, n) \<in> F \<Longrightarrow> mergeMap F kind (m(n \<mapsto> x)) m' = (mergeMap F kind m m')(n \<mapsto> x)"
  "(kind, n) \<notin> F \<Longrightarrow> mergeMap F kind m (m'(n \<mapsto> x)) = (mergeMap F kind m m')(n \<mapsto> x)"
  by (auto simp: mergeMap_def)

text \<open>The observer of the footprint does not see a step that leaves it alone.\<close>

lemma mergeStore_same:
  assumes "\<And>c. c \<in> F \<Longrightarrow> sameObject s s' (fst c) (snd c)"
  shows "mergeStore F s' t = mergeStore F s t"
proof -
  have "mergeMap F KKyuubiCluster (kyuubiClusters s') m1 = mergeMap F KKyuubiCluster (kyuubiClusters s) m1"
    "mergeMap F KServiceAccount (serviceAccounts s') m2 = mergeMap F KServiceAccount (serviceAccounts s) m2"
    "mergeMap F KRole (roles s') m3 = mergeMap F KRole (roles s) m3"
    "mergeMap F KRoleBinding (roleBindings s') m4 = mergeMap F KRoleBinding (roleBindings s) m4"
    "mergeMap F KConfigMap (configMaps s') m5 = mergeMap F KConfigMap (configMaps s) m5"
    "mergeMap F KStatefulSet (statefulSets s') m6 = mergeMap F KStatefulSet (statefulSets s) m6"
    "mergeMap F KService (services s') m7 = mergeMap F KService (services s) m7" for m1 m2 m3 m4 m5 m6 m7
    using assms by (fastforce simp: mergeMap_def fun_eq_iff)+
  then show ?thesis by (simp add: mergeStore_def)
qed

lemma wf_mergeStore: "wf_store s \<Longrightarrow> wf_store t \<Longrightarrow> wf_store (mergeStore F s t)"
  by (auto simp: wf_store_def wf_map_def mergeStore_def mergeMap_def)

text \<open>What \<open>mergeStore\<close> means for one kind of object.\<close>

definition mergesKind :: "(Kind \<times> NamespacedName) set \<Rightarrow> Kind \<Rightarrow> (cluster_store \<Rightarrow> NamespacedName \<rightharpoonup> 'o) \<Rightarrow>
    (((NamespacedName \<rightharpoonup> 'o) \<Rightarrow> NamespacedName \<rightharpoonup> 'o) \<Rightarrow> cluster_store \<Rightarrow> cluster_store) \<Rightarrow> bool" where
  "mergesKind F kind sel upd \<longleftrightarrow>
     (\<forall>s t. sel (mergeStore F s t) = mergeMap F kind (sel s) (sel t)) \<and>
     (\<forall>s t n x. (kind, n) \<in> F \<longrightarrow> mergeStore F (upd (\<lambda>m. m(n \<mapsto> x)) s) t = upd (\<lambda>m. m(n \<mapsto> x)) (mergeStore F s t)) \<and>
     (\<forall>s t n x. (kind, n) \<notin> F \<longrightarrow> mergeStore F s (upd (\<lambda>m. m(n \<mapsto> x)) t) = upd (\<lambda>m. m(n \<mapsto> x)) (mergeStore F s t))"

lemma mergesKinds:
  "mergesKind F KKyuubiCluster kyuubiClusters kyuubiClusters_update" "mergesKind F KServiceAccount serviceAccounts serviceAccounts_update"
  "mergesKind F KRole roles roles_update" "mergesKind F KRoleBinding roleBindings roleBindings_update"
  "mergesKind F KConfigMap configMaps configMaps_update" "mergesKind F KStatefulSet statefulSets statefulSets_update"
  "mergesKind F KService services services_update"
  by (simp_all add: mergesKind_def mergeStore_def mergeMap_upd)

lemma mergesKindD:
  assumes "mergesKind F kind sel upd"
  shows "(kind, n) \<in> F \<Longrightarrow> sel (mergeStore F s t) n = sel s n" "(kind, n) \<notin> F \<Longrightarrow> sel (mergeStore F s t) n = sel t n"
    and "(kind, n) \<in> F \<Longrightarrow> mergeStore F (upd (\<lambda>m. m(n \<mapsto> x)) s) t = upd (\<lambda>m. m(n \<mapsto> x)) (mergeStore F s t)"
    and "(kind, n) \<notin> F \<Longrightarrow> mergeStore F s (upd (\<lambda>m. m(n \<mapsto> x)) t) = upd (\<lambda>m. m(n \<mapsto> x)) (mergeStore F s t)"
  using assms by (simp_all add: mergesKind_def mergeMap_def)

definition splitStore :: "(Kind \<times> NamespacedName) set \<Rightarrow> ('w \<Rightarrow> cluster_store) \<Rightarrow> 'w \<times> refworld \<Rightarrow> cluster_store" where
  "splitStore F store = (\<lambda>(w, r). mergeStore F (store w) (rw_store r))"

definition splitAdmit :: "(Kind \<times> NamespacedName) set \<Rightarrow> Kind \<Rightarrow> ('o \<Rightarrow> ObjectMeta) \<Rightarrow> ('w \<Rightarrow> 'w) \<Rightarrow>
    ('w \<Rightarrow> 'o option \<Rightarrow> 'o \<Rightarrow> 'o) \<Rightarrow> (refworld \<Rightarrow> 'o option \<Rightarrow> 'o \<Rightarrow> 'o) \<Rightarrow> 'w \<times> refworld \<Rightarrow> 'o option \<Rightarrow> 'o \<Rightarrow> 'o" where
  "splitAdmit F kind meta I a b = (\<lambda>(w, r) old x. if (kind, metaKey (meta x)) \<in> F then a (I w) old x else b r old x)"

lemmas split_defs = splitClient_def splitStore_def splitAdmit_def interleavedClient_def

lemma apsnd_eq_iff: "apsnd f p = (a, b) \<longleftrightarrow> (\<exists>c. p = (a, c) \<and> b = f c)"
  by (cases p) auto

lemma split_client:
  assumes c: "reliable_client c meta sel upd store a" and d: "reliable_client d meta sel upd rw_store b"
    and m: "mergesKind F kind sel upd"
    and I: "\<And>w t. mergeStore F (store (I w)) t = mergeStore F (store w) t"
  shows "reliable_client (splitClient F kind meta (interleavedClient I c) d) meta sel upd (splitStore F store)
    (splitAdmit F kind meta I a b)"
proof -
  note fc = reliable_client.axioms(1) [OF c] and fd = reliable_client.axioms(1) [OF d]
  note tc = fresh_client.axioms(1) [OF fc] and td = fresh_client.axioms(1) [OF fd]
  note M = mergesKindD [OF m]
  note laws = fresh_client.get_fresh [OF fc] fresh_client.get_fresh [OF fd] fresh_client.get_absent [OF fc]
    fresh_client.get_absent [OF fd] typed_client.create_ok [OF tc] typed_client.create_ok [OF td]
    typed_client.update_ok [OF tc] typed_client.update_ok [OF td]
  note frames = typed_client.get_store [OF tc] typed_client.get_store [OF td] typed_client.create_err [OF tc]
    typed_client.create_err [OF td] typed_client.update_err [OF tc] typed_client.update_err [OF td]
  let ?cl = "splitClient F kind meta (interleavedClient I c) d"
  let ?st = "splitStore F store"
  let ?ad = "splitAdmit F kind meta I a b"
  have sel: "(kind, n) \<in> F \<Longrightarrow> sel (store (I w)) n = sel (store w) n" for n w by (metis I M(1))
  have fresh: "sel (?st u) n = Some x" if "Get ?cl n z u = ((x, None), u')" for n z u x u'
    using that
    by (cases u; cases "(kind, n) \<in> F") (auto simp: split_defs apsnd_eq_iff M sel dest!: laws)
  have absent: "sel (?st u) n = None" if "Get ?cl n z u = ((x, Some (NotFound s)), u')" for n z u x u' s
    using that
    by (cases u; cases "(kind, n) \<in> F") (auto simp: split_defs apsnd_eq_iff M sel dest!: laws)
  have get: "?st u' = ?st u" if "Get ?cl n z u = (r, u')" for n z u r u'
    using that
    by (cases u; cases "(kind, n) \<in> F") (auto simp: split_defs apsnd_eq_iff I dest!: frames)
  have create: "sel (?st u) (metaKey (meta x)) = None \<and> ?st u' = upd (\<lambda>m. m(metaKey (meta x) \<mapsto> ?ad u None x)) (?st u)"
    if "Create ?cl x u = ((y, None), u')" for x u y u'
    using that
    by (cases u; cases "(kind, metaKey (meta x)) \<in> F") (auto simp: split_defs apsnd_eq_iff M sel I dest!: laws)
  have update: "\<exists>old. sel (?st u) (metaKey (meta x)) = Some old \<and>
      ?st u' = upd (\<lambda>m. m(metaKey (meta x) \<mapsto> ?ad u (Some old) x)) (?st u)" if "Update ?cl x u = ((y, None), u')" for x u y u'
    using that
    by (cases u; cases "(kind, metaKey (meta x)) \<in> F") (auto simp: split_defs apsnd_eq_iff M sel I dest!: laws)
  have create_error: "?st u' = ?st u \<or> sel (?st u) (metaKey (meta x)) = None \<and>
      ?st u' = upd (\<lambda>m. m(metaKey (meta x) \<mapsto> ?ad u None x)) (?st u)"
    if "Create ?cl x u = ((y, Some e), u')" for x u y e u'
    using that
    by (cases u; cases "(kind, metaKey (meta x)) \<in> F") (auto simp: split_defs apsnd_eq_iff M sel I dest!: frames)
  have update_error: "?st u' = ?st u \<or> (\<exists>old. sel (?st u) (metaKey (meta x)) = Some old \<and>
      ?st u' = upd (\<lambda>m. m(metaKey (meta x) \<mapsto> ?ad u (Some old) x)) (?st u))"
    if "Update ?cl x u = ((y, Some e), u')" for x u y e u'
    using that
    by (cases u; cases "(kind, metaKey (meta x)) \<in> F") (auto simp: split_defs apsnd_eq_iff M sel I dest!: frames)
  show ?thesis
  proof (unfold_locales, goal_cases)
    case 1 show ?case by (rule typed_client.sel_upd [OF tc])
  next
    case 2 show ?case
      by (auto simp: splitAdmit_def typed_client.admit_key [OF tc] typed_client.admit_key [OF td] split: prod.split)
  next
    case 3 then show ?case by (rule get)
  next
    case 4 then show ?case using fresh by (auto simp: wf_map_def)
  next
    case 5 then show ?case
      using typed_client.get_notfound [OF tc] typed_client.get_notfound [OF td]
      by (auto simp: split_defs apsnd_eq_iff split: prod.splits if_splits)
  next
    case 6 then show ?case by (rule create)
  next
    case 7 then show ?case
      using typed_client.create_answer [OF tc] typed_client.create_answer [OF td]
      by (auto simp: split_defs apsnd_eq_iff split: prod.splits if_splits)
  next
    case 8 then show ?case by (rule create_error)
  next
    case 9 then show ?case by (rule update)
  next
    case 10 then show ?case by (rule update_error)
  next
    case 11 then show ?case by (rule fresh)
  next
    case 12 then show ?case by (rule absent)
  next
    case 13 then show ?case
      using reliable_client.get_answers [OF c] reliable_client.get_answers [OF d]
      by (auto simp: split_defs apsnd_eq_iff split: prod.splits if_splits)
  next
    case (14 u x)
    then show ?case
      using reliable_client.create_succeeds [OF c, of "I (fst u)" x] reliable_client.create_succeeds [OF d, of "snd u" x]
      by (cases u; cases "(kind, metaKey (meta x)) \<in> F") (auto simp: split_defs apsnd_eq_iff M sel)
  next
    case (15 u x old)
    then show ?case
      using reliable_client.update_succeeds [OF c, of "I (fst u)" x old] reliable_client.update_succeeds [OF d, of "snd u" x old]
      by (cases u; cases "(kind, metaKey (meta x)) \<in> F") (auto simp: split_defs apsnd_eq_iff M sel)
  qed
qed

text \<open>The two servers together are a reliable API.\<close>

definition splitAdmission :: "(Kind \<times> NamespacedName) set \<Rightarrow> ('w \<Rightarrow> 'w) \<Rightarrow> 'w admission \<Rightarrow> ('w \<times> refworld) admission" where
  "splitAdmission F I A =
     \<lparr>adm_kyuubi = splitAdmit F KKyuubiCluster kc_Meta I (adm_kyuubi A) (adm_kyuubi refAdmission),
      adm_sa = splitAdmit F KServiceAccount sa_Meta I (adm_sa A) (adm_sa refAdmission),
      adm_role = splitAdmit F KRole ro_Meta I (adm_role A) (adm_role refAdmission),
      adm_rb = splitAdmit F KRoleBinding rb_Meta I (adm_rb A) (adm_rb refAdmission),
      adm_cm = splitAdmit F KConfigMap cm_Meta I (adm_cm A) (adm_cm refAdmission),
      adm_sts = splitAdmit F KStatefulSet sts_Meta I (adm_sts A) (adm_sts refAdmission),
      adm_svc = splitAdmit F KService svc_Meta I (adm_svc A) (adm_svc refAdmission)\<rparr>"

lemma split_clients:
  assumes "reliable_api E store A" and I: "\<And>w t. mergeStore F (store (I w)) t = mergeStore F (store w) t"
  shows
    "reliable_client (kyuubiClient (splitEnv F (interleaved I E))) kc_Meta kyuubiClusters kyuubiClusters_update (splitStore F store)
       (adm_kyuubi (splitAdmission F I A))"
    "reliable_client (saClient (splitEnv F (interleaved I E))) sa_Meta serviceAccounts serviceAccounts_update (splitStore F store)
       (adm_sa (splitAdmission F I A))"
    "reliable_client (roleClient (splitEnv F (interleaved I E))) ro_Meta roles roles_update (splitStore F store)
       (adm_role (splitAdmission F I A))"
    "reliable_client (rbClient (splitEnv F (interleaved I E))) rb_Meta roleBindings roleBindings_update (splitStore F store)
       (adm_rb (splitAdmission F I A))"
    "reliable_client (cmClient (splitEnv F (interleaved I E))) cm_Meta configMaps configMaps_update (splitStore F store)
       (adm_cm (splitAdmission F I A))"
    "reliable_client (stsClient (splitEnv F (interleaved I E))) sts_Meta statefulSets statefulSets_update (splitStore F store)
       (adm_sts (splitAdmission F I A))"
    "reliable_client (svcClient (splitEnv F (interleaved I E))) svc_Meta services services_update (splitStore F store)
       (adm_svc (splitAdmission F I A))"
  using reliable_api.axioms(2-8) [OF assms(1)] refEnv_clients mergesKinds I
  by (simp_all add: splitEnv_def splitAdmission_def interleaved_def split_client)

lemma kyuubiKey_status: "kyuubiKey (k\<lparr>kc_Status := st\<rparr>) = kyuubiKey k"
  by (simp add: kyuubiKey_def)

lemma split_status:
  assumes api: "reliable_api E store A" and I: "\<And>w t. mergeStore F (store (I w)) t = mergeStore F (store w) t"
  shows "StatusUpdate (splitEnv F (interleaved I E)) k u = ((y, None), u') \<Longrightarrow>
      \<exists>old. kyuubiClusters (splitStore F store u) (metaKey (kc_Meta k)) = Some old"
    and "StatusUpdate (splitEnv F (interleaved I E)) k u = ((y, None), u') \<Longrightarrow>
      kyuubiClusters (splitStore F store u) (metaKey (kc_Meta k)) = Some old \<Longrightarrow> metaKey (kc_Meta old) = metaKey (kc_Meta k) \<Longrightarrow>
      splitStore F store u' = kyuubiClusters_update (\<lambda>m. m(metaKey (kc_Meta k) \<mapsto>
        adm_kyuubi (splitAdmission F I A) u (Some old) (old\<lparr>kc_Status := kc_Status k\<rparr>))) (splitStore F store u)"
    and "StatusUpdate (splitEnv F (interleaved I E)) k u = ((y, Some e), u') \<Longrightarrow>
      kyuubiClusters (splitStore F store u) (metaKey (kc_Meta k)) = None \<Longrightarrow> splitStore F store u' = splitStore F store u"
    and "StatusUpdate (splitEnv F (interleaved I E)) k u = ((y, Some e), u') \<Longrightarrow>
      kyuubiClusters (splitStore F store u) (metaKey (kc_Meta k)) = Some old \<Longrightarrow> metaKey (kc_Meta old) = metaKey (kc_Meta k) \<Longrightarrow>
      splitStore F store u' = splitStore F store u \<or> splitStore F store u' = kyuubiClusters_update (\<lambda>m. m(metaKey (kc_Meta k) \<mapsto>
        adm_kyuubi (splitAdmission F I A) u (Some old) (old\<lparr>kc_Status := kc_Status k\<rparr>))) (splitStore F store u)"
    and "kyuubiClusters (splitStore F store u) (metaKey (kc_Meta k)) = Some old \<Longrightarrow>
      om_ResourceVersion (kc_Meta k) = [] \<or> om_ResourceVersion (kc_Meta k) = om_ResourceVersion (kc_Meta old) \<Longrightarrow>
      \<exists>y u'. StatusUpdate (splitEnv F (interleaved I E)) k u = ((y, None), u')"
proof -
  note kube = fresh_api.axioms(1) [OF reliable_api.axioms(1) [OF api]]
  note M = mergesKindD [OF mergesKinds(1)]
  note found = kube_api.status_found [OF kube] kube_api.status_found [OF refApi_kube]
  note stored = kube_api.status_stored [OF kube] kube_api.status_stored [OF refApi_kube]
  note absent = kube_api.status_absent [OF kube] kube_api.status_absent [OF refApi_kube]
  note failed = kube_api.status_err [OF kube] kube_api.status_err [OF refApi_kube]
  obtain w r where u: "u = (w, r)" by fastforce
  let ?in = "(KKyuubiCluster, kyuubiKey k) \<in> F"
  have sel: "?in \<Longrightarrow> kyuubiClusters (store (I w)) (kyuubiKey k) = kyuubiClusters (store w) (kyuubiKey k)" by (metis I M(1))
  show "\<exists>old. kyuubiClusters (splitStore F store u) (metaKey (kc_Meta k)) = Some old"
    if "StatusUpdate (splitEnv F (interleaved I E)) k u = ((y, None), u')"
    using that sel
    by (cases ?in) (auto simp: u splitEnv_def interleaved_def splitStore_def apsnd_eq_iff M metaKey_kyuubi dest!: found)
  show "splitStore F store u' = kyuubiClusters_update (\<lambda>m. m(metaKey (kc_Meta k) \<mapsto>
        adm_kyuubi (splitAdmission F I A) u (Some old) (old\<lparr>kc_Status := kc_Status k\<rparr>))) (splitStore F store u)"
    if "StatusUpdate (splitEnv F (interleaved I E)) k u = ((y, None), u')"
      "kyuubiClusters (splitStore F store u) (metaKey (kc_Meta k)) = Some old" "metaKey (kc_Meta old) = metaKey (kc_Meta k)"
    using that sel
    by (cases ?in) (auto simp: u splitEnv_def interleaved_def splitStore_def splitAdmission_def splitAdmit_def apsnd_eq_iff M I
      metaKey_kyuubi kyuubiKey_status dest!: stored)
  show "splitStore F store u' = splitStore F store u"
    if "StatusUpdate (splitEnv F (interleaved I E)) k u = ((y, Some e), u')"
      "kyuubiClusters (splitStore F store u) (metaKey (kc_Meta k)) = None"
    using that sel
    by (cases ?in) (auto simp: u splitEnv_def interleaved_def splitStore_def apsnd_eq_iff M I metaKey_kyuubi dest!: absent)
  show "splitStore F store u' = splitStore F store u \<or> splitStore F store u' = kyuubiClusters_update (\<lambda>m. m(metaKey (kc_Meta k) \<mapsto>
        adm_kyuubi (splitAdmission F I A) u (Some old) (old\<lparr>kc_Status := kc_Status k\<rparr>))) (splitStore F store u)"
    if "StatusUpdate (splitEnv F (interleaved I E)) k u = ((y, Some e), u')"
      "kyuubiClusters (splitStore F store u) (metaKey (kc_Meta k)) = Some old" "metaKey (kc_Meta old) = metaKey (kc_Meta k)"
    using that sel
    by (cases ?in) (auto simp: u splitEnv_def interleaved_def splitStore_def splitAdmission_def splitAdmit_def apsnd_eq_iff M I
      metaKey_kyuubi kyuubiKey_status dest!: failed)
  show "\<exists>y u'. StatusUpdate (splitEnv F (interleaved I E)) k u = ((y, None), u')"
    if "kyuubiClusters (splitStore F store u) (metaKey (kc_Meta k)) = Some old"
      "om_ResourceVersion (kc_Meta k) = [] \<or> om_ResourceVersion (kc_Meta k) = om_ResourceVersion (kc_Meta old)"
    using that sel reliable_api.status_succeeds [OF api, of "I w" k old] refApi.status_succeeds [of r k old]
    by (cases ?in) (auto simp: u splitEnv_def interleaved_def splitStore_def apsnd_eq_iff M metaKey_kyuubi)
qed

lemma split_admission:
  assumes "kube_api E store A"
  shows "kc_Spec (adm_kyuubi (splitAdmission F I A) u old k) = kc_Spec k"
    "kc_Status (adm_kyuubi (splitAdmission F I A) u old k) = kc_Status k"
    "cm_Data (adm_cm (splitAdmission F I A) u oldc c) = cm_Data c"
  using kube_api.admit_spec [OF assms] kube_api.admit_status [OF assms] kube_api.admit_data [OF assms]
    refApi.admit_spec refApi.admit_status refApi.admit_data
  by (simp_all add: splitAdmission_def splitAdmit_def split: prod.split)

lemma split_reliable:
  assumes api: "reliable_api E store A" and I: "\<And>w t. mergeStore F (store (I w)) t = mergeStore F (store w) t"
  shows "reliable_api (splitEnv F (interleaved I E)) (splitStore F store) (splitAdmission F I A)"
proof -
  note kube = fresh_api.axioms(1) [OF reliable_api.axioms(1) [OF api]]
  note clients = split_clients [OF api I]
  note fresh = clients [THEN reliable_client.axioms(1)]
  note typed = fresh [THEN fresh_client.axioms(1)]
  have kapi: "kube_api (splitEnv F (interleaved I E)) (splitStore F store) (splitAdmission F I A)"
  proof (intro kube_api.intro typed kube_api_axioms.intro split_status(1,2,4) [OF api I] split_admission [OF kube])
    show "splitStore F store u' = splitStore F store u" if "StatusUpdate (splitEnv F (interleaved I E)) k u = ((y, Some e), u')"
        "kyuubiClusters (splitStore F store u) (metaKey (kc_Meta k)) = None" for k u y e u'
      using split_status(3) [OF api I that] .
    show "metaKey (fst (SetControllerReference (splitEnv F (interleaved I E)) k m)) = metaKey m" for k m
      using kube_api.owner_key [OF kube] by (simp add: splitEnv_def interleaved_def)
    show "splitStore F store u' = splitStore F store u" if "Now (splitEnv F (interleaved I E)) u = (t, u')" for u t u'
      using that kube_api.now_store [OF kube] by (cases u) (auto simp: splitEnv_def interleaved_def splitStore_def apsnd_eq_iff)
    show "splitStore F store (Sleep (splitEnv F (interleaved I E)) n u) = splitStore F store u" for n u
      using kube_api.sleep_store [OF kube] by (cases u) (simp add: splitEnv_def interleaved_def splitStore_def)
    show "splitStore F store u' = splitStore F store u" if "range_map (splitEnv F (interleaved I E)) g u = (es, u')" for g u es u'
      using that kube_api.range_store [OF kube] by (cases u) (auto simp: splitEnv_def interleaved_def splitStore_def apsnd_eq_iff)
    show "enumerates es g" if "range_map (splitEnv F (interleaved I E)) g u = (es, u')" for g u es u'
      using that kube_api.range_enumerates [OF kube] by (cases u) (auto simp: splitEnv_def interleaved_def apsnd_eq_iff)
    show "SprintRequest (splitEnv F (interleaved I E)) req = nn_Namespace req @ ''/'' @ nn_Name req" for req
      using kube_api.sprint_request [OF kube] by (simp add: splitEnv_def interleaved_def)
  qed
  show ?thesis
  proof (intro reliable_api.intro fresh_api.intro kapi fresh clients reliable_api_axioms.intro)
    show "om_ResourceVersion (fst (SetControllerReference (splitEnv F (interleaved I E)) k m)) = om_ResourceVersion m" for k m
      using reliable_api.owner_version [OF api] by (simp add: splitEnv_def interleaved_def)
  qed (rule split_status(5) [OF api I])
qed

text \<open>Up to the private server, the two environments do the same on the footprint.\<close>

lemma split_simulation:
  assumes api: "reliable_api E store A"
    and P: "keepsStore P F" and I: "\<And>w. wf_store (store w) \<and> P (store w) \<Longrightarrow> wf_store (store (I w)) \<and> P (store (I w))"
  shows "footprint_simulation (interleaved I E) (\<lambda>w. wf_store (store w) \<and> P (store w)) F (splitEnv F (interleaved I E)) (\<lambda>w. (w, r))"
proof -
  note kube = fresh_api.axioms(1) [OF reliable_api.axioms(1) [OF api]]
  show ?thesis
    by (intro footprint_simulation.intro footprint_simulation_axioms.intro world_map.intro
        kube_api.interleaved_invariant [OF kube P I reliable_api.owner_version [OF api]])
      (simp_all add: splitEnv_def agreeOn_def splitClient_def apsnd_def)
qed

text \<open>One undisturbed run of the split environment is the run with the other actors.\<close>

lemma undisturbed_run:
  assumes "reliable_api E store A" and "\<And>w. wf_store (store w) \<Longrightarrow> wf_store (store (I w))" and "wf_store (store w)"
  shows "Reconcile (splitEnv (requestFootprint req) (interleaved I E)) req (w, r) =
    map_option (apsnd (\<lambda>w'. (w', r))) (Reconcile (interleaved I E) req w)"
proof -
  have "footprint_simulation (interleaved I E) (\<lambda>w. wf_store (store w) \<and> True) (requestFootprint req)
      (splitEnv (requestFootprint req) (interleaved I E)) (\<lambda>w. (w, r))"
    by (rule split_simulation [OF assms(1), of "\<lambda>_. True"]) (simp_all add: keepsStore_def assms(2))
  from footprint_simulation.Reconcile_same [OF this order.refl, of w] assms(3) show ?thesis by simp
qed

lemma mergeStore_present: "present (mergeStore F s t) kind n \<longleftrightarrow> (if (kind, n) \<in> F then present s kind n else present t kind n)"
  by (cases kind) (auto simp: mergeStore_def mergeMap_def)

lemma undisturbed_outcome:
  assumes api: "reliable_api E store A" and owner: "\<And>k m. snd (SetControllerReference E k m) = None"
    and wf_I: "\<And>w. wf_store (store w) \<Longrightarrow> wf_store (store (I w))"
    and same: "\<And>w c. c \<in> requestFootprint req \<Longrightarrow> sameObject (store w) (store (I w)) (fst c) (snd c)"
    and wf: "wf_store (store w)" and p: "plainName req"
  obtains e w' where "Reconcile (interleaved I E) req w = Some (Returned zeroResult e, w')"
    and "e = None \<longleftrightarrow> (\<exists>k. kyuubiClusters (store w) req = Some k \<and>
      \<not> (\<exists>r \<in> set (kcs_ClusterRefs (kc_Spec k)). sparkWithoutDefaults r))"
    and "e = None \<longrightarrow> requestFootprint req \<subseteq> {(kind, n). present (store w') kind n}"
proof -
  let ?F = "requestFootprint req"
  let ?E = "splitEnv ?F (interleaved I E)" and ?u = "(w, refInit)"
  have "mergeStore ?F (store (I w)) t = mergeStore ?F (store w) t" for w t by (rule mergeStore_same [OF same])
  note rel = split_reliable [OF api this]
  note fresh = reliable_api.axioms(1) [OF rel]
  note run = undisturbed_run [OF api wf_I wf, where req = req and r = refInit]
  have wfu: "wf_store (splitStore ?F store ?u)"
    unfolding splitStore_def prod.case
    by (rule wf_mergeStore [OF wf]) (simp add: refInit_def emptyStore_def wf_store_def wf_map_def)
  have k: "kyuubiClusters (splitStore ?F store ?u) req = kyuubiClusters (store w) req"
    by (simp add: splitStore_def mergesKindD(1) [OF mergesKinds(1)] requestFootprint_def)
  obtain out u' where ret: "Reconcile ?E req ?u = Some (out, u')"
    using fresh_api.Reconcile_returns [OF fresh, of req ?u] by fast
  then obtain e where e: "out = Returned zeroResult e"
    using kube_api.Reconcile_no_panic [OF fresh_api.axioms(1) [OF fresh]] by blast
  obtain w' where w': "Reconcile (interleaved I E) req w = Some (out, w')" "u' = (w', refInit)"
    using ret run by (auto simp: map_option_case split: option.splits)
  show thesis
  proof (rule that)
    show "Reconcile (interleaved I E) req w = Some (Returned zeroResult e, w')" using w' e by simp
    have "snd (SetControllerReference ?E k m) = None" for k m by (simp add: splitEnv_def interleaved_def owner)
    from reliable_api.Reconcile_succeeds_iff [OF rel wfu p this] ret e k
    show "e = None \<longleftrightarrow> (\<exists>k. kyuubiClusters (store w) req = Some k \<and>
      \<not> (\<exists>r \<in> set (kcs_ClusterRefs (kc_Spec k)). sparkWithoutDefaults r))" by auto
    show "e = None \<longrightarrow> ?F \<subseteq> {(kind, n). present (store w') kind n}"
    proof
      assume "e = None"
      then obtain k0 u0 where k0: "kyuubiKey k0 = req" and s: "splitStore ?F store u0 = splitStore ?F store ?u"
        and r: "createOrUpdateClusters ?E k0 u0 = Some (None, u')" and k1: "kyuubiClusters (splitStore ?F store ?u) req = Some k0"
        using fresh_api.Reconcile_success [OF fresh wfu p] ret e by metis
      note post = fresh_api.run_post [OF fresh _ r, unfolded s, OF wfu]
      have "req \<in> dom (kyuubiClusters (splitStore ?F store u'))"
        using fresh_api.run_status [OF fresh _ r] s wfu k0 k1 by auto
      with post k0 have "?F \<subseteq> {(kind, n). present (splitStore ?F store u') kind n}"
        by (auto simp: requestFootprint_def keys_of_request)
      then show "?F \<subseteq> {(kind, n). present (store w') kind n}"
        by (auto simp: splitStore_def w'(2) mergeStore_present subset_iff)
    qed
  qed
qed

section \<open>Properties\<close>

text \<open>An actor that keeps creating and deleting the service of another custom resource.\<close>

definition strangerKey :: NamespacedName where
  "strangerKey = \<lparr>nn_Namespace = ''kyuubi-operator'', nn_Name = ''other-kyuubi''\<rparr>"

definition strangerService :: Service where
  "strangerService = zeroService\<lparr>svc_Meta := zeroMeta\<lparr>om_Name := ''other-kyuubi'', om_Namespace := ''kyuubi-operator''\<rparr>\<rparr>"

definition stranger :: "refworld \<Rightarrow> refworld" where
  "stranger w = w\<lparr>rw_store := services_update (\<lambda>m. case m strangerKey of
     None \<Rightarrow> m(strangerKey \<mapsto> strangerService) | Some _ \<Rightarrow> m(strangerKey := None)) (rw_store w)\<rparr>"

lemma stranger_wf: "wf_store (rw_store w) \<Longrightarrow> wf_store (rw_store (stranger w))"
  by (auto simp: stranger_def strangerService_def strangerKey_def metaKey_def wf_store_def wf_map_def split: option.splits)

lemma stranger_same: "c \<noteq> (KService, strangerKey) \<Longrightarrow> sameObject (rw_store w) (rw_store (stranger w)) (fst c) (snd c)"
  by (cases c; cases "fst c") (auto simp: stranger_def split: option.splits)

lemma stranger_acts: "services (rw_store (stranger w)) \<noteq> services (rw_store w)"
  by (auto simp: stranger_def fun_eq_iff split: option.splits)

lemma stranger_outside: "(KService, strangerKey) \<notin> requestFootprint sampleKey"
  by (simp add: requestFootprint_def strangerKey_def sampleKey_def childKey_def)

text \<open>The interfaces of the two simulations, on the reference server with this actor.\<close>

interpretation strangerRun: footprint_simulation "interleaved stranger refEnv" "\<lambda>w. wf_store (rw_store w) \<and> True"
    "requestFootprint sampleKey" "splitEnv (requestFootprint sampleKey) (interleaved stranger refEnv)" "\<lambda>w. (w, refInit)"
  by (rule split_simulation [OF refEnv_reliable_api, of "\<lambda>_. True"]) (simp_all add: keepsStore_def stranger_wf)

lemma stranger_run:
  obtains w' cs where "Reconcile (interleaved stranger refEnv) sampleKey (worldWith minioCluster) = Some (Returned zeroResult None, w')"
    "Reconcile (traced (interleaved stranger refEnv)) sampleKey (worldWith minioCluster, []) =
       Some (Returned zeroResult None, (w', cs))"
proof -
  have same: "sameObject (rw_store w) (rw_store (stranger w)) (fst c) (snd c)" if "c \<in> requestFootprint sampleKey" for w c
    using stranger_same stranger_outside that by metis
  obtain e w' where r: "Reconcile (interleaved stranger refEnv) sampleKey (worldWith minioCluster) = Some (Returned zeroResult e, w')"
    and e: "e = None \<longleftrightarrow> (\<exists>k. kyuubiClusters (rw_store (worldWith minioCluster)) sampleKey = Some k \<and>
      \<not> (\<exists>r \<in> set (kcs_ClusterRefs (kc_Spec k)). sparkWithoutDefaults r))"
    using undisturbed_outcome [OF refEnv_reliable_api refEnv_owner stranger_wf same wf_worldWith plain_sampleKey] by metis
  have "e = None"
    unfolding e by (simp add: sparkWithoutDefaults_def minioCluster_def minioSpark_def minioHdfs_def minioMetastore_def
        minioDefaults_def sampleRef_def sampleSpark_def const_defs)
  with r have "map_option (apsnd fst) (Reconcile (traced (interleaved stranger refEnv)) sampleKey (worldWith minioCluster, [])) =
      Some (Returned zeroResult None, w')"
    using recorded.Reconcile_sim [of "interleaved stranger refEnv" sampleKey "(worldWith minioCluster, [])"] by simp
  then show thesis using that r \<open>e = None\<close> by (auto simp: map_option_case split: option.splits)
qed

text \<open>
  C2. The calls of \<open>Reconcile\<close> follow a fixed protocol, whatever other actors do between any two of them: the custom
  resource is read first; a create of a child comes directly after a read that found it absent, an update of a child directly
  after a read that found it, and the update of a ConfigMap carries the resource version that was read, the update of the
  StatefulSet none (it overwrites whatever is there); the status update comes directly after the successful call that found or
  created the service, and carries the version with which the custom resource was read at the start; each object
  is written at most once, in the order service account, role, role binding, the two ConfigMaps, StatefulSet, service,
  status; and a call that fails, other than a read that finds nothing, is the last one, its error the result.
\<close>

theorem reconcile_call_protocol:
  assumes "kube_api E store A" and "\<And>k m. om_ResourceVersion (fst (SetControllerReference E k m)) = om_ResourceVersion m"
    and "\<And>w. wf_store (store w) \<Longrightarrow> wf_store (store (I w))" and "wf_store (store w)"
    and "Reconcile (traced (interleaved I E)) req (w, []) = Some (out, (w', cs))"
  shows "Reconcile (interleaved I E) req w = Some (out, w') \<and> callProtocol req out cs"
proof -
  have "call_invariant (interleaved I E) (\<lambda>w. wf_store (store w) \<and> True) (requestFootprint req)"
    by (rule kube_api.interleaved_invariant [OF assms(1), of "\<lambda>_. True"]) (simp_all add: keepsStore_def assms(2,3))
  from call_invariant.Reconcile_runs [OF this order.refl _ assms(5)] assms(4) show ?thesis
    using recorded.Reconcile_sim [of "interleaved I E" req "(w, [])"] assms(5) by simp
qed

theorem reconcile_call_protocol_witness:
  "\<exists>w' cs. Reconcile (interleaved stranger refEnv) sampleKey (worldWith minioCluster) = Some (Returned zeroResult None, w') \<and>
     callProtocol sampleKey (Returned zeroResult None) cs"
proof -
  obtain w' cs where "Reconcile (traced (interleaved stranger refEnv)) sampleKey (worldWith minioCluster, []) =
      Some (Returned zeroResult None, (w', cs))"
    by (rule stranger_run)
  from reconcile_call_protocol [OF refApi_kube refApi.owner_version stranger_wf wf_worldWith this] show ?thesis by blast
qed

text \<open>
  C24. While other actors work between the calls of \<open>Reconcile\<close>, an object outside the footprint of the request that they leave
  alone is as before at the end, and every object stays under its own key.
\<close>

theorem reconcile_interleaved_frame:
  assumes "kube_api E store A" and "\<And>k m. om_ResourceVersion (fst (SetControllerReference E k m)) = om_ResourceVersion m"
    and "\<And>w. wf_store (store w) \<Longrightarrow> wf_store (store (I w)) \<and> sameObject (store w) (store (I w)) kind key"
    and "wf_store (store w)" and "(kind, key) \<notin> requestFootprint req"
    and "Reconcile (interleaved I E) req w = Some (out, w')"
  shows "wf_store (store w') \<and> sameObject (store w) (store w') kind key"
proof -
  let ?P = "\<lambda>s. sameObject (store w) s kind key"
  have "keepsStore ?P (requestFootprint req)"
    unfolding keepsStore_def using sameObject_trans assms(5) by (metis fst_conv snd_conv)
  then have "call_invariant (interleaved I E) (\<lambda>w. wf_store (store w) \<and> ?P (store w)) (requestFootprint req)"
    by (rule kube_api.interleaved_invariant [OF assms(1)]) (use sameObject_trans assms(2,3) in blast)+
  from call_invariant.Reconcile_kept [OF this order.refl _ assms(6)] assms(4) show ?thesis by simp
qed

theorem reconcile_interleaved_frame_witness:
  "\<exists>w'. Reconcile (interleaved stranger refEnv) sampleKey (worldWith minioCluster) = Some (Returned zeroResult None, w') \<and>
     sameObject (rw_store (worldWith minioCluster)) (rw_store w') KConfigMap strangerKey"
proof -
  obtain w' where r: "Reconcile (interleaved stranger refEnv) sampleKey (worldWith minioCluster) = Some (Returned zeroResult None, w')"
    by (rule stranger_run)
  have "(KConfigMap, strangerKey) \<notin> requestFootprint sampleKey"
    by (simp add: requestFootprint_def strangerKey_def sampleKey_def childKey_def)
  moreover have "wf_store (rw_store (stranger w)) \<and> sameObject (rw_store w) (rw_store (stranger w)) KConfigMap strangerKey"
    if "wf_store (rw_store w)" for w
    using stranger_wf [OF that] stranger_same [of "(KConfigMap, strangerKey)" w] by simp
  ultimately show ?thesis
    using reconcile_interleaved_frame [OF refApi_kube refApi.owner_version _ wf_worldWith _ r] r by blast
qed

text \<open>
  C3. Actors that leave the objects of a request alone do not disturb its reconciliation: while they change any other objects
  between its calls, it returns against a reliable server, it succeeds exactly when the custom resource exists and each
  Spark reference in it has \<open>sparkDefaults\<close>, and then all objects of the request are there. The API calls of other workers are
  such actions, because the footprints of different requests are disjoint.
\<close>

theorem reconcile_undisturbed:
  assumes "reliable_api E store A" and "\<And>k m. snd (SetControllerReference E k m) = None"
    and "\<And>w. wf_store (store w) \<Longrightarrow> wf_store (store (I w))"
    and "\<And>w c. c \<in> requestFootprint req \<Longrightarrow> sameObject (store w) (store (I w)) (fst c) (snd c)"
    and "wf_store (store w)" and "plainName req"
  shows "\<exists>e w'. Reconcile (interleaved I E) req w = Some (Returned zeroResult e, w') \<and>
    (e = None \<longleftrightarrow> (\<exists>k. kyuubiClusters (store w) req = Some k \<and>
      \<not> (\<exists>r \<in> set (kcs_ClusterRefs (kc_Spec k)). sparkWithoutDefaults r))) \<and>
    (e = None \<longrightarrow> requestFootprint req \<subseteq> {(kind, n). present (store w') kind n})"
  using undisturbed_outcome [OF assms] by metis

theorem reconcile_undisturbed_witness:
  "\<exists>w'. Reconcile (interleaved stranger refEnv) sampleKey (worldWith minioCluster) = Some (Returned zeroResult None, w') \<and>
     requestFootprint sampleKey \<subseteq> {(kind, n). present (rw_store w') kind n}"
proof -
  have same: "sameObject (rw_store w) (rw_store (stranger w)) (fst c) (snd c)" if "c \<in> requestFootprint sampleKey" for w c
    using stranger_same stranger_outside that by metis
  obtain w' where "Reconcile (interleaved stranger refEnv) sampleKey (worldWith minioCluster) = Some (Returned zeroResult None, w')"
    by (rule stranger_run)
  with reconcile_undisturbed [OF refEnv_reliable_api refEnv_owner stranger_wf same wf_worldWith plain_sampleKey, of minioCluster]
  show ?thesis by fastforce
qed

end
