(* ===== verification/Workload_Updates.thy ===== *)
theory Workload_Updates
  imports Interleaving Steady_State
begin

text \<open>
  What a server with defaults does to the workload. \<open>createOrUpdateKyuubi\<close> compares the stored specification, in
  which the server has filled in what was left open, with the bare desired one; they differ, so every call of
  \<open>Reconcile\<close> sends the StatefulSet again. The calls are read off the recorded sequence of \<open>Call_Protocol\<close>.
\<close>

section \<open>The update of the workload\<close>

definition sendsUpdate :: "NamespacedName \<Rightarrow> apiCall list \<Rightarrow> bool" where
  "sendsUpdate n cs = list_ex (\<lambda>c. ac_Verb c = UpdateVerb \<and> target c = (KStatefulSet, n) \<and> ac_Error c = None) cs"

lemma sendsUpdate_append [simp]: "sendsUpdate n (cs @ ds) \<longleftrightarrow> sendsUpdate n cs \<or> sendsUpdate n ds"
  by (simp add: sendsUpdate_def)

definition unlikeDesired :: "'w env \<Rightarrow> KyuubiCluster \<Rightarrow> cluster_store \<Rightarrow> bool" where
  "unlikeDesired E k s \<longleftrightarrow> (\<exists>t. statefulSets s (resourceKey k) = Some t \<and>
     sts_Spec t \<noteq> sts_Spec (fst (constructDesiredKyuubiWorkload E k)))"

lemma interleaved_id: "interleaved id E = E"
  by (simp add: interleaved_def interleavedClient_def)

context fresh_api
begin

lemma workload_sends_update:
  assumes "unlikeDesired E k (store w)" and r: "workloadStage (traced E) k (w, cs) = Some (None, (w', cs'))"
  shows "sendsUpdate (resourceKey k) cs'"
proof -
  let ?d = "fst (constructDesiredKyuubiWorkload E k)"
  obtain t where t: "statefulSets (store w) (resourceKey k) = Some t" "sts_Spec t \<noteq> sts_Spec ?d"
    using assms(1) by (auto simp: unlikeDesired_def)
  obtain x err w1 where g: "Get (stsClient E) (resourceKey k) zeroStatefulSet w = ((x, err), w1)" by (metis surj_pair)
  obtain y err2 w2 where u: "Update (stsClient E) ?d w1 = ((y, err2), w2)" by (metis surj_pair)
  have parts: "stsClient (traced E) = tracedClient KStatefulSet sts_Meta (stsClient E)" by (simp add: traced_def)
  have "\<not> IsNotFound err" using g t(1) sts.get_absent by (fastforce simp: IsNotFound_iff)
  moreover have "err = None \<Longrightarrow> x = t" using g t(1) sts.get_fresh by fastforce
  ultimately show ?thesis
    using r t(2)
    by (auto simp: workloadStage_def createOrUpdateKyuubi_def recorded.desired_sim [symmetric] desired_keys parts
        traced_get [OF g] traced_update [OF u] sendsUpdate_def target_def Let_def split: if_splits)
qed

text \<open>A recorded run of the stages, and what it does to the workload.\<close>

lemma recorded_stage:
  assumes "simStage fst s' s" and "s' k (w, cs) = Some (e, (w', cs'))"
  shows "s k w = Some (e, w')"
  using simStageD [OF assms(1), of k "(w, cs)"] assms(2) by simp

lemma recorded_run:
  assumes version: "\<And>k m. om_ResourceVersion (fst (SetControllerReference E k m)) = om_ResourceVersion m"
    and wf: "wf_store (store w)" and run: "createOrUpdateClusters (traced E) k (w, cs) = Some (None, (w', cs'))"
  obtains w3 cs3 w4 cs4 where "statefulSets (store w3) = statefulSets (store w)" "workloadStage (traced E) k (w3, cs3) = Some (None, (w4, cs4))"
    "createOrUpdateKyuubi E k w3 = (None, w4)" "statefulSets (store w') = statefulSets (store w4)"
    "sendsUpdate (resourceKey k) cs4 \<Longrightarrow> sendsUpdate (resourceKey k) cs'"
proof -
  obtain u1 u2 u3 u4 where r: "rbacStage (traced E) k (w, cs) = Some (None, u1)"
    "createOrUpdateKyuubiConfigmap (traced E) k u1 = Some (None, u2)" "createOrUpdateClusterRefsConfigmap (traced E) k u2 = Some (None, u3)"
    "workloadStage (traced E) k u3 = Some (None, u4)" "serviceStatusStage (traced E) k u4 = Some (None, (w', cs'))"
    using run by (rule createOrUpdateClusters_run)
  obtain w1 c1 w2 c2 w3 cs3 w4 cs4 where u: "u1 = (w1, c1)" "u2 = (w2, c2)" "u3 = (w3, cs3)" "u4 = (w4, cs4)" by fastforce
  note r = r [unfolded u]
  have rbac: "simStage fst (rbacStage (traced E)) (rbacStage E)"
    unfolding rbacStage_def by (intro seqStage_sim recorded.stages_sim)
  note e = recorded_stage [OF rbac r(1)] recorded_stage [OF recorded.stages_sim(6) r(2)] recorded_stage [OF recorded.stages_sim(7) r(3)]
    recorded_stage [OF recorded.stages_sim(4) r(4)] recorded_stage [OF recorded.stages_sim(5) r(5)]
  note f = run_frames [OF wf e(1-4)]
  have "statefulSets (store w3) n = statefulSets (store w) n" for n
    using touches_same [OF f(5), of KStatefulSet n] touches_same [OF f(6), of KStatefulSet n] touches_same [OF f(7), of KStatefulSet n]
    by simp
  moreover have "statefulSets (store w') n = statefulSets (store w4) n" for n
    using touches_same [OF reconcile_stage.frame [OF serviceStatus_reconcile_stage f(4) e(5)], of KStatefulSet n] by simp
  moreover have "\<exists>ds. cs' = cs4 @ ds"
  proof -
    have "call_invariant (interleaved id E) (\<lambda>w. wf_store (store w) \<and> True) (clusterFootprint k)"
      by (rule interleaved_invariant [of "\<lambda>_. True"]) (simp_all add: keepsStore_def version)
    then have inv: "call_invariant E (\<lambda>w. wf_store (store w) \<and> True) (clusterFootprint k)" by (simp add: interleaved_id)
    have "{(KService, resourceKey k), (KKyuubiCluster, kyuubiKey k)} \<subseteq> clusterFootprint k" by (auto simp: clusterFootprint_def)
    from runsCallsD [OF call_invariant.serviceStatus_runs [OF inv this] _ r(5)] f(4) show ?thesis by auto
  qed
  ultimately show thesis using that [of w3 cs3 w4 cs4] r(4) e(4) by (auto simp: workloadStage_def fun_eq_iff)
qed

lemma call_unlikeDesired:
  assumes version: "\<And>k m. om_ResourceVersion (fst (SetControllerReference E k m)) = om_ResourceVersion m"
    and defaults: "\<And>w old k. sts_Spec (adm_sts A w old (fst (constructDesiredKyuubiWorkload E k))) \<noteq>
      sts_Spec (fst (constructDesiredKyuubiWorkload E k))"
    and wf: "wf_store (store w)" and run: "createOrUpdateClusters (traced E) k (w, cs) = Some (None, (w', cs'))"
  shows "unlikeDesired E k (store w) \<Longrightarrow> sendsUpdate (resourceKey k) cs'"
    and "unlikeDesired E k (store w) \<or> statefulSets (store w) (resourceKey k) = None \<Longrightarrow> unlikeDesired E k (store w')"
proof -
  obtain w3 cs3 w4 cs4 where r: "statefulSets (store w3) = statefulSets (store w)"
    "workloadStage (traced E) k (w3, cs3) = Some (None, (w4, cs4))" "createOrUpdateKyuubi E k w3 = (None, w4)"
    "statefulSets (store w') = statefulSets (store w4)" "sendsUpdate (resourceKey k) cs4 \<Longrightarrow> sendsUpdate (resourceKey k) cs'"
    using recorded_run [OF version wf run] by metis
  show "sendsUpdate (resourceKey k) cs'" if "unlikeDesired E k (store w)"
    using workload_sends_update [OF _ r(2)] that r(1,5) by (simp add: unlikeDesired_def)
  show "unlikeDesired E k (store w')" if "unlikeDesired E k (store w) \<or> statefulSets (store w) (resourceKey k) = None"
    using that
  proof
    assume "unlikeDesired E k (store w)"
    then obtain t where t: "statefulSets (store w3) (resourceKey k) = Some t"
      "sts_Spec t \<noteq> sts_Spec (fst (constructDesiredKyuubiWorkload E k))" by (auto simp: unlikeDesired_def r(1))
    from workload_existing [OF t(1) r(3)] t(2) defaults show ?thesis by (auto simp: unlikeDesired_def r(4))
  next
    assume "statefulSets (store w) (resourceKey k) = None"
    then have "statefulSets (store w3) (resourceKey k) = None" by (simp add: r(1))
    from workload_absent [OF this r(3)] defaults show ?thesis by (auto simp: unlikeDesired_def r(4))
  qed
qed

lemma unlikeDesired_cong:
  assumes "kc_Spec k = kc_Spec k'" and "kyuubiKey k = kyuubiKey k'"
  shows "unlikeDesired E k s \<longleftrightarrow> unlikeDesired E k' s"
  using workload_spec_cong [OF assms, of E] assms(2) by (simp add: unlikeDesired_def keys_of_request)

text \<open>One recorded call.\<close>

lemma recorded_call:
  assumes wf: "wf_store (store w)" and p: "plainName req"
    and call: "Reconcile (traced E) req (w, []) = Some (Returned zeroResult None, (w', cs))"
  obtains k k' v c where "kyuubiClusters (store w) req = Some k" "kyuubiKey k = req" "store v = store w"
    "createOrUpdateClusters (traced E) k (v, [c]) = Some (None, (w', cs))" "wf_store (store w')"
    "kyuubiClusters (store w') req = Some k'" "kyuubiKey k' = req" "kc_Spec k' = kc_Spec k"
proof -
  have r: "Reconcile E req w = Some (Returned zeroResult None, w')"
    using recorded.Reconcile_sim [of E req "(w, [])"] call by simp
  note f = Reconcile_frame [OF wf r]
  obtain k e v where g: "Get (kyuubiClient E) req zeroKyuubiCluster w = ((k, e), v)" by (metis surj_pair)
  let ?c = "\<lparr>ac_Verb = GetVerb, ac_Kind = KKyuubiCluster, ac_Key = req, ac_Version = om_ResourceVersion (kc_Meta k), ac_Error = e\<rparr>"
  have t: "Get (kyuubiClient (traced E)) req zeroKyuubiCluster (w, []) = ((k, e), (v, [?c]))"
    by (simp add: traced_def traced_get [OF g])
  have sprint: "SprintRequest (traced E) = SprintRequest E" by (simp add: traced_def)
  have ok: "e = None" using call t by (cases e) (simp_all add: Reconcile_def)
  have k: "kyuubiClusters (store w) req = Some k" using g ok kc.get_fresh by simp
  have key: "kyuubiKey k = req" using fetched_key [OF wf g [unfolded ok]] .
  have split: "strings_Split (SprintRequest (traced E) req) (CHR ''/'') = [nn_Namespace req, kc_Name k]"
    unfolding sprint using request_parts [OF p] key by (auto simp: kyuubiKey_def)
  have run: "createOrUpdateClusters (traced E) k (v, [?c]) = Some (None, (w', cs))"
    using call t ok split by (auto simp: Reconcile_def Let_def split: if_splits bind_splits option.splits)
  obtain k' where k': "kyuubiClusters (store w') req = Some k'" "kc_Spec k' = kc_Spec k"
    using touches_spec [OF conjunct1 [OF f] k] by blast
  moreover have "kyuubiKey k' = req"
    using f k'(1) by (auto simp: wf_store_def wf_map_def metaKey_kyuubi)
  ultimately show thesis using that k key kc.get_store [OF g] run f by blast
qed

lemma calls_unlikeDesired:
  assumes version: "\<And>k m. om_ResourceVersion (fst (SetControllerReference E k m)) = om_ResourceVersion m"
    and defaults: "\<And>w old k. sts_Spec (adm_sts A w old (fst (constructDesiredKyuubiWorkload E k))) \<noteq>
      sts_Spec (fst (constructDesiredKyuubiWorkload E k))"
    and wf: "wf_store (store (ws 0))" and p: "plainName req" and absent: "statefulSets (store (ws 0)) (childKey ''-kyuubi'' req) = None"
    and calls: "\<And>i. i < n \<Longrightarrow> Reconcile (traced E) req (ws i, []) = Some (Returned zeroResult None, (ws (Suc i), css i))"
  shows "i < n \<Longrightarrow> wf_store (store (ws (Suc i))) \<and>
    (\<exists>k. kyuubiClusters (store (ws (Suc i))) req = Some k \<and> kyuubiKey k = req \<and> unlikeDesired E k (store (ws (Suc i))))"
proof (induction i)
  case 0
  from calls [OF 0] obtain k k' v c where c: "kyuubiKey k = req" "store v = store (ws 0)"
    "createOrUpdateClusters (traced E) k (v, [c]) = Some (None, (ws (Suc 0), css 0))" "wf_store (store (ws (Suc 0)))"
    "kyuubiClusters (store (ws (Suc 0))) req = Some k'" "kyuubiKey k' = req" "kc_Spec k' = kc_Spec k"
    by (rule recorded_call [OF wf p])
  have "unlikeDesired E k (store (ws (Suc 0)))"
    using call_unlikeDesired(2) [OF version defaults _ c(3)] wf absent c(1,2) by (simp add: keys_of_request)
  with c unlikeDesired_cong [of k k'] show ?case by auto
next
  case (Suc i)
  then have i: "i < n" by simp
  from Suc.IH [OF i] obtain k0 where wf1: "wf_store (store (ws (Suc i)))" and k0: "kyuubiClusters (store (ws (Suc i))) req = Some k0"
    "unlikeDesired E k0 (store (ws (Suc i)))" by blast
  from calls [OF Suc.prems] obtain k k' v c where c: "kyuubiClusters (store (ws (Suc i))) req = Some k" "kyuubiKey k = req"
    "store v = store (ws (Suc i))" "createOrUpdateClusters (traced E) k (v, [c]) = Some (None, (ws (Suc (Suc i)), css (Suc i)))"
    "wf_store (store (ws (Suc (Suc i))))" "kyuubiClusters (store (ws (Suc (Suc i)))) req = Some k'" "kyuubiKey k' = req"
    "kc_Spec k' = kc_Spec k"
    by (rule recorded_call [OF wf1 p])
  have "unlikeDesired E k (store (ws (Suc (Suc i))))"
    using call_unlikeDesired(2) [OF version defaults _ c(4)] wf1 k0 c(1,3) by simp
  with c unlikeDesired_cong [of k k'] show ?case by auto
qed

end

section \<open>Properties\<close>

text \<open>
  C39. On a server whose defaults change the specification of the desired StatefulSet, the operator writes it again and again: when a
  cluster had no StatefulSet and successful calls follow one another, the first creates it and every later one sends a successful
  update of it, although nothing has changed.
\<close>

theorem workload_updated_every_call:
  assumes "fresh_api E store A" and "\<And>k m. om_ResourceVersion (fst (SetControllerReference E k m)) = om_ResourceVersion m"
    and "\<And>w old k. sts_Spec (adm_sts A w old (fst (constructDesiredKyuubiWorkload E k))) \<noteq>
      sts_Spec (fst (constructDesiredKyuubiWorkload E k))"
    and "wf_store (store (ws 0))" and "plainName req" and "statefulSets (store (ws 0)) (childKey ''-kyuubi'' req) = None"
    and "\<And>i. i < n \<Longrightarrow> Reconcile (traced E) req (ws i, []) = Some (Returned zeroResult None, (ws (Suc i), css i))"
    and "0 < i" and "i < n"
  shows "Reconcile E req (ws i) = Some (Returned zeroResult None, ws (Suc i)) \<and> sendsUpdate (childKey ''-kyuubi'' req) (css i)"
proof -
  from assms(8) obtain j where j: "i = Suc j" by (cases i) auto
  with assms(9) have "j < n" by simp
  from fresh_api.calls_unlikeDesired [OF assms(1-7) this] j obtain k0 where wf: "wf_store (store (ws i))"
    and k0: "kyuubiClusters (store (ws i)) req = Some k0" "unlikeDesired E k0 (store (ws i))" by blast
  note call = assms(7) [OF assms(9)]
  obtain k v c where c: "kyuubiClusters (store (ws i)) req = Some k" "kyuubiKey k = req" "store v = store (ws i)"
    "createOrUpdateClusters (traced E) k (v, [c]) = Some (None, (ws (Suc i), css i))"
    using fresh_api.recorded_call [OF assms(1) wf assms(5) call] by metis
  have "sendsUpdate (resourceKey k) (css i)"
    using fresh_api.call_unlikeDesired(1) [OF assms(1-3) _ c(4)] wf k0 c(1,3) by simp
  with c(2) recorded.Reconcile_sim [of E req "(ws i, [])"] call show ?thesis by (simp add: keys_of_request)
qed

text \<open>The reference server marks every workload as defaulted.\<close>

lemma refEnv_defaults:
  "sts_Spec (adm_sts refAdmission w old (fst (constructDesiredKyuubiWorkload refEnv k))) \<noteq>
     sts_Spec (fst (constructDesiredKyuubiWorkload refEnv k))"
proof -
  have "ss_Other (sts_Spec (fst (constructDesiredKyuubiWorkload refEnv k))) = []"
    by (simp add: constructDesiredKyuubiWorkload_def Let_def split_beta)
  moreover have "ss_Other (sts_Spec (adm_sts refAdmission w old x)) = ''defaulted''" for x by (simp add: refAdmission_def)
  ultimately show ?thesis by (metis list.distinct(1))
qed

theorem workload_updated_every_call_witness:
  "\<exists>w1 w2 cs0 cs1. Reconcile (traced refEnv) sampleKey (worldWith minioCluster, []) = Some (Returned zeroResult None, (w1, cs0)) \<and>
     Reconcile (traced refEnv) sampleKey (w1, []) = Some (Returned zeroResult None, (w2, cs1)) \<and>
     sendsUpdate (childKey ''-kyuubi'' sampleKey) cs1"
proof -
  obtain w1 w2 where r: "Reconcile refEnv sampleKey (worldWith minioCluster) = Some (Returned zeroResult None, w1)"
    "Reconcile refEnv sampleKey w1 = Some (Returned zeroResult None, w2)"
    using reconcile_twice_status_witness by blast
  have rec: "\<exists>cs. Reconcile (traced refEnv) sampleKey (w, []) = Some (Returned zeroResult None, (w', cs))"
    if "Reconcile refEnv sampleKey w = Some (Returned zeroResult None, w')" for w w'
    using recorded.Reconcile_sim [of refEnv sampleKey "(w, [])"] that by (auto simp: map_option_case split: option.splits)
  obtain cs0 cs1 where t: "Reconcile (traced refEnv) sampleKey (worldWith minioCluster, []) = Some (Returned zeroResult None, (w1, cs0))"
    "Reconcile (traced refEnv) sampleKey (w1, []) = Some (Returned zeroResult None, (w2, cs1))"
    using rec [OF r(1)] rec [OF r(2)] by blast
  let ?ws = "\<lambda>i. [worldWith minioCluster, w1, w2] ! i" and ?css = "\<lambda>i. [cs0, cs1] ! i"
  have calls: "Reconcile (traced refEnv) sampleKey (?ws i, []) = Some (Returned zeroResult None, (?ws (Suc i), ?css i))"
    if "i < 2" for i
    using that t by (cases i) (auto simp: less_Suc_eq numeral_2_eq_2)
  have "sendsUpdate (childKey ''-kyuubi'' sampleKey) (?css 1)"
    using workload_updated_every_call [where ws = ?ws and css = ?css and n = 2 and i = 1 and req = sampleKey,
        OF refEnv_fresh_api refApi.owner_version refEnv_defaults _ plain_sampleKey _ calls] wf_worldWith [of minioCluster]
    by (simp add: worldWith_def emptyStore_def)
  with t show ?thesis by auto
qed

end
