(* ===== verification/Stored_Files.thy ===== *)
theory Stored_Files
  imports Reconcile_Correct
begin

text \<open>
  The files that a successful call of \<open>Reconcile\<close> leaves in the ConfigMap of the cluster references, read back entry
  by entry: what \<open>Cluster_Refs\<close> shows of the builder, carried to the store.
\<close>

context fresh_api
begin

lemma stored_cluster_refs:
  assumes "wf_store (store w)" and "plainName req" and "Reconcile E req w = Some (Returned res None, w')"
    and "kyuubiClusters (store w) req = Some k"
  obtains d c w1 w2 where "desiredClusterRefsConfigMap E k w1 = (Inr d, w2)"
    "configMaps (store w') (childKey ''-clusterrefs'' req) = Some c" "gm_map (cm_Data c) = gm_map (cm_Data d)"
proof -
  obtain w0 where "kyuubiKey k = req" "store w0 = store w" "createOrUpdateClusters E k w0 = Some (None, w')"
    using Reconcile_success [OF assms(1-3)] assms(4) by (metis option.inject)
  then show thesis
    using run_post(3) [of w0 k w'] assms(1) that by (simp add: keys_of_request) metis
qed

lemma range_complete: "enumerates (fst (range_map E g w)) g"
  using range_enumerates by (metis prod.collapse)

end

section \<open>A pod and a highly available HDFS\<close>

text \<open>The reference server, called from a pod whose environment has the two variables of \<open>podEnv\<close>.\<close>

lemma podEnv_fields [simp]:
  "kyuubiClient podEnv = kyuubiClient refEnv" "saClient podEnv = saClient refEnv" "roleClient podEnv = roleClient refEnv"
  "rbClient podEnv = rbClient refEnv" "cmClient podEnv = cmClient refEnv" "svcClient podEnv = svcClient refEnv"
  "stsClient podEnv = stsClient refEnv" "StatusUpdate podEnv = StatusUpdate refEnv"
  "SetControllerReference podEnv = SetControllerReference refEnv" "Now podEnv = Now refEnv" "Sleep podEnv = Sleep refEnv"
  "range_map podEnv = range_map refEnv" "SprintRequest podEnv = SprintRequest refEnv"
  by (simp_all add: podEnv_def)

lemma pod_kube: "kube_api podEnv rw_store refAdmission"
  using refApi_kube by (simp add: kube_api_def kube_api_axioms_def)

lemma pod_fresh: "fresh_api podEnv rw_store refAdmission"
  using refEnv_fresh_api pod_kube by (simp add: fresh_api_def)

interpretation podApi: reliable_api podEnv rw_store refAdmission
  using refEnv_reliable_api pod_fresh by (simp add: reliable_api_def reliable_api_axioms_def)

text \<open>A custom resource with a Spark reference, an HDFS with two name nodes, and a metastore.\<close>

definition haHdfs :: ClusterRef where
  "haHdfs = sampleRef ''hdfs'' zeroSpark zeroMetastore
     \<lparr>hc_CoreSite = Some (fmap_of_list [(''fs.defaultFS'', ''hdfs://dwh'')]),
      hc_HdfsSite = Some (fmap_of_list [(''dfs.nameservices'', ''dwh''), (''dfs.ha.namenodes.dwh'', ''nn0,nn1''),
        (''dfs.namenode.rpc-address.dwh.nn0'', ''hdfs0:8020''), (''dfs.namenode.rpc-address.dwh.nn1'', ''hdfs1:8020'')])\<rparr>"

definition haCluster :: KyuubiCluster where
  "haCluster = sampleCluster ''v1.8.1'' [minioSpark, haHdfs, minioMetastore]"

lemma haCluster_types:
  "cr_Type minioSpark = SparkClusterType" "cr_Type haHdfs = HdfsClusterType" "cr_Type minioMetastore = MetaStoreClusterType"
  by (simp_all add: minioSpark_def haHdfs_def minioMetastore_def sampleRef_def const_defs)

lemma haCluster_key [simp]: "metaKey (kc_Meta haCluster) = sampleKey"
  by (simp add: haCluster_def)

lemma haCluster_refs: "kcs_ClusterRefs (kc_Spec haCluster) = [minioSpark, haHdfs, minioMetastore]"
  by (simp add: haCluster_def)

lemma ha_succeeds:
  obtains w' where "Reconcile podEnv sampleKey (worldWith haCluster) = Some (Returned zeroResult None, w')"
proof -
  have "\<exists>w'. Reconcile podEnv sampleKey (worldWith haCluster) = Some (Returned zeroResult None, w')"
    unfolding podApi.Reconcile_succeeds_iff [OF wf_worldWith plain_sampleKey podEnv_laws(3)]
    by (simp add: sparkWithoutDefaults_def haCluster_refs minioSpark_def haHdfs_def minioMetastore_def
        minioDefaults_def sampleRef_def sampleSpark_def const_defs)
  then show thesis using that by blast
qed

text \<open>What the files of this custom resource should say.\<close>

lemma ha_spark:
  "sparkEntry podEnviron haCluster minioSpark key =
    map_of [(''spark.hadoop.fs.s3a.path.style.access'', ''true''), (''spark.hadoop.fs.s3a.connection.ssl.enabled'', ''false''),
      (''spark.hadoop.fs.s3a.endpoint'', ''http://192.168.123.24:31063''), (''spark.master'', ''k8s://https://10.96.0.1:443''),
      (''spark.kubernetes.container.image'', ''nineinfra/spark:v3.2.4-minio''),
      (''spark.kubernetes.namespace'', ''kyuubi-operator'')] key"
  by (simp add: sparkEntry_def podEnviron_def gm_lookup_def gm_map_def haCluster_def minioSpark_def sampleRef_def
      sampleSpark_def minioDefaults_def)

lemma ha_hive:
  "hiveSiteEntry (kcs_ClusterRefs (kc_Spec haCluster)) minioMetastore key =
    map_of [(''hive.metastore.uris'', ''thrift://hive-postgres-s3.dwh.svc:9083''), (''hive.metastore.warehouse.dir'', ''s3://usr/hive/warehouse''),
      (''fs.defaultFS'', ''hdfs://dwh''), (''dfs.nameservices'', ''dwh''), (''dfs.ha.namenodes.dwh'', ''nn0,nn1''),
      (''dfs.client.failover.proxy.provider.dwh'', ''org.apache.hadoop.hdfs.server.namenode.ha.ConfiguredFailoverProxyProvider''),
      (''dfs.namenode.rpc-address.dwh.nn0'', ''hdfs0:8020''), (''dfs.namenode.rpc-address.dwh.nn1'', ''hdfs1:8020'')] key"
proof -
  have "lastHdfs (kcs_ClusterRefs (kc_Spec haCluster)) = (hc_HdfsSite (cr_Hdfs haHdfs), hc_CoreSite (cr_Hdfs haHdfs))"
    by (simp add: lastHdfs_def haCluster_refs haCluster_types const_defs)
  moreover have "strings_Split ''nn0,nn1'' (CHR '','') = [''nn0'', ''nn1'']" by simp
  ultimately show ?thesis
    by (simp add: hiveSiteEntry_def hdfsEntry_def gm_lookup_def gm_get_def fm_get_def gm_map_def haHdfs_def sampleRef_def minioMetastore_def)
qed

section \<open>Properties\<close>

text \<open>
  C34. After a successful call, with reads that agree with the store, the stored \<open>spark-defaults.conf\<close> is that of the last Spark
  reference. Read back, it has every entry of the user's \<open>sparkDefaults\<close>, which win over the operator's own; under them the API
  server's address from the pod's environment as \<open>spark.master\<close>, the image, with tag \<open>latest\<close> when none is given, and the namespace
  of the custom resource. No other key appears. It is assumed that none of these entries has an equals sign in its key or a line
  break, and that the environment does not change during the call.
\<close>

theorem reconcile_spark_defaults:
  assumes "fresh_api E store A" and "wf_store (store w)" and "plainName req"
    and "Reconcile E req w = Some (Returned res None, w')" and "kyuubiClusters (store w) req = Some k"
    and "kcs_ClusterRefs (kc_Spec k) = pre @ r # post" and "cr_Type r = SparkClusterType"
    and "\<forall>x \<in> set post. cr_Type x \<noteq> SparkClusterType" and "\<And>v w. Getenv E v w = environ v"
    and "\<And>key v. sparkEntry environ k r key = Some v \<Longrightarrow> CHR ''='' \<notin> set key \<and> CHR 0x0A \<notin> set key \<and> CHR 0x0A \<notin> set v"
  shows "\<exists>c. configMaps (store w') (childKey ''-clusterrefs'' req) = Some c \<and>
    map_of (readConf (gm_get (cm_Data c) ''spark-defaults.conf'')) = sparkEntry environ k r"
proof -
  have conf: "conf_entry (key, v)" if "sparkEntry environ k r key = Some v" for key v
    using assms(10) [OF that] by (simp add: conf_entry_def)
  obtain d c w1 w2 where "desiredClusterRefsConfigMap E k w1 = (Inr d, w2)"
    and "configMaps (store w') (childKey ''-clusterrefs'' req) = Some c" "gm_map (cm_Data c) = gm_map (cm_Data d)"
    using fresh_api.stored_cluster_refs [OF assms(1-5)] by metis
  with spark_defaults_file [OF _ assms(6-8) fresh_api.range_complete [OF assms(1)] assms(9) conf] show ?thesis
    by (metis gm_get_def)
qed

theorem reconcile_spark_defaults_witness:
  "\<exists>w' c. Reconcile podEnv sampleKey (worldWith haCluster) = Some (Returned zeroResult None, w') \<and>
     configMaps (rw_store w') (childKey ''-clusterrefs'' sampleKey) = Some c \<and>
     map_of (readConf (gm_get (cm_Data c) ''spark-defaults.conf'')) ''spark.master'' = Some ''k8s://https://10.96.0.1:443'' \<and>
     map_of (readConf (gm_get (cm_Data c) ''spark-defaults.conf'')) ''spark.hadoop.fs.s3a.path.style.access'' = Some ''true''"
proof -
  obtain w' where r: "Reconcile podEnv sampleKey (worldWith haCluster) = Some (Returned zeroResult None, w')"
    by (rule ha_succeeds)
  have k: "kyuubiClusters (rw_store (worldWith haCluster)) sampleKey = Some haCluster" by simp
  have refs: "kcs_ClusterRefs (kc_Spec haCluster) = [] @ minioSpark # [haHdfs, minioMetastore]" by (simp add: haCluster_refs)
  have t: "\<forall>x \<in> set [haHdfs, minioMetastore]. cr_Type x \<noteq> SparkClusterType" by (simp add: haCluster_types const_defs)
  have "CHR ''='' \<notin> set key \<and> CHR 0x0A \<notin> set key \<and> CHR 0x0A \<notin> set v" if "sparkEntry podEnviron haCluster minioSpark key = Some v" for key v
    using that unfolding ha_spark by (auto split: if_splits)
  from reconcile_spark_defaults [OF pod_fresh wf_worldWith plain_sampleKey r k refs haCluster_types(1) t podEnv_laws(2) this] r
  show ?thesis by (auto simp: ha_spark)
qed

text \<open>
  C35. After a successful call, with reads that agree with the store, the stored \<open>hive-site.xml\<close> is that of the last metastore
  reference: the formatted XML of a document that reads back to the user's \<open>hiveSite\<close> entries over what is taken from the last HDFS
  reference (nothing when there is none): \<open>fs.defaultFS\<close>, the nameservice and either its name nodes, their RPC
  addresses and the failover provider or its single RPC address. No other key appears. It is assumed that no name or value among these
  entries has the character that opens a tag.
\<close>

theorem reconcile_hive_site:
  assumes "fresh_api E store A" and "wf_store (store w)" and "plainName req"
    and "Reconcile E req w = Some (Returned res None, w')" and "kyuubiClusters (store w) req = Some k"
    and "kcs_ClusterRefs (kc_Spec k) = pre @ r # post" and "cr_Type r = MetaStoreClusterType"
    and "\<forall>x \<in> set post. cr_Type x \<noteq> MetaStoreClusterType"
    and "\<And>key v. hiveSiteEntry (kcs_ClusterRefs (kc_Spec k)) r key = Some v \<Longrightarrow> CHR ''<'' \<notin> set key \<and> CHR ''<'' \<notin> set v"
  shows "\<exists>c doc es. configMaps (store w') (childKey ''-clusterrefs'' req) = Some c \<and>
    gm_get (cm_Data c) ''hive-site.xml'' = FormatXML E doc [] ''  '' \<and>
    readProperties doc = Some es \<and> map_of es = hiveSiteEntry (kcs_ClusterRefs (kc_Spec k)) r"
proof -
  have xml: "xml_entry (key, v)" if "hiveSiteEntry (kcs_ClusterRefs (kc_Spec k)) r key = Some v" for key v
    using assms(9) [OF that] by (simp add: xml_entry_def)
  obtain d c w1 w2 where "desiredClusterRefsConfigMap E k w1 = (Inr d, w2)"
    and "configMaps (store w') (childKey ''-clusterrefs'' req) = Some c" "gm_map (cm_Data c) = gm_map (cm_Data d)"
    using fresh_api.stored_cluster_refs [OF assms(1-5)] by metis
  with hive_site_file [OF _ assms(6-8) fresh_api.range_complete [OF assms(1)] xml] show ?thesis
    by (metis gm_get_def)
qed

theorem reconcile_hive_site_witness:
  "\<exists>w' c es. Reconcile podEnv sampleKey (worldWith haCluster) = Some (Returned zeroResult None, w') \<and>
     configMaps (rw_store w') (childKey ''-clusterrefs'' sampleKey) = Some c \<and>
     readProperties (gm_get (cm_Data c) ''hive-site.xml'') = Some es \<and>
     map_of es ''fs.defaultFS'' = Some ''hdfs://dwh'' \<and> map_of es ''dfs.namenode.rpc-address.dwh.nn1'' = Some ''hdfs1:8020'' \<and>
     map_of es ''hive.metastore.warehouse.dir'' = Some ''s3://usr/hive/warehouse'' \<and> map_of es ''dfs.replication'' = None"
proof -
  obtain w' where r: "Reconcile podEnv sampleKey (worldWith haCluster) = Some (Returned zeroResult None, w')"
    by (rule ha_succeeds)
  have k: "kyuubiClusters (rw_store (worldWith haCluster)) sampleKey = Some haCluster" by simp
  have refs: "kcs_ClusterRefs (kc_Spec haCluster) = [minioSpark, haHdfs] @ minioMetastore # []" by (simp add: haCluster_refs)
  have t: "\<forall>x \<in> set []. cr_Type x \<noteq> MetaStoreClusterType" by simp
  have "CHR ''<'' \<notin> set key \<and> CHR ''<'' \<notin> set v" if "hiveSiteEntry (kcs_ClusterRefs (kc_Spec haCluster)) minioMetastore key = Some v" for key v
    using that unfolding ha_hive by (auto split: if_splits)
  from reconcile_hive_site [OF pod_fresh wf_worldWith plain_sampleKey r k refs haCluster_types(3) t this] r
  show ?thesis by (auto simp: ha_hive podEnv_laws)
qed

end
