(* ===== verification/Spec2Isabelle.thy ===== *)
theory Spec2Isabelle
  imports Cluster_System Steady_State Lagging_Cache Permissions Object_Names Work_Queue Admission Deep_Copy_Correct
    Client_Setup Client_Refinement Client_Writes Undisturbed Env_Rewire Workload_Updates Stored_Files
begin

text \<open>
  A verification library for the Kyuubi operator, a Kubernetes controller written in Go that keeps a
  Kyuubi SQL gateway running for every \<open>KyuubiCluster\<close> custom resource.

  \<^bold>\<open>The program.\<close> A \<open>KyuubiCluster\<close> (\<open>api/v1alpha1/kyuubicluster_types.go\<close>) names an image, a
  number of replicas, a Kyuubi configuration and a list of referenced clusters (Spark, HDFS, Hive
  metastore). The reconciler (\<open>internal/controller/kyuubicluster_controller.go\<close>) is called with the
  name of a custom resource whenever it changes. \<open>Reconcile\<close> reads the object and runs, in this
  order, \<open>createOrUpdateK8sResources\<close> (service account, role, role binding),
  \<open>createOrUpdateKyuubiConfigmap\<close>, \<open>createOrUpdateClusterRefsConfigmap\<close>, \<open>createOrUpdateKyuubi\<close> (the
  StatefulSet), \<open>createOrUpdateService\<close> and \<open>updateKyuubiClusterStatus\<close>; the first error ends the
  call. Each stage builds the desired object (\<open>construct...\<close>), reads the existing one, and creates or
  updates it. \<open>utils.go\<close> renders maps as configuration files and compares them, \<open>common.go\<close> and
  \<open>constants.go\<close> give names, labels and paths, \<open>cmd/main.go\<close> starts the manager that calls
  \<open>Reconcile\<close>. For other programs there is a generated clientset under \<open>client/\<close>: a typed client over
  REST requests, and a fake one over an object tracker, both for \<open>KyuubiClusterInterface\<close>. The values
  that pass between all these parts are copied by \<open>zz_generated.deepcopy.go\<close>.

  \<^bold>\<open>The world.\<close> Everything outside the repository that the controller calls is a parameter: the
  record \<open>env\<close> (theory \<open>Controller_Env\<close>) has a typed client for each kind of object, the status
  update, \<open>SetControllerReference\<close>, \<open>FormatXML\<close>, the printed form of a request, the process
  environment, the clock, the sleep of the polling loops, and the order in which the Go runtime visits
  a map. Every effectful definition passes an abstract world \<open>'w\<close> through these calls. What the
  controller relies on is stated in \<open>Kube_Api\<close> as locales, from weak to strong: \<open>kube_api\<close> (reads may
  be stale, calls may fail; a successful write changes its own key, and one that reports an error has that same
  effect or none, as when a timeout hits the answer of a write that was done), \<open>fresh_api\<close> (reads agree with the
  store) and \<open>reliable_api\<close> (a read fails only for an absent object, a create only for a taken key, an update only for an
  absent object or a stale version). The last two are idealisations. The manager's client reads through a cache, which
  \<open>fresh_api\<close> ignores: the frame, isolation, the protocol of the calls, permissions and termination are shown under \<open>kube_api\<close> or
  the lagging cache of \<open>Lagging_Cache\<close>, the content of the objects after a call under \<open>fresh_api\<close>. A server may also refuse an
  invalid object, which \<open>reliable_api\<close> leaves out; \<open>Object_Names\<close> and \<open>Admission\<close> treat two kinds of refusal. \<open>Reference_Server\<close> is an
  executable server that satisfies all of them (\<open>interpretation refApi\<close>), with resource versions and
  defaulting of the StatefulSet; the witnesses run the controller against it on the custom resources
  of \<open>config/samples\<close>, which \<open>Samples\<close> transcribes.

  \<^bold>\<open>Theories and sources.\<close>
  \<^item> \<open>Kyuubi_Prelude\<close>: nil-able Go maps as optional finite maps (\<open>gomap\<close>), their enumerations, Go
    errors, \<open>strings.Join\<close>, \<open>strings.Split\<close>, \<open>strconv.Itoa\<close>, and the lemmas and collections shared.
  \<^item> \<open>K8s_Types\<close>: the Kubernetes structures with the fields that the operator sets or reads.
  \<^item> \<open>Api_Types\<close>: \<open>kyuubicluster_types.go\<close> and the webhook methods of \<open>kyuubicluster_webhook.go\<close>.
  \<^item> \<open>Controller_Common\<close>: \<open>constants.go\<close> and \<open>common.go\<close>.
  \<^item> \<open>Controller_Utils\<close>: \<open>utils.go\<close>; the readers \<open>readConf\<close> and \<open>readProperties\<close> are specifications.
  \<^item> \<open>Resources\<close>: the builders of service account, role, role binding, volumes, mounts, StatefulSet,
    ConfigMap and service.
  \<^item> \<open>Cluster_Refs\<close>: \<open>desiredClusterRefsConfigMap\<close>, its loops as recursions over the references.
  \<^item> \<open>Reconciler\<close>: the \<open>createOrUpdate\<close> methods, the status update, \<open>createOrUpdateClusters\<close> and
    \<open>Reconcile\<close>.
  \<^item> \<open>Stage_Contracts\<close>, \<open>Stage_Frames\<close>, \<open>Reconcile_Run\<close>: lemmas only. The four create-if-absent stages
    are one routine (\<open>ensureCreated\<close>), the two ConfigMap stages another (\<open>ensureConfigMap\<close>); the locale
    \<open>reconcile_stage\<close> is the contract by which stages compose (a footprint, and well-formedness).
  \<^item> \<open>Reconcile_Correct\<close>: the properties of \<open>Reconcile\<close>, the status, the workload, the polling loop.
  \<^item> \<open>Cluster_System\<close>: runs in which reconciliations, edits and deletions alternate, as an inductive
    step relation with its invariants.
  \<^item> \<open>Stored_Files\<close>: the stored \<open>spark-defaults.conf\<close> and \<open>hive-site.xml\<close>, entry by entry.
  \<^item> \<open>Steady_State\<close>: when reconciling comes to rest (\<open>converged\<close>), and that two calls get there under the
    locale \<open>plain_api\<close>; \<open>builtObjects\<close> says what the objects are that are created and never updated.
  \<^item> \<open>Workload_Updates\<close>: the StatefulSet that is sent again by every call to a server with defaults.
  \<^item> \<open>Lagging_Cache\<close>: reads from a cache that catches up (locale \<open>lagging_api\<close>, weaker than \<open>fresh_api\<close>), and that
    every call then returns.
  \<^item> \<open>Work_Queue\<close>: the controller as the manager runs it: the watches that the builder of \<open>SetupWithManager\<close> asks
    for (locale \<open>watches\<close>), the queue of requests, workers and retries as a step relation over \<open>Reconcile\<close>.
  \<^item> \<open>World_Simulation\<close>, \<open>Call_Protocol\<close>: maps between worlds that the environment respects (locales \<open>world_map\<close>,
    \<open>world_simulation\<close>); the environment \<open>traced E\<close> that records every API call, the protocol of the calls, and the
    locale \<open>call_invariant\<close>, under which every stage follows it.
  \<^item> \<open>Interleaving\<close>, \<open>Footprint_Simulation\<close>, \<open>Undisturbed\<close>: other actors that take steps before every single call
    (\<open>interleaved I E\<close>); two environments that agree on a footprint give the same run (locale
    \<open>footprint_simulation\<close>); and so a run beside actors that leave the footprint alone is one of a server nobody else
    uses.
  \<^item> \<open>Json_Codec\<close>, \<open>Api_Json\<close>: what the types use of \<open>encoding/json\<close>, and every struct of \<open>kyuubicluster_types.go\<close>
    as the list of its tagged fields; the locale \<open>codec_law\<close> is the contract by which codecs compose.
  \<^item> \<open>Crd_Schema\<close>, \<open>Crd_Correct\<close>: the schema of \<open>config/crd/bases\<close>, its validation and defaults, and the relation
    \<open>reads\<close> between a schema and a codec, proved struct by struct.
  \<^item> \<open>Wire_Reference\<close>, \<open>Wire_Format\<close>, \<open>Admission\<close>: codecs for the foreign types, the properties of the wire format,
    and \<open>Reconcile\<close> against a server that validates the status. \<open>Client_Writes\<close>: from the Go value of a client through
    the server's defaults and validation to the Go value of the controller.
  \<^item> \<open>Env_Rewire\<close>, \<open>Permissions\<close>: which stages use which clients; the RBAC markers of \<open>kyuubicluster_controller.go\<close>, the other
    roles of \<open>config/rbac\<close> that the operator has, and the cluster role of the chart, and \<open>Reconcile\<close> in an environment that
    enforces them.
  \<^item> \<open>Object_Names\<close>: the generated names against the label syntax of the API.
  \<^item> \<open>Scheme_Registration\<close>, \<open>Startup\<close>: the registration of the types (\<open>groupversion_info.go\<close>, the two
    \<open>register.go\<close> of the clientsets, the \<open>init\<close> functions), \<open>main\<close> of \<open>cmd/main.go\<close>, \<open>SetupWithManager\<close>
    and \<open>SetupWebhookWithManager\<close>.
  \<^item> \<open>Go_Heap\<close>, \<open>Deep_Copy\<close>, \<open>Deep_Copy_Correct\<close>: maps and arrays as cells of a heap, every method of
    \<open>zz_generated.deepcopy.go\<close> on structs that hold addresses, and the locale \<open>deep_copy\<close> (same value, new
    cells) that the methods satisfy because their parts do.
  \<^item> \<open>Clientset\<close>, \<open>Client_Setup\<close>: \<open>kyuubicluster.go\<close>, \<open>kyuubi-operator_client.go\<close> and \<open>clientset.go\<close>; a
    request is its verb with the list of builder calls. Construction and timeouts.
  \<^item> \<open>Fake_Clientset\<close>: \<open>fake_kyuubicluster.go\<close>, \<open>fake_kyuubi-operator_client.go\<close>, \<open>clientset_generated.go\<close>.
  \<^item> \<open>Client_Interfaces\<close>: the Go interfaces \<open>KyuubiClusterInterface\<close>, \<open>KyuubiV1alpha1Interface\<close> and \<open>Interface\<close> as
    records of methods, with the typed and the fake clients as their values.
  \<^item> \<open>Cluster_Interface\<close>, \<open>Client_Contracts\<close>, \<open>Client_Refinement\<close>: the abstract store that
    \<open>KyuubiClusterInterface\<close> promises (locale \<open>cluster_interface\<close>), the contracts of the API server
    (\<open>rest_server\<close>) and of the testing package (\<open>testing_package\<close>), and that both clients implement it.
  \<^item> this theory: the properties that span the components.

  \<^bold>\<open>What is shown.\<close> A call changes only the objects of its own custom resource, never deletes,
  never edits a spec, and never changes an existing service account, role, role binding or service;
  other custom resources are not affected. It never panics, and it returns whenever the cache catches up with what was created.
  Against a reliable server it succeeds exactly when the custom resource exists and each Spark
  reference has \<open>sparkDefaults\<close>. After success all children exist, the stored configuration files
  read back to the maps of the custom resource, every volume of the pod template finds its ConfigMap
  and key, the StatefulSet is the desired one up to admission, and the status lists the ports of the
  service (from the second call on). Whatever other actors do in between, one call restores what is
  missing. When other actors work between its single calls, each write of a child still comes directly after the read that
  justifies it, with the version that was read where the code sends one, the status update comes after the call that found or created
  the service, with the version of the custom resource's first read, no object outside the footprint is touched, and
  actors that leave the footprint alone change nothing of the outcome. A store in which everything is as desired is a fixed point, and with a fixed map order and no
  workload defaults two calls reach it; with workload defaults every call after the first sends the StatefulSet again. As the manager runs it, an empty queue means that nothing is missing
  as long as nobody deletes children; one acceptable custom resource is worked off in at most three calls,
  a failing one is retried forever, and the deletion of a child goes unnoticed. A custom resource survives
  the trip through JSON up to empty maps that become nil; whatever the custom resource definition admits
  is read by the Go types, and whatever status the operator writes is admitted; which resources of a Go client are
  admitted, and as what the controller reads them, is characterised. The permissions of the chart suffice for every call, those of
  the manifests under \<open>config\<close> for none; the names of the custom resources whose objects the API accepts are
  characterised. The generated files are characterised key by key: precedence of the user's entries, image
  and tag, name node addresses in high-availability and single mode. \<open>compareConf\<close> decides equality
  of maps; \<open>map2String\<close> and \<open>map2Xml\<close> round-trip under stated conditions on the characters, and the
  dependence on the iteration order and the missing escaping are proved as such. Deep copies have the
  value of the original and share no memory with it. Typed and fake client follow one abstract store
  over any sequence of calls, where a write that reports an error is taken to change nothing (\<open>rest_server\<close>, an idealisation
  that leaves out timeouts of writes that were done), and the fake starts from the objects it is given. The two clients of a
  clientset share transport and rate limiter; the conversion of timeouts is exact up to a stated bound.

  \<^bold>\<open>Conventions and bounds.\<close> Errors are values of \<open>GoError\<close>; a method that returns a value and an
  error is a sum where its caller reads the value only without error, and a pair where both are used.
  An index out of range is the outcome \<open>Panicked\<close>. The two polling loops share \<open>waitForConfigMap\<close>, a
  partial function whose value \<open>None\<close> means that the loop runs forever: no fuel bounds it, and
  \<open>waitForConfigMap_iff\<close> says exactly when it returns. \<open>readProps\<close> has fuel, the length of the text,
  which is more than the number of properties in it. \<open>int32\<close> fields are 32-bit words, durations and
  \<open>TimeoutSeconds\<close> 64-bit words; JSON numbers are integers, checked against the range of \<open>int32\<close> when read. A
  JSON object is a list of members in order. A method that panics (a nil REST client, a failed type assertion, a
  duplicate object, \<open>Must\<close>) has the value \<open>None\<close>. Outside \<open>Deep_Copy\<close> values are immutable, which
  \<open>deepcopy_refines\<close> justifies for copied objects.
  \<open>reflect.DeepEqual\<close> is equality of records; the part of a StatefulSet's spec that the operator does
  not set is the field \<open>ss_Other\<close>.

  \<^bold>\<open>Not modelled.\<close> Log lines and contexts, and the set-up of the logger. The copies and codecs of
  Kubernetes structures, REST and HTTP clients, the testing package, schemes, watches and the manager
  are other packages: they are parameters, with contracts and an instance. The contract of the fake
  covers \<open>Get\<close>, \<open>List\<close>, \<open>Create\<close>, \<open>Update\<close>, \<open>UpdateStatus\<close> and \<open>Delete\<close>; \<open>Watch\<close>, \<open>Patch\<close> and \<open>DeleteCollection\<close> are
  modelled, and nothing is claimed of what their servers do. JSON text (quoting, numbers that are not
  integers) is left out: values are trees. Delays between retries and the number of workers are left
  out of the queue, whose step is a whole call of \<open>Reconcile\<close>; other actors between the API calls of one call are the
  subject of \<open>Interleaving\<close> and \<open>Undisturbed\<close>, where a conflicting write to an object of the request itself is
  covered by the protocol of the calls and not by the claims on the outcome. The role for readers
  of the metrics, the test suites and the code generator stub are left out.

  \<^bold>\<open>What is left.\<close> Every function of the Go sources is modelled; what could be added are contracts of other
  packages, such as the streams that \<open>Watch\<close> delivers, and the outcome of a call while somebody else edits the very
  objects it works on.
\<close>

section \<open>Properties across components\<close>

lemma stored_file:
  "gm_map (cm_Data c) = gm_map (cm_Data d) \<Longrightarrow> f \<in> fset (fmdom (gm_map (cm_Data d))) \<Longrightarrow>
     gm_lookup (cm_Data c) f \<noteq> None"
  by (auto simp: gm_lookup_def)

text \<open>
  C10. After a successful reconciliation every volume of the pod template that the controller
  generates resolves: the ConfigMap it names is stored in the namespace of the custom resource, and
  every key it projects is in its data.
\<close>

theorem reconciled_volumes_resolve:
  assumes "fresh_api E store A" and "wf_store (store w)" and "plainName req"
    and "Reconcile E req w = Some (Returned res None, w')" and "kyuubiClusters (store w) req = Some k"
    and "v \<in> set (constructVolumes k)" and "vol_ConfigMap v = Some src" and "item \<in> set (cvs_Items src)"
  shows "\<exists>c. configMaps (store w') \<lparr>nn_Namespace = nn_Namespace req, nn_Name = cvs_Name src\<rparr> = Some c \<and>
    gm_lookup (cm_Data c) (kp_Key item) \<noteq> None"
proof -
  obtain w0 where k: "kyuubiKey k = req" and s: "store w0 = store w"
    and run: "createOrUpdateClusters E k w0 = Some (None, w')"
    using fresh_api.Reconcile_success [OF assms(1-4)] assms(5) by (metis option.inject)
  note post = fresh_api.run_post [OF assms(1) _ run, unfolded s, OF assms(2)]
  have keys: "\<lparr>nn_Namespace = nn_Namespace req, nn_Name = resourceName k\<rparr> = resourceKey k"
    "\<lparr>nn_Namespace = nn_Namespace req, nn_Name = clusterRefsName k\<rparr> = clusterRefsKey k"
    using k by (auto simp: resourceKey_def clusterRefsKey_def kyuubiKey_def)
  consider (conf) "cvs_Name src = resourceName k" "kp_Key item = DefaultKyuubiConfFile"
    | (refs) "cvs_Name src = clusterRefsName k" "kp_Key item \<in> snd ` set (clusterFiles k)"
    using assms(6-8) by (force simp: constructVolumes_eq configMapVolume_def)
  then show ?thesis
  proof cases
    case conf
    with post(2) show ?thesis by (auto simp: keys gm_lookup_def)
  next
    case refs
    with post(3) show ?thesis using desired_files stored_file by (metis keys(2))
  qed
qed

theorem reconciled_volumes_resolve_witness:
  "\<exists>w' c. Reconcile refEnv sampleKey (worldWith minioCluster) = Some (Returned zeroResult None, w') \<and>
     configMaps (rw_store w') \<lparr>nn_Namespace = ''kyuubi-operator'', nn_Name = ''kyuubicluster-sample-clusterrefs''\<rparr> = Some c \<and>
     gm_lookup (cm_Data c) ''hive-site.xml'' \<noteq> None"
proof -
  obtain w' where r: "Reconcile refEnv sampleKey (worldWith minioCluster) = Some (Returned zeroResult None, w')"
    by (rule minio_succeeds)
  have k: "kyuubiClusters (rw_store (worldWith minioCluster)) sampleKey = Some minioCluster" by simp
  let ?src = "\<lparr>cvs_Name = clusterRefsName minioCluster,
    cvs_Items = [\<lparr>kp_Key = DefaultHiveSiteFile, kp_Path = DefaultHiveSiteFile\<rparr>]\<rparr>"
  have "configMapVolume (kc_Name minioCluster @ ''-hivesite'') (clusterRefsName minioCluster) DefaultHiveSiteFile
      \<in> set (constructVolumes minioCluster)"
    by (simp add: constructVolumes_eq minioCluster_def minioMetastore_def sampleRef_def refFiles_def const_defs)
  from reconciled_volumes_resolve [OF refEnv_fresh_api wf_worldWith plain_sampleKey r k this, of ?src
      "\<lparr>kp_Key = DefaultHiveSiteFile, kp_Path = DefaultHiveSiteFile\<rparr>"] r
  show ?thesis
    by (simp add: configMapVolume_def clusterRefsName_eq minioCluster_def sampleKey_def DefaultHiveSiteFile_def)
qed

text \<open>
  C23. Over any run, in which reconciliations, edits of custom resources and deletions by anyone
  alternate and reads may be stale and calls fail: every object stays under its own key, and an
  object that no event concerns is as it was at the start. The controller concerns itself only with
  the children of the requests it was given.
\<close>

theorem system_foreign_untouched:
  assumes "kube_api E store A" and "wf_store (store w0)" and "run E store w0 es w"
    and "(kind, key) \<notin> \<Union> (concerns ` set es)"
  shows "wf_store (store w) \<and> sameObject (store w0) (store w) kind key"
  using kube_api.run_wf [OF assms(1,3,2)] kube_api.run_same [OF assms(1,3,2,4)] by simp

theorem system_foreign_untouched_witness:
  "\<exists>out w. run refEnv rw_store (worldWith minioCluster) [Reconciled sampleKey out] w \<and>
     sameObject (rw_store (worldWith minioCluster)) (rw_store w) KService sampleKey"
proof -
  obtain out w where "Reconcile refEnv sampleKey (worldWith minioCluster) = Some (out, w)"
    using refApi.Reconcile_returns by fast
  then have r: "run refEnv rw_store (worldWith minioCluster) ([] @ [Reconciled sampleKey out]) w"
    by (intro run.more [OF run.start] step.reconciled)
  have "(KService, sampleKey) \<notin> \<Union> (concerns ` set ([] @ [Reconciled sampleKey out]))"
    by (simp add: requestFootprint_def childKey_def sampleKey_def)
  from system_foreign_untouched [OF refApi_kube wf_worldWith r this] r show ?thesis by auto
qed

text \<open>
  C25. With reads that agree with the store, a run creates no stray object: a child object that is
  present and was not present at the start belongs to a custom resource that existed at the start or
  was applied during the run.
\<close>

theorem system_no_strays:
  assumes "fresh_api E store A" and "wf_store (store w0)" and "run E store w0 es w"
    and "present (store w) kind key" and "kind \<noteq> KKyuubiCluster" and "\<not> present (store w0) kind key"
  shows "\<exists>r \<in> everApplied (store w0) es. (kind, key) \<in> requestFootprint r"
  using fresh_api.run_strays [OF assms(1,3,2,4,5)] assms(6) by blast

theorem system_no_strays_witness:
  "\<exists>out w. run refEnv rw_store (worldWith minioCluster) [Reconciled sampleKey out] w \<and>
     (\<exists>r \<in> everApplied (rw_store (worldWith minioCluster)) [Reconciled sampleKey out].
        (KService, childKey ''-kyuubi'' sampleKey) \<in> requestFootprint r)"
proof -
  obtain w where w: "Reconcile refEnv sampleKey (worldWith minioCluster) = Some (Returned zeroResult None, w)"
    by (rule minio_succeeds)
  then have r: "run refEnv rw_store (worldWith minioCluster) ([] @ [Reconciled sampleKey (Returned zeroResult None)]) w"
    by (intro run.more [OF run.start] step.reconciled)
  obtain k w0 where "kyuubiKey k = sampleKey" "rw_store w0 = rw_store (worldWith minioCluster)"
    "createOrUpdateClusters refEnv k w0 = Some (None, w)"
    using refApi.Reconcile_success [OF wf_worldWith plain_sampleKey w] by metis
  then have p: "present (rw_store w) KService (childKey ''-kyuubi'' sampleKey)"
    using refApi.run_post(1) [of w0 k w] by (simp add: keys_of_request)
  have a: "\<not> present (rw_store (worldWith minioCluster)) KService (childKey ''-kyuubi'' sampleKey)"
    by (simp add: worldWith_def emptyStore_def)
  from system_no_strays [OF refEnv_fresh_api wf_worldWith r p _ a] r show ?thesis by auto
qed

text \<open>
  C5. Self-healing: whatever happened before, including the deletion of any child, one call of
  \<open>Reconcile\<close> against a reliable server brings all objects of a custom resource back into existence,
  when every Spark reference in it has \<open>sparkDefaults\<close>.
\<close>

theorem system_recovers:
  assumes "reliable_api E store A" and "\<And>k m. snd (SetControllerReference E k m) = None"
    and "wf_store (store w0)" and "run E store w0 es w" and "plainName req"
    and "kyuubiClusters (store w) req = Some k"
    and "list_all (\<lambda>r. cr_Type r = SparkClusterType \<longrightarrow> sc_SparkDefaults (cr_Spark r) \<noteq> None) (kcs_ClusterRefs (kc_Spec k))"
  shows "\<exists>w'. step E store w (Reconciled req (Returned zeroResult None)) w' \<and>
    requestFootprint req \<subseteq> {(kind, key). present (store w') kind key}"
proof -
  note fresh = reliable_api.axioms(1) [OF assms(1)]
  note wf = kube_api.run_wf [OF fresh_api.axioms(1) [OF fresh] assms(4,3)]
  have "\<not> (\<exists>r \<in> set (kcs_ClusterRefs (kc_Spec k)). sparkWithoutDefaults r)"
    using assms(7) by (auto simp: sparkWithoutDefaults_def list_all_iff)
  then obtain w' where w': "Reconcile E req w = Some (Returned zeroResult None, w')"
    using reliable_api.Reconcile_succeeds_iff [OF assms(1) wf assms(5,2)] assms(6) by blast
  obtain w1 where k: "kyuubiKey k = req" and s: "store w1 = store w"
    and r: "createOrUpdateClusters E k w1 = Some (None, w')"
    using fresh_api.Reconcile_success [OF fresh wf assms(5) w'] assms(6) by (metis option.inject)
  note post = fresh_api.run_post [OF fresh _ r, unfolded s, OF wf]
  have "req \<in> dom (kyuubiClusters (store w'))"
    using fresh_api.run_status [OF fresh _ r] s wf assms(6) k by auto
  with post k have "requestFootprint req \<subseteq> {(kind, key). present (store w') kind key}"
    by (auto simp: requestFootprint_def keys_of_request)
  with w' show ?thesis using step.reconciled by metis
qed

theorem system_recovers_witness:
  "\<exists>w w'. run refEnv rw_store (worldWith minioCluster) [Deleted KService (childKey ''-kyuubi'' sampleKey)] w \<and>
     step refEnv rw_store w (Reconciled sampleKey (Returned zeroResult None)) w' \<and>
     requestFootprint sampleKey \<subseteq> {(kind, key). present (rw_store w') kind key}"
proof -
  let ?e = "Deleted KService (childKey ''-kyuubi'' sampleKey)"
  let ?w = "worldWith minioCluster"
  let ?w1 = "?w\<lparr>rw_store := removeObject KService (childKey ''-kyuubi'' sampleKey) (rw_store ?w)\<rparr>"
  have r: "run refEnv rw_store ?w ([] @ [?e]) ?w1"
    by (intro run.more [OF run.start] step.deleted) simp
  have k: "kyuubiClusters (rw_store ?w1) sampleKey = Some minioCluster" by simp
  have "list_all (\<lambda>r. cr_Type r = SparkClusterType \<longrightarrow> sc_SparkDefaults (cr_Spark r) \<noteq> None)
      (kcs_ClusterRefs (kc_Spec minioCluster))"
    by (simp add: minioCluster_def minioSpark_def minioHdfs_def minioMetastore_def minioDefaults_def
        sampleRef_def sampleSpark_def const_defs)
  from system_recovers [of refEnv rw_store refAdmission ?w "[] @ [?e]" ?w1 sampleKey minioCluster,
      OF refEnv_reliable_api refEnv_owner wf_worldWith r plain_sampleKey k this] r
  show ?thesis by auto
qed

end
